(* ===== verification/Prelude.thy ===== *)
theory Prelude
  imports Main "HOL-Library.Finite_Map" "HOL-Library.List_Lexorder" "HOL-Library.Char_ord"
    "HOL-Library.Multiset" "HOL-Library.Code_Target_Nat"
begin

text \<open>
  What every component of the development shares: the collections of facts its proofs
  draw on, Go's 64-bit integers as \<open>int\<close> with the wrap-around and the saturation
  written out, Go's string-keyed maps as finite maps, and the descending sort the code
  uses on durations.
\<close>

named_theorems api_consts \<open>definitions of the string constants of the API\<close>
named_theorems frame \<open>what an operation leaves unchanged\<close>
named_theorems trace_simps \<open>what a client call appends to the trace\<close>

section \<open>Machine integers\<close>

text \<open>
  Go's \<open>int64\<close> is the range between \<open>min_int64\<close> and \<open>max_int64\<close>. Arithmetic on it
  wraps around (\<open>wrap64\<close>); \<open>time.Time.Sub\<close> saturates instead (\<open>sat64\<close>).
\<close>

definition max_int64 :: int where
  "max_int64 = 9223372036854775807"

definition min_int64 :: int where
  "min_int64 = - 9223372036854775808"

definition is_int64 :: "int \<Rightarrow> bool" where
  "is_int64 x \<longleftrightarrow> min_int64 \<le> x \<and> x \<le> max_int64"

definition wrap64 :: "int \<Rightarrow> int" where
  "wrap64 x = (x + 9223372036854775808) mod 18446744073709551616 - 9223372036854775808"

definition sat64 :: "int \<Rightarrow> int" where
  "sat64 x = max min_int64 (min max_int64 x)"

definition wrap32 :: "int \<Rightarrow> int" where
  "wrap32 x = (x + 2147483648) mod 4294967296 - 2147483648"

lemmas int64_defs = is_int64_def max_int64_def min_int64_def

lemma wrap64_id [simp]: "is_int64 x \<Longrightarrow> wrap64 x = x"
  by (simp add: int64_defs wrap64_def)

lemma sat64_id [simp]: "is_int64 x \<Longrightarrow> sat64 x = x"
  by (simp add: int64_defs sat64_def)

lemma is_int64_wrap64 [simp, intro]: "is_int64 (wrap64 x)"
proof -
  have "0 \<le> (x + 9223372036854775808) mod 18446744073709551616"
    and "(x + 9223372036854775808) mod 18446744073709551616 < 18446744073709551616"
    by simp_all
  then show ?thesis by (simp add: int64_defs wrap64_def)
qed

lemma is_int64_sat64 [simp, intro]: "is_int64 (sat64 x)"
  by (simp add: int64_defs sat64_def)

lemma sat64_mono: "x \<le> y \<Longrightarrow> sat64 x \<le> sat64 y"
  by (simp add: sat64_def max_def min_def int64_defs)

lemma sat64_pos_iff [simp]: "0 < sat64 x \<longleftrightarrow> 0 < x"
  by (auto simp: sat64_def int64_defs)

lemma sat64_neg_iff [simp]: "sat64 x < 0 \<longleftrightarrow> x < 0"
  by (auto simp: sat64_def int64_defs)

lemma sat64_le_of_nonneg: "0 \<le> x \<Longrightarrow> sat64 x \<le> x"
  by (simp add: sat64_def int64_defs)

lemma wrap32_id [simp]: "- 2147483648 \<le> x \<Longrightarrow> x \<le> 2147483647 \<Longrightarrow> wrap32 x = x"
  by (simp add: wrap32_def)

section \<open>String-keyed maps\<close>

text \<open>
  A Go \<open>map[string]string\<close> is a finite map. Reading a missing key yields the zero
  value, which \<open>lk\<close> writes out; a nil map reads like an empty one.
\<close>

type_synonym strmap = "(string, string) fmap"

definition lk :: "strmap \<Rightarrow> string \<Rightarrow> string" where
  "lk m k = (case fmlookup m k of None \<Rightarrow> [] | Some v \<Rightarrow> v)"

lemma lk_empty [simp]: "lk fmempty k = []"
  by (simp add: lk_def)

lemma lk_upd [simp]: "lk (fmupd a v m) k = (if a = k then v else lk m k)"
  by (simp add: lk_def)

lemma lk_add: "lk (fmadd m n) k = (if k |\<in>| fmdom n then lk n k else lk m k)"
  by (auto simp: lk_def)

lemma lk_nonempty_dom: "lk m k \<noteq> [] \<Longrightarrow> k |\<in>| fmdom m"
  by (auto simp: lk_def fmlookup_dom_iff split: option.splits)

text \<open>The number of entries, Go's \<open>len\<close>.\<close>

definition maplen :: "('k, 'v) fmap \<Rightarrow> nat" where
  "maplen m = fcard (fmdom m)"

lemma maplen_empty [simp]: "maplen fmempty = 0"
  by (simp add: maplen_def)

lemma maplen_upd: "maplen (fmupd k v m) = (if k |\<in>| fmdom m then maplen m else Suc (maplen m))"
  by (simp add: maplen_def fcard_finsert_if)

lemma maplen_drop: "k |\<in>| fmdom m \<Longrightarrow> Suc (maplen (fmdrop k m)) = maplen m"
  unfolding maplen_def fmdom_drop by (rule fcard_Suc_fminus1)

lemma maplen_0_iff [simp]: "maplen m = 0 \<longleftrightarrow> m = fmempty"
proof
  assume "maplen m = 0"
  then have "fmdom m = {||}" by (simp add: maplen_def)
  then show "m = fmempty" by (intro fmap_ext) (simp add: fmdom_notD)
qed simp

lemma fmdom_eqI_of_maplen:
  assumes "fmdom m |\<subseteq>| fmdom n" and "maplen m = maplen n"
  shows "fmdom m = fmdom n"
  using assms by (intro fcard_seteq) (simp_all add: maplen_def)

section \<open>Lists\<close>

text \<open>\<open>sort.Slice\<close> with \<open>xs[i] > xs[j]\<close>: elements that compare equal are identical.\<close>

definition sort_desc :: "int list \<Rightarrow> int list" where
  "sort_desc xs = rev (sort xs)"

lemma mset_sort_desc [simp]: "mset (sort_desc xs) = mset xs"
  by (simp add: sort_desc_def)

lemma set_sort_desc [simp]: "set (sort_desc xs) = set xs"
  by (simp add: sort_desc_def)

lemma sorted_sort_desc: "sorted_wrt (\<ge>) (sort_desc xs)"
  by (simp add: sort_desc_def sorted_wrt_rev)

lemma sort_desc_Nil [simp]: "sort_desc [] = []"
  by (simp add: sort_desc_def)

lemma sort_desc_eq_Nil [simp]: "sort_desc xs = [] \<longleftrightarrow> xs = []"
  by (metis set_empty set_sort_desc)

text \<open>A sort by a key that is injective on the list does not depend on the list's order.\<close>

lemma sort_key_perm_eq:
  assumes "mset xs = mset ys" and "inj_on f (set xs)"
  shows "sort_key f xs = sort_key f ys"
  by (rule sort_key_inj_key_eq) (simp_all add: assms)

end
