(* ===== verification/Go_Text.thy ===== *)
theory Go_Text
  imports Prelude
begin

text \<open>
  The parts of Go's standard library that turn values into text, as far as the code uses
  them: decimal numbers, \<open>time.Duration.String\<close>, the RFC 3339 layout, \<open>%q\<close>, substring
  search, and the \<open>error\<close> values with their chains. A Go string is its byte list.
  Durations and instants are counts of nanoseconds: a duration is an \<open>int64\<close>, an instant
  (a \<open>time.Time\<close>) counts from the Unix epoch and is unbounded, since adding an \<open>int64\<close>
  of nanoseconds stays far inside Go's range of years.
  The main result here is that \<open>Duration.String\<close> is injective (\<open>dur_string_inj\<close>), on
  which the bookkeeping of delivered warnings rests.
\<close>

type_synonym time = int
type_synonym duration = int

section \<open>Decimal numbers\<close>

definition digit_char :: "nat \<Rightarrow> char" where
  "digit_char d = char_of (48 + d)"

fun dec :: "nat \<Rightarrow> string" where
  "dec n = (if n < 10 then [digit_char n] else dec (n div 10) @ [digit_char (n mod 10)])"

declare dec.simps [simp del]

definition itoa :: "int \<Rightarrow> string" where
  "itoa x = (if x < 0 then CHR ''-'' # dec (nat (- x)) else dec (nat x))"

definition is_digit :: "char \<Rightarrow> bool" where
  "is_digit c \<longleftrightarrow> 48 \<le> (of_char c :: nat) \<and> (of_char c :: nat) \<le> 57"

definition digit_val :: "char \<Rightarrow> nat" where
  "digit_val c = of_char c - 48"

definition dec_val :: "string \<Rightarrow> nat" where
  "dec_val s = foldl (\<lambda>a c. 10 * a + digit_val c) 0 s"

lemma digit_char_simps [simp]:
  "digit_char 0 = CHR ''0''" "digit_char (Suc 0) = CHR ''1''" "digit_char 1 = CHR ''1''"
  "digit_char 2 = CHR ''2''" "digit_char 3 = CHR ''3''" "digit_char 4 = CHR ''4''"
  "digit_char 5 = CHR ''5''" "digit_char 6 = CHR ''6''" "digit_char 7 = CHR ''7''"
  "digit_char 8 = CHR ''8''" "digit_char 9 = CHR ''9''"
  by (simp_all add: digit_char_def char_of_def bit_0)

lemma digit_val_digit_char [simp]: "d < 10 \<Longrightarrow> digit_val (digit_char d) = d"
  by (simp add: digit_val_def digit_char_def of_char_of)

lemma is_digit_digit_char [simp]: "d < 10 \<Longrightarrow> is_digit (digit_char d)"
  by (simp add: is_digit_def digit_char_def of_char_of)

lemma dec_val_snoc [simp]: "dec_val (s @ [c]) = 10 * dec_val s + digit_val c"
  by (simp add: dec_val_def)

lemma dec_val_dec [simp]: "dec_val (dec n) = n"
proof (induction n rule: dec.induct)
  case (1 n)
  show ?case
  proof (cases "n < 10")
    case True
    then show ?thesis by (simp add: dec.simps [of n] dec_val_def)
  next
    case False
    with 1 have "dec_val (dec (n div 10)) = n div 10" by simp
    with False show ?thesis by (simp add: dec.simps [of n])
  qed
qed

lemma dec_digits: "list_all is_digit (dec n)"
proof (induction n rule: dec.induct)
  case (1 n)
  then show ?case by (cases "n < 10") (simp_all add: dec.simps [of n])
qed

lemma dec_nonempty [simp]: "dec n \<noteq> []"
  by (subst dec.simps) simp

text \<open>A number followed by text that does not start with a digit can be read back.\<close>

definition starts_nondigit :: "string \<Rightarrow> bool" where
  "starts_nondigit s \<longleftrightarrow> (case s of [] \<Rightarrow> True | c # _ \<Rightarrow> \<not> is_digit c)"

lemma starts_nondigit_simps [simp]:
  "starts_nondigit []" "starts_nondigit (c # s) \<longleftrightarrow> \<not> is_digit c"
  by (simp_all add: starts_nondigit_def)

lemma takeWhile_dec_append: "starts_nondigit s \<Longrightarrow> takeWhile is_digit (dec n @ s) = dec n"
  using dec_digits [of n]
  by (cases s) (auto simp: list_all_iff takeWhile_append2)

lemma dec_append_inj:
  assumes "dec a @ x = dec b @ y" and "starts_nondigit x" and "starts_nondigit y"
  shows "a = b \<and> x = y"
proof -
  have "dec a = dec b"
    using assms takeWhile_dec_append [of x a] takeWhile_dec_append [of y b] by simp
  then have "a = b" by (metis dec_val_dec)
  with assms(1) show ?thesis by simp
qed

section \<open>Durations\<close>

definition Nanosecond :: duration where "Nanosecond = 1"
definition Microsecond :: duration where "Microsecond = 1000"
definition Millisecond :: duration where "Millisecond = 1000000"
definition Second :: duration where "Second = 1000000000"
definition Minute :: duration where "Minute = 60000000000"
definition Hour :: duration where "Hour = 3600000000000"

lemmas dur_units = Nanosecond_def Microsecond_def Millisecond_def Second_def Minute_def Hour_def

text \<open>
  \<open>fmtFrac\<close> writes the fraction of \<open>v / 10^prec\<close> without trailing zeros, from the last
  digit to the first, and hands back \<open>v / 10^prec\<close>.
\<close>

fun fmt_frac :: "nat \<Rightarrow> nat \<Rightarrow> bool \<Rightarrow> string \<Rightarrow> string \<times> nat" where
  "fmt_frac 0 v print buf = ((if print then CHR ''.'' # buf else buf), v)"
| "fmt_frac (Suc prec) v print buf =
     (let digit = v mod 10; print' = (print \<or> digit \<noteq> 0)
      in fmt_frac prec (v div 10) print' (if print' then digit_char digit # buf else buf))"

lemma fmt_frac_numeral:
  "fmt_frac (numeral k) v print buf =
     (let digit = v mod 10; print' = (print \<or> digit \<noteq> 0)
      in fmt_frac (pred_numeral k) (v div 10) print'
           (if print' then digit_char digit # buf else buf))"
  by (subst numeral_eq_Suc) (rule fmt_frac.simps(2))

definition fmt_scaled :: "nat \<Rightarrow> nat \<Rightarrow> string \<Rightarrow> string" where
  "fmt_scaled prec v suffix =
     (case fmt_frac prec v False [] of (fr, n) \<Rightarrow> dec n @ fr @ suffix)"

definition micro_unit :: string where
  "micro_unit = [CHR 0xC2, CHR 0xB5, CHR ''s'']"

definition dur_string_abs :: "nat \<Rightarrow> string" where
  "dur_string_abs u =
     (if u = 0 then ''0s''
      else if u < 1000 then fmt_scaled 0 u ''ns''
      else if u < 1000000 then fmt_scaled 3 u micro_unit
      else if u < 1000000000 then fmt_scaled 6 u ''ms''
      else
        (case fmt_frac 9 u False [] of (fr, secs) \<Rightarrow>
           let sec = dec (secs mod 60) @ fr @ ''s''; mins = secs div 60
           in if mins = 0 then sec
              else let m = dec (mins mod 60) @ ''m'' @ sec; hours = mins div 60
                   in if hours = 0 then m else dec hours @ ''h'' @ m))"

definition dur_string :: "duration \<Rightarrow> string" where
  "dur_string d = (if d < 0 then CHR ''-'' # dur_string_abs (nat (- d)) else dur_string_abs (nat d))"

text \<open>\<open>Duration.Round\<close>: to the nearest multiple, halves away from zero, saturating.\<close>

definition dur_round :: "duration \<Rightarrow> duration \<Rightarrow> duration" where
  "dur_round d m =
     (if m \<le> 0 then d
      else let r = \<bar>d\<bar> mod m
           in if d < 0 then (if r + r < m then d + r else max min_int64 (d - m + r))
              else (if r + r < m then d - r else min max_int64 (d + m - r)))"


subsection \<open>The text of a duration determines it\<close>

text \<open>
  The value of a written fraction at a given precision, and the unit a text ends with,
  recover the formatted number.
\<close>

definition frac_val :: "nat \<Rightarrow> string \<Rightarrow> nat" where
  "frac_val prec s = dec_val s * 10 ^ (prec - length s)"

lemma fmt_frac_snd [simp]: "snd (fmt_frac p v b buf) = v div 10 ^ p"
  by (induction p v b buf rule: fmt_frac.induct) (simp_all add: Let_def div_mult2_eq)

lemma fmt_frac_zero: "fmt_frac p 0 False [] = ([], 0)"
  by (induction p) (simp_all add: Let_def)

lemma dec_val_append: "dec_val (s @ t) = dec_val s * 10 ^ length t + dec_val t"
  by (induction t rule: rev_induct) (simp_all add: dec_val_def algebra_simps)

lemma dec_val_Cons: "dec_val (c # t) = digit_val c * 10 ^ length t + dec_val t"
  using dec_val_append [of "[c]" t] by (simp add: dec_val_def)

lemma fmt_frac_printing:
  "\<exists>ds. fst (fmt_frac p v True buf) = CHR ''.'' # ds @ buf \<and> length ds = p
        \<and> list_all is_digit ds \<and> dec_val ds = v mod 10 ^ p"
proof (induction p arbitrary: v buf)
  case 0
  then show ?case by (simp add: dec_val_def)
next
  case (Suc p)
  obtain ds where ds: "fst (fmt_frac p (v div 10) True (digit_char (v mod 10) # buf))
      = CHR ''.'' # ds @ digit_char (v mod 10) # buf"
    "length ds = p" "list_all is_digit ds" "dec_val ds = (v div 10) mod 10 ^ p"
    using Suc by blast
  have "dec_val (ds @ [digit_char (v mod 10)]) = v mod 10 ^ Suc p"
    using ds(4) mod_mult2_eq [of v 10 "10 ^ p"] by simp
  then show ?case
    using ds by (intro exI [of _ "ds @ [digit_char (v mod 10)]"]) (simp add: Let_def)
qed

lemma fmt_frac_silent:
  "(fst (fmt_frac p v False []) = [] \<and> v mod 10 ^ p = 0)
   \<or> (\<exists>ds. fst (fmt_frac p v False []) = CHR ''.'' # ds \<and> length ds \<le> p \<and> ds \<noteq> []
        \<and> list_all is_digit ds \<and> frac_val p ds = v mod 10 ^ p)"
proof (induction p arbitrary: v)
  case 0
  then show ?case by simp
next
  case (Suc p)
  show ?case
  proof (cases "v mod 10 = 0")
    case True
    then have eq: "v mod 10 ^ Suc p = 10 * ((v div 10) mod 10 ^ p)"
      using mod_mult2_eq [of v 10 "10 ^ p"] by simp
    from Suc [of "v div 10"] consider
        "fst (fmt_frac p (v div 10) False []) = []" "(v div 10) mod 10 ^ p = 0"
      | ds where "fst (fmt_frac p (v div 10) False []) = CHR ''.'' # ds" "length ds \<le> p" "ds \<noteq> []"
          "list_all is_digit ds" "frac_val p ds = (v div 10) mod 10 ^ p"
      by auto
    then show ?thesis
    proof cases
      case 1
      with True eq show ?thesis by (simp add: Let_def)
    next
      case 2
      then have "frac_val (Suc p) ds = v mod 10 ^ Suc p"
        using eq by (simp add: frac_val_def Suc_diff_le)
      with True 2 show ?thesis by (simp add: Let_def)
    qed
  next
    case False
    obtain ds where ds: "fst (fmt_frac p (v div 10) True [digit_char (v mod 10)])
        = CHR ''.'' # ds @ [digit_char (v mod 10)]"
      "length ds = p" "list_all is_digit ds" "dec_val ds = (v div 10) mod 10 ^ p"
      using fmt_frac_printing by blast
    have "frac_val (Suc p) (ds @ [digit_char (v mod 10)]) = v mod 10 ^ Suc p"
      using ds(2,4) mod_mult2_eq [of v 10 "10 ^ p"] by (simp add: frac_val_def)
    with False ds show ?thesis
      by (intro disjI2 exI [of _ "ds @ [digit_char (v mod 10)]"]) (simp add: Let_def)
  qed
qed

text \<open>Reading a fraction back: the digits after a point, up to the first other character.\<close>

definition read_frac :: "nat \<Rightarrow> string \<Rightarrow> nat" where
  "read_frac p s = (case s of CHR ''.'' # t \<Rightarrow> frac_val p (takeWhile is_digit t) | _ \<Rightarrow> 0)"

lemma not_digit_chars [simp]:
  "\<not> is_digit CHR ''.''" "\<not> is_digit CHR ''s''" "\<not> is_digit CHR ''m''" "\<not> is_digit CHR ''n''"
  "\<not> is_digit CHR ''h''" "\<not> is_digit CHR ''-''" "\<not> is_digit CHR 0xC2"
  by (simp_all add: is_digit_def of_char_of)

lemma read_frac_fmt_frac:
  assumes "starts_nondigit t" and "\<And>u. t \<noteq> CHR ''.'' # u"
  shows "read_frac p (fst (fmt_frac p v False []) @ t) = v mod 10 ^ p"
proof -
  from fmt_frac_silent [of p v] consider
      "fst (fmt_frac p v False []) = []" "v mod 10 ^ p = 0"
    | ds where "fst (fmt_frac p v False []) = CHR ''.'' # ds" "list_all is_digit ds"
        "frac_val p ds = v mod 10 ^ p"
    by auto
  then show ?thesis
  proof cases
    case 1
    with assms(2) show ?thesis
      by (auto simp: read_frac_def split: list.splits char.splits bool.splits)
  next
    case 2
    have "takeWhile is_digit (ds @ t) = ds"
      using 2(2) assms(1) by (cases t) (auto simp: list_all_iff takeWhile_append2)
    with 2 show ?thesis by (simp add: read_frac_def)
  qed
qed

definition unit_prec :: "string \<Rightarrow> nat" where
  "unit_prec s = (case s of CHR ''n'' # _ \<Rightarrow> 0 | CHR ''m'' # _ \<Rightarrow> 6 | CHR ''s'' # _ \<Rightarrow> 9 | _ \<Rightarrow> 3)"

definition read_scaled :: "string \<Rightarrow> nat" where
  "read_scaled s =
     (let r = dropWhile is_digit s;
          p = unit_prec (dropWhile (\<lambda>c. is_digit c \<or> c = CHR ''.'') r)
      in dec_val (takeWhile is_digit s) * 10 ^ p + read_frac p r)"

definition read_minutes :: "string \<Rightarrow> nat" where
  "read_minutes s =
     (case dropWhile is_digit s of
        CHR ''m'' # c # t \<Rightarrow>
          (if is_digit c then dec_val (takeWhile is_digit s) * 60000000000 + read_scaled (c # t)
           else read_scaled s)
      | _ \<Rightarrow> read_scaled s)"

definition read_dur :: "string \<Rightarrow> nat" where
  "read_dur s =
     (case dropWhile is_digit s of
        CHR ''h'' # t \<Rightarrow> dec_val (takeWhile is_digit s) * 3600000000000 + read_minutes t
      | _ \<Rightarrow> read_minutes s)"

lemma dropWhile_dec_append: "starts_nondigit s \<Longrightarrow> dropWhile is_digit (dec n @ s) = s"
  using dec_digits [of n]
  by (cases s) (auto simp: list_all_iff dropWhile_append2)

lemmas read_dec = takeWhile_dec_append dropWhile_dec_append

lemma fmt_frac_shape:
  "list_all (\<lambda>c. is_digit c \<or> c = CHR ''.'') (fst (fmt_frac p v False []))
   \<and> (starts_nondigit t \<longrightarrow> starts_nondigit (fst (fmt_frac p v False []) @ t))"
  using fmt_frac_silent [of p v] by (auto simp: list_all_iff)

lemma read_scaled_fmt:
  assumes "starts_nondigit t" and "\<And>u. t \<noteq> CHR ''.'' # u" and "unit_prec t = p"
  shows "read_scaled (dec n @ fst (fmt_frac p v False []) @ t) = n * 10 ^ p + v mod 10 ^ p"
proof -
  let ?f = "fst (fmt_frac p v False [])"
  have nd: "starts_nondigit (?f @ t)" using fmt_frac_shape assms(1) by blast
  have "dropWhile (\<lambda>c. is_digit c \<or> c = CHR ''.'') (?f @ t) = t"
    using fmt_frac_shape [of p v t] assms(1,2)
    by (cases t) (auto simp: list_all_iff dropWhile_append2)
  then show ?thesis
    using assms nd by (simp add: read_scaled_def read_dec read_frac_fmt_frac)
qed

lemma read_scaled_seconds:
  "read_scaled (dec n @ fst (fmt_frac 9 u False []) @ ''s'') = n * 1000000000 + u mod 1000000000"
  using read_scaled_fmt [of "''s''" 9 n u] by (simp add: unit_prec_def)

lemma unit_prec_units [simp]:
  "unit_prec ''ns'' = 0" "unit_prec micro_unit = 3" "unit_prec ''ms'' = 6"
  by (simp_all add: unit_prec_def micro_unit_def)

text \<open>A scaled number is neither in minutes nor in hours.\<close>

lemma read_dur_scaled:
  assumes "t \<in> {''ns'', micro_unit, ''ms'', ''s''}"
  shows "read_dur (dec n @ fst (fmt_frac p v False []) @ t)
         = read_scaled (dec n @ fst (fmt_frac p v False []) @ t)"
proof -
  let ?f = "fst (fmt_frac p v False [])"
  have st: "starts_nondigit t" using assms by (auto simp: micro_unit_def)
  then have nd: "starts_nondigit (?f @ t)" using fmt_frac_shape by blast
  show ?thesis
  proof (cases "?f = []")
    case True
    with assms nd show ?thesis
      by (auto simp: read_dur_def read_minutes_def read_dec micro_unit_def)
  next
    case False
    then obtain ds where "?f = CHR ''.'' # ds" using fmt_frac_silent [of p v] by auto
    with nd show ?thesis by (simp add: read_dur_def read_minutes_def read_dec)
  qed
qed

lemma fmt_scaled_fst: "fmt_scaled p v t = dec (v div 10 ^ p) @ fst (fmt_frac p v False []) @ t"
  using fmt_frac_snd [of p v False "[]"] by (simp add: fmt_scaled_def case_prod_beta)

lemma read_dur_fmt_scaled:
  assumes "t \<in> {''ns'', micro_unit, ''ms''}" and "unit_prec t = p"
  shows "read_dur (fmt_scaled p v t) = v"
proof -
  have "starts_nondigit t" and "\<And>u. t \<noteq> CHR ''.'' # u" using assms(1) by (auto simp: micro_unit_def)
  then have "read_scaled (dec (v div 10 ^ p) @ fst (fmt_frac p v False []) @ t)
      = v div 10 ^ p * 10 ^ p + v mod 10 ^ p"
    by (rule read_scaled_fmt) (rule assms(2))
  moreover have "read_dur (dec (v div 10 ^ p) @ fst (fmt_frac p v False []) @ t)
      = read_scaled (dec (v div 10 ^ p) @ fst (fmt_frac p v False []) @ t)"
    using assms(1) by (intro read_dur_scaled) blast
  ultimately show ?thesis by (simp only: fmt_scaled_fst div_mult_mod_eq)
qed

lemma read_minutes_fmt:
  "read_minutes (dec m @ ''m'' @ dec n @ t) = m * 60000000000 + read_scaled (dec n @ t)"
proof -
  obtain c s where c: "dec n = c # s" by (cases "dec n") simp_all
  with dec_digits [of n] have "is_digit c" by simp
  with c show ?thesis by (simp add: read_minutes_def read_dec)
qed

lemma read_dur_hours:
  "read_dur (dec h @ CHR ''h'' # s) = h * 3600000000000 + read_minutes s"
  by (simp add: read_dur_def read_dec)

lemma read_dur_no_hours:
  "read_dur (dec m @ CHR ''m'' # s) = read_minutes (dec m @ CHR ''m'' # s)"
  by (simp add: read_dur_def read_dec)

lemma read_dur_string_abs: "read_dur (dur_string_abs u) = u"
proof -
  consider "u = 0" | "0 < u" "u < 1000" | "1000 \<le> u" "u < 1000000"
    | "1000000 \<le> u" "u < 1000000000" | "1000000000 \<le> u" by linarith
  then show ?thesis
  proof cases
    case 1
    have "dec 0 = ''0''" by (simp add: dec.simps)
    then have "read_dur ''0s'' = 0"
      using read_dur_scaled [of "''s''" 0 9 0] read_scaled_seconds [of 0 0]
      by (simp add: fmt_frac_zero)
    with 1 show ?thesis by (simp add: dur_string_abs_def)
  next
    case 5
    define fr where "fr = fst (fmt_frac 9 u False [])"
    define secs where "secs = u div 1000000000"
    define m s r where "m = secs div 60" and "s = secs mod 60" and "r = u mod 1000000000"
    define h m' where "h = m div 60" and "m' = m mod 60"
    define sec where "sec = dec s @ fr @ ''s''"
    have ff: "fmt_frac 9 u False [] = (fr, secs)"
      using fmt_frac_snd [of 9 u False "[]"] by (simp add: fr_def secs_def prod_eq_iff)
    have parts: "u = secs * 1000000000 + r" "secs = m * 60 + s" "m = h * 60 + m'"
      by (simp_all only: secs_def m_def s_def r_def h_def m'_def div_mult_mod_eq)
    have rs: "read_scaled sec = s * 1000000000 + r"
      by (simp add: sec_def fr_def r_def read_scaled_seconds)
    have str: "dur_string_abs u =
       (if m = 0 then sec else if h = 0 then dec m' @ ''m'' @ sec
        else dec h @ ''h'' @ dec m' @ ''m'' @ sec)"
      using 5 by (simp add: dur_string_abs_def ff sec_def Let_def m_def s_def h_def m'_def)
    have s0: "read_dur sec = read_scaled sec"
      unfolding sec_def fr_def by (rule read_dur_scaled) simp
    have m0: "read_minutes (dec n @ ''m'' @ sec) = n * 60000000000 + read_scaled sec" for n
      unfolding sec_def by (rule read_minutes_fmt)
    have "read_dur (dur_string_abs u) = h * 3600000000000 + m' * 60000000000 + s * 1000000000 + r"
      unfolding str using rs s0 m0 parts(3) by (simp add: read_dur_hours read_dur_no_hours)
    with parts show ?thesis by simp
  qed (simp_all add: dur_string_abs_def read_dur_fmt_scaled)
qed

lemma dur_string_abs_no_minus: "\<exists>c s. dur_string_abs u = c # s \<and> c \<noteq> CHR ''-''"
proof -
  have "\<exists>c s. dec n @ t = c # s \<and> c \<noteq> CHR ''-''" for n t
    using dec_digits [of n] by (cases "dec n") auto
  then show ?thesis
    by (auto simp: dur_string_abs_def fmt_scaled_def Let_def split: prod.splits)
qed

lemma dur_string_inj: "dur_string d = dur_string e \<longleftrightarrow> d = e"
proof
  assume eq: "dur_string d = dur_string e"
  have "d < 0 \<longleftrightarrow> e < 0"
    using eq dur_string_abs_no_minus [of "nat d"] dur_string_abs_no_minus [of "nat e"]
    by (auto simp: dur_string_def split: if_splits)
  with eq have "dur_string_abs (nat \<bar>d\<bar>) = dur_string_abs (nat \<bar>e\<bar>)"
    by (auto simp: dur_string_def split: if_splits)
  then have "nat \<bar>d\<bar> = nat \<bar>e\<bar>" by (metis read_dur_string_abs)
  with \<open>d < 0 \<longleftrightarrow> e < 0\<close> show "d = e" by auto
qed simp

section \<open>Other text\<close>

text \<open>\<open>%v\<close> of a Boolean, and substring search.\<close>

definition bool_text :: "bool \<Rightarrow> string" where
  "bool_text b = (if b then ''true'' else ''false'')"

fun starts_with :: "string \<Rightarrow> string \<Rightarrow> bool" where
  "starts_with s [] = True"
| "starts_with [] (c # t) = False"
| "starts_with (a # s) (c # t) = (a = c \<and> starts_with s t)"

fun contains :: "string \<Rightarrow> string \<Rightarrow> bool" where
  "contains [] t = (t = [])"
| "contains (a # s) t = (starts_with (a # s) t \<or> contains s t)"

lemma starts_with_iff: "starts_with s t \<longleftrightarrow> (\<exists>u. s = t @ u)"
  by (induction s t rule: starts_with.induct) auto

lemma starts_with_append [simp]: "starts_with (t @ u) t"
  by (auto simp: starts_with_iff)

lemma contains_iff: "contains s t \<longleftrightarrow> (\<exists>u v. s = u @ t @ v)"
proof (induction s)
  case Nil
  then show ?case by auto
next
  case (Cons a s)
  have "(\<exists>u v. a # s = u @ t @ v) \<longleftrightarrow> (\<exists>v. a # s = t @ v) \<or> (\<exists>u v. s = u @ t @ v)"
    by (metis append_Cons append_Nil append_eq_Cons_conv list.inject)
  with Cons show ?case by (simp add: starts_with_iff)
qed

text \<open>
  \<open>%q\<close>: the string in double quotes, with the escapes of \<open>strconv.Quote\<close> for ASCII; the
  bytes of a multi-byte character are kept, as \<open>Quote\<close> keeps a printable one.
\<close>

definition hex_digit :: "nat \<Rightarrow> char" where
  "hex_digit n = ''0123456789abcdef'' ! n"

definition quote_char :: "char \<Rightarrow> string" where
  "quote_char c =
     (let n = (of_char c :: nat); bs = CHR 0x5C
      in if n = 34 then [bs, CHR 0x22] else if n = 92 then [bs, bs]
         else if n = 7 then [bs, CHR ''a''] else if n = 8 then [bs, CHR ''b'']
         else if n = 12 then [bs, CHR ''f''] else if n = 10 then [bs, CHR ''n'']
         else if n = 13 then [bs, CHR ''r''] else if n = 9 then [bs, CHR ''t'']
         else if n = 11 then [bs, CHR ''v'']
         else if n < 32 \<or> n = 127 then [bs, CHR ''x'', hex_digit (n div 16), hex_digit (n mod 16)]
         else [c])"

definition quote :: "string \<Rightarrow> string" where
  "quote s = CHR 0x22 # concat (map quote_char s) @ [CHR 0x22]"

text \<open>The UTC date and time of an instant in the layout \<open>time.RFC3339\<close>.\<close>

definition pad :: "nat \<Rightarrow> int \<Rightarrow> string" where
  "pad w x = (let s = dec (nat x) in replicate (w - length s) (CHR ''0'') @ s)"

definition civil_date :: "int \<Rightarrow> int \<times> int \<times> int" where
  "civil_date days =
     (let z = days + 719468; era = z div 146097; doe = z - era * 146097;
          yoe = (doe - doe div 1460 + doe div 36524 - doe div 146096) div 365;
          doy = doe - (365 * yoe + yoe div 4 - yoe div 100);
          mp = (5 * doy + 2) div 153;
          d = doy - (153 * mp + 2) div 5 + 1;
          m = (if mp < 10 then mp + 3 else mp - 9);
          y = yoe + era * 400 + (if m \<le> 2 then 1 else 0)
      in (y, m, d))"

definition rfc3339 :: "time \<Rightarrow> string" where
  "rfc3339 t =
     (let secs = t div 1000000000; days = secs div 86400; sod = secs mod 86400
      in case civil_date days of (y, m, d) \<Rightarrow>
        pad 4 y @ ''-'' @ pad 2 m @ ''-'' @ pad 2 d @ ''T''
        @ pad 2 (sod div 3600) @ '':'' @ pad 2 (sod div 60 mod 60) @ '':'' @ pad 2 (sod mod 60)
        @ ''Z'')"

section \<open>Instants\<close>

text \<open>
  The zero \<open>time.Time\<close> is midnight of January 1 of year 1; \<open>IsZero\<close> of a nil
  \<open>*metav1.Time\<close> holds. \<open>Sub\<close> saturates, \<open>-d\<close> on a duration wraps around.
\<close>

definition zero_time :: time where
  "zero_time = - 62135596800000000000"

definition ptr_is_zero :: "time option \<Rightarrow> bool" where
  "ptr_is_zero t \<longleftrightarrow> (case t of None \<Rightarrow> True | Some x \<Rightarrow> x = zero_time)"

lemma ptr_is_zero_None [simp]: "ptr_is_zero None"
  by (simp add: ptr_is_zero_def)

definition time_sub :: "time \<Rightarrow> time \<Rightarrow> duration" where
  "time_sub t u = sat64 (t - u)"

definition dur_neg :: "duration \<Rightarrow> duration" where
  "dur_neg d = wrap64 (- d)"

lemma dur_neg_id [simp]: "is_int64 d \<Longrightarrow> 0 < d \<Longrightarrow> dur_neg d = - d"
  unfolding dur_neg_def by (rule wrap64_id) (simp add: int64_defs)

end
