(* ===== verification/API_Types.thy ===== *)
theory API_Types
  imports Go_Text
begin

text \<open>
  The data of the program: the custom resources of \<open>src/api/v1alpha1\<close> (EnvironmentLease,
  EnvironmentLeasePolicy, ClusterTarget) field by field, the Kubernetes objects the
  controller writes, and the error values. A Go pointer is an \<open>option\<close>, a
  \<open>metav1.Duration\<close> is its number of nanoseconds, a \<open>metav1.Time\<close> its instant; the
  string enumerations of the API are datatypes with the empty string as a constructor.
  Record fields carry a prefix for their struct, since Isabelle's fields are global.
\<close>

section \<open>Constants\<close>

definition FinalizerName :: string where
  "FinalizerName = ''platform.kubelease.io/finalizer''"
definition LabelManagedBy :: string where
  "LabelManagedBy = ''app.kubernetes.io/managed-by''"
definition ManagedByValue :: string where
  "ManagedByValue = ''kubelease''"
definition LabelLease :: string where
  "LabelLease = ''kubelease.io/lease''"
definition AnnotationLeaseUID :: string where
  "AnnotationLeaseUID = ''kubelease.io/lease-uid''"
definition AnnotationControlClusterID :: string where
  "AnnotationControlClusterID = ''kubelease.io/control-cluster-id''"
definition AnnotationTargetIdentity :: string where
  "AnnotationTargetIdentity = ''kubelease.io/target-identity''"
definition AnnotationForceCleanupAcknowledged :: string where
  "AnnotationForceCleanupAcknowledged = ''kubelease.io/force-cleanup-acknowledged''"
definition ClusterTargetFinalizer :: string where
  "ClusterTargetFinalizer = ''platform.kubelease.io/cluster-target-protection''"
definition LocalClusterName :: string where
  "LocalClusterName = ''local''"

lemmas [api_consts] = FinalizerName_def LabelManagedBy_def ManagedByValue_def LabelLease_def
  AnnotationLeaseUID_def AnnotationControlClusterID_def AnnotationTargetIdentity_def
  AnnotationForceCleanupAcknowledged_def ClusterTargetFinalizer_def LocalClusterName_def

lemma label_keys_distinct [simp]:
  "LabelManagedBy \<noteq> LabelLease" "LabelLease \<noteq> LabelManagedBy"
  by (simp_all add: api_consts)

lemma annotation_keys_distinct [simp]:
  "AnnotationLeaseUID \<noteq> AnnotationControlClusterID"
  "AnnotationControlClusterID \<noteq> AnnotationLeaseUID"
  "AnnotationLeaseUID \<noteq> AnnotationTargetIdentity"
  "AnnotationTargetIdentity \<noteq> AnnotationLeaseUID"
  "AnnotationControlClusterID \<noteq> AnnotationTargetIdentity"
  "AnnotationTargetIdentity \<noteq> AnnotationControlClusterID"
  by (simp_all add: api_consts)

lemma nonempty_consts [simp]:
  "ManagedByValue \<noteq> []" "[] \<noteq> ManagedByValue" "LocalClusterName \<noteq> []" "[] \<noteq> LocalClusterName"
  by (simp_all add: api_consts)

section \<open>Enumerations\<close>

datatype LeasePhase =
    NoPhase | LeasePhasePending | LeasePhaseProvisioning | LeasePhaseActive
  | LeasePhaseExpiring | LeasePhaseCleaning | LeasePhaseExpired | LeasePhaseFailed

datatype CondType =
    ConditionReady | ConditionExpiring | ConditionCleanup | ConditionDegraded
  | ConditionTargetClusterReady
  | ClusterTargetConditionAuthenticated | ClusterTargetConditionReachable
  | OtherCondition string

text \<open>The reasons of both resources; \<open>TargetDisabled\<close> is one string with two Go names.\<close>

datatype Reason =
    ReasonProvisioning | ReasonEnvironmentReady | ReasonNamespaceCreationFailed
  | ReasonResourceQuotaCreationFailed | ReasonLimitRangeCreationFailed
  | ReasonNetworkPolicyCreationFailed | ReasonInvalidConfiguration | ReasonPolicyViolation
  | ReasonPolicyNotFound | ReasonLeaseExpired | ReasonLeaseExpiring | ReasonCleanupInProgress
  | ReasonCleanupComplete | ReasonCleanupFailed | ReasonRenewalRejected
  | ReasonNamespaceAdoptRefused | ReasonTargetClusterUnavailable | ReasonTargetNotFound
  | ReasonTargetDisabled | ReasonRemoteCleanupBlocked | ReasonNoMatchingCluster
  | ReasonPlacementPending | ReasonOwnershipMismatch | ReasonTargetIdentityMismatch
  | ReasonClusterReachable | ReasonClusterUnreachable | ReasonCredentialsInvalid
  | ReasonCredentialsMissing | ReasonTargetHasActiveLeases | ReasonTargetDeleting
  | ReasonIdentityDrift | OtherReason string

fun reason_text :: "Reason \<Rightarrow> string" where
  "reason_text ReasonProvisioning = ''Provisioning''"
| "reason_text ReasonEnvironmentReady = ''EnvironmentReady''"
| "reason_text ReasonNamespaceCreationFailed = ''NamespaceCreationFailed''"
| "reason_text ReasonResourceQuotaCreationFailed = ''ResourceQuotaCreationFailed''"
| "reason_text ReasonLimitRangeCreationFailed = ''LimitRangeCreationFailed''"
| "reason_text ReasonNetworkPolicyCreationFailed = ''NetworkPolicyCreationFailed''"
| "reason_text ReasonInvalidConfiguration = ''InvalidConfiguration''"
| "reason_text ReasonPolicyViolation = ''PolicyViolation''"
| "reason_text ReasonPolicyNotFound = ''PolicyNotFound''"
| "reason_text ReasonLeaseExpired = ''LeaseExpired''"
| "reason_text ReasonLeaseExpiring = ''LeaseExpiring''"
| "reason_text ReasonCleanupInProgress = ''CleanupInProgress''"
| "reason_text ReasonCleanupComplete = ''CleanupComplete''"
| "reason_text ReasonCleanupFailed = ''CleanupFailed''"
| "reason_text ReasonRenewalRejected = ''RenewalRejected''"
| "reason_text ReasonNamespaceAdoptRefused = ''NamespaceAdoptRefused''"
| "reason_text ReasonTargetClusterUnavailable = ''TargetClusterUnavailable''"
| "reason_text ReasonTargetNotFound = ''TargetNotFound''"
| "reason_text ReasonTargetDisabled = ''TargetDisabled''"
| "reason_text ReasonRemoteCleanupBlocked = ''RemoteCleanupBlocked''"
| "reason_text ReasonNoMatchingCluster = ''NoMatchingCluster''"
| "reason_text ReasonPlacementPending = ''PlacementPending''"
| "reason_text ReasonOwnershipMismatch = ''OwnershipMismatch''"
| "reason_text ReasonTargetIdentityMismatch = ''TargetIdentityMismatch''"
| "reason_text ReasonClusterReachable = ''ClusterReachable''"
| "reason_text ReasonClusterUnreachable = ''ClusterUnreachable''"
| "reason_text ReasonCredentialsInvalid = ''CredentialsInvalid''"
| "reason_text ReasonCredentialsMissing = ''CredentialsMissing''"
| "reason_text ReasonTargetHasActiveLeases = ''TargetHasActiveLeases''"
| "reason_text ReasonTargetDeleting = ''TargetDeleting''"
| "reason_text ReasonIdentityDrift = ''IdentityDrift''"
| "reason_text (OtherReason s) = s"

datatype CleanupMode = NoCleanupMode | CleanupModeRequireRemoteCleanup | CleanupModeBestEffort

datatype ExpirationReason =
    NoExpirationReason | ExpirationReasonTTLExpired | ExpirationReasonIdleTimeout
  | ExpirationReasonManualExpiration | ExpirationReasonSourceClosed

fun expiration_reason_text :: "ExpirationReason \<Rightarrow> string" where
  "expiration_reason_text NoExpirationReason = []"
| "expiration_reason_text ExpirationReasonTTLExpired = ''TTLExpired''"
| "expiration_reason_text ExpirationReasonIdleTimeout = ''IdleTimeout''"
| "expiration_reason_text ExpirationReasonManualExpiration = ''ManualExpiration''"
| "expiration_reason_text ExpirationReasonSourceClosed = ''SourceClosed''"

datatype ConditionStatus = ConditionTrue | ConditionFalse | ConditionUnknown

section \<open>Errors\<close>

text \<open>
  The Go errors the code makes and inspects. \<open>ApiError\<close> is an API server's status error
  with its reason, \<open>Errorf\<close> a \<open>fmt.Errorf\<close> without \<open>%w\<close>, \<open>Wrapf\<close> one whose text is a prefix
  and the wrapped error. \<open>errors.As\<close> and \<open>errors.Is\<close> walk the chain of wrapped errors.
\<close>

datatype StatusReason = NotFound | Conflict | AlreadyExists | OtherStatus string

datatype go_error =
    ApiError StatusReason string
  | Errorf string
  | Wrapf string go_error
  | OwnershipMismatchError string
  | TargetError Reason string "go_error option"
  | ErrTargetDisabled

definition OwnershipMismatchError_Error :: "string \<Rightarrow> string" where
  "OwnershipMismatchError_Error msg =
     (if msg \<noteq> [] then msg else reason_text ReasonOwnershipMismatch)"

fun err_text :: "go_error \<Rightarrow> string" where
  "err_text (ApiError r msg) = msg"
| "err_text (Errorf msg) = msg"
| "err_text (Wrapf prefix err) = prefix @ err_text err"
| "err_text (OwnershipMismatchError msg) = OwnershipMismatchError_Error msg"
| "err_text (TargetError r msg None) = (if msg \<noteq> [] then msg else ''target error'')"
| "err_text (TargetError r msg (Some err)) = (if msg \<noteq> [] then msg else err_text err)"
| "err_text ErrTargetDisabled = ''cluster target is disabled''"

fun api_reason :: "go_error \<Rightarrow> StatusReason option" where
  "api_reason (ApiError r msg) = Some r"
| "api_reason (Wrapf prefix err) = api_reason err"
| "api_reason (TargetError r msg (Some err)) = api_reason err"
| "api_reason _ = None"

definition IsNotFound :: "go_error \<Rightarrow> bool" where
  "IsNotFound err \<longleftrightarrow> api_reason err = Some NotFound"

definition IsConflict :: "go_error \<Rightarrow> bool" where
  "IsConflict err \<longleftrightarrow> api_reason err = Some Conflict"

definition IsAlreadyExists :: "go_error \<Rightarrow> bool" where
  "IsAlreadyExists err \<longleftrightarrow> api_reason err = Some AlreadyExists"

fun AsOwnershipMismatch :: "go_error \<Rightarrow> bool" where
  "AsOwnershipMismatch (OwnershipMismatchError msg) = True"
| "AsOwnershipMismatch (Wrapf prefix err) = AsOwnershipMismatch err"
| "AsOwnershipMismatch (TargetError r msg (Some err)) = AsOwnershipMismatch err"
| "AsOwnershipMismatch _ = False"

fun AsTargetError :: "go_error \<Rightarrow> (Reason \<times> string) option" where
  "AsTargetError (TargetError r msg err) = Some (r, msg)"
| "AsTargetError (Wrapf prefix err) = AsTargetError err"
| "AsTargetError _ = None"

fun IsErrTargetDisabled :: "go_error \<Rightarrow> bool" where
  "IsErrTargetDisabled ErrTargetDisabled = True"
| "IsErrTargetDisabled (Wrapf prefix err) = IsErrTargetDisabled err"
| "IsErrTargetDisabled (TargetError r msg (Some err)) = IsErrTargetDisabled err"
| "IsErrTargetDisabled _ = False"

section \<open>Object metadata and conditions\<close>

record OwnerReference =
  or_Kind :: string
  or_Name :: string
  or_UID :: string
  or_Controller :: bool

record ObjectMeta =
  om_Name :: string
  om_GenerateName :: string
  om_Namespace :: string
  om_UID :: string
  om_ResourceVersion :: string
  om_Generation :: int
  om_CreationTimestamp :: time
  om_DeletionTimestamp :: "time option"
  om_Labels :: strmap
  om_Annotations :: strmap
  om_Finalizers :: "string list"
  om_OwnerReferences :: "OwnerReference list"

definition zero_meta :: ObjectMeta where
  "zero_meta = \<lparr>om_Name = [], om_GenerateName = [], om_Namespace = [], om_UID = [],
     om_ResourceVersion = [], om_Generation = 0, om_CreationTimestamp = zero_time,
     om_DeletionTimestamp = None, om_Labels = fmempty, om_Annotations = fmempty,
     om_Finalizers = [], om_OwnerReferences = []\<rparr>"

record Condition =
  cd_Type :: CondType
  cd_Status :: ConditionStatus
  cd_ObservedGeneration :: int
  cd_LastTransitionTime :: time
  cd_Reason :: Reason
  cd_Message :: string

record LabelSelectorRequirement =
  lsr_Key :: string
  lsr_Operator :: string
  lsr_Values :: "string list"

record LabelSelector =
  ls_MatchLabels :: strmap
  ls_MatchExpressions :: "LabelSelectorRequirement list"

text \<open>A \<open>labels.Selector\<close>, through the two methods the code calls.\<close>

record Selector =
  sel_Matches :: "strmap \<Rightarrow> bool"
  sel_Empty :: bool

text \<open>A \<open>resource.Quantity\<close>: its value in units of \<open>10^-9\<close> and its canonical text.\<close>

record Quantity =
  q_nanos :: int
  q_text :: string

type_synonym ResourceList = "(string, Quantity) fmap"

definition Quantity_Cmp :: "Quantity \<Rightarrow> Quantity \<Rightarrow> int" where
  "Quantity_Cmp a b = sgn (q_nanos a - q_nanos b)"

section \<open>EnvironmentLease\<close>

record LocalObjectReference =
  lor_Name :: string

record CleanupPolicy =
  cp_Mode :: CleanupMode

record ClusterStatus =
  cs_Name :: string
  cs_TargetUID :: string
  cs_RemoteIdentity :: string

record PlacementSpec =
  pl_Selector :: "LabelSelector option"

record OwnerSpec =
  ow_Name :: string
  ow_Team :: string

record NamespaceSpec =
  nss_GenerateName :: string
  nss_Name :: string
  nss_Labels :: strmap
  nss_Annotations :: strmap

record QuotaSpec =
  qs_Requests :: ResourceList
  qs_Limits :: ResourceList

record LimitsSpec =
  li_Default :: ResourceList
  li_DefaultRequest :: ResourceList
  li_Max :: ResourceList
  li_Min :: ResourceList

record NetworkPolicySpec =
  nps_DefaultDeny :: bool

record EnvironmentLeaseSpec =
  sp_PolicyRef :: "LocalObjectReference option"
  sp_ClusterRef :: "LocalObjectReference option"
  sp_Placement :: "PlacementSpec option"
  sp_CleanupPolicy :: "CleanupPolicy option"
  sp_TTL :: "duration option"
  sp_MaxTTL :: "duration option"
  sp_IdleTTL :: "duration option"
  sp_Renewable :: "bool option"
  sp_Warnings :: "duration list"
  sp_Owner :: OwnerSpec
  sp_Namespace :: NamespaceSpec
  sp_Quota :: "QuotaSpec option"
  sp_Limits :: "LimitsSpec option"
  sp_NetworkPolicy :: "NetworkPolicySpec option"

record EffectiveLeaseSpec =
  ef_PolicyName :: string
  ef_TTL :: duration
  ef_MaxTTL :: duration
  ef_IdleTTL :: "duration option"
  ef_Renewable :: bool
  ef_DefaultDeny :: bool

record EnvironmentLeaseStatus =
  st_Phase :: LeasePhase
  st_Namespace :: string
  st_Cluster :: "ClusterStatus option"
  st_CreatedAt :: "time option"
  st_ExpiresAt :: "time option"
  st_MaximumExpiresAt :: "time option"
  st_LastActivityAt :: "time option"
  st_IdleExpiresAt :: "time option"
  st_EffectiveExpiresAt :: "time option"
  st_ExpirationReason :: ExpirationReason
  st_WarningsDelivered :: "string list"
  st_Effective :: "EffectiveLeaseSpec option"
  st_ObservedGeneration :: int
  st_Conditions :: "Condition list"

record EnvironmentLease =
  el_Meta :: ObjectMeta
  el_Spec :: EnvironmentLeaseSpec
  el_Status :: EnvironmentLeaseStatus

abbreviation el_Name :: "EnvironmentLease \<Rightarrow> string" where
  "el_Name l \<equiv> om_Name (el_Meta l)"

abbreviation el_UID :: "EnvironmentLease \<Rightarrow> string" where
  "el_UID l \<equiv> om_UID (el_Meta l)"

definition EffectiveCleanupMode :: "EnvironmentLeaseSpec \<Rightarrow> CleanupMode" where
  "EffectiveCleanupMode s =
     (case sp_CleanupPolicy s of
        None \<Rightarrow> CleanupModeRequireRemoteCleanup
      | Some p \<Rightarrow> if cp_Mode p = NoCleanupMode then CleanupModeRequireRemoteCleanup else cp_Mode p)"

definition IsRenewable :: "EnvironmentLeaseSpec \<Rightarrow> bool" where
  "IsRenewable s = (case sp_Renewable s of None \<Rightarrow> True | Some b \<Rightarrow> b)"

definition RequestedTTL :: "EnvironmentLeaseSpec \<Rightarrow> duration" where
  "RequestedTTL s = (case sp_TTL s of None \<Rightarrow> 0 | Some d \<Rightarrow> d)"

text \<open>\<open>ref != nil && ref.Name != ""\<close>, the test the code repeats for its references.\<close>

definition ref_name :: "LocalObjectReference option \<Rightarrow> string" where
  "ref_name r = (case r of None \<Rightarrow> [] | Some x \<Rightarrow> lor_Name x)"

lemma ref_name_simps [simp]: "ref_name None = []" "ref_name (Some r) = lor_Name r"
  by (simp_all add: ref_name_def)

section \<open>EnvironmentLeasePolicy\<close>

record DurationPolicy =
  dp_Default :: "duration option"
  dp_Maximum :: "duration option"
  dp_Minimum :: "duration option"

record BoolPolicy =
  bp_Default :: "bool option"
  bp_Force :: "bool option"

record QuotaPolicy =
  qp_MaxCPU :: "Quantity option"
  qp_MaxMemory :: "Quantity option"

record NetworkPolicyPolicy =
  npp_DefaultDenyRequired :: bool
  npp_DefaultDenyDefault :: "bool option"

record EnvironmentLeasePolicySpec =
  ps_TTL :: "DurationPolicy option"
  ps_MaxTTL :: "DurationPolicy option"
  ps_IdleTTL :: "DurationPolicy option"
  ps_Renewable :: "BoolPolicy option"
  ps_Quota :: "QuotaPolicy option"
  ps_NetworkPolicy :: "NetworkPolicyPolicy option"
  ps_Placement :: "PlacementSpec option"

record EnvironmentLeasePolicy =
  po_Meta :: ObjectMeta
  po_Spec :: EnvironmentLeasePolicySpec

section \<open>ClusterTarget\<close>

record SecretKeySelector =
  sk_Name :: string
  sk_Namespace :: string
  sk_Key :: string

record ClusterTargetSpec =
  ts_SecretRef :: SecretKeySelector
  ts_Labels :: strmap
  ts_MaxActiveLeases :: "int option"
  ts_ClientQPS :: "int option"
  ts_ClientBurst :: "int option"
  ts_Enabled :: "bool option"

definition IsEnabled :: "ClusterTargetSpec \<Rightarrow> bool" where
  "IsEnabled s = (case ts_Enabled s of None \<Rightarrow> True | Some b \<Rightarrow> b)"

record ClusterCapacityStatus =
  cc_ActiveLeases :: int
  cc_MaxLeases :: "int option"

record ClusterTargetStatus =
  tst_KubernetesVersion :: string
  tst_RemoteIdentity :: string
  tst_Capacity :: "ClusterCapacityStatus option"
  tst_ObservedGeneration :: int
  tst_Conditions :: "Condition list"

record ClusterTarget =
  ct_Meta :: ObjectMeta
  ct_Spec :: ClusterTargetSpec
  ct_Status :: ClusterTargetStatus

abbreviation ct_Name :: "ClusterTarget \<Rightarrow> string" where
  "ct_Name t \<equiv> om_Name (ct_Meta t)"

definition SchedulingLabels :: "ClusterTarget \<Rightarrow> strmap" where
  "SchedulingLabels t = fmadd (ts_Labels (ct_Spec t)) (om_Labels (ct_Meta t))"

lemma SchedulingLabels_metadata_wins:
  "fmlookup (SchedulingLabels t) k =
     (case fmlookup (om_Labels (ct_Meta t)) k of
        Some v \<Rightarrow> Some v | None \<Rightarrow> fmlookup (ts_Labels (ct_Spec t)) k)"
  by (auto simp: SchedulingLabels_def fmlookup_dom_iff split: option.splits)

section \<open>Kubernetes objects the controller reads and writes\<close>

record Namespace =
  ns_Meta :: ObjectMeta

abbreviation ns_Name :: "Namespace \<Rightarrow> string" where
  "ns_Name n \<equiv> om_Name (ns_Meta n)"

abbreviation ns_Labels :: "Namespace \<Rightarrow> strmap" where
  "ns_Labels n \<equiv> om_Labels (ns_Meta n)"

abbreviation ns_Annotations :: "Namespace \<Rightarrow> strmap" where
  "ns_Annotations n \<equiv> om_Annotations (ns_Meta n)"

record ResourceQuota =
  rq_Meta :: ObjectMeta
  rq_Hard :: ResourceList

record LimitRangeItem =
  lri_Type :: string
  lri_Default :: ResourceList
  lri_DefaultRequest :: ResourceList
  lri_Max :: ResourceList
  lri_Min :: ResourceList

record LimitRange =
  lr_Meta :: ObjectMeta
  lr_Limits :: "LimitRangeItem list"

datatype PolicyType = PolicyTypeIngress | PolicyTypeEgress

text \<open>A NetworkPolicy; its rules are kept as opaque text, the code writes none.\<close>

record NetworkPolicy =
  np_Meta :: ObjectMeta
  np_PodSelector :: LabelSelector
  np_PolicyTypes :: "PolicyType list"
  np_Ingress :: "string list"
  np_Egress :: "string list"

record Secret =
  se_Meta :: ObjectMeta
  se_Data :: strmap

section \<open>The libraries the code calls\<close>

text \<open>
  Functions of packages that are not part of the repository are parameters of the model:
  \<open>meta.SetStatusCondition\<close> and \<open>meta.IsStatusConditionTrue\<close>, the finalizer helpers and
  \<open>SetControllerReference\<close> of controller-runtime, and \<open>metav1.LabelSelectorAsSelector\<close>.
  What a theorem needs of them is a named predicate below, their documented behaviour.
\<close>

record k8slib =
  SetStatusCondition :: "Condition list \<Rightarrow> Condition \<Rightarrow> Condition list"
  IsStatusConditionTrue :: "Condition list \<Rightarrow> CondType \<Rightarrow> bool"
  ContainsFinalizer :: "string list \<Rightarrow> string \<Rightarrow> bool"
  AddFinalizer :: "string list \<Rightarrow> string \<Rightarrow> string list"
  RemoveFinalizer :: "string list \<Rightarrow> string \<Rightarrow> string list"
  SetControllerReference :: "EnvironmentLease \<Rightarrow> ObjectMeta \<Rightarrow> go_error + ObjectMeta"
  LabelSelectorAsSelector :: "LabelSelector \<Rightarrow> go_error + Selector"

text \<open>
  \<open>SetStatusCondition\<close> replaces the condition of the given type or appends it, keeping the
  others; \<open>IsStatusConditionTrue\<close> looks the type up.
\<close>

definition find_cond :: "Condition list \<Rightarrow> CondType \<Rightarrow> Condition option" where
  "find_cond cs t = find (\<lambda>c. cd_Type c = t) cs"

definition same_but_time :: "Condition \<Rightarrow> Condition \<Rightarrow> bool" where
  "same_but_time a b \<longleftrightarrow> a\<lparr>cd_LastTransitionTime := 0\<rparr> = b\<lparr>cd_LastTransitionTime := 0\<rparr>"

definition conditions_lib :: "('a k8slib_scheme) \<Rightarrow> bool" where
  "conditions_lib K \<longleftrightarrow>
     (\<forall>cs c. \<exists>c'. find_cond (SetStatusCondition K cs c) (cd_Type c) = Some c' \<and> same_but_time c' c)
   \<and> (\<forall>cs c t. t \<noteq> cd_Type c \<longrightarrow> find_cond (SetStatusCondition K cs c) t = find_cond cs t)
   \<and> (\<forall>cs t. IsStatusConditionTrue K cs t
        \<longleftrightarrow> (case find_cond cs t of Some c \<Rightarrow> cd_Status c = ConditionTrue | None \<Rightarrow> False))"

definition finalizers_lib :: "('a k8slib_scheme) \<Rightarrow> bool" where
  "finalizers_lib K \<longleftrightarrow>
     (\<forall>fs f. ContainsFinalizer K fs f \<longleftrightarrow> f \<in> set fs)
   \<and> (\<forall>fs f. set (AddFinalizer K fs f) = insert f (set fs))
   \<and> (\<forall>fs f. set (RemoveFinalizer K fs f) = set fs - {f})"

lemma same_but_time_fields:
  "same_but_time a b \<Longrightarrow> cd_Status a = cd_Status b \<and> cd_Reason a = cd_Reason b
     \<and> cd_Message a = cd_Message b \<and> cd_ObservedGeneration a = cd_ObservedGeneration b
     \<and> cd_Type a = cd_Type b"
  by (cases a, cases b) (simp add: same_but_time_def)

section \<open>Zero values\<close>

text \<open>The zero values of the structs, which Go gives to every field a literal does not name.\<close>

definition zero_namespace_spec :: NamespaceSpec where
  "zero_namespace_spec = \<lparr>nss_GenerateName = [], nss_Name = [], nss_Labels = fmempty,
     nss_Annotations = fmempty\<rparr>"

definition zero_lease_spec :: EnvironmentLeaseSpec where
  "zero_lease_spec = \<lparr>sp_PolicyRef = None, sp_ClusterRef = None, sp_Placement = None,
     sp_CleanupPolicy = None, sp_TTL = None, sp_MaxTTL = None, sp_IdleTTL = None,
     sp_Renewable = None, sp_Warnings = [], sp_Owner = \<lparr>ow_Name = [], ow_Team = []\<rparr>,
     sp_Namespace = zero_namespace_spec, sp_Quota = None, sp_Limits = None,
     sp_NetworkPolicy = None\<rparr>"

definition zero_lease_status :: EnvironmentLeaseStatus where
  "zero_lease_status = \<lparr>st_Phase = NoPhase, st_Namespace = [], st_Cluster = None,
     st_CreatedAt = None, st_ExpiresAt = None, st_MaximumExpiresAt = None,
     st_LastActivityAt = None, st_IdleExpiresAt = None, st_EffectiveExpiresAt = None,
     st_ExpirationReason = NoExpirationReason, st_WarningsDelivered = [], st_Effective = None,
     st_ObservedGeneration = 0, st_Conditions = []\<rparr>"

definition zero_lease :: EnvironmentLease where
  "zero_lease = \<lparr>el_Meta = zero_meta, el_Spec = zero_lease_spec, el_Status = zero_lease_status\<rparr>"

definition zero_policy_spec :: EnvironmentLeasePolicySpec where
  "zero_policy_spec = \<lparr>ps_TTL = None, ps_MaxTTL = None, ps_IdleTTL = None, ps_Renewable = None,
     ps_Quota = None, ps_NetworkPolicy = None, ps_Placement = None\<rparr>"

definition zero_target :: ClusterTarget where
  "zero_target = \<lparr>ct_Meta = zero_meta,
     ct_Spec = \<lparr>ts_SecretRef = \<lparr>sk_Name = [], sk_Namespace = [], sk_Key = []\<rparr>, ts_Labels = fmempty,
       ts_MaxActiveLeases = None, ts_ClientQPS = None, ts_ClientBurst = None, ts_Enabled = None\<rparr>,
     ct_Status = \<lparr>tst_KubernetesVersion = [], tst_RemoteIdentity = [], tst_Capacity = None,
       tst_ObservedGeneration = 0, tst_Conditions = []\<rparr>\<rparr>"

lemmas zero_defs = zero_meta_def zero_namespace_spec_def zero_lease_spec_def zero_lease_status_def
  zero_lease_def zero_policy_spec_def zero_target_def

text \<open>A lease named \<open>demo\<close> with a UID, the concrete input of many witnesses.\<close>

definition demo_lease :: EnvironmentLease where
  "demo_lease = zero_lease\<lparr>el_Meta := zero_meta\<lparr>om_Name := ''demo'', om_UID := ''uid-1''\<rparr>\<rparr>"

end
