(* ===== verification/Platform.thy ===== *)
theory Platform
  imports API_Types "HOL-Library.State_Monad"
begin

text \<open>
  The world the controllers act on. The API servers, the clock, the kubeconfig library and the
  retry helper are code outside the repository: they are parameters, the fields of the record
  \<open>platform\<close>, over an arbitrary environment state \<open>'w\<close>. Nothing is assumed of an API call,
  so a theorem about a reconciler holds whatever the servers answer and whatever other clients do
  between two calls. The program's own state is the rest of the record \<open>world\<close>: the outage
  tracker, the client cache, and the trace of what the program did. Programs are computations in
  the state monad of the library.
\<close>

section \<open>Clients and effects\<close>

text \<open>A \<open>client.Client\<close> is a handle: the control cluster's own client or one built for a target.\<close>

datatype Client = HubClient | RemoteClient nat

record RestConfig =
  rc_Host :: string
  rc_Timeout :: duration
  rc_QPS :: int
  rc_Burst :: int

datatype event_type = EventTypeNormal | EventTypeWarning

text \<open>
  What the program does to the outside, in order: writes to the control cluster, writes to a target
  cluster, recorded events, metrics, lines printed by a command, and the slots of the target gate.
\<close>

datatype effect =
    UpdateLease EnvironmentLease | StatusUpdateLease EnvironmentLease | PatchLease EnvironmentLease
  | CreateLease EnvironmentLease | DeleteLease EnvironmentLease
  | UpdateTarget ClusterTarget | StatusUpdateTarget ClusterTarget
  | CreateNamespace Client Namespace | PatchNamespace Client Namespace
  | DeleteNamespace Client Namespace
  | CreateQuota Client ResourceQuota | PatchQuota Client ResourceQuota
  | CreateLimits Client LimitRange | PatchLimits Client LimitRange
  | CreateNetPol Client NetworkPolicy | PatchNetPol Client NetworkPolicy
  | Event event_type string string
  | Inc string
  | IncLabels string "string list"
  | Print string
  | SetGauge string string int
  | ClusterOp string string bool
  | Acquired string | Released string

section \<open>State\<close>

record OutageTracker =
  ot_until :: "(string, time) fmap"
  ot_minBack :: duration
  ot_maxBack :: duration

record cacheEntry =
  ce_fingerprint :: string
  ce_cl :: Client
  ce_cfg :: RestConfig
  ce_lastUsed :: time

record provider =
  pr_maxCache :: int
  pr_cache :: "(string, cacheEntry) fmap"

record 'w world =
  w_env :: 'w
  w_trace :: "effect list"
  w_outages :: "OutageTracker option"
  w_provider :: "provider option"

type_synonym ('w, 'a) prog = "('w world, 'a) state"

section \<open>The parameters\<close>

record 'w hub_api =
  api_Now :: "'w \<Rightarrow> time \<times> 'w"
  api_GetLease :: "string \<Rightarrow> 'w \<Rightarrow> (go_error + EnvironmentLease) \<times> 'w"
  api_CreateLease :: "EnvironmentLease \<Rightarrow> 'w \<Rightarrow> (go_error + EnvironmentLease) \<times> 'w"
  api_UpdateLease :: "EnvironmentLease \<Rightarrow> 'w \<Rightarrow> (go_error + EnvironmentLease) \<times> 'w"
  api_StatusUpdateLease :: "EnvironmentLease \<Rightarrow> 'w \<Rightarrow> (go_error + EnvironmentLease) \<times> 'w"
  api_PatchLease :: "EnvironmentLease \<Rightarrow> 'w \<Rightarrow> (go_error + EnvironmentLease) \<times> 'w"
  api_DeleteLease :: "EnvironmentLease \<Rightarrow> 'w \<Rightarrow> go_error option \<times> 'w"
  api_ListLeases :: "(string \<times> string) option \<Rightarrow> 'w \<Rightarrow> (go_error + EnvironmentLease list) \<times> 'w"
  api_GetPolicy :: "string \<Rightarrow> 'w \<Rightarrow> (go_error + EnvironmentLeasePolicy) \<times> 'w"
  api_GetTarget :: "string \<Rightarrow> 'w \<Rightarrow> (go_error + ClusterTarget) \<times> 'w"
  api_ListTargets :: "'w \<Rightarrow> (go_error + ClusterTarget list) \<times> 'w"
  api_UpdateTarget :: "ClusterTarget \<Rightarrow> 'w \<Rightarrow> (go_error + ClusterTarget) \<times> 'w"
  api_StatusUpdateTarget :: "ClusterTarget \<Rightarrow> 'w \<Rightarrow> (go_error + ClusterTarget) \<times> 'w"
  api_GetSecret :: "string \<Rightarrow> string \<Rightarrow> 'w \<Rightarrow> (go_error + Secret) \<times> 'w"

record 'w cluster_api =
  api_GetNamespace :: "Client \<Rightarrow> string \<Rightarrow> 'w \<Rightarrow> (go_error + Namespace) \<times> 'w"
  api_CreateNamespace :: "Client \<Rightarrow> Namespace \<Rightarrow> 'w \<Rightarrow> (go_error + Namespace) \<times> 'w"
  api_PatchNamespace :: "Client \<Rightarrow> Namespace \<Rightarrow> 'w \<Rightarrow> (go_error + Namespace) \<times> 'w"
  api_DeleteNamespace :: "Client \<Rightarrow> Namespace \<Rightarrow> 'w \<Rightarrow> go_error option \<times> 'w"
  api_GetQuota :: "Client \<Rightarrow> string \<Rightarrow> string \<Rightarrow> 'w \<Rightarrow> (go_error + ResourceQuota) \<times> 'w"
  api_CreateQuota :: "Client \<Rightarrow> ResourceQuota \<Rightarrow> 'w \<Rightarrow> go_error option \<times> 'w"
  api_PatchQuota :: "Client \<Rightarrow> ResourceQuota \<Rightarrow> 'w \<Rightarrow> go_error option \<times> 'w"
  api_GetLimits :: "Client \<Rightarrow> string \<Rightarrow> string \<Rightarrow> 'w \<Rightarrow> (go_error + LimitRange) \<times> 'w"
  api_CreateLimits :: "Client \<Rightarrow> LimitRange \<Rightarrow> 'w \<Rightarrow> go_error option \<times> 'w"
  api_PatchLimits :: "Client \<Rightarrow> LimitRange \<Rightarrow> 'w \<Rightarrow> go_error option \<times> 'w"
  api_GetNetPol :: "Client \<Rightarrow> string \<Rightarrow> string \<Rightarrow> 'w \<Rightarrow> (go_error + NetworkPolicy) \<times> 'w"
  api_CreateNetPol :: "Client \<Rightarrow> NetworkPolicy \<Rightarrow> 'w \<Rightarrow> go_error option \<times> 'w"
  api_PatchNetPol :: "Client \<Rightarrow> NetworkPolicy \<Rightarrow> 'w \<Rightarrow> go_error option \<times> 'w"

text \<open>
  \<open>lib_Sha256\<close> yields the digest's bytes, \<open>lib_Rank\<close> stands for the unspecified iteration order of a
  Go map (each iteration ranks the keys as it likes). \<open>retry.RetryOnConflict\<close> appears at the three
  types of closures the code passes to it; a closure's result carries the variable it captured, which
  for the webhook source is an \<open>ActionResult\<close> (\<open>src/internal/sourcewebhook/actions.go\<close>).
\<close>

record ActionResult =
  ar_StatusCode :: int
  ar_Duplicate :: bool
  ar_Message :: string
  ar_LeaseName :: string
  ar_Namespace :: string

record 'w platform =
  pf_lib :: k8slib
  pf_hub :: "'w hub_api"
  pf_cluster :: "'w cluster_api"
  lib_ParseKubeconfig :: "string \<Rightarrow> go_error + RestConfig"
  lib_NewClient :: "RestConfig \<Rightarrow> 'w \<Rightarrow> (go_error + Client) \<times> 'w"
  lib_ServerVersion :: "RestConfig \<Rightarrow> 'w \<Rightarrow> (go_error + string) \<times> 'w"
  lib_Sha256 :: "string \<Rightarrow> nat list"
  lib_Rank :: "nat \<Rightarrow> string \<Rightarrow> nat"
  lib_RetryLease :: "('w, go_error + EnvironmentLease) prog \<Rightarrow> ('w, go_error + EnvironmentLease) prog"
  lib_RetryTarget :: "('w, go_error + unit) prog \<Rightarrow> ('w, go_error + unit) prog"
  lib_RetryAction :: "('w, go_error + ActionResult) prog \<Rightarrow> ('w, go_error + ActionResult) prog"

section \<open>Elementary programs\<close>

definition call :: "('w \<Rightarrow> 'a \<times> 'w) \<Rightarrow> ('w, 'a) prog" where
  "call f = State (\<lambda>w. let (r, e) = f (w_env w) in (r, w\<lparr>w_env := e\<rparr>))"

definition emit :: "effect \<Rightarrow> ('w, unit) prog" where
  "emit e = State (\<lambda>w. ((), w\<lparr>w_trace := w_trace w @ [e]\<rparr>))"

text \<open>A mutating call leaves its trace whether or not the server accepts it.\<close>

definition act :: "effect \<Rightarrow> ('w \<Rightarrow> 'a \<times> 'w) \<Rightarrow> ('w, 'a) prog" where
  "act e f = do { emit e; call f }"

definition read_outages :: "('w, OutageTracker option) prog" where
  "read_outages = State (\<lambda>w. (w_outages w, w))"

definition write_outages :: "OutageTracker option \<Rightarrow> ('w, unit) prog" where
  "write_outages t = State (\<lambda>w. ((), w\<lparr>w_outages := t\<rparr>))"

definition read_provider :: "('w, provider option) prog" where
  "read_provider = State (\<lambda>w. (w_provider w, w))"

definition write_provider :: "provider option \<Rightarrow> ('w, unit) prog" where
  "write_provider p = State (\<lambda>w. ((), w\<lparr>w_provider := p\<rparr>))"

lemma run_state_call [simp]:
  "run_state (call f) w = (case f (w_env w) of (r, e) \<Rightarrow> (r, w\<lparr>w_env := e\<rparr>))"
  by (simp add: call_def split: prod.split)

lemma run_state_emit [simp]: "run_state (emit e) w = ((), w\<lparr>w_trace := w_trace w @ [e]\<rparr>)"
  by (simp add: emit_def)

lemma run_state_outages [simp]:
  "run_state read_outages w = (w_outages w, w)"
  "run_state (write_outages t) w = ((), w\<lparr>w_outages := t\<rparr>)"
  by (simp_all add: read_outages_def write_outages_def)

lemma run_state_provider [simp]:
  "run_state read_provider w = (w_provider w, w)"
  "run_state (write_provider p) w = ((), w\<lparr>w_provider := p\<rparr>)"
  by (simp_all add: read_provider_def write_provider_def)

section \<open>Reasoning about traces\<close>

text \<open>
  \<open>emits Q m\<close>: every effect of \<open>m\<close> satisfies \<open>Q\<close>, from every world. The rules follow the structure of
  a program and are collected in \<open>emits_rules\<close>.
\<close>

named_theorems emits_rules \<open>which effects a program may have\<close>

definition emits :: "(effect \<Rightarrow> bool) \<Rightarrow> ('w, 'a) prog \<Rightarrow> bool" where
  "emits Q m \<longleftrightarrow> (\<forall>w. \<exists>es. w_trace (snd (run_state m w)) = w_trace w @ es \<and> list_all Q es)"

lemma emitsD:
  assumes "emits Q m" "run_state m w = (a, w')"
  obtains es where "w_trace w' = w_trace w @ es" "list_all Q es"
  using assms unfolding emits_def by (metis snd_conv)

lemma emits_return [emits_rules]: "emits Q (State_Monad.return a)"
  by (simp add: emits_def)

lemma emits_bind [emits_rules]:
  assumes "emits Q m" and "\<And>a. emits Q (f a)"
  shows "emits Q (State_Monad.bind m f)"
  unfolding emits_def
proof
  fix w
  obtain a w1 where m: "run_state m w = (a, w1)" by fastforce
  obtain es where es: "w_trace w1 = w_trace w @ es" "list_all Q es" by (rule emitsD [OF assms(1) m])
  obtain b w2 where f: "run_state (f a) w1 = (b, w2)" by fastforce
  obtain es' where "w_trace w2 = w_trace w1 @ es'" "list_all Q es'" by (rule emitsD [OF assms(2) f])
  with es show "\<exists>es. w_trace (snd (run_state (State_Monad.bind m f) w)) = w_trace w @ es \<and> list_all Q es"
    by (intro exI [of _ "es @ es'"]) (simp add: m f)
qed

lemma emits_call [emits_rules]: "emits Q (call f)"
  by (simp add: emits_def split: prod.split)

lemma emits_emit [emits_rules]: "Q e \<Longrightarrow> emits Q (emit e)"
  by (auto simp: emits_def)

lemma emits_act [emits_rules]: "Q e \<Longrightarrow> emits Q (act e f)"
  unfolding act_def by (intro emits_rules)

lemma emits_outages [emits_rules]: "emits Q read_outages" "emits Q (write_outages t)"
  by (simp_all add: emits_def)

lemma emits_provider [emits_rules]: "emits Q read_provider" "emits Q (write_provider p)"
  by (simp_all add: emits_def)

lemma emits_if [emits_rules]:
  "(b \<Longrightarrow> emits Q m) \<Longrightarrow> (\<not> b \<Longrightarrow> emits Q n) \<Longrightarrow> emits Q (if b then m else n)"
  by simp

lemma emits_option [emits_rules]:
  "(x = None \<Longrightarrow> emits Q m) \<Longrightarrow> (\<And>y. x = Some y \<Longrightarrow> emits Q (f y))
     \<Longrightarrow> emits Q (case x of None \<Rightarrow> m | Some y \<Rightarrow> f y)"
  by (cases x) simp_all

lemma emits_sum [emits_rules]:
  "(\<And>e. x = Inl e \<Longrightarrow> emits Q (f e)) \<Longrightarrow> (\<And>y. x = Inr y \<Longrightarrow> emits Q (g y))
     \<Longrightarrow> emits Q (case x of Inl e \<Rightarrow> f e | Inr y \<Rightarrow> g y)"
  by (cases x) simp_all

lemma emits_prod [emits_rules]:
  "(\<And>a b. x = (a, b) \<Longrightarrow> emits Q (f a b)) \<Longrightarrow> emits Q (case x of (a, b) \<Rightarrow> f a b)"
  by (cases x) simp

lemma emits_Let [emits_rules]: "emits Q (f x) \<Longrightarrow> emits Q (let y = x in f y)"
  by simp

lemma emits_mono: "emits Q m \<Longrightarrow> (\<And>e. Q e \<Longrightarrow> R e) \<Longrightarrow> emits R m"
  unfolding emits_def by (meson list.pred_mono_strong)

subsection \<open>Results\<close>

text \<open>
  \<open>returns R m\<close>: every value \<open>m\<close> can return satisfies \<open>R\<close>, whatever the world. With it the rule for
  sequencing can use what an earlier step established.
\<close>

named_theorems returns_rules \<open>which values a program may return\<close>

definition returns :: "('a \<Rightarrow> bool) \<Rightarrow> ('w, 'a) prog \<Rightarrow> bool" where
  "returns R m \<longleftrightarrow> (\<forall>w. R (fst (run_state m w)))"

lemma returnsD: "returns R m \<Longrightarrow> run_state m w = (a, w') \<Longrightarrow> R a"
  unfolding returns_def by (metis fst_conv)

lemma returns_return [returns_rules]: "R a \<Longrightarrow> returns R (State_Monad.return a)"
  by (simp add: returns_def)

lemma returns_bind:
  assumes "returns S m" and "\<And>a. S a \<Longrightarrow> returns R (f a)"
  shows "returns R (State_Monad.bind m f)"
  unfolding returns_def
proof
  fix w
  obtain a w1 where m: "run_state m w = (a, w1)" by fastforce
  have "S a" by (rule returnsD [OF assms(1) m])
  then show "R (fst (run_state (State_Monad.bind m f) w))"
    using assms(2) by (simp add: m returns_def)
qed

lemma returns_bind_any [returns_rules]:
  "(\<And>a. returns R (f a)) \<Longrightarrow> returns R (State_Monad.bind m f)"
  by (rule returns_bind [where S = "\<lambda>_. True"]) (simp_all add: returns_def)

lemma returns_call: "returns (\<lambda>a. \<exists>e e'. f e = (a, e')) (call f)"
  by (auto simp: returns_def split: prod.split)

lemma returns_if [returns_rules]:
  "(b \<Longrightarrow> returns R m) \<Longrightarrow> (\<not> b \<Longrightarrow> returns R n) \<Longrightarrow> returns R (if b then m else n)"
  by simp

lemma returns_option [returns_rules]:
  "(x = None \<Longrightarrow> returns R m) \<Longrightarrow> (\<And>y. x = Some y \<Longrightarrow> returns R (f y))
     \<Longrightarrow> returns R (case x of None \<Rightarrow> m | Some y \<Rightarrow> f y)"
  by (cases x) simp_all

lemma returns_sum [returns_rules]:
  "(\<And>e. x = Inl e \<Longrightarrow> returns R (f e)) \<Longrightarrow> (\<And>y. x = Inr y \<Longrightarrow> returns R (g y))
     \<Longrightarrow> returns R (case x of Inl e \<Rightarrow> f e | Inr y \<Rightarrow> g y)"
  by (cases x) simp_all

lemma returns_prod [returns_rules]:
  "(\<And>a b. x = (a, b) \<Longrightarrow> returns R (f a b)) \<Longrightarrow> returns R (case x of (a, b) \<Rightarrow> f a b)"
  by (cases x) simp

lemma emits_bind_returns:
  assumes "returns S m" and "emits Q m" and "\<And>a. S a \<Longrightarrow> emits Q (f a)"
  shows "emits Q (State_Monad.bind m f)"
  unfolding emits_def
proof
  fix w
  obtain a w1 where m: "run_state m w = (a, w1)" by fastforce
  obtain es where es: "w_trace w1 = w_trace w @ es" "list_all Q es" by (rule emitsD [OF assms(2) m])
  obtain b w2 where f: "run_state (f a) w1 = (b, w2)" by fastforce
  have "emits Q (f a)" using assms(3) returnsD [OF assms(1) m] .
  then obtain es' where "w_trace w2 = w_trace w1 @ es'" "list_all Q es'" by (rule emitsD [OF _ f])
  with es show "\<exists>es. w_trace (snd (run_state (State_Monad.bind m f) w)) = w_trace w @ es \<and> list_all Q es"
    by (intro exI [of _ "es @ es'"]) (simp add: m f)
qed

lemma emits_bind_call:
  "(\<And>a e e'. f e = (a, e') \<Longrightarrow> emits Q (g a)) \<Longrightarrow> emits Q (State_Monad.bind (call f) g)"
  by (rule emits_bind_returns [OF returns_call emits_call]) blast

lemma returns_bind_call:
  "(\<And>a e e'. f e = (a, e') \<Longrightarrow> returns R (g a)) \<Longrightarrow> returns R (State_Monad.bind (call f) g)"
  by (rule returns_bind [OF returns_call]) blast

section \<open>Retrying\<close>

text \<open>
  The documented behaviour of \<open>retry.RetryOnConflict\<close>: it runs the function again as long as, and
  only if, the function returned a conflict, and returns what the last run returned.
\<close>

inductive attempts :: "('w, go_error + 'a) prog \<Rightarrow> 'w world \<Rightarrow> (go_error + 'a) \<times> 'w world \<Rightarrow> bool"
  for fn :: "('w, go_error + 'a) prog"
where
  last_attempt: "attempts fn w (run_state fn w)"
| again: "run_state fn w = (Inl err, w') \<Longrightarrow> IsConflict err \<Longrightarrow> attempts fn w' r \<Longrightarrow> attempts fn w r"

definition retry_lib :: "'w platform \<Rightarrow> bool" where
  "retry_lib P \<longleftrightarrow>
     (\<forall>fn w. attempts fn w (run_state (lib_RetryLease P fn) w))
   \<and> (\<forall>fn w. attempts fn w (run_state (lib_RetryTarget P fn) w))
   \<and> (\<forall>fn w. attempts fn w (run_state (lib_RetryAction P fn) w))"

lemma attempts_emits:
  assumes "attempts fn w r" and "emits Q fn"
  shows "\<exists>es. w_trace (snd r) = w_trace w @ es \<and> list_all Q es"
  using assms(1)
proof induction
  case (last_attempt w)
  then show ?case using assms(2) by (simp add: emits_def)
next
  case (again w err w' r)
  obtain es where "w_trace w' = w_trace w @ es" "list_all Q es"
    by (rule emitsD [OF assms(2) again.hyps(1)])
  with again.IH show ?case by auto
qed

lemma attempts_Inr:
  assumes "attempts fn w r" and "run_state fn w = (Inr x, w')"
  shows "r = (Inr x, w')"
  using assms(1)
proof cases
  case last_attempt
  then show ?thesis using assms(2) by simp
next
  case (again err w'')
  then show ?thesis using assms(2) by simp
qed

lemma RetryLease_Inr:
  assumes "retry_lib P" and "run_state fn w = (Inr x, w')"
  shows "run_state (lib_RetryLease P fn) w = (Inr x, w')"
proof -
  have "attempts fn w (run_state (lib_RetryLease P fn) w)"
    using assms(1) unfolding retry_lib_def by simp
  from attempts_Inr [OF this assms(2)] show ?thesis .
qed

lemma emits_RetryLease:
  assumes "retry_lib P" "emits Q fn"
  shows "emits Q (lib_RetryLease P fn)"
  using assms attempts_emits unfolding retry_lib_def emits_def by metis

lemma emits_RetryTarget:
  assumes "retry_lib P" "emits Q fn"
  shows "emits Q (lib_RetryTarget P fn)"
  using assms attempts_emits unfolding retry_lib_def emits_def by metis

lemma emits_RetryAction:
  assumes "retry_lib P" "emits Q fn"
  shows "emits Q (lib_RetryAction P fn)"
  using assms attempts_emits unfolding retry_lib_def emits_def by metis

section \<open>A concrete platform\<close>

text \<open>
  A library with the documented behaviour, and a quiet platform over it: every read finds the demo
  objects, every write is accepted, the clock stands still. Witnesses run programs on it.
\<close>

definition demo_lib :: k8slib where
  "demo_lib = \<lparr>SetStatusCondition = (\<lambda>cs c. filter (\<lambda>d. cd_Type d \<noteq> cd_Type c) cs @ [c]),
     IsStatusConditionTrue = (\<lambda>cs t. case find_cond cs t of Some c \<Rightarrow> cd_Status c = ConditionTrue | None \<Rightarrow> False),
     ContainsFinalizer = (\<lambda>fs f. f \<in> set fs), AddFinalizer = (\<lambda>fs f. if f \<in> set fs then fs else fs @ [f]),
     RemoveFinalizer = (\<lambda>fs f. removeAll f fs),
     SetControllerReference = (\<lambda>l m. Inr m),
     LabelSelectorAsSelector = (\<lambda>s. Inr \<lparr>sel_Matches = (\<lambda>m. True), sel_Empty = False\<rparr>)\<rparr>"

lemma demo_lib_laws: "conditions_lib demo_lib" "finalizers_lib demo_lib"
proof -
  have find_other: "t \<noteq> cd_Type c \<Longrightarrow>
      find (\<lambda>d. cd_Type d = t) (filter (\<lambda>d. cd_Type d \<noteq> cd_Type c) cs) = find (\<lambda>d. cd_Type d = t) cs" for t c cs
    by (induction cs) auto
  have find_gone: "find (\<lambda>d. cd_Type d = cd_Type c) (filter (\<lambda>d. cd_Type d \<noteq> cd_Type c) cs) = None" for c cs
    by (simp add: find_None_iff)
  have app: "find p (xs @ [c]) = (case find p xs of Some y \<Rightarrow> Some y | None \<Rightarrow> if p c then Some c else None)"
    for p xs and c :: Condition
    by (induction xs) simp_all
  show "conditions_lib demo_lib"
    unfolding conditions_lib_def demo_lib_def find_cond_def
    by (auto simp: app find_other find_gone same_but_time_def split: option.split)
  show "finalizers_lib demo_lib" by (auto simp: finalizers_lib_def demo_lib_def)
qed

definition demo_hub :: "unit hub_api" where
  "demo_hub = \<lparr>api_Now = (\<lambda>w. (50, w)), api_GetLease = (\<lambda>n w. (Inr demo_lease, w)),
     api_CreateLease = (\<lambda>l w. (Inr l, w)), api_UpdateLease = (\<lambda>l w. (Inr l, w)),
     api_StatusUpdateLease = (\<lambda>l w. (Inr l, w)), api_PatchLease = (\<lambda>l w. (Inr l, w)), api_DeleteLease = (\<lambda>l w. (None, w)),
     api_ListLeases = (\<lambda>f w. (Inr [], w)), api_GetPolicy = (\<lambda>n w. (Inl (ApiError NotFound ''gone''), w)),
     api_GetTarget = (\<lambda>n w. (Inr zero_target, w)), api_ListTargets = (\<lambda>w. (Inr [], w)),
     api_UpdateTarget = (\<lambda>t w. (Inr t, w)), api_StatusUpdateTarget = (\<lambda>t w. (Inr t, w)),
     api_GetSecret = (\<lambda>ns n w. (Inl (ApiError NotFound ''gone''), w))\<rparr>"

definition demo_cluster :: "unit cluster_api" where
  "demo_cluster = \<lparr>api_GetNamespace = (\<lambda>c n w. (Inr \<lparr>ns_Meta = zero_meta\<lparr>om_Name := n\<rparr>\<rparr>, w)),
     api_CreateNamespace = (\<lambda>c n w. (Inr n, w)), api_PatchNamespace = (\<lambda>c n w. (Inr n, w)),
     api_DeleteNamespace = (\<lambda>c n w. (None, w)),
     api_GetQuota = (\<lambda>c ns n w. (Inl (ApiError NotFound ''gone''), w)),
     api_CreateQuota = (\<lambda>c q w. (None, w)), api_PatchQuota = (\<lambda>c q w. (None, w)),
     api_GetLimits = (\<lambda>c ns n w. (Inl (ApiError NotFound ''gone''), w)),
     api_CreateLimits = (\<lambda>c q w. (None, w)), api_PatchLimits = (\<lambda>c q w. (None, w)),
     api_GetNetPol = (\<lambda>c ns n w. (Inl (ApiError NotFound ''gone''), w)),
     api_CreateNetPol = (\<lambda>c q w. (None, w)), api_PatchNetPol = (\<lambda>c q w. (None, w))\<rparr>"

definition demo_platform :: "unit platform" where
  "demo_platform = \<lparr>pf_lib = demo_lib, pf_hub = demo_hub, pf_cluster = demo_cluster,
     lib_ParseKubeconfig = (\<lambda>d. Inr \<lparr>rc_Host = d, rc_Timeout = 0, rc_QPS = 0, rc_Burst = 0\<rparr>),
     lib_NewClient = (\<lambda>c w. (Inr (RemoteClient 0), w)), lib_ServerVersion = (\<lambda>c w. (Inr ''v1'', w)),
     lib_Sha256 = (\<lambda>s. replicate 32 0), lib_Rank = (\<lambda>i n. 0),
     lib_RetryLease = id, lib_RetryTarget = id, lib_RetryAction = id\<rparr>"

definition demo_world :: "unit world" where
  "demo_world = \<lparr>w_env = (), w_trace = [],
     w_outages = Some \<lparr>ot_until = fmempty, ot_minBack = 15 * Second, ot_maxBack = 2 * Minute\<rparr>,
     w_provider = Some \<lparr>pr_maxCache = 32, pr_cache = fmempty\<rparr>\<rparr>"

lemma demo_platform_simps [simp]:
  "pf_lib demo_platform = demo_lib" "pf_hub demo_platform = demo_hub"
  "pf_cluster demo_platform = demo_cluster" "lib_RetryLease demo_platform fn = fn"
  "lib_RetryTarget demo_platform fn' = fn'" "lib_RetryAction demo_platform fn'' = fn''"
  by (simp_all add: demo_platform_def)

lemma demo_hub_simps [simp]:
  "api_Now demo_hub w = (50, w)" "api_GetLease demo_hub n w = (Inr demo_lease, w)"
  "api_CreateLease demo_hub l w = (Inr l, w)" "api_UpdateLease demo_hub l w = (Inr l, w)"
  "api_StatusUpdateLease demo_hub l w = (Inr l, w)" "api_PatchLease demo_hub l w = (Inr l, w)" "api_DeleteLease demo_hub l w = (None, w)"
  "api_ListLeases demo_hub f w = (Inr [], w)"
  "api_GetPolicy demo_hub n w = (Inl (ApiError NotFound ''gone''), w)"
  "api_GetTarget demo_hub n w = (Inr zero_target, w)" "api_ListTargets demo_hub w = (Inr [], w)"
  "api_UpdateTarget demo_hub t w = (Inr t, w)" "api_StatusUpdateTarget demo_hub t w = (Inr t, w)"
  "api_GetSecret demo_hub ns n w = (Inl (ApiError NotFound ''gone''), w)"
  by (simp_all add: demo_hub_def)

lemma demo_cluster_simps [simp]:
  "api_GetNamespace demo_cluster c n w = (Inr \<lparr>ns_Meta = zero_meta\<lparr>om_Name := n\<rparr>\<rparr>, w)"
  "api_CreateNamespace demo_cluster c ns w = (Inr ns, w)"
  "api_PatchNamespace demo_cluster c ns w = (Inr ns, w)"
  "api_DeleteNamespace demo_cluster c ns w = (None, w)"
  by (simp_all add: demo_cluster_def)

lemma demo_platform_retry: "retry_lib demo_platform"
  by (auto simp: retry_lib_def demo_platform_def intro: attempts.last_attempt)

text \<open>The same for an arbitrary environment: no object exists and every write is accepted. Others override its fields.\<close>

definition empty_hub :: "'w hub_api" where
  "empty_hub = \<lparr>api_Now = (\<lambda>w. (50, w)), api_GetLease = (\<lambda>n w. (Inl (ApiError NotFound ''gone''), w)),
     api_CreateLease = (\<lambda>l w. (Inr l, w)), api_UpdateLease = (\<lambda>l w. (Inr l, w)),
     api_StatusUpdateLease = (\<lambda>l w. (Inr l, w)), api_PatchLease = (\<lambda>l w. (Inr l, w)), api_DeleteLease = (\<lambda>l w. (None, w)),
     api_ListLeases = (\<lambda>f w. (Inr [], w)), api_GetPolicy = (\<lambda>n w. (Inl (ApiError NotFound ''gone''), w)),
     api_GetTarget = (\<lambda>n w. (Inr zero_target, w)), api_ListTargets = (\<lambda>w. (Inr [], w)),
     api_UpdateTarget = (\<lambda>t w. (Inr t, w)), api_StatusUpdateTarget = (\<lambda>t w. (Inr t, w)),
     api_GetSecret = (\<lambda>ns n w. (Inl (ApiError NotFound ''gone''), w))\<rparr>"

definition empty_cluster :: "'w cluster_api" where
  "empty_cluster = \<lparr>api_GetNamespace = (\<lambda>c n w. (Inl (ApiError NotFound ''gone''), w)),
     api_CreateNamespace = (\<lambda>c n w. (Inr n, w)), api_PatchNamespace = (\<lambda>c n w. (Inr n, w)),
     api_DeleteNamespace = (\<lambda>c n w. (None, w)), api_GetQuota = (\<lambda>c ns n w. (Inl (ApiError NotFound ''gone''), w)),
     api_CreateQuota = (\<lambda>c q w. (None, w)), api_PatchQuota = (\<lambda>c q w. (None, w)),
     api_GetLimits = (\<lambda>c ns n w. (Inl (ApiError NotFound ''gone''), w)),
     api_CreateLimits = (\<lambda>c q w. (None, w)), api_PatchLimits = (\<lambda>c q w. (None, w)),
     api_GetNetPol = (\<lambda>c ns n w. (Inl (ApiError NotFound ''gone''), w)),
     api_CreateNetPol = (\<lambda>c q w. (None, w)), api_PatchNetPol = (\<lambda>c q w. (None, w))\<rparr>"

definition platform_with :: "'w hub_api \<Rightarrow> 'w platform" where
  "platform_with h = \<lparr>pf_lib = demo_lib, pf_hub = h, pf_cluster = empty_cluster,
     lib_ParseKubeconfig = (\<lambda>d. Inr \<lparr>rc_Host = d, rc_Timeout = 0, rc_QPS = 0, rc_Burst = 0\<rparr>),
     lib_NewClient = (\<lambda>c w. (Inr (RemoteClient 0), w)), lib_ServerVersion = (\<lambda>c w. (Inr ''v1'', w)),
     lib_Sha256 = (\<lambda>s. replicate 32 0), lib_Rank = (\<lambda>i n. 0),
     lib_RetryLease = id, lib_RetryTarget = id, lib_RetryAction = id\<rparr>"

lemma platform_with_simps [simp]:
  "pf_hub (platform_with h) = h" "pf_lib (platform_with h) = demo_lib"
  "lib_RetryTarget (platform_with h) fn = fn"
  by (simp_all add: platform_with_def)

lemma platform_with_retry: "retry_lib (platform_with h)"
  by (auto simp: retry_lib_def platform_with_def intro: attempts.last_attempt)

definition world_of :: "'w \<Rightarrow> 'w world" where
  "world_of e = \<lparr>w_env = e, w_trace = [], w_outages = None, w_provider = None\<rparr>"

lemma world_of_simps [simp]: "w_env (world_of e) = e" "w_trace (world_of e) = []"
  by (simp_all add: world_of_def)

text \<open>What a retried program returns, its last attempt returned.\<close>

lemma attempts_last: "attempts fn w r \<Longrightarrow> \<exists>w0. run_state fn w0 = r"
  by (induction rule: attempts.induct) auto

lemma RetryTarget_last:
  assumes "retry_lib P" "run_state (lib_RetryTarget P fn) w = r"
  obtains w0 where "run_state fn w0 = r"
proof -
  have "attempts fn w (run_state (lib_RetryTarget P fn) w)" using assms(1) unfolding retry_lib_def by simp
  then show thesis using attempts_last assms(2) that by metis
qed

end
