(* ===== verification/Remote.thy ===== *)
theory Remote
  imports Platform
begin

text \<open>
  \<open>src/internal/remote\<close>: the outage tracker, the bounded cache of remote clients, and the
  resolution of a cluster name to a session. The tracker's contract is the locale
  \<open>outage_window\<close>; the operations on the cache share the locale \<open>cache_op\<close>.
\<close>

section \<open>Outage tracker\<close>

definition NewOutageTracker :: "duration \<Rightarrow> duration \<Rightarrow> OutageTracker" where
  "NewOutageTracker minBack maxBack =
     (let minBack = (if minBack \<le> 0 then 15 * Second else minBack);
          maxBack = (if maxBack < minBack then 2 * Minute else maxBack)
      in \<lparr>ot_until = fmempty, ot_minBack = minBack, ot_maxBack = maxBack\<rparr>)"

definition MarkUnavailable ::
  "OutageTracker option \<Rightarrow> string \<Rightarrow> time \<Rightarrow> duration \<times> OutageTracker option" where
  "MarkUnavailable tracker targetName now =
     (case tracker of
        None \<Rightarrow> (0, tracker)
      | Some t \<Rightarrow>
          if targetName = [] \<or> targetName = ''local'' then (0, tracker)
          else
            let back =
                  (case fmlookup (ot_until t) targetName of
                     None \<Rightarrow> ot_minBack t
                   | Some prev \<Rightarrow>
                       if prev > now then
                         let back = wrap64 (time_sub prev now * 2);
                             back = (if back < ot_minBack t then ot_minBack t else back);
                             back = (if back > ot_maxBack t then ot_maxBack t else back)
                         in back
                       else ot_minBack t)
            in (back, Some (t\<lparr>ot_until := fmupd targetName (now + back) (ot_until t)\<rparr>)))"

definition RequeueAfter :: "OutageTracker option \<Rightarrow> string \<Rightarrow> time \<Rightarrow> duration" where
  "RequeueAfter tracker targetName now =
     (case tracker of
        None \<Rightarrow> 0
      | Some t \<Rightarrow>
          if targetName = [] then 0
          else case fmlookup (ot_until t) targetName of
              None \<Rightarrow> 0
            | Some until \<Rightarrow> if \<not> until > now then 0 else time_sub until now)"

definition Clear :: "OutageTracker option \<Rightarrow> string \<Rightarrow> OutageTracker option" where
  "Clear tracker targetName =
     (case tracker of
        None \<Rightarrow> None
      | Some t \<Rightarrow> Some (t\<lparr>ot_until := fmdrop targetName (ot_until t)\<rparr>))"

section \<open>Client cache\<close>

definition NewProvider :: "int \<Rightarrow> provider" where
  "NewProvider maxCacheEntries =
     \<lparr>pr_maxCache = (if maxCacheEntries \<le> 0 then 32 else maxCacheEntries), pr_cache = fmempty\<rparr>"

definition Invalidate :: "provider \<Rightarrow> string \<Rightarrow> provider" where
  "Invalidate p targetName = p\<lparr>pr_cache := fmdrop targetName (pr_cache p)\<rparr>"

text \<open>
  The inner loop of \<open>evictIfNeededLocked\<close> over one iteration order of the map, and the order itself:
  the keys ranked arbitrarily.
\<close>

fun oldest_entry :: "bool \<Rightarrow> string \<Rightarrow> time \<Rightarrow> (string \<times> cacheEntry) list \<Rightarrow> string" where
  "oldest_entry first oldestName oldestTime [] = oldestName"
| "oldest_entry first oldestName oldestTime ((name, ent) # rest) =
     (if first \<or> ce_lastUsed ent < oldestTime then oldest_entry False name (ce_lastUsed ent) rest
      else oldest_entry first oldestName oldestTime rest)"

definition iteration :: "(string \<Rightarrow> nat) \<Rightarrow> (string, 'v) fmap \<Rightarrow> (string \<times> 'v) list" where
  "iteration rank m = sort_key (\<lambda>(k, v). rank k) (sorted_list_of_fmap m)"

lemma set_iteration: "set (iteration rank m) = set (sorted_list_of_fmap m)"
  by (simp add: iteration_def)

lemma fst_set_sorted_list_of_fmap: "fst ` set (sorted_list_of_fmap m) = fset (fmdom m)"
  by (simp add: sorted_list_of_fmap_def image_image)

lemma oldest_entry_in:
  "oldest_entry first n t xs = n \<or> oldest_entry first n t xs \<in> fst ` set xs"
  by (induction first n t xs rule: oldest_entry.induct) auto

function evict :: "(nat \<Rightarrow> string \<Rightarrow> nat) \<Rightarrow> int \<Rightarrow> (string, cacheEntry) fmap \<Rightarrow> (string, cacheEntry) fmap" where
  "evict rank maxCache cache =
     (if int (maplen cache) \<ge> maxCache then
        let oldestName = oldest_entry True [] zero_time (iteration (rank (maplen cache)) cache)
        in if oldestName = [] then cache
           else evict rank maxCache (fmdrop oldestName cache)
      else cache)"
  by auto

lemma oldest_entry_dom:
  assumes "oldest_entry True [] t (iteration rank cache) \<noteq> []"
  shows "oldest_entry True [] t (iteration rank cache) |\<in>| fmdom cache"
  using assms oldest_entry_in [of True "[]" t "iteration rank cache"]
  unfolding set_iteration fst_set_sorted_list_of_fmap by auto

termination evict
  by (relation "measure (\<lambda>(rank, mx, cache). maplen cache)")
     (auto simp: maplen_def fcard_fminus_fsingleton less_Suc_eq_le
        intro: fcard_fminus1_less dest: oldest_entry_dom)

declare evict.simps [simp del]

definition evictIfNeededLocked :: "'w platform \<Rightarrow> provider \<Rightarrow> provider" where
  "evictIfNeededLocked P p = p\<lparr>pr_cache := evict (lib_Rank P) (pr_maxCache p) (pr_cache p)\<rparr>"

text \<open>Lines 158--166: evict, then store the new entry.\<close>

definition store_entry :: "'w platform \<Rightarrow> string \<Rightarrow> cacheEntry \<Rightarrow> provider \<Rightarrow> provider" where
  "store_entry P name ent p =
     (let p = evictIfNeededLocked P p in p\<lparr>pr_cache := fmupd name ent (pr_cache p)\<rparr>)"

definition touch_entry :: "string \<Rightarrow> time \<Rightarrow> provider \<Rightarrow> provider" where
  "touch_entry name now p =
     (case fmlookup (pr_cache p) name of
        None \<Rightarrow> p
      | Some ent \<Rightarrow> p\<lparr>pr_cache := fmupd name (ent\<lparr>ce_lastUsed := now\<rparr>) (pr_cache p)\<rparr>)"

section \<open>Building clients\<close>

definition SecretKey :: "SecretKeySelector \<Rightarrow> string" where
  "SecretKey ref = (if sk_Key ref = [] then ''kubeconfig'' else sk_Key ref)"

definition ApplyClientLimits :: "RestConfig \<Rightarrow> ClusterTarget option \<Rightarrow> RestConfig" where
  "ApplyClientLimits cfg target =
     (let qps = (case target of
                   None \<Rightarrow> 20
                 | Some t \<Rightarrow> (case ts_ClientQPS (ct_Spec t) of None \<Rightarrow> 20 | Some q \<Rightarrow> if q > 0 then q else 20));
          burst = (case target of
                   None \<Rightarrow> 40
                 | Some t \<Rightarrow> (case ts_ClientBurst (ct_Spec t) of None \<Rightarrow> 40 | Some b \<Rightarrow> if b > 0 then b else 40));
          qps = (if qps > 50 then 50 else qps);
          burst = (if burst > 100 then 100 else burst)
      in cfg\<lparr>rc_QPS := qps, rc_Burst := burst\<rparr>)"

definition RESTConfigFromKubeconfig :: "'w platform \<Rightarrow> string \<Rightarrow> go_error + RestConfig" where
  "RESTConfigFromKubeconfig P data =
     (case lib_ParseKubeconfig P data of
        Inl err \<Rightarrow> Inl err
      | Inr cfg \<Rightarrow>
          let cfg = (if rc_Timeout cfg = 0 then cfg\<lparr>rc_Timeout := 30 * Second\<rparr> else cfg)
          in Inr (ApplyClientLimits cfg None))"

definition hex_bytes :: "nat list \<Rightarrow> string" where
  "hex_bytes bs = concat (map (\<lambda>b. [hex_digit (b div 16 mod 16), hex_digit (b mod 16)]) bs)"

definition fingerprint :: "'w platform \<Rightarrow> ClusterTarget \<Rightarrow> Secret \<Rightarrow> string \<Rightarrow> string" where
  "fingerprint P target secret data =
     ct_Name target @ ''|gen='' @ itoa (om_Generation (ct_Meta target))
     @ ''|enabled='' @ bool_text (IsEnabled (ct_Spec target))
     @ ''|secretRV='' @ om_ResourceVersion (se_Meta secret)
     @ ''|sha='' @ hex_bytes (take 8 (lib_Sha256 P data))"

definition loadKubeconfig :: "'w platform \<Rightarrow> ClusterTarget \<Rightarrow> ('w, go_error + (Secret \<times> string)) prog" where
  "loadKubeconfig P target =
     (let ref = ts_SecretRef (ct_Spec target)
      in if sk_Name ref = [] \<or> sk_Namespace ref = []
         then State_Monad.return (Inl (Errorf ''credentials.secretRef.name and namespace are required''))
         else
           let key = (if sk_Key ref = [] then ''kubeconfig'' else sk_Key ref);
               at = sk_Namespace ref @ ''/'' @ sk_Name ref
           in do {
             r \<leftarrow> call (api_GetSecret (pf_hub P) (sk_Namespace ref) (sk_Name ref));
             State_Monad.return (case r of
                 Inl err \<Rightarrow>
                   if IsNotFound err then Inl (Wrapf (''credential secret '' @ at @ '' not found: '') err)
                   else Inl (Wrapf (''get credential secret '' @ at @ '': '') err)
               | Inr secret \<Rightarrow>
                   if lk (se_Data secret) key = []
                   then Inl (Errorf (''credential secret '' @ at @ '' missing key '' @ quote key))
                   else Inr (secret, lk (se_Data secret) key)) })"

text \<open>Lines 135--142: a hit refreshes \<open>lastUsed\<close>.\<close>

definition cache_hit :: "'w platform \<Rightarrow> string \<Rightarrow> string \<Rightarrow> ('w, (RestConfig \<times> Client) option) prog" where
  "cache_hit P name fp = do {
     po \<leftarrow> read_provider;
     (case (case po of None \<Rightarrow> None | Some p \<Rightarrow> fmlookup (pr_cache p) name) of
        None \<Rightarrow> State_Monad.return None
      | Some ent \<Rightarrow>
          if ce_fingerprint ent = fp then do {
            now \<leftarrow> call (api_Now (pf_hub P));
            write_provider (map_option (touch_entry name now) po);
            State_Monad.return (Some (ce_cfg ent, ce_cl ent)) }
          else State_Monad.return None) }"

definition configAndClient :: "'w platform \<Rightarrow> ClusterTarget \<Rightarrow> ('w, go_error + (RestConfig \<times> Client)) prog" where
  "configAndClient P target =
     (if \<not> IsEnabled (ct_Spec target) then State_Monad.return (Inl ErrTargetDisabled)
      else do {
        r \<leftarrow> loadKubeconfig P target;
        (case r of
           Inl err \<Rightarrow> do { emit (Inc ''ClusterConnectionFailuresTotal''); State_Monad.return (Inl err) }
         | Inr (secret, data) \<Rightarrow> do {
             hit \<leftarrow> cache_hit P (ct_Name target) (fingerprint P target secret data);
             (case hit of
                Some pair \<Rightarrow> State_Monad.return (Inr pair)
              | None \<Rightarrow>
                (case RESTConfigFromKubeconfig P data of
                   Inl err \<Rightarrow> do {
                     emit (Inc ''ClusterConnectionFailuresTotal'');
                     emit (Inc ''ClusterAuthFailuresTotal'');
                     State_Monad.return
                       (Inl (Wrapf (''parse kubeconfig for target '' @ ct_Name target @ '': '') err)) }
                 | Inr cfg0 \<Rightarrow> do {
                     let cfg = ApplyClientLimits cfg0 (Some target);
                     c \<leftarrow> call (lib_NewClient P cfg);
                     (case c of
                        Inl err \<Rightarrow> do {
                          emit (Inc ''ClusterConnectionFailuresTotal'');
                          State_Monad.return
                            (Inl (Wrapf (''build remote client for target '' @ ct_Name target @ '': '') err)) }
                      | Inr cl \<Rightarrow> do {
                          po \<leftarrow> read_provider;
                          now \<leftarrow> call (api_Now (pf_hub P));
                          write_provider (map_option (store_entry P (ct_Name target)
                            \<lparr>ce_fingerprint = fingerprint P target secret data, ce_cl = cl, ce_cfg = cfg,
                             ce_lastUsed = now\<rparr>) po);
                          State_Monad.return (Inr (cfg, cl)) }) })) }) })"

definition ClientFor :: "'w platform \<Rightarrow> ClusterTarget \<Rightarrow> ('w, go_error + Client) prog" where
  "ClientFor P target = do {
     r \<leftarrow> configAndClient P target;
     State_Monad.return (map_sum id snd r) }"

definition RESTConfigFor :: "'w platform \<Rightarrow> ClusterTarget \<Rightarrow> ('w, go_error + RestConfig) prog" where
  "RESTConfigFor P target = do {
     r \<leftarrow> configAndClient P target;
     State_Monad.return (map_sum id fst r) }"

section \<open>Sessions\<close>

record TargetSession =
  ses_Name :: string
  ses_Client :: Client
  ses_Local :: bool
  ses_SetLeaseOwner :: bool

definition local_session :: TargetSession where
  "local_session = \<lparr>ses_Name = LocalClusterName, ses_Client = HubClient, ses_Local = True,
     ses_SetLeaseOwner = True\<rparr>"

definition ResolveNamedTarget :: "'w platform \<Rightarrow> string \<Rightarrow> ('w, go_error + TargetSession) prog" where
  "ResolveNamedTarget P name =
     (if name = [] \<or> name = LocalClusterName then State_Monad.return (Inr local_session)
      else do {
        r \<leftarrow> call (api_GetTarget (pf_hub P) name);
        (case r of
           Inl err \<Rightarrow> State_Monad.return (Inl (
             if IsNotFound err
             then TargetError ReasonTargetNotFound (''ClusterTarget '' @ quote name @ '' not found'') (Some err)
             else TargetError ReasonTargetClusterUnavailable
                    (''get ClusterTarget '' @ quote name @ '': '' @ err_text err) (Some err)))
         | Inr target \<Rightarrow>
             if \<not> ptr_is_zero (om_DeletionTimestamp (ct_Meta target))
             then State_Monad.return (Inl (TargetError ReasonTargetClusterUnavailable
                    (''ClusterTarget '' @ quote name @ '' is deleting'') None))
             else if \<not> IsEnabled (ct_Spec target)
             then State_Monad.return (Inl (TargetError ReasonTargetDisabled
                    (''ClusterTarget '' @ quote name @ '' is disabled'') (Some ErrTargetDisabled)))
             else do {
               po \<leftarrow> read_provider;
               (case po of
                  None \<Rightarrow> State_Monad.return (Inl (TargetError ReasonTargetClusterUnavailable
                    ''remote cluster provider is not configured'' None))
                | Some _ \<Rightarrow> do {
                    c \<leftarrow> ClientFor P target;
                    State_Monad.return (case c of
                        Inl err \<Rightarrow> Inl (TargetError
                          (if IsErrTargetDisabled err then ReasonTargetDisabled
                           else ReasonTargetClusterUnavailable) (err_text err) (Some err))
                      | Inr cl \<Rightarrow> Inr \<lparr>ses_Name = name, ses_Client = cl, ses_Local = False,
                                       ses_SetLeaseOwner = False\<rparr>) }) }) })"

definition ResolveTarget :: "'w platform \<Rightarrow> EnvironmentLease \<Rightarrow> ('w, go_error + TargetSession) prog" where
  "ResolveTarget P l = ResolveNamedTarget P (ref_name (sp_ClusterRef (el_Spec l)))"

section \<open>The outage window contract\<close>

text \<open>
  What the lease controller relies on: a marked target makes every caller wait until one common
  instant, other targets are not affected, and clearing ends the wait.
\<close>

locale outage_window =
  fixes mark :: "'t \<Rightarrow> string \<Rightarrow> time \<Rightarrow> duration \<times> 't"
    and wait :: "'t \<Rightarrow> string \<Rightarrow> time \<Rightarrow> duration"
    and clear :: "'t \<Rightarrow> string \<Rightarrow> 't"
    and tracked :: "'t \<Rightarrow> string \<Rightarrow> bool"
  assumes wait_mark: "tracked t n \<Longrightarrow> wait (snd (mark t n now)) n now' =
      (if now' < now + fst (mark t n now) then sat64 (now + fst (mark t n now) - now') else 0)"
    and wait_mark_other: "n \<noteq> m \<Longrightarrow> wait (snd (mark t n now)) m now' = wait t m now'"
    and wait_clear: "wait (clear t n) n now = 0"
    and wait_clear_other: "n \<noteq> m \<Longrightarrow> wait (clear t n) m now = wait t m now"
begin

text \<open>
  All callers that observe the window wake up at the same instant, the end of the window, as long
  as the remaining time fits a duration.
\<close>

lemma common_wakeup:
  assumes "tracked t n" "now' < now + fst (mark t n now)" "is_int64 (now + fst (mark t n now) - now')"
  shows "now' + wait (snd (mark t n now)) n now' = now + fst (mark t n now)"
  using assms by (simp add: wait_mark)

lemma window_open_iff:
  assumes "tracked t n"
  shows "0 < wait (snd (mark t n now)) n now' \<longleftrightarrow> now' < now + fst (mark t n now)"
  using assms by (simp add: wait_mark)

lemma clear_after_mark: "wait (clear (snd (mark t n now)) n) n now' = 0"
  by (rule wait_clear)

end

interpretation outages: outage_window MarkUnavailable RequeueAfter Clear
  "\<lambda>t n. t \<noteq> None \<and> n \<noteq> [] \<and> n \<noteq> ''local''"
proof (unfold_locales, goal_cases)
  case (1 t n now now')
  then show ?case by (auto simp: MarkUnavailable_def RequeueAfter_def time_sub_def Let_def)
next
  case (2 n m t now now')
  then show ?case by (auto simp: MarkUnavailable_def RequeueAfter_def Let_def split: option.split)
next
  case (3 t n now)
  then show ?case by (auto simp: Clear_def RequeueAfter_def split: option.split)
next
  case (4 n m t now)
  then show ?case by (auto simp: Clear_def RequeueAfter_def split: option.split)
qed

lemma MarkUnavailable_keeps_bounds:
  assumes "snd (MarkUnavailable (Some t) n now) = Some t'"
  shows "ot_minBack t' = ot_minBack t" "ot_maxBack t' = ot_maxBack t"
  using assms by (auto simp: MarkUnavailable_def Let_def split: if_splits)

section \<open>The cache contract\<close>

definition cache_ok :: "provider \<Rightarrow> bool" where
  "cache_ok p \<longleftrightarrow> 0 < pr_maxCache p \<and> int (maplen (pr_cache p)) \<le> pr_maxCache p \<and> [] |\<notin>| fmdom (pr_cache p)"

locale cache_op =
  fixes step :: "provider \<Rightarrow> provider"
  assumes keeps_ok: "cache_ok p \<Longrightarrow> cache_ok (step p)"
    and keeps_max: "pr_maxCache (step p) = pr_maxCache p"
begin

lemma iterated: "cache_ok p \<Longrightarrow> cache_ok ((step ^^ n) p) \<and> pr_maxCache ((step ^^ n) p) = pr_maxCache p"
  by (induction n) (auto simp: keeps_ok keeps_max)

lemma bounded: "cache_ok p \<Longrightarrow> int (maplen (pr_cache (step p))) \<le> pr_maxCache p"
  using keeps_ok keeps_max cache_ok_def by metis

end

lemma oldest_entry_nonempty:
  assumes "xs \<noteq> []" "\<forall>(k, v)\<in>set xs. k \<noteq> []"
  shows "oldest_entry True n t xs \<noteq> []"
proof -
  have later: "n \<noteq> [] \<Longrightarrow> \<forall>(k, v)\<in>set ys. k \<noteq> [] \<Longrightarrow> oldest_entry False n t ys \<noteq> []" for n t ys
    by (induction ys arbitrary: n t) (auto split: if_splits)
  from assms obtain k v ys where "xs = (k, v) # ys" by (cases xs) auto
  with assms later [of k ys] show ?thesis by auto
qed

lemma evict_dom: "fmdom (evict rank mx cache) |\<subseteq>| fmdom cache"
proof (induction rank mx cache rule: evict.induct)
  case (1 rank mx cache)
  let ?n = "oldest_entry True [] zero_time (iteration (rank (maplen cache)) cache)"
  show ?case
  proof (cases "int (maplen cache) \<ge> mx \<and> ?n \<noteq> []")
    case True
    with 1 have "fmdom (evict rank mx (fmdrop ?n cache)) |\<subseteq>| fmdom (fmdrop ?n cache)" by simp
    with True show ?thesis by (subst evict.simps) (auto simp: Let_def)
  next
    case False
    then show ?thesis by (subst evict.simps) (auto simp: Let_def)
  qed
qed

lemma evict_bounded:
  assumes "0 < mx" "[] |\<notin>| fmdom cache"
  shows "int (maplen (evict rank mx cache)) < mx"
  using assms
proof (induction rank mx cache rule: evict.induct)
  case (1 rank mx cache)
  let ?n = "oldest_entry True [] zero_time (iteration (rank (maplen cache)) cache)"
  show ?case
  proof (cases "int (maplen cache) \<ge> mx")
    case True
    with 1(2) have "cache \<noteq> fmempty" by auto
    then have "set (sorted_list_of_fmap cache) \<noteq> {}"
      using fst_set_sorted_list_of_fmap [of cache] maplen_0_iff [of cache]
      by (metis fset_of_list.rep_eq image_is_empty maplen_def fcard_0_eq bot_fset.rep_eq fset_inject)
    then have ne: "iteration (rank (maplen cache)) cache \<noteq> []"
      using set_iteration [of "rank (maplen cache)" cache] by auto
    have keys: "\<forall>(k, v)\<in>set (iteration (rank (maplen cache)) cache). k \<noteq> []"
      using 1(3) fst_set_sorted_list_of_fmap [of cache] unfolding set_iteration by force
    have "?n \<noteq> []" using oldest_entry_nonempty [OF ne keys] .
    then show ?thesis using 1 True by (subst evict.simps) (simp add: Let_def)
  next
    case False
    then show ?thesis by (subst evict.simps) simp
  qed
qed

interpretation invalidate: cache_op "\<lambda>p. Invalidate p n" for n
proof (unfold_locales, goal_cases)
  case (1 p)
  have "maplen (fmdrop n (pr_cache p)) \<le> maplen (pr_cache p)"
    unfolding maplen_def fmdom_drop by (rule fcard_mono) auto
  with 1 show ?case by (auto simp: cache_ok_def Invalidate_def)
qed (simp add: Invalidate_def)

interpretation touch: cache_op "touch_entry n now" for n now
proof (unfold_locales, goal_cases)
  case (1 p)
  then show ?case
    by (auto simp: cache_ok_def touch_entry_def maplen_upd fmlookup_dom_iff split: option.split)
qed (simp add: touch_entry_def split: option.split)

interpretation store: cache_op "if n = [] then id else store_entry P n ent" for P n ent
proof (unfold_locales, goal_cases)
  case (1 p)
  let ?c = "evict (lib_Rank P) (pr_maxCache p) (pr_cache p)"
  from 1 have "int (maplen ?c) < pr_maxCache p" "[] |\<notin>| fmdom ?c"
    using evict_bounded evict_dom unfolding cache_ok_def by blast+
  with 1 show ?case
    by (auto simp: cache_ok_def store_entry_def evictIfNeededLocked_def maplen_upd)
qed (simp add: store_entry_def evictIfNeededLocked_def)

section \<open>Traces\<close>

definition metric_only :: "effect \<Rightarrow> bool" where
  "metric_only e = (case e of Inc _ \<Rightarrow> True | _ \<Rightarrow> False)"

lemma emits_loadKubeconfig [emits_rules]: "emits Q (loadKubeconfig P target)"
  unfolding loadKubeconfig_def Let_def by (intro emits_rules)

lemma emits_cache_hit [emits_rules]: "emits Q (cache_hit P n fp)"
  unfolding cache_hit_def by (intro emits_rules)

lemma emits_configAndClient [emits_rules]:
  assumes "\<And>m. Q (Inc m)"
  shows "emits Q (configAndClient P target)"
  unfolding configAndClient_def Let_def by (intro emits_rules assms)

lemma emits_ClientFor [emits_rules]: "(\<And>m. Q (Inc m)) \<Longrightarrow> emits Q (ClientFor P target)"
  unfolding ClientFor_def by (intro emits_rules)

lemma emits_RESTConfigFor [emits_rules]: "(\<And>m. Q (Inc m)) \<Longrightarrow> emits Q (RESTConfigFor P target)"
  unfolding RESTConfigFor_def by (intro emits_rules)

lemma emits_ResolveNamedTarget [emits_rules]:
  "(\<And>m. Q (Inc m)) \<Longrightarrow> emits Q (ResolveNamedTarget P name)"
  unfolding ResolveNamedTarget_def by (intro emits_rules)

text \<open>The life of a client cache: every operation the provider performs on it.\<close>

inductive provider_step :: "'w platform \<Rightarrow> provider \<Rightarrow> provider \<Rightarrow> bool" for P where
  step_invalidate: "provider_step P p (Invalidate p n)"
| step_hit: "provider_step P p (touch_entry n now p)"
| step_store: "n \<noteq> [] \<Longrightarrow> provider_step P p (store_entry P n ent p)"

inductive_cases provider_stepE: "provider_step P p q"

section \<open>Properties\<close>

text \<open>
  The shared backoff is bounded and common: for a tracker whose window is well formed, marking a
  target returns a delay between the minimum and the maximum, whatever was recorded before (even
  if doubling overflows); at every later instant inside the window every caller is told to wait
  exactly until its end, and from then on not at all.
\<close>

theorem mark_unavailable_window:
  assumes "0 < ot_minBack t" and "ot_minBack t \<le> ot_maxBack t" and "is_int64 (ot_maxBack t)"
    and "n \<noteq> []" and "n \<noteq> ''local''"
  shows "let (back, t') = MarkUnavailable (Some t) n now
         in ot_minBack t \<le> back \<and> back \<le> ot_maxBack t
          \<and> (if now \<le> now' \<and> now' < now + back then now' + RequeueAfter t' n now' = now + back
             else if now + back \<le> now' then RequeueAfter t' n now' = 0 else True)"
proof -
  obtain d t' where m: "MarkUnavailable (Some t) n now = (d, t')" by fastforce
  have b: "ot_minBack t \<le> d \<and> d \<le> ot_maxBack t"
    using m assms by (auto simp: MarkUnavailable_def Let_def split: option.splits if_splits)
  have wait: "RequeueAfter t' n now' = (if now' < now + d then sat64 (now + d - now') else 0)"
    using outages.wait_mark [of "Some t" n now now'] assms(4,5) m by simp
  have "is_int64 (now + d - now')" if "now \<le> now'" "now' < now + d"
    using that b assms(1,3) by (simp add: int64_defs)
  with b wait show ?thesis by (simp add: m)
qed

theorem mark_unavailable_window_witness:
  "let (back, t') = MarkUnavailable (Some (NewOutageTracker 0 0)) ''edge'' 100
   in ot_minBack (NewOutageTracker 0 0) \<le> back \<and> back \<le> ot_maxBack (NewOutageTracker 0 0)
    \<and> 101 + RequeueAfter t' ''edge'' 101 = 100 + back"
  using mark_unavailable_window [of "NewOutageTracker 0 0" "''edge''" 100 101]
  by (simp add: NewOutageTracker_def dur_units int64_defs MarkUnavailable_def Let_def)

text \<open>
  \<open>NewOutageTracker\<close> does not always give a well-formed window: the window is empty exactly when
  the minimum is above two minutes and the given maximum is below the minimum. For the arguments
  five minutes and zero, the maximum is two minutes.
\<close>

theorem new_outage_tracker_window:
  "(let t = NewOutageTracker minBack maxBack
    in 0 < ot_minBack t
     \<and> (ot_maxBack t < ot_minBack t \<longleftrightarrow> 2 * Minute < minBack \<and> maxBack < minBack))
   \<and> ot_maxBack (NewOutageTracker (5 * Minute) 0) = 2 * Minute
   \<and> ot_minBack (NewOutageTracker (5 * Minute) 0) = 5 * Minute"
  by (simp add: NewOutageTracker_def Let_def dur_units)

text \<open>
  C30. The cache of remote clients stays bounded: from any provider that \<open>NewProvider\<close> can make, every
  sequence of invalidations, hits and insertions for named targets keeps at most \<open>maxCache\<close> entries, for
  every iteration order of the map.
\<close>

theorem provider_cache_bounded:
  assumes "(provider_step P)\<^sup>*\<^sup>* (NewProvider maxCacheEntries) p"
  shows "int (maplen (pr_cache p)) \<le> (if maxCacheEntries \<le> 0 then 32 else maxCacheEntries)"
proof -
  have "cache_ok p \<and> pr_maxCache p = pr_maxCache (NewProvider maxCacheEntries)"
    using assms
  proof (induction rule: rtranclp_induct)
    case base
    then show ?case by (simp add: cache_ok_def NewProvider_def)
  next
    case (step p q)
    from step.hyps(2) show ?case
    proof cases
      case (step_invalidate n)
      then show ?thesis using step.IH invalidate.keeps_ok invalidate.keeps_max by simp
    next
      case (step_hit n now)
      then show ?thesis using step.IH touch.keeps_ok touch.keeps_max by simp
    next
      case (step_store n ent)
      then show ?thesis
        using step.IH store.keeps_ok [of p n P ent] store.keeps_max [of n P ent p] by simp
    qed
  qed
  then show ?thesis by (auto simp: cache_ok_def NewProvider_def split: if_splits)
qed

text \<open>Three clients stored in a cache for two: one has to go.\<close>

definition demo_entry :: cacheEntry where
  "demo_entry = \<lparr>ce_fingerprint = [], ce_cl = RemoteClient 0,
     ce_cfg = \<lparr>rc_Host = [], rc_Timeout = 0, rc_QPS = 0, rc_Burst = 0\<rparr>, ce_lastUsed = 0\<rparr>"

theorem provider_cache_bounded_witness:
  "let p = store_entry demo_platform ''c'' demo_entry (store_entry demo_platform ''b'' demo_entry
      (store_entry demo_platform ''a'' demo_entry (NewProvider 2)))
   in int (maplen (pr_cache p)) \<le> 2 \<and> fmlookup (pr_cache p) ''c'' = Some demo_entry"
proof -
  have "(provider_step demo_platform)\<^sup>*\<^sup>* (NewProvider 2) (store_entry demo_platform ''c'' demo_entry
      (store_entry demo_platform ''b'' demo_entry (store_entry demo_platform ''a'' demo_entry (NewProvider 2))))"
    by (rule rtranclp.rtrancl_into_rtrancl [OF rtranclp.rtrancl_into_rtrancl [OF rtranclp.rtrancl_into_rtrancl
          [OF rtranclp.rtrancl_refl]]]; rule provider_step.step_store; simp)
  from provider_cache_bounded [OF this] show ?thesis by (simp add: Let_def store_entry_def)
qed

text \<open>
  The client limits are safe whatever a target asks for: after \<open>ApplyClientLimits\<close> the rate is
  between 1 and 50 and the burst between 1 and 100, and the rest of the configuration is unchanged.
\<close>

theorem client_limits_bounded:
  "let c = ApplyClientLimits cfg target
   in 0 < rc_QPS c \<and> rc_QPS c \<le> 50 \<and> 0 < rc_Burst c \<and> rc_Burst c \<le> 100
    \<and> rc_Host c = rc_Host cfg \<and> rc_Timeout c = rc_Timeout cfg"
  by (auto simp: ApplyClientLimits_def Let_def split: option.split)

text \<open>
  Resolving a cluster name: the local names resolve to the control cluster's own client without
  any call; any other name yields either a remote session for exactly that name, which never sets owner
  references and requires an existing, enabled, not deleting target, or a target error.
\<close>

theorem resolve_named_target_cases:
  "(case run_state (ResolveNamedTarget P name) w of
      (Inr s, w') \<Rightarrow>
        if name = [] \<or> name = LocalClusterName
        then s = local_session \<and> w' = w
        else ses_Name s = name \<and> \<not> ses_Local s \<and> \<not> ses_SetLeaseOwner s
           \<and> (\<exists>t e. api_GetTarget (pf_hub P) name (w_env w) = (Inr t, e) \<and> IsEnabled (ct_Spec t)
                \<and> ptr_is_zero (om_DeletionTimestamp (ct_Meta t)))
    | (Inl err, w') \<Rightarrow> (\<exists>r msg. AsTargetError err = Some (r, msg)
        \<and> r \<in> {ReasonTargetNotFound, ReasonTargetClusterUnavailable, ReasonTargetDisabled}))"
proof (cases "name = [] \<or> name = LocalClusterName")
  case True
  then show ?thesis by (simp add: ResolveNamedTarget_def)
next
  case False
  then show ?thesis
    by (auto simp: ResolveNamedTarget_def split: prod.splits sum.splits option.splits)
qed

end
