(* ===== verification/Gate.thy ===== *)
theory Gate
  imports Remote
begin

text \<open>
  \<open>TargetGate\<close> of \<open>src/internal/remote/outage.go\<close>: a counting semaphore per target. Reconcilers run
  concurrently, so the gate is a transition system: a state is the gate together with the
  multiset of slots the running operations hold, and every interleaving of \<open>Acquire\<close> and of the
  returned release functions is a path of \<open>gate_step\<close>.
\<close>

record TargetGate =
  tg_sem :: "(string, nat) fmap"
  tg_limit :: int

definition NewTargetGate :: "int \<Rightarrow> TargetGate" where
  "NewTargetGate limit = \<lparr>tg_sem = fmempty, tg_limit = (if limit \<le> 0 then 4 else limit)\<rparr>"

definition gated :: "string \<Rightarrow> bool" where
  "gated targetName \<longleftrightarrow> targetName \<noteq> [] \<and> targetName \<noteq> ''local''"

text \<open>
  \<open>Acquire\<close> makes the channel on first use and sends into it, which blocks (\<open>None\<close>) while the channel's
  buffer is full. The release function receives from the channel, which blocks on an empty one.
\<close>

definition Acquire :: "TargetGate \<Rightarrow> string \<Rightarrow> TargetGate option" where
  "Acquire g targetName =
     (if \<not> gated targetName then Some g
      else
        let n = (case fmlookup (tg_sem g) targetName of None \<Rightarrow> 0 | Some n \<Rightarrow> n)
        in if int n < tg_limit g then Some (g\<lparr>tg_sem := fmupd targetName (Suc n) (tg_sem g)\<rparr>) else None)"

definition Release :: "TargetGate \<Rightarrow> string \<Rightarrow> TargetGate option" where
  "Release g targetName =
     (if \<not> gated targetName then Some g
      else case fmlookup (tg_sem g) targetName of
          Some (Suc n) \<Rightarrow> Some (g\<lparr>tg_sem := fmupd targetName n (tg_sem g)\<rparr>)
        | _ \<Rightarrow> None)"

type_synonym gate_state = "TargetGate \<times> string multiset"

inductive gate_step :: "gate_state \<Rightarrow> gate_state \<Rightarrow> bool" where
  acquire: "Acquire g n = Some g' \<Longrightarrow> gate_step (g, held) (g', add_mset n held)"
| release: "n \<in># held \<Longrightarrow> Release g n = Some g' \<Longrightarrow> gate_step (g, held) (g', held - {#n#})"

inductive_cases gate_stepE: "gate_step s s'"

definition gate_inv :: "gate_state \<Rightarrow> bool" where
  "gate_inv s \<longleftrightarrow> (case s of (g, held) \<Rightarrow> 0 < tg_limit g \<and>
     (\<forall>n. gated n \<longrightarrow> (case fmlookup (tg_sem g) n of None \<Rightarrow> 0 | Some k \<Rightarrow> k) = count held n
          \<and> int (count held n) \<le> tg_limit g))"

lemma gate_inv_init: "gate_inv (NewTargetGate limit, {#})"
  by (simp add: gate_inv_def NewTargetGate_def)

lemma gate_inv_step:
  assumes "gate_step s s'" "gate_inv s"
  shows "gate_inv s'"
  using assms(1)
proof cases
  case (acquire g n g' held)
  then show ?thesis using assms(2)
    by (auto simp: gate_inv_def Acquire_def Let_def split: if_splits)
next
  case (release n held g g')
  then show ?thesis using assms(2)
    by (auto simp: gate_inv_def Release_def count_eq_zero_iff split: if_splits option.splits nat.splits)
qed

lemma gate_inv_reachable:
  "gate_step\<^sup>*\<^sup>* (NewTargetGate limit, {#}) s \<Longrightarrow> gate_inv s"
  by (induction rule: rtranclp_induct) (auto intro: gate_inv_init gate_inv_step)

lemma gate_limit_reachable:
  "gate_step\<^sup>*\<^sup>* (NewTargetGate limit, {#}) s \<Longrightarrow> tg_limit (fst s) = (if limit \<le> 0 then 4 else limit)"
proof (induction rule: rtranclp_induct)
  case base
  then show ?case by (simp add: NewTargetGate_def)
next
  case (step s s')
  from step.hyps(2) show ?case
    using step.IH
    by cases (auto simp: Acquire_def Release_def Let_def split: if_splits option.splits nat.splits)
qed

section \<open>Properties\<close>

text \<open>
  C16. In every reachable state of every interleaving, at most \<open>limit\<close> (four by default) operations hold
  a slot of one remote target, and the semaphore counts exactly the held slots.
\<close>

theorem gate_limits_concurrency:
  assumes "gate_step\<^sup>*\<^sup>* (NewTargetGate limit, {#}) (g, held)" and "n \<noteq> []" and "n \<noteq> ''local''"
  shows "int (count held n) \<le> (if limit \<le> 0 then 4 else limit)
     \<and> (case fmlookup (tg_sem g) n of None \<Rightarrow> 0 | Some k \<Rightarrow> k) = count held n"
  using gate_inv_reachable [OF assms(1)] gate_limit_reachable [OF assms(1)] assms(2,3)
  by (auto simp: gate_inv_def gated_def)

theorem gate_limits_concurrency_witness:
  "\<exists>g. Acquire (NewTargetGate 0) ''edge'' = Some g \<and> int (count {#''edge''#} ''edge'') \<le> 4"
proof -
  obtain g where a: "Acquire (NewTargetGate 0) ''edge'' = Some g"
    by (simp add: Acquire_def NewTargetGate_def gated_def)
  have "gate_step\<^sup>*\<^sup>* (NewTargetGate 0, {#}) (g, {#''edge''#})"
    by (intro r_into_rtranclp gate_step.acquire a)
  from gate_limits_concurrency [OF this, of "''edge''"] a show ?thesis by simp
qed

text \<open>
  The gate does not deadlock: in every reachable state, whoever holds a slot can release it without
  blocking, and if an operation is blocked on a target, then some slot of it is held and releasing any
  held slot of it unblocks the operation.
\<close>

theorem gate_never_stuck:
  assumes "gate_step\<^sup>*\<^sup>* (NewTargetGate limit, {#}) (g, held)"
  shows "(\<forall>n\<in>#held. \<exists>g'. Release g n = Some g')
     \<and> (\<forall>n. Acquire g n = None \<longrightarrow> n \<in># held
            \<and> (\<exists>g' g''. Release g n = Some g' \<and> Acquire g' n = Some g''))"
proof -
  have inv: "gate_inv (g, held)" by (rule gate_inv_reachable [OF assms])
  have rel: "\<exists>g'. Release g n = Some g' \<and> (gated n \<longrightarrow> (\<exists>g''. Acquire g' n = Some g''))"
    if "n \<in># held" for n
  proof (cases "gated n")
    case True
    have "0 < count held n" using that by simp
    then obtain k where k: "count held n = Suc k" by (cases "count held n") simp_all
    with inv True have "fmlookup (tg_sem g) n = Some (Suc k)"
      by (cases "fmlookup (tg_sem g) n") (auto simp: gate_inv_def)
    moreover have "int (Suc k) \<le> tg_limit g" using inv True unfolding k [symmetric] by (simp add: gate_inv_def)
    ultimately show ?thesis
      using True by (intro exI [of _ "g\<lparr>tg_sem := fmupd n k (tg_sem g)\<rparr>"])
        (simp add: Release_def Acquire_def Let_def)
  next
    case False
    then show ?thesis by (simp add: Release_def)
  qed
  have "n \<in># held \<and> gated n" if "Acquire g n = None" for n
  proof -
    have g: "gated n" using that by (auto simp: Acquire_def Let_def split: if_splits)
    then have "tg_limit g \<le> int (count held n)"
      using that inv by (auto simp: Acquire_def Let_def gate_inv_def split: if_splits)
    moreover have "0 < tg_limit g" using inv by (simp add: gate_inv_def)
    ultimately have "0 < count held n" by linarith
    then show ?thesis using g by (metis count_greater_zero_iff)
  qed
  with rel show ?thesis by blast
qed

theorem gate_never_stuck_witness:
  "\<exists>g g' g''. Acquire (NewTargetGate 1) ''a'' = Some g \<and> Acquire g ''a'' = None
     \<and> Release g ''a'' = Some g' \<and> Acquire g' ''a'' = Some g''"
proof -
  let ?g = "(NewTargetGate 1)\<lparr>tg_sem := fmupd ''a'' (Suc 0) fmempty\<rparr>"
  have acq: "Acquire (NewTargetGate 1) ''a'' = Some ?g" and full: "Acquire ?g ''a'' = None"
    by (simp_all add: Acquire_def NewTargetGate_def gated_def Let_def)
  have "gate_step\<^sup>*\<^sup>* (NewTargetGate 1, {#}) (?g, add_mset ''a'' {#})"
    by (rule r_into_rtranclp, rule gate_step.acquire [OF acq])
  from gate_never_stuck [OF this] full
  obtain g' g'' where "Release ?g ''a'' = Some g'" "Acquire g' ''a'' = Some g''" by blast
  with acq full show ?thesis by blast
qed

end
