(* ===== verification/Resources.thy ===== *)
theory Resources
  imports API_Types
begin

text \<open>
  \<open>src/internal/resources\<close>: the labels of managed objects, the protected namespaces, the
  adoption rule, and the desired Namespace, ResourceQuota, LimitRange and NetworkPolicy of a
  lease. A \<open>nil\<close> result is \<open>None\<close>, an \<open>error\<close> result a \<open>go_error option\<close> or the left side
  of a sum.
\<close>

section \<open>Labels\<close>

definition ManagedLabels :: "string \<Rightarrow> strmap" where
  "ManagedLabels leaseName =
     fmap_of_list [(LabelManagedBy, ManagedByValue), (LabelLease, leaseName)]"

definition MergeLabels :: "strmap \<Rightarrow> strmap \<Rightarrow> strmap" where
  "MergeLabels base extra = fmadd extra base"

definition IsManagedByKubeLease :: "strmap \<Rightarrow> string \<Rightarrow> bool" where
  "IsManagedByKubeLease labels leaseName \<longleftrightarrow>
     lk labels LabelManagedBy = ManagedByValue \<and> lk labels LabelLease = leaseName"

section \<open>Namespaces\<close>

definition ProtectedNamespaces :: "string list" where
  "ProtectedNamespaces = [''default'', ''kube-system'', ''kube-public'', ''kube-node-lease'']"

definition IsProtectedNamespace :: "string \<Rightarrow> bool" where
  "IsProtectedNamespace name \<longleftrightarrow> name \<in> set ProtectedNamespaces"

definition ValidateNamespaceSpec :: "NamespaceSpec \<Rightarrow> go_error option" where
  "ValidateNamespaceSpec spec =
     (if nss_Name spec \<noteq> [] then
        if IsProtectedNamespace (nss_Name spec)
        then Some (Errorf (''cannot manage protected namespace '' @ quote (nss_Name spec)))
        else None
      else if nss_GenerateName spec = []
      then Some (Errorf ''namespace.name or namespace.generateName must be set'')
      else None)"

definition OwnedByLease :: "Namespace option \<Rightarrow> string \<Rightarrow> string \<Rightarrow> bool" where
  "OwnedByLease ns leaseName leaseUID =
     (case ns of
        None \<Rightarrow> False
      | Some n \<Rightarrow>
          if \<not> IsManagedByKubeLease (ns_Labels n) leaseName then False
          else if leaseUID = [] then True
          else lk (ns_Annotations n) AnnotationLeaseUID = leaseUID)"

definition CanAdoptNamespace :: "Namespace option \<Rightarrow> string \<Rightarrow> string \<Rightarrow> bool" where
  "CanAdoptNamespace ns leaseName leaseUID =
     (case ns of
        None \<Rightarrow> False
      | Some n \<Rightarrow>
          if IsProtectedNamespace (ns_Name n) then False
          else if OwnedByLease ns leaseName leaseUID then True
          else if lk (ns_Labels n) LabelManagedBy = ManagedByValue
            \<and> lk (ns_Labels n) LabelLease \<noteq> [] \<and> lk (ns_Labels n) LabelLease \<noteq> leaseName then False
          else if lk (ns_Labels n) LabelManagedBy = ManagedByValue
            \<and> lk (ns_Annotations n) AnnotationLeaseUID \<noteq> []
            \<and> lk (ns_Annotations n) AnnotationLeaseUID \<noteq> leaseUID then False
          else lk (ns_Labels n) LabelManagedBy \<noteq> ManagedByValue
            \<or> lk (ns_Labels n) LabelLease = leaseName)"

definition copyStringMap :: "strmap \<Rightarrow> strmap" where
  "copyStringMap m = (if maplen m = 0 then fmempty else m)"

text \<open>
  \<open>target_identity\<close> is the value \<open>remoteIdentity\<close> has after lines 118--120: the argument, or
  the identity recorded in the status when the argument is empty.
\<close>

definition target_identity :: "EnvironmentLease \<Rightarrow> string \<Rightarrow> string" where
  "target_identity l remoteIdentity =
     (if remoteIdentity = [] then
        case st_Cluster (el_Status l) of None \<Rightarrow> [] | Some c \<Rightarrow> cs_RemoteIdentity c
      else remoteIdentity)"

definition DesiredNamespace ::
  "EnvironmentLease \<Rightarrow> string \<Rightarrow> string \<Rightarrow> string \<Rightarrow> go_error + Namespace" where
  "DesiredNamespace l name controlClusterID remoteIdentity =
     (if name = [] then Inl (Errorf ''namespace name must not be empty'')
      else if IsProtectedNamespace name
      then Inl (Errorf (''cannot manage protected namespace '' @ quote name))
      else
        let ann = copyStringMap (nss_Annotations (sp_Namespace (el_Spec l)));
            ann = fmupd AnnotationLeaseUID (el_UID l) ann;
            ann = (if controlClusterID \<noteq> [] then fmupd AnnotationControlClusterID controlClusterID ann
                   else ann);
            remoteIdentity = target_identity l remoteIdentity;
            ann = (if remoteIdentity \<noteq> [] then fmupd AnnotationTargetIdentity remoteIdentity ann
                   else ann)
        in Inr \<lparr>ns_Meta = zero_meta\<lparr>om_Name := name,
             om_Labels := MergeLabels (ManagedLabels (el_Name l)) (nss_Labels (sp_Namespace (el_Spec l))),
             om_Annotations := ann\<rparr>\<rparr>)"

section \<open>Quota, limits and network policy\<close>

definition ResourceQuotaName :: string where
  "ResourceQuotaName = ''kubelease-quota''"
definition LimitRangeName :: string where
  "LimitRangeName = ''kubelease-limits''"
definition NetworkPolicyName :: string where
  "NetworkPolicyName = ''kubelease-default-deny''"

lemmas [api_consts] = ResourceQuotaName_def LimitRangeName_def NetworkPolicyName_def

text \<open>
  \<open>prefix_keys p m\<close> is the map the loop \<open>for k, v := range m { out[p+k] = v }\<close> builds: the
  prefixed keys are distinct, so the iteration order does not matter.
\<close>

definition prefix_keys :: "string \<Rightarrow> (string, 'v) fmap \<Rightarrow> (string, 'v) fmap" where
  "prefix_keys p m = fmap_of_list (map (\<lambda>(k, v). (p @ k, v)) (sorted_list_of_fmap m))"

definition DesiredResourceQuota :: "EnvironmentLease \<Rightarrow> string \<Rightarrow> ResourceQuota option" where
  "DesiredResourceQuota l namespace =
     (case sp_Quota (el_Spec l) of
        None \<Rightarrow> None
      | Some q \<Rightarrow>
          let hard = fmadd (prefix_keys ''requests.'' (qs_Requests q)) (prefix_keys ''limits.'' (qs_Limits q))
          in if maplen hard = 0 then None
             else Some \<lparr>rq_Meta = zero_meta\<lparr>om_Name := ResourceQuotaName, om_Namespace := namespace,
                         om_Labels := ManagedLabels (el_Name l)\<rparr>,
                       rq_Hard = hard\<rparr>)"

definition copyResourceList :: "ResourceList \<Rightarrow> ResourceList" where
  "copyResourceList m = (if maplen m = 0 then fmempty else m)"

definition DesiredLimitRange :: "EnvironmentLease \<Rightarrow> string \<Rightarrow> LimitRange option" where
  "DesiredLimitRange l namespace =
     (case sp_Limits (el_Spec l) of
        None \<Rightarrow> None
      | Some s \<Rightarrow>
          let item = \<lparr>lri_Type = ''Container'',
                      lri_Default = copyResourceList (li_Default s),
                      lri_DefaultRequest = copyResourceList (li_DefaultRequest s),
                      lri_Max = copyResourceList (li_Max s),
                      lri_Min = copyResourceList (li_Min s)\<rparr>
          in if maplen (lri_Default item) = 0 \<and> maplen (lri_DefaultRequest item) = 0
                \<and> maplen (lri_Max item) = 0 \<and> maplen (lri_Min item) = 0 then None
             else Some \<lparr>lr_Meta = zero_meta\<lparr>om_Name := LimitRangeName, om_Namespace := namespace,
                         om_Labels := ManagedLabels (el_Name l)\<rparr>,
                       lr_Limits = [item]\<rparr>)"

definition DesiredNetworkPolicy :: "EnvironmentLease \<Rightarrow> string \<Rightarrow> NetworkPolicy option" where
  "DesiredNetworkPolicy l namespace =
     (case sp_NetworkPolicy (el_Spec l) of
        None \<Rightarrow> None
      | Some p \<Rightarrow>
          if \<not> nps_DefaultDeny p then None
          else Some \<lparr>np_Meta = zero_meta\<lparr>om_Name := NetworkPolicyName, om_Namespace := namespace,
                      om_Labels := ManagedLabels (el_Name l)\<rparr>,
                    np_PodSelector = \<lparr>ls_MatchLabels = fmempty, ls_MatchExpressions = []\<rparr>,
                    np_PolicyTypes = [PolicyTypeIngress, PolicyTypeEgress],
                    np_Ingress = [], np_Egress = []\<rparr>)"

definition ResourceListsEqual :: "ResourceList \<Rightarrow> ResourceList \<Rightarrow> bool" where
  "ResourceListsEqual a b \<longleftrightarrow>
     (if maplen a \<noteq> maplen b then False
      else fmpred (\<lambda>k av. case fmlookup b k of None \<Rightarrow> False | Some bv \<Rightarrow> Quantity_Cmp av bv = 0) a)"

section \<open>Lemmas\<close>

lemma map_of_prefix:
  "map_of (map (\<lambda>(k, v). (p @ k, v)) xs) k
     = (if starts_with k p then map_of xs (drop (length p) k) else None)"
  by (induction xs) (auto simp: starts_with_iff)

lemma lookup_prefix_keys [simp]:
  "fmlookup (prefix_keys p m) k = (if starts_with k p then fmlookup m (drop (length p) k) else None)"
  by (simp add: prefix_keys_def fmlookup_of_list map_of_prefix)

lemma lookup_ManagedLabels:
  "fmlookup (ManagedLabels n) k =
     (if k = LabelManagedBy then Some ManagedByValue else if k = LabelLease then Some n else None)"
  by (auto simp: ManagedLabels_def fmlookup_of_list)

lemma lk_MergeLabels_managed [simp]:
  "lk (MergeLabels (ManagedLabels n) extra) LabelManagedBy = ManagedByValue"
  "lk (MergeLabels (ManagedLabels n) extra) LabelLease = n"
  by (simp_all add: MergeLabels_def lk_def lookup_ManagedLabels fmlookup_dom_iff)

lemma copyStringMap_id [simp]: "copyStringMap m = m"
  by (simp add: copyStringMap_def)

lemma copyResourceList_id [simp]: "copyResourceList m = m"
  by (simp add: copyResourceList_def)

lemma lk_DesiredNamespace:
  assumes "DesiredNamespace l name ctl rid = Inr ns"
  shows "ns_Name ns = name" "lk (ns_Labels ns) LabelManagedBy = ManagedByValue"
    "lk (ns_Labels ns) LabelLease = el_Name l" "lk (ns_Annotations ns) AnnotationLeaseUID = el_UID l"
    "ctl \<noteq> [] \<Longrightarrow> lk (ns_Annotations ns) AnnotationControlClusterID = ctl"
    "target_identity l rid \<noteq> [] \<Longrightarrow> lk (ns_Annotations ns) AnnotationTargetIdentity = target_identity l rid"
    "\<not> IsProtectedNamespace name" "name \<noteq> []"
  using assms by (auto simp: DesiredNamespace_def Let_def split: if_splits)

end
