(* ===== verification/Identity.thy ===== *)
theory Identity
  imports Resources
begin

text \<open>
  \<open>src/internal/identity\<close>: the checks that gate every destructive operation. The probe's
  client call is a parameter, the result of \<open>Get\<close> on \<open>kube-system\<close>.
\<close>

definition ProbeRemoteIdentity :: "go_error + Namespace \<Rightarrow> go_error + string" where
  "ProbeRemoteIdentity get =
     (case get of
        Inl err \<Rightarrow> Inl (Wrapf ''probe remote identity (kube-system): '' err)
      | Inr n \<Rightarrow>
          if om_UID (ns_Meta n) = [] then Inl (Errorf ''kube-system UID is empty'')
          else Inr (om_UID (ns_Meta n)))"

definition VerifyNamespaceOwnership ::
  "Namespace option \<Rightarrow> EnvironmentLease \<Rightarrow> string \<Rightarrow> go_error option" where
  "VerifyNamespaceOwnership ns l controlClusterID =
     (case ns of
        None \<Rightarrow> Some (OwnershipMismatchError ''namespace is nil'')
      | Some n \<Rightarrow>
          if lk (ns_Labels n) LabelManagedBy \<noteq> ManagedByValue
          then Some (OwnershipMismatchError ''namespace missing kubelease managed-by label'')
          else if lk (ns_Labels n) LabelLease \<noteq> el_Name l
          then Some (OwnershipMismatchError (''namespace lease label '' @ quote (lk (ns_Labels n) LabelLease)
                 @ '' != '' @ quote (el_Name l)))
          else if lk (ns_Annotations n) AnnotationLeaseUID \<noteq> el_UID l
          then Some (OwnershipMismatchError (''namespace lease-uid annotation mismatch (got ''
                 @ quote (lk (ns_Annotations n) AnnotationLeaseUID) @ '')''))
          else if controlClusterID \<noteq> [] \<and> lk (ns_Annotations n) AnnotationControlClusterID \<noteq> []
             \<and> lk (ns_Annotations n) AnnotationControlClusterID \<noteq> controlClusterID
          then Some (OwnershipMismatchError (''control-cluster-id mismatch: ns=''
                 @ quote (lk (ns_Annotations n) AnnotationControlClusterID)
                 @ '' expected='' @ quote controlClusterID))
          else
            case st_Cluster (el_Status l) of
              None \<Rightarrow> None
            | Some c \<Rightarrow>
                if cs_RemoteIdentity c \<noteq> [] \<and> lk (ns_Annotations n) AnnotationTargetIdentity \<noteq> []
                   \<and> lk (ns_Annotations n) AnnotationTargetIdentity \<noteq> cs_RemoteIdentity c
                then Some (OwnershipMismatchError (''target-identity annotation mismatch: ns=''
                       @ quote (lk (ns_Annotations n) AnnotationTargetIdentity)
                       @ '' expected='' @ quote (cs_RemoteIdentity c)))
                else None)"

definition VerifyLiveTargetIdentity :: "string \<Rightarrow> string \<Rightarrow> go_error option" where
  "VerifyLiveTargetIdentity expected live =
     (if expected = [] \<or> live = [] then None
      else if expected \<noteq> live
      then Some (OwnershipMismatchError (reason_text ReasonTargetIdentityMismatch
             @ '': expected remote identity '' @ quote expected @ '', live target is '' @ quote live))
      else None)"

definition ForceCleanupAcknowledged :: "EnvironmentLease option \<Rightarrow> bool" where
  "ForceCleanupAcknowledged lo =
     (case lo of None \<Rightarrow> False
      | Some l \<Rightarrow> lk (om_Annotations (el_Meta l)) AnnotationForceCleanupAcknowledged = ''true'')"

section \<open>What a positive check means\<close>

text \<open>
  \<open>agrees a b\<close>: two optional fingerprints do not contradict each other.
\<close>

definition agrees :: "string \<Rightarrow> string \<Rightarrow> bool" where
  "agrees expected got \<longleftrightarrow> expected = [] \<or> got = [] \<or> got = expected"

definition recorded_identity :: "EnvironmentLease \<Rightarrow> string" where
  "recorded_identity l = (case st_Cluster (el_Status l) of None \<Rightarrow> [] | Some c \<Rightarrow> cs_RemoteIdentity c)"

definition ns_owned :: "Namespace \<Rightarrow> EnvironmentLease \<Rightarrow> string \<Rightarrow> bool" where
  "ns_owned n l ctl \<longleftrightarrow>
     lk (ns_Labels n) LabelManagedBy = ManagedByValue \<and> lk (ns_Labels n) LabelLease = el_Name l
   \<and> lk (ns_Annotations n) AnnotationLeaseUID = el_UID l
   \<and> agrees ctl (lk (ns_Annotations n) AnnotationControlClusterID)
   \<and> agrees (recorded_identity l) (lk (ns_Annotations n) AnnotationTargetIdentity)"

lemma VerifyNamespaceOwnership_None_iff:
  "VerifyNamespaceOwnership (Some n) l ctl = None \<longleftrightarrow> ns_owned n l ctl"
  by (auto simp: VerifyNamespaceOwnership_def ns_owned_def agrees_def recorded_identity_def
      split: option.splits)

lemma VerifyNamespaceOwnership_error:
  "VerifyNamespaceOwnership ns l ctl = Some e \<Longrightarrow> \<exists>msg. e = OwnershipMismatchError msg"
  by (auto simp: VerifyNamespaceOwnership_def split: option.splits if_splits)

lemma VerifyLiveTargetIdentity_None_iff:
  "VerifyLiveTargetIdentity expected live = None \<longleftrightarrow> agrees expected live"
  by (auto simp: VerifyLiveTargetIdentity_def agrees_def)

lemma VerifyLiveTargetIdentity_error:
  "VerifyLiveTargetIdentity a b = Some e \<Longrightarrow> \<exists>msg. e = OwnershipMismatchError msg"
  by (auto simp: VerifyLiveTargetIdentity_def split: if_splits)

text \<open>
  C9. The ownership check that gates deletion accepts exactly the namespaces that carry the
  managed-by label, this lease's name label and this lease's UID annotation, and whose
  control-cluster and target fingerprints, where present on both sides, equal the expected ones;
  every rejection is an ownership-mismatch error.
\<close>

theorem ownership_check_exact:
  "(VerifyNamespaceOwnership ns l ctl = None \<longleftrightarrow>
      (case ns of None \<Rightarrow> False | Some n \<Rightarrow>
         IsManagedByKubeLease (ns_Labels n) (el_Name l)
       \<and> lk (ns_Annotations n) AnnotationLeaseUID = el_UID l
       \<and> agrees ctl (lk (ns_Annotations n) AnnotationControlClusterID)
       \<and> agrees (recorded_identity l) (lk (ns_Annotations n) AnnotationTargetIdentity)))
   \<and> (case VerifyNamespaceOwnership ns l ctl of None \<Rightarrow> True | Some e \<Rightarrow> AsOwnershipMismatch e)"
proof (cases ns)
  case None
  then show ?thesis by (simp add: VerifyNamespaceOwnership_def)
next
  case (Some n)
  have "case VerifyNamespaceOwnership ns l ctl of None \<Rightarrow> True | Some e \<Rightarrow> AsOwnershipMismatch e"
    using VerifyNamespaceOwnership_error by (fastforce split: option.split)
  then show ?thesis
    unfolding Some option.case VerifyNamespaceOwnership_None_iff
    by (simp add: ns_owned_def IsManagedByKubeLease_def)
qed

text \<open>
  C19. The namespace the controller creates for a lease passes the deletion check of that lease:
  if \<open>DesiredNamespace\<close> succeeds, then whatever labels and annotations the user put in the spec,
  \<open>VerifyNamespaceOwnership\<close> accepts the result with the same control cluster, for every later
  version of the lease with the same name and UID whose recorded identity is empty or the one
  that was stamped.
\<close>

theorem desired_namespace_verifies:
  assumes "DesiredNamespace l name ctl rid = Inr ns"
    and "el_Name l' = el_Name l" and "el_UID l' = el_UID l"
    and "recorded_identity l' = [] \<or> recorded_identity l' = target_identity l rid"
  shows "VerifyNamespaceOwnership (Some ns) l' ctl = None \<and> \<not> IsProtectedNamespace (ns_Name ns)"
proof -
  note d = lk_DesiredNamespace [OF assms(1)]
  have "agrees ctl (lk (ns_Annotations ns) AnnotationControlClusterID)"
    using d(5) by (auto simp: agrees_def)
  moreover have "agrees (recorded_identity l') (lk (ns_Annotations ns) AnnotationTargetIdentity)"
    using d(6) assms(4) by (auto simp: agrees_def)
  ultimately show ?thesis
    using d assms(2,3) by (simp add: VerifyNamespaceOwnership_None_iff ns_owned_def)
qed

theorem desired_namespace_verifies_witness:
  "VerifyNamespaceOwnership (Some (projr (DesiredNamespace demo_lease ''demo-ns'' ''ctl'' ''rid'')))
     demo_lease ''ctl'' = None
   \<and> \<not> IsProtectedNamespace (ns_Name (projr (DesiredNamespace demo_lease ''demo-ns'' ''ctl'' ''rid'')))"
  by (rule desired_namespace_verifies [where l = demo_lease and name = "''demo-ns''" and rid = "''rid''"])
     (simp_all add: DesiredNamespace_def IsProtectedNamespace_def ProtectedNamespaces_def
        demo_lease_def zero_defs recorded_identity_def Let_def)

text \<open>
  Adoption never takes over another lease's namespace: an existing namespace may be claimed
  exactly when it is not protected and, if it is already managed by kubelease, it is labelled with
  this lease's name and its UID annotation is absent or this lease's.
\<close>

theorem adopt_exact:
  "CanAdoptNamespace (Some n) leaseName leaseUID \<longleftrightarrow>
     \<not> IsProtectedNamespace (ns_Name n)
   \<and> (if lk (ns_Labels n) LabelManagedBy = ManagedByValue
      then lk (ns_Labels n) LabelLease = leaseName
         \<and> agrees leaseUID (lk (ns_Annotations n) AnnotationLeaseUID)
      else True)"
  by (auto simp: CanAdoptNamespace_def OwnedByLease_def IsManagedByKubeLease_def agrees_def)

end
