(* ===== verification/Ensure.thy ===== *)
theory Ensure
  imports Gate Identity
begin

text \<open>
  The part of \<open>src/internal/controller/environmentlease_controller.go\<close> that writes the managed
  objects: \<open>ensureNamespace\<close>, \<open>ensureExistingNamespace\<close>, \<open>ensureResourceQuota\<close>, \<open>ensureLimitRange\<close> and
  \<open>ensureNetworkPolicy\<close>. The three resource operations share the locale \<open>resource_ensurer\<close>.
\<close>

section \<open>The reconciler\<close>

text \<open>
  The fields of \<open>EnvironmentLeaseReconciler\<close> that the code reads: the control cluster's identity and
  whether the recorder and the gate are set. The clients, the clock and the libraries are the
  platform; provider and outage tracker live in the world.
\<close>

record reconciler =
  rec_ControlClusterID :: string
  rec_Recorder :: bool
  rec_Gate :: bool

record Result =
  res_Requeue :: bool
  res_RequeueAfter :: duration

definition no_requeue :: Result where
  "no_requeue = \<lparr>res_Requeue = False, res_RequeueAfter = 0\<rparr>"

definition requeue_after :: "duration \<Rightarrow> Result" where
  "requeue_after d = \<lparr>res_Requeue = False, res_RequeueAfter = d\<rparr>"

definition requeue_now :: Result where
  "requeue_now = \<lparr>res_Requeue = True, res_RequeueAfter = 0\<rparr>"

lemma Result_simps [simp]:
  "res_RequeueAfter no_requeue = 0" "res_RequeueAfter (requeue_after d) = d" "res_RequeueAfter requeue_now = 0"
  "\<not> res_Requeue no_requeue" "\<not> res_Requeue (requeue_after d)" "res_Requeue requeue_now"
  by (simp_all add: no_requeue_def requeue_after_def requeue_now_def)

definition mapsEqual :: "strmap \<Rightarrow> strmap \<Rightarrow> bool" where
  "mapsEqual a b = (if maplen a \<noteq> maplen b then False else fmpred (\<lambda>k v. lk b k = v) a)"

section \<open>Namespaces\<close>

definition managedAnnotations :: "EnvironmentLease \<Rightarrow> string \<Rightarrow> string \<Rightarrow> strmap" where
  "managedAnnotations l controlClusterID remoteIdentity =
     (let out = fmadd fmempty (nss_Annotations (sp_Namespace (el_Spec l)));
          out = fmupd AnnotationLeaseUID (el_UID l) out;
          out = (if controlClusterID \<noteq> [] then fmupd AnnotationControlClusterID controlClusterID out else out)
      in if remoteIdentity \<noteq> [] then fmupd AnnotationTargetIdentity remoteIdentity out else out)"

text \<open>Lines 858--872: the namespace an adopted one is patched to.\<close>

definition patched_namespace :: "reconciler \<Rightarrow> EnvironmentLease \<Rightarrow> Namespace \<Rightarrow> Namespace" where
  "patched_namespace R l existing =
     (let ann = fmadd (ns_Annotations existing) (nss_Annotations (sp_Namespace (el_Spec l)));
          ann = fmupd AnnotationLeaseUID (el_UID l) ann;
          ann = (if rec_ControlClusterID R \<noteq> [] then fmupd AnnotationControlClusterID (rec_ControlClusterID R) ann
                 else ann);
          ann = (if recorded_identity l \<noteq> [] then fmupd AnnotationTargetIdentity (recorded_identity l) ann
                 else ann)
      in existing\<lparr>ns_Meta := (ns_Meta existing)\<lparr>
           om_Labels := MergeLabels (ManagedLabels (el_Name l)) (nss_Labels (sp_Namespace (el_Spec l))),
           om_Annotations := ann\<rparr>\<rparr>)"

definition ensureExistingNamespace ::
  "'w platform \<Rightarrow> reconciler \<Rightarrow> TargetSession \<Rightarrow> EnvironmentLease \<Rightarrow> string
     \<Rightarrow> ('w, go_error + (string \<times> bool)) prog" where
  "ensureExistingNamespace P R sess l name =
     (case DesiredNamespace l name (rec_ControlClusterID R) (recorded_identity l) of
        Inl err \<Rightarrow> State_Monad.return (Inl err)
      | Inr desired \<Rightarrow> do {
          r \<leftarrow> call (api_GetNamespace (pf_cluster P) (ses_Client sess) name);
          (case r of
             Inl err \<Rightarrow>
               if IsNotFound err then do {
                 c \<leftarrow> act (CreateNamespace (ses_Client sess) desired)
                        (api_CreateNamespace (pf_cluster P) (ses_Client sess) desired);
                 State_Monad.return (case c of
                     Inl err \<Rightarrow> Inl (Wrapf (''create namespace '' @ name @ '': '') err)
                   | Inr _ \<Rightarrow> Inr (name, True)) }
               else State_Monad.return (Inl (Wrapf (''get namespace '' @ name @ '': '') err))
           | Inr existing \<Rightarrow>
               if \<not> ptr_is_zero (om_DeletionTimestamp (ns_Meta existing))
               then State_Monad.return (Inl (Errorf (''namespace '' @ name @ '' is terminating; waiting'')))
               else if \<not> CanAdoptNamespace (Some existing) (el_Name l) (el_UID l)
               then State_Monad.return (Inl (Errorf (reason_text ReasonNamespaceAdoptRefused
                      @ '': refusing to adopt namespace '' @ name)))
               else
                 let patched = patched_namespace R l existing
                 in if mapsEqual (ns_Labels existing) (ns_Labels patched)
                     \<and> mapsEqual (ns_Annotations existing) (ns_Annotations patched)
                    then State_Monad.return (Inr (name, False))
                    else do {
                      p \<leftarrow> act (PatchNamespace (ses_Client sess) patched)
                             (api_PatchNamespace (pf_cluster P) (ses_Client sess) patched);
                      State_Monad.return (case p of
                          Inl err \<Rightarrow> Inl (Wrapf (''patch namespace '' @ name @ '': '') err)
                        | Inr _ \<Rightarrow> Inr (name, False)) }) })"

definition ensureNamespace ::
  "'w platform \<Rightarrow> reconciler \<Rightarrow> TargetSession \<Rightarrow> EnvironmentLease
     \<Rightarrow> ('w, go_error + (string \<times> bool)) prog" where
  "ensureNamespace P R sess l =
     (if st_Namespace (el_Status l) \<noteq> []
      then ensureExistingNamespace P R sess l (st_Namespace (el_Status l))
      else if nss_Name (sp_Namespace (el_Spec l)) \<noteq> []
      then ensureExistingNamespace P R sess l (nss_Name (sp_Namespace (el_Spec l)))
      else
        let ns = \<lparr>ns_Meta = zero_meta\<lparr>
                   om_GenerateName := nss_GenerateName (sp_Namespace (el_Spec l)),
                   om_Labels := MergeLabels (ManagedLabels (el_Name l)) (nss_Labels (sp_Namespace (el_Spec l))),
                   om_Annotations := managedAnnotations l (rec_ControlClusterID R) (recorded_identity l)\<rparr>\<rparr>
        in do {
          r \<leftarrow> act (CreateNamespace (ses_Client sess) ns)
                 (api_CreateNamespace (pf_cluster P) (ses_Client sess) ns);
          State_Monad.return (case r of
              Inl err \<Rightarrow> Inl (Wrapf (''create namespace with generateName ''
                @ quote (nss_GenerateName (sp_Namespace (el_Spec l))) @ '': '') err)
            | Inr created \<Rightarrow> Inr (ns_Name created, True)) })"

section \<open>Quota, limits, network policy\<close>

definition set_owner :: "'w platform \<Rightarrow> TargetSession \<Rightarrow> EnvironmentLease \<Rightarrow> ObjectMeta \<Rightarrow> go_error + ObjectMeta" where
  "set_owner P sess l m = (if ses_SetLeaseOwner sess then SetControllerReference (pf_lib P) l m else Inr m)"

definition ensureResourceQuota ::
  "'w platform \<Rightarrow> TargetSession \<Rightarrow> EnvironmentLease \<Rightarrow> string \<Rightarrow> ('w, go_error option) prog" where
  "ensureResourceQuota P sess l namespace =
     (case DesiredResourceQuota l namespace of
        None \<Rightarrow> State_Monad.return None
      | Some d \<Rightarrow>
      case set_owner P sess l (rq_Meta d) of
        Inl err \<Rightarrow> State_Monad.return (Some (Wrapf ''set owner reference on ResourceQuota: '' err))
      | Inr m \<Rightarrow>
        let desired = d\<lparr>rq_Meta := m\<rparr>; at = namespace @ ''/'' @ om_Name m
        in do {
          r \<leftarrow> call (api_GetQuota (pf_cluster P) (ses_Client sess) (om_Namespace m) (om_Name m));
          (case r of
             Inl err \<Rightarrow>
               if IsNotFound err then do {
                 c \<leftarrow> act (CreateQuota (ses_Client sess) desired)
                        (api_CreateQuota (pf_cluster P) (ses_Client sess) desired);
                 State_Monad.return (map_option (Wrapf (''create ResourceQuota '' @ at @ '': '')) c) }
               else State_Monad.return (Some (Wrapf (''get ResourceQuota '' @ at @ '': '') err))
           | Inr existing \<Rightarrow>
               if ResourceListsEqual (rq_Hard existing) (rq_Hard desired)
                \<and> mapsEqual (om_Labels (rq_Meta existing)) (om_Labels (rq_Meta desired))
               then State_Monad.return None
               else
                 (case set_owner P sess l ((rq_Meta existing)\<lparr>om_Labels := om_Labels (rq_Meta desired)\<rparr>) of
                    Inl err \<Rightarrow> State_Monad.return (Some err)
                  | Inr pm \<Rightarrow>
                      let patched = existing\<lparr>rq_Meta := pm, rq_Hard := rq_Hard desired\<rparr>
                      in do {
                        p \<leftarrow> act (PatchQuota (ses_Client sess) patched)
                               (api_PatchQuota (pf_cluster P) (ses_Client sess) patched);
                        State_Monad.return (map_option (Wrapf (''patch ResourceQuota '' @ at @ '': '')) p) })) })"

definition ensureLimitRange ::
  "'w platform \<Rightarrow> TargetSession \<Rightarrow> EnvironmentLease \<Rightarrow> string \<Rightarrow> ('w, go_error option) prog" where
  "ensureLimitRange P sess l namespace =
     (case DesiredLimitRange l namespace of
        None \<Rightarrow> State_Monad.return None
      | Some d \<Rightarrow>
      case set_owner P sess l (lr_Meta d) of
        Inl err \<Rightarrow> State_Monad.return (Some (Wrapf ''set owner reference on LimitRange: '' err))
      | Inr m \<Rightarrow>
        let desired = d\<lparr>lr_Meta := m\<rparr>; at = namespace @ ''/'' @ om_Name m
        in do {
          r \<leftarrow> call (api_GetLimits (pf_cluster P) (ses_Client sess) (om_Namespace m) (om_Name m));
          (case r of
             Inl err \<Rightarrow>
               if IsNotFound err then do {
                 c \<leftarrow> act (CreateLimits (ses_Client sess) desired)
                        (api_CreateLimits (pf_cluster P) (ses_Client sess) desired);
                 State_Monad.return (map_option (Wrapf (''create LimitRange '' @ at @ '': '')) c) }
               else State_Monad.return (Some (Wrapf (''get LimitRange '' @ at @ '': '') err))
           | Inr existing \<Rightarrow>
               (case set_owner P sess l ((lr_Meta existing)\<lparr>om_Labels := om_Labels (lr_Meta desired)\<rparr>) of
                  Inl err \<Rightarrow> State_Monad.return (Some err)
                | Inr pm \<Rightarrow>
                    let patched = existing\<lparr>lr_Meta := pm, lr_Limits := lr_Limits desired\<rparr>
                    in do {
                      p \<leftarrow> act (PatchLimits (ses_Client sess) patched)
                             (api_PatchLimits (pf_cluster P) (ses_Client sess) patched);
                      State_Monad.return (map_option (Wrapf (''patch LimitRange '' @ at @ '': '')) p) })) })"

definition ensureNetworkPolicy ::
  "'w platform \<Rightarrow> TargetSession \<Rightarrow> EnvironmentLease \<Rightarrow> string \<Rightarrow> ('w, go_error option) prog" where
  "ensureNetworkPolicy P sess l namespace =
     (case DesiredNetworkPolicy l namespace of
        None \<Rightarrow> State_Monad.return None
      | Some d \<Rightarrow>
      case set_owner P sess l (np_Meta d) of
        Inl err \<Rightarrow> State_Monad.return (Some (Wrapf ''set owner reference on NetworkPolicy: '' err))
      | Inr m \<Rightarrow>
        let desired = d\<lparr>np_Meta := m\<rparr>; at = namespace @ ''/'' @ om_Name m
        in do {
          r \<leftarrow> call (api_GetNetPol (pf_cluster P) (ses_Client sess) (om_Namespace m) (om_Name m));
          (case r of
             Inl err \<Rightarrow>
               if IsNotFound err then do {
                 c \<leftarrow> act (CreateNetPol (ses_Client sess) desired)
                        (api_CreateNetPol (pf_cluster P) (ses_Client sess) desired);
                 State_Monad.return (map_option (Wrapf (''create NetworkPolicy '' @ at @ '': '')) c) }
               else State_Monad.return (Some (Wrapf (''get NetworkPolicy '' @ at @ '': '') err))
           | Inr existing \<Rightarrow>
               (case set_owner P sess l ((np_Meta existing)\<lparr>om_Labels := om_Labels (np_Meta desired)\<rparr>) of
                  Inl err \<Rightarrow> State_Monad.return (Some err)
                | Inr pm \<Rightarrow>
                    let patched = desired\<lparr>np_Meta := pm\<rparr>
                    in do {
                      p \<leftarrow> act (PatchNetPol (ses_Client sess) patched)
                             (api_PatchNetPol (pf_cluster P) (ses_Client sess) patched);
                      State_Monad.return (map_option (Wrapf (''patch NetworkPolicy '' @ at @ '': '')) p) })) })"

section \<open>The contract of the resource operations\<close>

text \<open>A write of a quota, limit range or network policy through the given client.\<close>

definition provisions :: "Client \<Rightarrow> effect \<Rightarrow> bool" where
  "provisions cl e \<longleftrightarrow>
     (case e of CreateQuota c _ \<Rightarrow> c = cl | PatchQuota c _ \<Rightarrow> c = cl
      | CreateLimits c _ \<Rightarrow> c = cl | PatchLimits c _ \<Rightarrow> c = cl
      | CreateNetPol c _ \<Rightarrow> c = cl | PatchNetPol c _ \<Rightarrow> c = cl
      | _ \<Rightarrow> False)"

lemma provisions_simps [simp]:
  "provisions cl (CreateQuota c q) \<longleftrightarrow> c = cl" "provisions cl (PatchQuota c q) \<longleftrightarrow> c = cl"
  "provisions cl (CreateLimits c r) \<longleftrightarrow> c = cl" "provisions cl (PatchLimits c r) \<longleftrightarrow> c = cl"
  "provisions cl (CreateNetPol c n) \<longleftrightarrow> c = cl" "provisions cl (PatchNetPol c n) \<longleftrightarrow> c = cl"
  by (simp_all add: provisions_def)

locale resource_ensurer =
  fixes ensure :: "'w platform \<Rightarrow> TargetSession \<Rightarrow> EnvironmentLease \<Rightarrow> string \<Rightarrow> ('w, go_error option) prog"
    and wanted :: "EnvironmentLease \<Rightarrow> string \<Rightarrow> bool"
  assumes writes: "emits (provisions (ses_Client s)) (ensure P s l ns)"
    and skips: "\<not> wanted l ns \<Longrightarrow> ensure P s l ns = State_Monad.return None"
begin

lemma emits_ensure: "(\<And>e. provisions (ses_Client s) e \<Longrightarrow> Q e) \<Longrightarrow> emits Q (ensure P s l ns)"
  using writes by (rule emits_mono)

lemma unwanted_trace:
  "\<not> wanted l ns \<Longrightarrow> run_state (ensure P s l ns) w = (None, w)"
  by (simp add: skips)

end

interpretation quota: resource_ensurer ensureResourceQuota "\<lambda>l ns. DesiredResourceQuota l ns \<noteq> None"
proof (unfold_locales, goal_cases)
  case (1 s P l ns)
  then show ?case unfolding ensureResourceQuota_def Let_def by (intro emits_rules) simp_all
qed (simp add: ensureResourceQuota_def)

interpretation limits: resource_ensurer ensureLimitRange "\<lambda>l ns. DesiredLimitRange l ns \<noteq> None"
proof (unfold_locales, goal_cases)
  case (1 s P l ns)
  then show ?case unfolding ensureLimitRange_def Let_def by (intro emits_rules) simp_all
qed (simp add: ensureLimitRange_def)

interpretation netpol: resource_ensurer ensureNetworkPolicy "\<lambda>l ns. DesiredNetworkPolicy l ns \<noteq> None"
proof (unfold_locales, goal_cases)
  case (1 s P l ns)
  then show ?case unfolding ensureNetworkPolicy_def Let_def by (intro emits_rules) simp_all
qed (simp add: ensureNetworkPolicy_def)

section \<open>Lemmas\<close>

lemma MergeLabels_owned [simp]:
  "lk (MergeLabels (ManagedLabels n) extra) LabelManagedBy = ManagedByValue"
  "lk (MergeLabels (ManagedLabels n) extra) LabelLease = n"
  by simp_all

lemma patched_namespace_fields:
  "ns_Name (patched_namespace R l n) = ns_Name n"
  "ns_Labels (patched_namespace R l n)
     = MergeLabels (ManagedLabels (el_Name l)) (nss_Labels (sp_Namespace (el_Spec l)))"
  by (simp_all add: patched_namespace_def Let_def)

lemma patched_namespace_owned: "ns_owned (patched_namespace R l n) l (rec_ControlClusterID R)"
  by (auto simp: ns_owned_def patched_namespace_def Let_def agrees_def)

lemma managedAnnotations_owned:
  "lk (managedAnnotations l ctl rid) AnnotationLeaseUID = el_UID l"
  "agrees ctl (lk (managedAnnotations l ctl rid) AnnotationControlClusterID)"
  "agrees rid (lk (managedAnnotations l ctl rid) AnnotationTargetIdentity)"
  by (auto simp: managedAnnotations_def Let_def agrees_def)

lemma desired_namespace_owned:
  assumes "DesiredNamespace l name ctl (recorded_identity l) = Inr ns"
  shows "ns_owned ns l ctl \<and> \<not> IsProtectedNamespace (ns_Name ns)"
proof -
  note d = lk_DesiredNamespace [OF assms]
  have "target_identity l (recorded_identity l) = recorded_identity l"
    by (simp add: target_identity_def recorded_identity_def split: option.split)
  then have "agrees (recorded_identity l) (lk (ns_Annotations ns) AnnotationTargetIdentity)"
    using d(6) by (auto simp: agrees_def)
  with d show ?thesis by (auto simp: ns_owned_def agrees_def)
qed

text \<open>The namespace writes of \<open>ensureNamespace\<close>: through the session's client, owned, not protected.\<close>

definition own_namespace_write :: "reconciler \<Rightarrow> TargetSession \<Rightarrow> EnvironmentLease \<Rightarrow> effect \<Rightarrow> bool" where
  "own_namespace_write R s l e \<longleftrightarrow>
     (case e of
        CreateNamespace c n \<Rightarrow> c = ses_Client s \<and> ns_owned n l (rec_ControlClusterID R)
          \<and> \<not> IsProtectedNamespace (ns_Name n)
      | PatchNamespace c n \<Rightarrow> c = ses_Client s \<and> ns_owned n l (rec_ControlClusterID R)
          \<and> \<not> IsProtectedNamespace (ns_Name n)
      | _ \<Rightarrow> False)"

lemma CanAdopt_unprotected: "CanAdoptNamespace (Some n) a b \<Longrightarrow> \<not> IsProtectedNamespace (ns_Name n)"
  by (simp add: CanAdoptNamespace_def split: if_splits)

lemma emits_ensureExistingNamespace:
  "emits (own_namespace_write R s l) (ensureExistingNamespace P R s l name)"
  unfolding ensureExistingNamespace_def Let_def
  by (intro emits_rules)
     (auto simp: own_namespace_write_def patched_namespace_owned patched_namespace_fields
        dest: desired_namespace_owned CanAdopt_unprotected)

lemma generated_unprotected: "\<not> IsProtectedNamespace []"
  by (simp add: IsProtectedNamespace_def ProtectedNamespaces_def)

lemma emits_ensureNamespace_own: "emits (own_namespace_write R s l) (ensureNamespace P R s l)"
  unfolding ensureNamespace_def Let_def
  by (intro emits_rules emits_ensureExistingNamespace)
     (simp add: own_namespace_write_def ns_owned_def managedAnnotations_owned generated_unprotected
        zero_meta_def)

lemma emits_ensureNamespace:
  assumes "\<And>c n. Q (CreateNamespace c n)" "\<And>c n. Q (PatchNamespace c n)"
  shows "emits Q (ensureNamespace P R s l)"
  by (rule emits_mono [OF emits_ensureNamespace_own])
     (auto simp: own_namespace_write_def assms split: effect.splits)

lemma mapsEqual_iff:
  "mapsEqual a b \<longleftrightarrow> maplen a = maplen b \<and> (\<forall>k. k |\<in>| fmdom a \<longrightarrow> lk b k = lk a k)"
  by (auto simp: mapsEqual_def fmpred_iff lk_def fmlookup_dom_iff)

lemma mapsEqual_refl: "mapsEqual a a"
  by (simp add: mapsEqual_iff)

section \<open>Properties\<close>

text \<open>
  C27. Whatever the API server answers, every namespace \<open>ensureNamespace\<close> creates or patches is written
  through the session's own client, is not a protected one, and carries the labels and annotations with
  which the ownership check before deletion recognises it as this lease's; nothing else is written.
\<close>

theorem ensured_namespaces_are_owned:
  "\<exists>es. w_trace (snd (run_state (ensureNamespace P R sess l) w)) = w_trace w @ es
     \<and> list_all (\<lambda>e. \<exists>n. (e = CreateNamespace (ses_Client sess) n \<or> e = PatchNamespace (ses_Client sess) n)
          \<and> VerifyNamespaceOwnership (Some n) l (rec_ControlClusterID R) = None
          \<and> \<not> IsProtectedNamespace (ns_Name n)) es"
proof -
  have "emits (\<lambda>e. \<exists>n. (e = CreateNamespace (ses_Client sess) n \<or> e = PatchNamespace (ses_Client sess) n)
          \<and> VerifyNamespaceOwnership (Some n) l (rec_ControlClusterID R) = None
          \<and> \<not> IsProtectedNamespace (ns_Name n)) (ensureNamespace P R sess l)"
    by (rule emits_mono [OF emits_ensureNamespace_own])
       (auto simp: own_namespace_write_def VerifyNamespaceOwnership_None_iff split: effect.splits)
  then show ?thesis unfolding emits_def by blast
qed

text \<open>
  \<open>mapsEqual\<close> is equality on maps without empty values, which is what the drift check needs; with
  empty values it is not, since a missing key reads as the empty string: \<open>{a: ""}\<close> and \<open>{b: ""}\<close> compare
  equal.
\<close>

theorem maps_equal_nonempty:
  assumes "\<forall>k v. fmlookup a k = Some v \<longrightarrow> v \<noteq> []"
  shows "(mapsEqual a b \<longleftrightarrow> a = b)
     \<and> mapsEqual (fmupd ''a'' [] fmempty) (fmupd ''b'' [] fmempty)
     \<and> fmupd ''a'' [] fmempty \<noteq> (fmupd ''b'' [] fmempty :: strmap)"
proof -
  have "a = b" if m: "mapsEqual a b"
  proof -
    have same: "fmlookup b k = fmlookup a k" if k: "k |\<in>| fmdom a" for k
    proof -
      obtain v where v: "fmlookup a k = Some v" using k by (auto simp: fmlookup_dom_iff)
      then have "v \<noteq> []" using assms by blast
      then show ?thesis using m k v by (auto simp: mapsEqual_iff lk_def split: option.splits)
    qed
    then have "fmdom a |\<subseteq>| fmdom b" by (metis fmdom_notD fmdom_notI fsubsetI)
    then have "fmdom a = fmdom b" using m by (intro fmdom_eqI_of_maplen) (simp_all add: mapsEqual_iff)
    with same show ?thesis by (intro fmap_ext) (metis fmdom_notD)
  qed
  moreover have "mapsEqual (fmupd ''a'' [] fmempty) (fmupd ''b'' [] fmempty)"
    by (simp add: mapsEqual_iff maplen_upd)
  moreover have "fmupd ''a'' [] fmempty \<noteq> (fmupd ''b'' [] fmempty :: strmap)"
  proof
    assume "fmupd ''a'' [] fmempty = (fmupd ''b'' [] fmempty :: strmap)"
    then have "fmlookup (fmupd ''a'' [] fmempty) ''a'' = fmlookup (fmupd ''b'' [] fmempty :: strmap) ''a''"
      by simp
    then show False by simp
  qed
  ultimately show ?thesis using mapsEqual_refl by blast
qed

theorem maps_equal_nonempty_witness:
  "mapsEqual (fmupd ''k'' ''v'' fmempty) fmempty \<longleftrightarrow> (fmupd ''k'' ''v'' fmempty :: strmap) = fmempty"
  using maps_equal_nonempty [of "fmupd ''k'' ''v'' fmempty" fmempty] by simp

end
