(* ===== verification/Placement.thy ===== *)
theory Placement
  imports Platform
begin

text \<open>
  \<open>src/internal/placement/decide.go\<close>: which cluster hosts a lease. The listing calls are programs
  over the platform; what follows a listing is pure.
\<close>

record Decision =
  de_ClusterName :: string
  de_Pending :: bool
  de_Message :: string
  de_Reselected :: bool

definition decided :: "string \<Rightarrow> Decision" where
  "decided name = \<lparr>de_ClusterName = name, de_Pending = False, de_Message = [], de_Reselected = False\<rparr>"

type_synonym lease_counts = "(string, int) fmap"

definition ValidateExclusive :: "EnvironmentLeaseSpec \<Rightarrow> go_error option" where
  "ValidateExclusive spec =
     (let hasRef = ref_name (sp_ClusterRef spec) \<noteq> [];
          hasPlacement = sp_Placement spec \<noteq> None
      in if hasRef \<and> hasPlacement then Some (Errorf ''clusterRef and placement are mutually exclusive'')
         else None)"

definition policyPlacement :: "EnvironmentLeasePolicy option \<Rightarrow> PlacementSpec option" where
  "policyPlacement policy = (case policy of None \<Rightarrow> None | Some p \<Rightarrow> ps_Placement (po_Spec p))"

definition selectorFromPlacement :: "'a k8slib_scheme \<Rightarrow> PlacementSpec option \<Rightarrow> go_error + Selector option" where
  "selectorFromPlacement K p =
     (case (case p of None \<Rightarrow> None | Some s \<Rightarrow> pl_Selector s) of
        None \<Rightarrow> Inr None
      | Some sel \<Rightarrow> map_sum id Some (LabelSelectorAsSelector K sel))"

definition enforcePolicyOnTarget :: "ClusterTarget \<Rightarrow> Selector option \<Rightarrow> go_error option" where
  "enforcePolicyOnTarget target policySel =
     (case policySel of
        None \<Rightarrow> None
      | Some sel \<Rightarrow>
          if sel_Empty sel then None
          else if \<not> sel_Matches sel (SchedulingLabels target)
          then Some (Errorf (reason_text ReasonPolicyViolation @ '': ClusterTarget '' @ quote (ct_Name target)
                 @ '' does not match policy placement selector''))
          else None)"

definition getTarget :: "'w platform \<Rightarrow> string \<Rightarrow> ('w, go_error + ClusterTarget) prog" where
  "getTarget P name = do {
     r \<leftarrow> call (api_GetTarget (pf_hub P) name);
     State_Monad.return (case r of
         Inl err \<Rightarrow> Inl (Wrapf (''get ClusterTarget '' @ quote name @ '': '') err)
       | Inr t \<Rightarrow> Inr t) }"

definition matchesSelectors :: "ClusterTarget \<Rightarrow> Selector option \<Rightarrow> Selector option \<Rightarrow> bool" where
  "matchesSelectors target leaseSel policySel =
     (let ls = SchedulingLabels target
      in if (case leaseSel of None \<Rightarrow> False | Some s \<Rightarrow> \<not> sel_Matches s ls) then False
         else if (case policySel of None \<Rightarrow> False | Some s \<Rightarrow> \<not> sel_Matches s ls) then False
         else True)"

definition targetHealthyEnabled :: "'a k8slib_scheme \<Rightarrow> ClusterTarget \<Rightarrow> bool" where
  "targetHealthyEnabled K target =
     (if \<not> ptr_is_zero (om_DeletionTimestamp (ct_Meta target)) \<or> \<not> IsEnabled (ct_Spec target) then False
      else IsStatusConditionTrue K (tst_Conditions (ct_Status target)) ConditionReady)"

text \<open>A nil count map falls back to the capacity in the target's status.\<close>

definition underSoftCapacity :: "ClusterTarget \<Rightarrow> lease_counts option \<Rightarrow> bool" where
  "underSoftCapacity target counts =
     (case ts_MaxActiveLeases (ct_Spec target) of
        None \<Rightarrow> True
      | Some mx \<Rightarrow>
          let active =
                (case counts of
                   Some c \<Rightarrow> (case fmlookup c (ct_Name target) of None \<Rightarrow> 0 | Some n \<Rightarrow> n)
                 | None \<Rightarrow> (case tst_Capacity (ct_Status target) of None \<Rightarrow> 0 | Some c \<Rightarrow> cc_ActiveLeases c))
          in active < mx)"

text \<open>Lines 231--239: the counts used when the caller passed none.\<close>

definition default_counts :: "ClusterTarget list \<Rightarrow> lease_counts" where
  "default_counts items = fold (\<lambda>t m. case tst_Capacity (ct_Status t) of
       None \<Rightarrow> m | Some c \<Rightarrow> fmupd (ct_Name t) (cc_ActiveLeases c) m) items fmempty"

definition eligible ::
  "'a k8slib_scheme \<Rightarrow> Selector option \<Rightarrow> Selector option \<Rightarrow> lease_counts \<Rightarrow> ClusterTarget \<Rightarrow> bool" where
  "eligible K leaseSel policySel counts t =
     (if \<not> targetHealthyEnabled K t then False
      else if \<not> matchesSelectors t leaseSel policySel then False
      else if \<not> underSoftCapacity t (Some counts) then False
      else True)"

text \<open>
  The first eight bytes of the digest, big endian, modulo the number of candidates. The digest of
  the library has 32 bytes; a shorter list would read as it stands.
\<close>

definition Uint64 :: "nat list \<Rightarrow> nat" where
  "Uint64 bytes = fold (\<lambda>b acc. (256 * acc + b) mod 2 ^ 64) bytes 0"

definition pickStable :: "'w platform \<Rightarrow> EnvironmentLease \<Rightarrow> ClusterTarget list \<Rightarrow> string" where
  "pickStable P l candidates =
     (let key = (if el_UID l = [] then el_Name l else el_UID l);
          sum = lib_Sha256 P key;
          idx = Uint64 (take 8 sum) mod length candidates
      in ct_Name (candidates ! idx))"

text \<open>\<open>selectFromCandidates\<close> after the listing.\<close>

definition select_from ::
  "'w platform \<Rightarrow> EnvironmentLease \<Rightarrow> Selector option \<Rightarrow> Selector option \<Rightarrow> lease_counts option
     \<Rightarrow> ClusterTarget list \<Rightarrow> Decision" where
  "select_from P l leaseSel policySel opts items =
     (let counts = (case opts of Some c \<Rightarrow> c | None \<Rightarrow> default_counts items);
          candidates = filter (eligible (pf_lib P) leaseSel policySel counts) items
      in if length candidates = 0
         then \<lparr>de_ClusterName = [], de_Pending = True,
               de_Message = ''no matching Ready ClusterTarget for placement selector'',
               de_Reselected = False\<rparr>
         else decided (pickStable P l (sort_key ct_Name candidates)))"

definition selectFromCandidates ::
  "'w platform \<Rightarrow> EnvironmentLease \<Rightarrow> Selector option \<Rightarrow> Selector option \<Rightarrow> lease_counts option
     \<Rightarrow> ('w, go_error + Decision) prog" where
  "selectFromCandidates P l leaseSel policySel opts = do {
     r \<leftarrow> call (api_ListTargets (pf_hub P));
     State_Monad.return (case r of
         Inl err \<Rightarrow> Inl (Wrapf ''list ClusterTargets: '' err)
       | Inr items \<Rightarrow> Inr (select_from P l leaseSel policySel opts items)) }"

definition needs_placement :: "EnvironmentLease \<Rightarrow> EnvironmentLeasePolicy option \<Rightarrow> bool" where
  "needs_placement l policy \<longleftrightarrow>
     sp_Placement (el_Spec l) \<noteq> None
   \<or> (case policyPlacement policy of None \<Rightarrow> False | Some p \<Rightarrow> pl_Selector p \<noteq> None)"

definition sticky_cluster :: "EnvironmentLease \<Rightarrow> string" where
  "sticky_cluster l = (case st_Cluster (el_Status l) of None \<Rightarrow> [] | Some c \<Rightarrow> cs_Name c)"

text \<open>Lines 120--153 of \<open>Decide\<close>: sticky selection, placement, local default.\<close>

definition decide_unpinned ::
  "'w platform \<Rightarrow> EnvironmentLease \<Rightarrow> EnvironmentLeasePolicy option \<Rightarrow> lease_counts option
     \<Rightarrow> Selector option \<Rightarrow> Selector option \<Rightarrow> ('w, go_error + Decision) prog" where
  "decide_unpinned P l policy opts leaseSel policySel =
     (let provisioned = st_Namespace (el_Status l) \<noteq> [];
          sticky = sticky_cluster l
      in if sticky \<noteq> [] \<and> sticky \<noteq> LocalClusterName then do {
           r \<leftarrow> getTarget P sticky;
           if (case r of Inl err \<Rightarrow> False
               | Inr t \<Rightarrow> matchesSelectors t leaseSel policySel \<and> targetHealthyEnabled (pf_lib P) t)
           then State_Monad.return (Inr (decided sticky))
           else if provisioned then State_Monad.return (Inr (decided sticky))
           else if needs_placement l policy then do {
             d \<leftarrow> selectFromCandidates P l leaseSel policySel opts;
             State_Monad.return (map_sum id (de_Reselected_update (\<lambda>_. True)) d) }
           else State_Monad.return (Inr ((decided LocalClusterName)\<lparr>de_Reselected := True\<rparr>)) }
         else if sticky = LocalClusterName \<and> provisioned
         then State_Monad.return (Inr (decided LocalClusterName))
         else if needs_placement l policy then selectFromCandidates P l leaseSel policySel opts
         else State_Monad.return (Inr (decided LocalClusterName)))"

definition Decide ::
  "'w platform \<Rightarrow> EnvironmentLease \<Rightarrow> EnvironmentLeasePolicy option \<Rightarrow> lease_counts option
     \<Rightarrow> ('w, go_error + Decision) prog" where
  "Decide P l policy opts =
     (case ValidateExclusive (el_Spec l) of
        Some err \<Rightarrow> State_Monad.return (Inl err)
      | None \<Rightarrow>
      case selectorFromPlacement (pf_lib P) (policyPlacement policy) of
        Inl err \<Rightarrow> State_Monad.return (Inl (Wrapf ''policy placement selector: '' err))
      | Inr policySel \<Rightarrow>
      case selectorFromPlacement (pf_lib P) (sp_Placement (el_Spec l)) of
        Inl err \<Rightarrow> State_Monad.return (Inl (Wrapf ''lease placement selector: '' err))
      | Inr leaseSel \<Rightarrow>
        let name = ref_name (sp_ClusterRef (el_Spec l))
        in if name \<noteq> [] then do {
             r \<leftarrow> getTarget P name;
             State_Monad.return (case r of
                 Inl err \<Rightarrow> Inl err
               | Inr target \<Rightarrow>
                   (case enforcePolicyOnTarget target policySel of
                      Some err \<Rightarrow> Inl err
                    | None \<Rightarrow> Inr (decided name))) }
           else decide_unpinned P l policy opts leaseSel policySel)"

text \<open>The loop of \<open>CountActiveLeases\<close>; the counter is an \<open>int32\<close> and wraps.\<close>

definition counts_towards :: "EnvironmentLease \<Rightarrow> string option" where
  "counts_towards l =
     (if \<not> ptr_is_zero (om_DeletionTimestamp (el_Meta l)) then None
      else if sticky_cluster l = [] \<or> sticky_cluster l = LocalClusterName then None
      else if st_Phase (el_Status l) = LeasePhaseExpired then None
      else Some (sticky_cluster l))"

definition count_active :: "EnvironmentLease list \<Rightarrow> lease_counts" where
  "count_active items = fold (\<lambda>l m. case counts_towards l of
       None \<Rightarrow> m
     | Some c \<Rightarrow> fmupd c (wrap32 ((case fmlookup m c of None \<Rightarrow> 0 | Some n \<Rightarrow> n) + 1)) m) items fmempty"

definition CountActiveLeases :: "'w platform \<Rightarrow> ('w, go_error + lease_counts) prog" where
  "CountActiveLeases P = do {
     r \<leftarrow> call (api_ListLeases (pf_hub P) None);
     State_Monad.return (map_sum id count_active r) }"

section \<open>Lemmas\<close>

lemma emits_getTarget [emits_rules]: "emits Q (getTarget P name)"
  unfolding getTarget_def by (intro emits_rules)

lemma emits_selectFromCandidates [emits_rules]: "emits Q (selectFromCandidates P l ls ps opts)"
  unfolding selectFromCandidates_def by (intro emits_rules)

lemma emits_decide_unpinned [emits_rules]: "emits Q (decide_unpinned P l policy opts ls ps)"
  unfolding decide_unpinned_def Let_def by (intro emits_rules)

lemma emits_Decide [emits_rules]: "emits Q (Decide P l policy opts)"
  unfolding Decide_def Let_def by (intro emits_rules)

lemma emits_CountActiveLeases [emits_rules]: "emits Q (CountActiveLeases P)"
  unfolding CountActiveLeases_def by (intro emits_rules)

lemma decided_simps [simp]:
  "de_ClusterName (decided n) = n" "\<not> de_Pending (decided n)" "\<not> de_Reselected (decided n)"
  by (simp_all add: decided_def)

lemma pickStable_in:
  assumes "xs \<noteq> []"
  shows "pickStable P l xs \<in> ct_Name ` set xs"
  using assms by (auto simp: pickStable_def Let_def intro!: imageI nth_mem)

lemma select_from_pending_iff:
  "de_Pending (select_from P l ls ps opts items) \<longleftrightarrow>
     filter (eligible (pf_lib P) ls ps (case opts of Some c \<Rightarrow> c | None \<Rightarrow> default_counts items)) items = []"
  by (simp add: select_from_def Let_def)

lemma fold_default_counts:
  assumes "distinct (map ct_Name items)"
  shows "fmlookup (fold (\<lambda>t m. case tst_Capacity (ct_Status t) of
             None \<Rightarrow> m | Some c \<Rightarrow> fmupd (ct_Name t) (cc_ActiveLeases c) m) items m) n =
     (case find (\<lambda>t. ct_Name t = n \<and> tst_Capacity (ct_Status t) \<noteq> None) items of
        Some t \<Rightarrow> Some (cc_ActiveLeases (the (tst_Capacity (ct_Status t)))) | None \<Rightarrow> fmlookup m n)"
  using assms
proof (induction items arbitrary: m)
  case (Cons t items)
  have "find (\<lambda>t. ct_Name t = n \<and> tst_Capacity (ct_Status t) \<noteq> None) items = None"
    if "ct_Name t = n"
  proof -
    have "ct_Name x \<noteq> n" if "x \<in> set items" for x
      using Cons.prems that \<open>ct_Name t = n\<close> by (simp add: image_iff) metis
    then show ?thesis by (auto simp: find_None_iff)
  qed
  with Cons show ?case by (auto split: option.splits)
qed simp

lemma find_unique_perm:
  assumes "mset xs = mset ys" and "distinct (map f xs)"
  shows "find (\<lambda>x. f x = k \<and> P x) xs = find (\<lambda>x. f x = k \<and> P x) ys"
proof -
  have inj: "inj_on f (set xs)" using assms(2) by (simp add: distinct_map)
  have set: "set xs = set ys" using assms(1) by (metis set_mset_mset)
  show ?thesis
  proof (cases "find (\<lambda>x. f x = k \<and> P x) xs")
    case None
    then show ?thesis using set by (metis find_None_iff)
  next
    case (Some a)
    then have a: "a \<in> set xs" "f a = k" "P a" by (auto simp: find_Some_iff)
    then obtain b where b: "find (\<lambda>x. f x = k \<and> P x) ys = Some b"
      using set by (metis (mono_tags, lifting) find_None_iff not_Some_eq)
    then have "b \<in> set xs" "f b = k" using set by (auto simp: find_Some_iff)
    then have "b = a" using a inj by (metis inj_onD)
    with b Some show ?thesis by simp
  qed
qed

lemma default_counts_perm:
  assumes "mset xs = mset ys" and "distinct (map ct_Name xs)"
  shows "default_counts xs = default_counts ys"
proof (rule fmap_ext)
  fix n
  have "distinct (map ct_Name ys)"
    using assms by (metis mset_map mset_eq_imp_distinct_iff)
  then show "fmlookup (default_counts xs) n = fmlookup (default_counts ys) n"
    unfolding default_counts_def fold_default_counts [OF assms(2)]
    by (simp add: fold_default_counts find_unique_perm [OF assms])
qed

text \<open>The pinned target of \<open>Decide\<close>, and the selection without one.\<close>

lemma run_getTarget:
  "run_state (getTarget P name) w =
     (case api_GetTarget (pf_hub P) name (w_env w) of
        (Inl err, e) \<Rightarrow> (Inl (Wrapf (''get ClusterTarget '' @ quote name @ '': '') err), w\<lparr>w_env := e\<rparr>)
      | (Inr t, e) \<Rightarrow> (Inr t, w\<lparr>w_env := e\<rparr>))"
  by (simp add: getTarget_def split: prod.split sum.split)

lemma decide_unpinned_provisioned:
  assumes "st_Namespace (el_Status l) \<noteq> []" "sticky_cluster l \<noteq> []"
  shows "fst (run_state (decide_unpinned P l policy opts ls ps) w) = Inr (decided (sticky_cluster l))"
  using assms by (simp add: decide_unpinned_def Let_def split: prod.split)

section \<open>Properties\<close>

text \<open>
  C28. Placement picks an eligible cluster or waits: the choice among the listed targets is pending
  exactly when no target is enabled, ready, matched by both selectors and under its soft capacity, and
  otherwise names such a target.
\<close>

theorem select_from_eligible:
  "(let counts = (case opts of Some c \<Rightarrow> c | None \<Rightarrow> default_counts items);
        d = select_from P l leaseSel policySel opts items;
        ok = (\<lambda>t. targetHealthyEnabled (pf_lib P) t \<and> matchesSelectors t leaseSel policySel
                \<and> underSoftCapacity t (Some counts))
    in if \<exists>t. t \<in> set items \<and> ok t
       then \<not> de_Pending d \<and> (\<exists>t. t \<in> set items \<and> ok t \<and> de_ClusterName d = ct_Name t)
       else de_Pending d)"
proof -
  define counts where "counts = (case opts of Some c \<Rightarrow> c | None \<Rightarrow> default_counts items)"
  define cs where "cs = filter (eligible (pf_lib P) leaseSel policySel counts) items"
  have ok: "eligible (pf_lib P) leaseSel policySel counts t \<longleftrightarrow> targetHealthyEnabled (pf_lib P) t
      \<and> matchesSelectors t leaseSel policySel \<and> underSoftCapacity t (Some counts)" for t
    by (simp add: eligible_def)
  have d: "select_from P l leaseSel policySel opts items =
      (if cs = [] then \<lparr>de_ClusterName = [], de_Pending = True,
          de_Message = ''no matching Ready ClusterTarget for placement selector'', de_Reselected = False\<rparr>
       else decided (pickStable P l (sort_key ct_Name cs)))"
    by (simp add: select_from_def counts_def cs_def Let_def)
  have pick: "pickStable P l (sort_key ct_Name cs) \<in> ct_Name ` set cs" if "cs \<noteq> []"
  proof -
    have "sort_key ct_Name cs \<noteq> []" using that by (metis set_empty set_sort)
    then show ?thesis using pickStable_in [of "sort_key ct_Name cs" P l] by simp
  qed
  have "cs = [] \<longleftrightarrow> \<not> (\<exists>t. t \<in> set items \<and> eligible (pf_lib P) leaseSel policySel counts t)"
    by (auto simp: cs_def filter_empty_conv)
  with pick show ?thesis
    unfolding Let_def d counts_def [symmetric] ok [symmetric] by (auto simp: cs_def)
qed

text \<open>
  C29. Placement does not depend on the order in which the API server lists the targets: for targets
  with distinct names, any permutation of the list gives the same decision.
\<close>

theorem select_from_order_independent:
  assumes "mset items = mset items'" and "distinct (map ct_Name items)"
  shows "select_from P l leaseSel policySel opts items = select_from P l leaseSel policySel opts items'"
proof -
  define counts where "counts = (case opts of Some c \<Rightarrow> c | None \<Rightarrow> default_counts items)"
  have c': "counts = (case opts of Some c \<Rightarrow> c | None \<Rightarrow> default_counts items')"
    using default_counts_perm [OF assms] by (simp add: counts_def split: option.split)
  let ?f = "filter (eligible (pf_lib P) leaseSel policySel counts)"
  have m: "mset (?f items) = mset (?f items')" using assms(1) by simp
  have "inj_on ct_Name (set (?f items))"
    using assms(2) by (auto simp: distinct_map inj_on_def)
  then have "sort_key ct_Name (?f items) = sort_key ct_Name (?f items')"
    by (rule sort_key_perm_eq [OF m])
  moreover have "length (?f items) = length (?f items')" using m by (rule mset_eq_length)
  ultimately show ?thesis
    unfolding select_from_def Let_def counts_def [symmetric] c' [symmetric] by simp
qed

text \<open>Two ready targets, listed in either order: the decision names one of them.\<close>

definition ready_target :: "string \<Rightarrow> ClusterTarget" where
  "ready_target n = zero_target\<lparr>ct_Meta := zero_meta\<lparr>om_Name := n\<rparr>,
     ct_Status := (ct_Status zero_target)\<lparr>tst_Conditions := [\<lparr>cd_Type = ConditionReady, cd_Status = ConditionTrue,
       cd_ObservedGeneration = 1, cd_LastTransitionTime = 3, cd_Reason = ReasonEnvironmentReady, cd_Message = []\<rparr>]\<rparr>\<rparr>"

theorem select_from_order_independent_witness:
  "select_from demo_platform demo_lease None None None [ready_target ''b'', ready_target ''a''] = decided ''a''"
proof -
  have "select_from demo_platform demo_lease None None None [ready_target ''b'', ready_target ''a'']
      = select_from demo_platform demo_lease None None None [ready_target ''a'', ready_target ''b'']"
    by (rule select_from_order_independent) (simp_all add: ready_target_def zero_defs add_mset_commute)
  also have "\<dots> = decided ''a''" by code_simp
  finally show ?thesis .
qed

text \<open>
  The precedence of \<open>Decide\<close>, whatever the API server answers: an explicit \<open>clusterRef\<close> is the only
  cluster a decision can name, and only after its target passed the policy's selector; without one, a lease
  whose namespace exists stays on its recorded cluster; and no decision ever writes anything. An
  explicit \<open>clusterRef\<close> wins over the recorded cluster even after provisioning.
\<close>

theorem decide_precedence:
  assumes "run_state (Decide P l policy opts) w = (Inr d, w')"
  shows "w_trace w' = w_trace w
   \<and> (let name = ref_name (sp_ClusterRef (el_Spec l))
      in if name \<noteq> []
         then d = decided name
            \<and> (\<exists>t e sel. api_GetTarget (pf_hub P) name (w_env w) = (Inr t, e)
                 \<and> selectorFromPlacement (pf_lib P) (policyPlacement policy) = Inr sel
                 \<and> enforcePolicyOnTarget t sel = None)
         else if st_Namespace (el_Status l) \<noteq> [] \<and> sticky_cluster l \<noteq> []
         then d = decided (sticky_cluster l)
         else True)"
proof -
  have "emits (\<lambda>_. False) (Decide P l policy opts)" by (rule emits_rules)
  then have trace: "w_trace w' = w_trace w"
    by (elim emitsD [OF _ assms]) (simp add: list_all_iff)
  obtain ps ls where sel: "ValidateExclusive (el_Spec l) = None"
      "selectorFromPlacement (pf_lib P) (policyPlacement policy) = Inr ps"
      "selectorFromPlacement (pf_lib P) (sp_Placement (el_Spec l)) = Inr ls"
    using assms by (auto simp: Decide_def split: option.splits sum.splits)
  let ?name = "ref_name (sp_ClusterRef (el_Spec l))"
  show ?thesis
  proof (cases "?name = []")
    case True
    then have "fst (run_state (decide_unpinned P l policy opts ls ps) w) = Inr d"
      using assms by (simp add: Decide_def sel)
    with True trace show ?thesis by (auto simp: decide_unpinned_provisioned)
  next
    case False
    then show ?thesis
      using assms trace
      by (auto simp: Decide_def sel run_getTarget Let_def split: prod.splits sum.splits option.splits)
  qed
qed

theorem decide_precedence_witness:
  "\<exists>d w'. run_state (Decide demo_platform
        (demo_lease\<lparr>el_Spec := zero_lease_spec\<lparr>sp_ClusterRef := Some \<lparr>lor_Name = ''edge''\<rparr>\<rparr>\<rparr>) None None) demo_world
      = (Inr d, w') \<and> d = decided ''edge'' \<and> w_trace w' = []"
proof -
  let ?l = "demo_lease\<lparr>el_Spec := zero_lease_spec\<lparr>sp_ClusterRef := Some \<lparr>lor_Name = ''edge''\<rparr>\<rparr>\<rparr>"
  obtain d w' where r: "run_state (Decide demo_platform ?l None None) demo_world = (Inr d, w')"
    by (simp add: Decide_def ValidateExclusive_def zero_defs selectorFromPlacement_def
        policyPlacement_def run_getTarget enforcePolicyOnTarget_def Let_def)
  show ?thesis using decide_precedence [OF r] r by (simp add: Let_def demo_world_def)
qed

text \<open>
  The soft counts are right: for fewer than \<open>2^31\<close> leases, the number recorded for a cluster is
  the number of listed leases that are assigned to it, are not being deleted and have not expired.
\<close>

theorem count_active_leases_correct:
  assumes "length items < 2147483648"
  shows "(case fmlookup (count_active items) c of None \<Rightarrow> 0 | Some n \<Rightarrow> n)
     = int (length (filter (\<lambda>l. counts_towards l = Some c) items))"
proof -
  have "length items < 2147483648 \<Longrightarrow>
      (case fmlookup (count_active items) c of None \<Rightarrow> 0 | Some n \<Rightarrow> n)
        = int (length (filter (\<lambda>l. counts_towards l = Some c) items))"
  proof (induction items rule: rev_induct)
    case Nil
    then show ?case by (simp add: count_active_def)
  next
    case (snoc l items)
    let ?n = "int (length (filter (\<lambda>l. counts_towards l = Some c) items))"
    have "length (filter (\<lambda>l. counts_towards l = Some c) items) \<le> length items" by (rule length_filter_le)
    moreover have "length items < 2147483647" using snoc.prems by simp
    ultimately have "wrap32 (?n + 1) = ?n + 1" by (intro wrap32_id) linarith+
    with snoc show ?case by (auto simp: count_active_def split: option.splits)
  qed
  with assms show ?thesis by simp
qed

theorem count_active_leases_correct_witness:
  "(case fmlookup (count_active [demo_lease]) ''edge'' of None \<Rightarrow> 0 | Some n \<Rightarrow> n)
     = int (length (filter (\<lambda>l. counts_towards l = Some ''edge'') [demo_lease]))"
  by (rule count_active_leases_correct) simp

end
