(* ===== verification/Conditions.thy ===== *)
theory Conditions
  imports API_Types
begin

text \<open>
  \<open>src/internal/lease/conditions.go\<close>: the operations that move a lease through its phases
  and set its conditions. They share a contract, the locale \<open>status_marker\<close>: of the whole
  object they change only the phase, the conditions, the expiration reason and the
  observed generation. The frame lemmas are proved once in the locale and every operation
  interprets it.
\<close>

definition SetCondition ::
  "'a k8slib_scheme \<Rightarrow> EnvironmentLease \<Rightarrow> CondType \<Rightarrow> ConditionStatus \<Rightarrow> Reason \<Rightarrow> string
     \<Rightarrow> EnvironmentLease" where
  "SetCondition K l t status reason message =
     l\<lparr>el_Status := (el_Status l)\<lparr>st_Conditions :=
         SetStatusCondition K (st_Conditions (el_Status l))
           \<lparr>cd_Type = t, cd_Status = status, cd_ObservedGeneration = om_Generation (el_Meta l),
            cd_LastTransitionTime = zero_time, cd_Reason = reason, cd_Message = message\<rparr>\<rparr>\<rparr>"

definition SetPhase :: "EnvironmentLease \<Rightarrow> LeasePhase \<Rightarrow> EnvironmentLease" where
  "SetPhase l p = l\<lparr>el_Status := (el_Status l)\<lparr>st_Phase := p\<rparr>\<rparr>"

definition MarkProvisioning :: "'a k8slib_scheme \<Rightarrow> EnvironmentLease \<Rightarrow> string \<Rightarrow> EnvironmentLease" where
  "MarkProvisioning K l message =
     (let l = SetPhase l LeasePhaseProvisioning;
          l = SetCondition K l ConditionReady ConditionFalse ReasonProvisioning message;
          l = SetCondition K l ConditionExpiring ConditionFalse ReasonProvisioning ''Not yet active'';
          l = SetCondition K l ConditionCleanup ConditionFalse ReasonProvisioning ''Not cleaning''
      in SetCondition K l ConditionDegraded ConditionFalse ReasonProvisioning ''Provisioning'')"

definition MarkReady :: "'a k8slib_scheme \<Rightarrow> EnvironmentLease \<Rightarrow> bool \<Rightarrow> EnvironmentLease" where
  "MarkReady K l expiring =
     (let l = (if expiring
               then SetCondition K (SetPhase l LeasePhaseExpiring) ConditionExpiring ConditionTrue
                      ReasonLeaseExpiring ''Lease is approaching expiration''
               else SetCondition K (SetPhase l LeasePhaseActive) ConditionExpiring ConditionFalse
                      ReasonEnvironmentReady ''Lease is not in warning window'');
          l = SetCondition K l ConditionReady ConditionTrue ReasonEnvironmentReady
                ''Environment successfully provisioned'';
          l = SetCondition K l ConditionCleanup ConditionFalse ReasonEnvironmentReady ''Not cleaning''
      in SetCondition K l ConditionDegraded ConditionFalse ReasonEnvironmentReady ''Healthy'')"

definition MarkPending ::
  "'a k8slib_scheme \<Rightarrow> EnvironmentLease \<Rightarrow> Reason \<Rightarrow> string \<Rightarrow> EnvironmentLease" where
  "MarkPending K l reason message =
     (let l = SetPhase l LeasePhasePending;
          l = SetCondition K l ConditionReady ConditionFalse reason message;
          l = SetCondition K l ConditionTargetClusterReady ConditionFalse reason message
      in SetCondition K l ConditionDegraded ConditionFalse reason message)"

definition MarkFailed ::
  "'a k8slib_scheme \<Rightarrow> EnvironmentLease \<Rightarrow> Reason \<Rightarrow> string \<Rightarrow> EnvironmentLease" where
  "MarkFailed K l reason message =
     (let l = SetPhase l LeasePhaseFailed;
          l = SetCondition K l ConditionReady ConditionFalse reason message
      in SetCondition K l ConditionDegraded ConditionTrue reason message)"

definition MarkExpired ::
  "'a k8slib_scheme \<Rightarrow> EnvironmentLease \<Rightarrow> ExpirationReason \<Rightarrow> EnvironmentLease" where
  "MarkExpired K l reason =
     (let reason = (if reason = NoExpirationReason then ExpirationReasonTTLExpired else reason);
          l = l\<lparr>el_Status := (el_Status l)\<lparr>st_ExpirationReason := reason\<rparr>\<rparr>;
          l = SetPhase l LeasePhaseExpiring;
          msg = ''Lease expired ('' @ expiration_reason_text reason @ '')'';
          l = SetCondition K l ConditionReady ConditionFalse ReasonLeaseExpired msg
      in SetCondition K l ConditionExpiring ConditionTrue ReasonLeaseExpired msg)"

definition MarkCleaning :: "'a k8slib_scheme \<Rightarrow> EnvironmentLease \<Rightarrow> string \<Rightarrow> EnvironmentLease" where
  "MarkCleaning K l message =
     (let l = SetPhase l LeasePhaseCleaning;
          l = SetCondition K l ConditionCleanup ConditionFalse ReasonCleanupInProgress message
      in SetCondition K l ConditionReady ConditionFalse ReasonCleanupInProgress message)"

definition MarkCleanupComplete :: "'a k8slib_scheme \<Rightarrow> EnvironmentLease \<Rightarrow> EnvironmentLease" where
  "MarkCleanupComplete K l =
     (let l = SetPhase l LeasePhaseExpired;
          l = SetCondition K l ConditionCleanup ConditionTrue ReasonCleanupComplete
                ''Managed environment cleaned up'';
          l = SetCondition K l ConditionExpiring ConditionFalse ReasonCleanupComplete ''Expired''
      in SetCondition K l ConditionDegraded ConditionFalse ReasonCleanupComplete ''Cleanup finished'')"

definition MarkCleanupFailed :: "'a k8slib_scheme \<Rightarrow> EnvironmentLease \<Rightarrow> string \<Rightarrow> EnvironmentLease" where
  "MarkCleanupFailed K l message =
     (let l = SetPhase l LeasePhaseCleaning;
          l = SetCondition K l ConditionCleanup ConditionFalse ReasonCleanupFailed message
      in SetCondition K l ConditionDegraded ConditionTrue ReasonCleanupFailed message)"

definition ConditionTrue_lease :: "'a k8slib_scheme \<Rightarrow> EnvironmentLease \<Rightarrow> CondType \<Rightarrow> bool" where
  "ConditionTrue_lease K l t = IsStatusConditionTrue K (st_Conditions (el_Status l)) t"

definition EnsureObservedGeneration :: "EnvironmentLease \<Rightarrow> EnvironmentLease" where
  "EnsureObservedGeneration l =
     l\<lparr>el_Status := (el_Status l)\<lparr>st_ObservedGeneration := om_Generation (el_Meta l)\<rparr>\<rparr>"

lemmas marker_defs = MarkProvisioning_def MarkReady_def MarkPending_def MarkFailed_def
  MarkExpired_def MarkCleaning_def MarkCleanupComplete_def MarkCleanupFailed_def Let_def

section \<open>The contract of the markers\<close>

text \<open>What no marker may touch: everything but phase, conditions, reason and generation.\<close>

definition lease_core :: "EnvironmentLease \<Rightarrow> EnvironmentLease" where
  "lease_core l = l\<lparr>el_Status := (el_Status l)\<lparr>st_Phase := NoPhase, st_Conditions := [],
     st_ExpirationReason := NoExpirationReason, st_ObservedGeneration := 0\<rparr>\<rparr>"

lemma lease_core_fields:
  assumes "lease_core a = lease_core b"
  shows "el_Meta a = el_Meta b" "el_Spec a = el_Spec b"
    "st_Namespace (el_Status a) = st_Namespace (el_Status b)"
    "st_Cluster (el_Status a) = st_Cluster (el_Status b)"
    "st_CreatedAt (el_Status a) = st_CreatedAt (el_Status b)"
    "st_ExpiresAt (el_Status a) = st_ExpiresAt (el_Status b)"
    "st_MaximumExpiresAt (el_Status a) = st_MaximumExpiresAt (el_Status b)"
    "st_LastActivityAt (el_Status a) = st_LastActivityAt (el_Status b)"
    "st_IdleExpiresAt (el_Status a) = st_IdleExpiresAt (el_Status b)"
    "st_EffectiveExpiresAt (el_Status a) = st_EffectiveExpiresAt (el_Status b)"
    "st_WarningsDelivered (el_Status a) = st_WarningsDelivered (el_Status b)"
    "st_Effective (el_Status a) = st_Effective (el_Status b)"
proof -
  obtain ma sa ta where a: "a = \<lparr>el_Meta = ma, el_Spec = sa, el_Status = ta\<rparr>" by (cases a)
  obtain mb sb tb where b: "b = \<lparr>el_Meta = mb, el_Spec = sb, el_Status = tb\<rparr>" by (cases b)
  have "ma = mb" "sa = sb" and t: "ta\<lparr>st_Phase := NoPhase, st_Conditions := [],
      st_ExpirationReason := NoExpirationReason, st_ObservedGeneration := 0\<rparr> =
    tb\<lparr>st_Phase := NoPhase, st_Conditions := [],
      st_ExpirationReason := NoExpirationReason, st_ObservedGeneration := 0\<rparr>"
    using assms by (simp_all add: a b lease_core_def)
  then show "el_Meta a = el_Meta b" "el_Spec a = el_Spec b"
    "st_Namespace (el_Status a) = st_Namespace (el_Status b)"
    "st_Cluster (el_Status a) = st_Cluster (el_Status b)"
    "st_CreatedAt (el_Status a) = st_CreatedAt (el_Status b)"
    "st_ExpiresAt (el_Status a) = st_ExpiresAt (el_Status b)"
    "st_MaximumExpiresAt (el_Status a) = st_MaximumExpiresAt (el_Status b)"
    "st_LastActivityAt (el_Status a) = st_LastActivityAt (el_Status b)"
    "st_IdleExpiresAt (el_Status a) = st_IdleExpiresAt (el_Status b)"
    "st_EffectiveExpiresAt (el_Status a) = st_EffectiveExpiresAt (el_Status b)"
    "st_WarningsDelivered (el_Status a) = st_WarningsDelivered (el_Status b)"
    "st_Effective (el_Status a) = st_Effective (el_Status b)"
    by (cases ta; cases tb; simp add: a b)+
qed

locale status_marker =
  fixes mark :: "EnvironmentLease \<Rightarrow> EnvironmentLease"
  assumes core: "lease_core (mark l) = lease_core l"
begin

lemmas marked = lease_core_fields [OF core]

lemma marked_frame [simp]:
  "el_Meta (mark l) = el_Meta l" "el_Spec (mark l) = el_Spec l"
  "st_Namespace (el_Status (mark l)) = st_Namespace (el_Status l)"
  "st_Cluster (el_Status (mark l)) = st_Cluster (el_Status l)"
  "st_CreatedAt (el_Status (mark l)) = st_CreatedAt (el_Status l)"
  "st_ExpiresAt (el_Status (mark l)) = st_ExpiresAt (el_Status l)"
  "st_MaximumExpiresAt (el_Status (mark l)) = st_MaximumExpiresAt (el_Status l)"
  "st_LastActivityAt (el_Status (mark l)) = st_LastActivityAt (el_Status l)"
  "st_IdleExpiresAt (el_Status (mark l)) = st_IdleExpiresAt (el_Status l)"
  "st_EffectiveExpiresAt (el_Status (mark l)) = st_EffectiveExpiresAt (el_Status l)"
  "st_WarningsDelivered (el_Status (mark l)) = st_WarningsDelivered (el_Status l)"
  "st_Effective (el_Status (mark l)) = st_Effective (el_Status l)"
  by (rule marked)+

end

lemma SetCondition_core [simp]: "lease_core (SetCondition K l t s r m) = lease_core l"
  by (simp add: lease_core_def SetCondition_def)

lemma SetPhase_core [simp]: "lease_core (SetPhase l p) = lease_core l"
  by (simp add: lease_core_def SetPhase_def)

lemma expiration_reason_core [simp]:
  "lease_core (l\<lparr>el_Status := (el_Status l)\<lparr>st_ExpirationReason := r\<rparr>\<rparr>) = lease_core l"
  by (simp add: lease_core_def)

interpretation set_condition: status_marker "\<lambda>l. SetCondition K l t s r m" for K t s r m
  by unfold_locales simp

interpretation set_phase: status_marker "\<lambda>l. SetPhase l p" for p
  by unfold_locales simp

interpretation mark_provisioning: status_marker "\<lambda>l. MarkProvisioning K l m" for K m
  by unfold_locales (simp add: marker_defs)

interpretation mark_ready: status_marker "\<lambda>l. MarkReady K l e" for K e
  by unfold_locales (simp add: marker_defs)

interpretation mark_pending: status_marker "\<lambda>l. MarkPending K l r m" for K r m
  by unfold_locales (simp add: marker_defs)

interpretation mark_failed: status_marker "\<lambda>l. MarkFailed K l r m" for K r m
  by unfold_locales (simp add: marker_defs)

interpretation mark_expired: status_marker "\<lambda>l. MarkExpired K l r" for K r
  by unfold_locales (simp add: marker_defs)

interpretation mark_cleaning: status_marker "\<lambda>l. MarkCleaning K l m" for K m
  by unfold_locales (simp add: marker_defs)

interpretation mark_cleanup_complete: status_marker "\<lambda>l. MarkCleanupComplete K l" for K
  by unfold_locales (simp add: marker_defs)

interpretation mark_cleanup_failed: status_marker "\<lambda>l. MarkCleanupFailed K l m" for K m
  by unfold_locales (simp add: marker_defs)

interpretation ensure_observed_generation: status_marker EnsureObservedGeneration
  by unfold_locales (simp add: lease_core_def EnsureObservedGeneration_def)

section \<open>Phases and conditions\<close>

lemma SetCondition_phase [simp]:
  "st_Phase (el_Status (SetCondition K l t s r m)) = st_Phase (el_Status l)"
  by (simp add: SetCondition_def)

lemma SetPhase_phase [simp]: "st_Phase (el_Status (SetPhase l p)) = p"
  by (simp add: SetPhase_def)

lemma SetPhase_conditions [simp]:
  "st_Conditions (el_Status (SetPhase l p)) = st_Conditions (el_Status l)"
  by (simp add: SetPhase_def)

lemma EnsureObservedGeneration_phase [simp]:
  "st_Phase (el_Status (EnsureObservedGeneration l)) = st_Phase (el_Status l)"
  by (simp add: EnsureObservedGeneration_def)

lemma EnsureObservedGeneration_conditions [simp]:
  "st_Conditions (el_Status (EnsureObservedGeneration l)) = st_Conditions (el_Status l)"
  by (simp add: EnsureObservedGeneration_def)

lemma SetCondition_reason [simp]:
  "st_ExpirationReason (el_Status (SetCondition K l t s r m)) = st_ExpirationReason (el_Status l)"
  by (simp add: SetCondition_def)

lemma SetPhase_reason [simp]:
  "st_ExpirationReason (el_Status (SetPhase l p)) = st_ExpirationReason (el_Status l)"
  by (simp add: SetPhase_def)

lemma marker_phases [simp]:
  "st_Phase (el_Status (MarkProvisioning K l m)) = LeasePhaseProvisioning"
  "st_Phase (el_Status (MarkReady K l e)) = (if e then LeasePhaseExpiring else LeasePhaseActive)"
  "st_Phase (el_Status (MarkPending K l r m)) = LeasePhasePending"
  "st_Phase (el_Status (MarkFailed K l r m)) = LeasePhaseFailed"
  "st_Phase (el_Status (MarkExpired K l er)) = LeasePhaseExpiring"
  "st_Phase (el_Status (MarkCleaning K l m)) = LeasePhaseCleaning"
  "st_Phase (el_Status (MarkCleanupComplete K l)) = LeasePhaseExpired"
  "st_Phase (el_Status (MarkCleanupFailed K l m)) = LeasePhaseCleaning"
  by (simp_all add: marker_defs)

lemma SetCondition_true:
  assumes "conditions_lib K"
  shows "ConditionTrue_lease K (SetCondition K l t s r m) t'
     \<longleftrightarrow> (if t' = t then s = ConditionTrue else ConditionTrue_lease K l t')"
proof -
  define c where "c = \<lparr>cd_Type = t, cd_Status = s, cd_ObservedGeneration = om_Generation (el_Meta l),
    cd_LastTransitionTime = zero_time, cd_Reason = r, cd_Message = m\<rparr>"
  have tc: "cd_Type c = t" "cd_Status c = s" by (simp_all add: c_def)
  have st: "st_Conditions (el_Status (SetCondition K l t s r m))
      = SetStatusCondition K (st_Conditions (el_Status l)) c"
    by (simp add: SetCondition_def c_def)
  obtain c' where c': "find_cond (SetStatusCondition K (st_Conditions (el_Status l)) c) t = Some c'"
      "same_but_time c' c"
    using assms tc unfolding conditions_lib_def by metis
  then have "cd_Status c' = s" using tc same_but_time_fields by metis
  moreover have "t' \<noteq> t \<Longrightarrow> find_cond (SetStatusCondition K (st_Conditions (el_Status l)) c) t'
      = find_cond (st_Conditions (el_Status l)) t'"
    using assms tc unfolding conditions_lib_def by metis
  ultimately show ?thesis
    using assms c' unfolding ConditionTrue_lease_def st conditions_lib_def by auto
qed

lemma ConditionTrue_SetPhase [simp]:
  "ConditionTrue_lease K (SetPhase l p) t = ConditionTrue_lease K l t"
  by (simp add: ConditionTrue_lease_def)

end
