(* ===== verification/Warnings.thy ===== *)
theory Warnings
  imports API_Types
begin

text \<open>
  \<open>src/internal/lease/warnings.go\<close> and \<open>schedule.go\<close>: which expiration warnings are due,
  which have been delivered, and how long the controller may sleep. Delivered warnings are
  recorded by their canonical text; the locale \<open>ledger\<close> states what that record promises, and
  its laws hold because \<open>Duration.String\<close> is injective.
\<close>

definition WarningDurations :: "duration list \<Rightarrow> duration list" where
  "WarningDurations warnings = sort_desc (filter (\<lambda>w. w > 0) warnings)"

definition CanonicalWarningKey :: "duration \<Rightarrow> string" where
  "CanonicalWarningKey d = dur_string d"

definition PendingWarnings ::
  "time \<Rightarrow> time \<Rightarrow> duration list \<Rightarrow> string list \<Rightarrow> duration list" where
  "PendingWarnings now expiresAt warnings delivered =
     (if \<not> now < expiresAt then []
      else sort_desc
             (filter (\<lambda>w. CanonicalWarningKey w \<notin> set delivered
                        \<and> \<not> now < expiresAt + dur_neg w) warnings))"

definition MarkWarningDelivered :: "string list \<Rightarrow> duration \<Rightarrow> string list" where
  "MarkWarningDelivered delivered d =
     (let key = CanonicalWarningKey d
      in if key \<in> set delivered then delivered else delivered @ [key])"

definition WarningMessage :: "string \<Rightarrow> duration \<Rightarrow> string" where
  "WarningMessage leaseName remaining =
     (let remaining = (if remaining < 0 then 0 else remaining)
      in ''Environment '' @ leaseName @ '' will expire in approximately ''
           @ dur_string (dur_round remaining Second))"

text \<open>
  The loop of \<open>NextReconcileAfter\<close>: \<open>None\<close> is its early \<open>return 0\<close>, otherwise the value of
  \<open>next\<close> when the loop ends.
\<close>

fun next_event :: "time \<Rightarrow> time \<Rightarrow> string list \<Rightarrow> time \<Rightarrow> duration list \<Rightarrow> time option" where
  "next_event now expiresAt delivered next [] = Some next"
| "next_event now expiresAt delivered next (w # ws) =
     (if CanonicalWarningKey w \<in> set delivered
      then next_event now expiresAt delivered next ws
      else
        let threshold = expiresAt + dur_neg w
        in if threshold < now then None
           else if threshold < next then next_event now expiresAt delivered threshold ws
           else next_event now expiresAt delivered next ws)"

definition NextReconcileAfter ::
  "time \<Rightarrow> time \<Rightarrow> duration list \<Rightarrow> string list \<Rightarrow> duration" where
  "NextReconcileAfter now expiresAt warnings delivered =
     (if \<not> now < expiresAt then 0
      else case next_event now expiresAt delivered expiresAt warnings of
          None \<Rightarrow> 0
        | Some next \<Rightarrow> (let until = time_sub next now in if until < 0 then 0 else until))"

section \<open>The delivery ledger\<close>

text \<open>
  The contract between the warning code and the controller's delivery loop: marking a warning
  makes it delivered and changes no other warning's state.
\<close>

locale ledger =
  fixes mark :: "'l \<Rightarrow> 'w \<Rightarrow> 'l"
    and marked :: "'l \<Rightarrow> 'w \<Rightarrow> bool"
  assumes marked_mark: "marked (mark l w) v \<longleftrightarrow> v = w \<or> marked l v"
begin

lemma marked_fold: "marked (fold (\<lambda>w l. mark l w) ws l) v \<longleftrightarrow> v \<in> set ws \<or> marked l v"
  by (induction ws arbitrary: l) (auto simp: marked_mark)

lemma filter_unmarked_fold:
  "filter (\<lambda>v. \<not> marked (fold (\<lambda>w l. mark l w) ws l) v \<and> P v) vs
     = filter (\<lambda>v. v \<notin> set ws) (filter (\<lambda>v. \<not> marked l v \<and> P v) vs)"
  by (induction vs) (auto simp: marked_fold)

end

lemma CanonicalWarningKey_inj: "CanonicalWarningKey d = CanonicalWarningKey e \<longleftrightarrow> d = e"
  by (simp add: CanonicalWarningKey_def dur_string_inj)

interpretation warning_ledger:
  ledger MarkWarningDelivered "\<lambda>delivered w. CanonicalWarningKey w \<in> set delivered"
  by unfold_locales (auto simp: MarkWarningDelivered_def Let_def CanonicalWarningKey_inj)

lemma sort_desc_filter: "sort_desc (filter P xs) = filter P (sort_desc xs)"
  by (simp add: sort_desc_def filter_sort rev_filter [symmetric])

lemma MarkWarningDelivered_distinct:
  "distinct ds \<Longrightarrow> distinct (MarkWarningDelivered ds w)"
  by (simp add: MarkWarningDelivered_def Let_def)

lemma MarkWarningDelivered_superset: "set ds \<subseteq> set (MarkWarningDelivered ds w)"
  by (auto simp: MarkWarningDelivered_def Let_def)

section \<open>Properties\<close>

text \<open>
  C20. \<open>PendingWarnings\<close> returns exactly the configured warnings that are inside their window
  (\<open>expiresAt - w <= now < expiresAt\<close>) and not yet delivered, with their multiplicity, largest first.
\<close>

theorem pending_warnings_exact:
  "mset (PendingWarnings now expiresAt warnings delivered)
     = filter_mset (\<lambda>w. expiresAt + dur_neg w \<le> now \<and> now < expiresAt
                      \<and> CanonicalWarningKey w \<notin> set delivered) (mset warnings)
   \<and> sorted_wrt (\<ge>) (PendingWarnings now expiresAt warnings delivered)"
proof -
  have *: "mset (PendingWarnings now expiresAt warnings delivered)
     = filter_mset (\<lambda>w. expiresAt + dur_neg w \<le> now \<and> now < expiresAt
                      \<and> CanonicalWarningKey w \<notin> set delivered) (mset warnings)"
    by (auto simp: PendingWarnings_def not_less intro!: filter_mset_cong)
  show ?thesis
    unfolding * by (simp add: PendingWarnings_def sorted_sort_desc)
qed

text \<open>
  A warning fires at most once: after the warnings \<open>fired\<close> have been marked delivered, the
  pending warnings at any time, for any deadline and any configuration, are those that were pending
  before, less exactly the fired ones; no other warning is suppressed.
\<close>

theorem warnings_fire_once:
  "PendingWarnings now expiresAt warnings (fold (\<lambda>w ds. MarkWarningDelivered ds w) fired delivered)
     = filter (\<lambda>w. w \<notin> set fired) (PendingWarnings now expiresAt warnings delivered)"
  unfolding PendingWarnings_def
  by (simp add: warning_ledger.filter_unmarked_fold sort_desc_filter)

subsection \<open>The next wake-up\<close>

text \<open>The instants the controller must not sleep through: the deadline and the open thresholds.\<close>

definition open_events :: "time \<Rightarrow> duration list \<Rightarrow> string list \<Rightarrow> time set" where
  "open_events expiresAt warnings delivered =
     insert expiresAt ((\<lambda>w. expiresAt + dur_neg w)
       ` {w \<in> set warnings. CanonicalWarningKey w \<notin> set delivered})"

lemma next_event_None_iff:
  "next_event now e del nxt ws = None
     \<longleftrightarrow> (\<exists>w\<in>set ws. CanonicalWarningKey w \<notin> set del \<and> e + dur_neg w < now)"
  by (induction ws arbitrary: nxt) (auto simp: Let_def)

lemma Min_insert_min:
  fixes a b :: "'a :: linorder"
  assumes "finite T"
  shows "Min (insert (min a b) T) = Min (insert a (insert b T))"
  using assms by (cases "T = {}") (simp_all add: min.assoc)

lemma next_event_Some:
  "next_event now e del nxt ws = Some n
     \<Longrightarrow> n = Min (insert nxt ((\<lambda>w. e + dur_neg w) ` {w \<in> set ws. CanonicalWarningKey w \<notin> set del}))"
proof (induction ws arbitrary: nxt)
  case (Cons w ws)
  let ?T = "(\<lambda>w. e + dur_neg w) ` {w \<in> set ws. CanonicalWarningKey w \<notin> set del}"
  show ?case
  proof (cases "CanonicalWarningKey w \<in> set del")
    case True
    then have "{v \<in> set (w # ws). CanonicalWarningKey v \<notin> set del}
        = {v \<in> set ws. CanonicalWarningKey v \<notin> set del}" by auto
    with True Cons show ?thesis by simp
  next
    case False
    then have T: "(\<lambda>w. e + dur_neg w) ` {v \<in> set (w # ws). CanonicalWarningKey v \<notin> set del}
        = insert (e + dur_neg w) ?T" by auto
    have "n = Min (insert (min nxt (e + dur_neg w)) ?T)"
    proof (cases "e + dur_neg w < nxt")
      case True
      with Cons.prems False have "next_event now e del (e + dur_neg w) ws = Some n"
        by (auto simp: Let_def split: if_splits)
      with True Cons.IH show ?thesis by (simp add: min_absorb2)
    next
      case F: False
      with Cons.prems False have "next_event now e del nxt ws = Some n"
        by (auto simp: Let_def split: if_splits)
      with F Cons.IH show ?thesis by (simp add: min_absorb1)
    qed
    also have "\<dots> = Min (insert nxt (insert (e + dur_neg w) ?T))"
      by (rule Min_insert_min) simp
    finally show ?thesis unfolding T .
  qed
qed simp

lemma NextReconcileAfter_Min:
  "NextReconcileAfter now expiresAt warnings delivered =
     (let m = Min (open_events expiresAt warnings delivered)
      in if m \<le> now then 0 else sat64 (m - now))"
proof -
  let ?E = "open_events expiresAt warnings delivered"
  have fin: "finite ?E" and exp: "expiresAt \<in> ?E" by (simp_all add: open_events_def)
  consider "\<not> now < expiresAt"
    | (early) w where "now < expiresAt" "w \<in> set warnings" "CanonicalWarningKey w \<notin> set delivered"
        "expiresAt + dur_neg w < now"
    | (later) n where "now < expiresAt"
        "next_event now expiresAt delivered expiresAt warnings = Some n"
    using next_event_None_iff [of now expiresAt delivered expiresAt warnings] by (metis not_Some_eq)
  then show ?thesis
  proof cases
    case 1
    then have "Min ?E \<le> now" using Min_le [OF fin exp] by simp
    with 1 show ?thesis by (simp add: NextReconcileAfter_def)
  next
    case early
    then have "expiresAt + dur_neg w \<in> ?E" by (auto simp: open_events_def)
    then have "Min ?E \<le> now" using Min_le [OF fin] early(4) by fastforce
    moreover have "next_event now expiresAt delivered expiresAt warnings = None"
      unfolding next_event_None_iff using early by blast
    ultimately show ?thesis by (simp add: NextReconcileAfter_def)
  next
    case later
    then have n: "n = Min ?E" using next_event_Some open_events_def by simp
    have "\<not> sat64 (n - now) < 0 \<and> n \<le> now \<longrightarrow> sat64 (n - now) = 0"
      by (auto simp: sat64_def int64_defs)
    with later show ?thesis
      by (auto simp: NextReconcileAfter_def Let_def time_sub_def n)
  qed
qed

lemma NextReconcileAfter_zero_iff:
  "NextReconcileAfter now expiresAt warnings delivered = 0 \<longleftrightarrow>
     expiresAt \<le> now \<or> (\<exists>w. w \<in> set (PendingWarnings now expiresAt warnings delivered))"
proof -
  have "Min (open_events expiresAt warnings delivered) \<le> now \<longleftrightarrow>
      (\<exists>t\<in>open_events expiresAt warnings delivered. t \<le> now)"
    by (rule Min_le_iff) (simp_all add: open_events_def)
  also have "\<dots> \<longleftrightarrow> expiresAt \<le> now \<or> (\<exists>w. w \<in> set (PendingWarnings now expiresAt warnings delivered))"
    by (auto simp: open_events_def PendingWarnings_def not_less)
  finally show ?thesis
    unfolding NextReconcileAfter_Min by (auto simp: Let_def sat64_def int64_defs)
qed

lemma NextReconcileAfter_nonneg: "0 \<le> NextReconcileAfter now expiresAt warnings delivered"
  unfolding NextReconcileAfter_Min by (simp add: Let_def sat64_def int64_defs)

text \<open>
  C21. \<open>NextReconcileAfter\<close> is the distance to the earliest open event (the deadline or an undelivered
  warning's threshold), 0 when that event is not in the future; it never oversleeps: while no event
  is due, no event lies strictly before \<open>now\<close> plus the returned delay.
\<close>

theorem next_reconcile_is_earliest_event:
  "NextReconcileAfter now expiresAt warnings delivered =
     (let m = Min (open_events expiresAt warnings delivered)
      in if m \<le> now then 0 else sat64 (m - now))"
  by (rule NextReconcileAfter_Min)

text \<open>
  The sleep and the warning code agree: the controller is told to act now exactly when the
  deadline has passed or \<open>PendingWarnings\<close> has something to deliver.
\<close>

theorem next_reconcile_zero_iff_work_due:
  "NextReconcileAfter now expiresAt warnings delivered = 0 \<longleftrightarrow>
     expiresAt \<le> now \<or> (\<exists>w. w \<in> set (PendingWarnings now expiresAt warnings delivered))"
  by (rule NextReconcileAfter_zero_iff)

end
