(* ===== verification/Expiration.thy ===== *)
theory Expiration
  imports Conditions Resources Warnings
begin

text \<open>
  \<open>src/internal/lease/expiration.go\<close> and \<open>activity.go\<close>: validation of the lease spec, the hard
  deadline and its renewal rule, the idle deadline, activity, and the extension computed by the
  command line. The functions that mutate the lease return it; all instants are unbounded
  integers, durations are 64-bit.
\<close>

section \<open>Validation\<close>

text \<open>The loop of \<open>ValidateWarnings\<close>, with the set \<open>seen\<close> as its accumulator.\<close>

fun validate_warnings :: "duration set \<Rightarrow> duration list \<Rightarrow> go_error option" where
  "validate_warnings seen [] = None"
| "validate_warnings seen (w # ws) =
     (if w \<le> 0
      then Some (Errorf (''warning duration must be greater than zero, got '' @ dur_string w))
      else if w \<in> seen then Some (Errorf (''duplicate warning duration '' @ dur_string w))
      else validate_warnings (insert w seen) ws)"

definition ValidateWarnings :: "duration list \<Rightarrow> go_error option" where
  "ValidateWarnings warnings = validate_warnings {} warnings"

definition ValidateTTL :: "duration \<Rightarrow> go_error option" where
  "ValidateTTL ttl =
     (if ttl \<le> 0 then Some (Errorf (''duration must be greater than zero, got '' @ dur_string ttl))
      else None)"

definition ValidateSpec :: "EnvironmentLease \<Rightarrow> go_error option" where
  "ValidateSpec l =
     (case ValidateWarnings (sp_Warnings (el_Spec l)) of
        Some err \<Rightarrow> Some err
      | None \<Rightarrow>
          case ValidateNamespaceSpec (sp_Namespace (el_Spec l)) of
            Some err \<Rightarrow> Some err
          | None \<Rightarrow>
              if st_Namespace (el_Status l) \<noteq> [] \<and> IsProtectedNamespace (st_Namespace (el_Status l))
              then Some (Errorf (''cannot manage protected namespace ''
                     @ quote (st_Namespace (el_Status l))))
              else if ref_name (sp_ClusterRef (el_Spec l)) \<noteq> [] \<and> sp_Placement (el_Spec l) \<noteq> None
              then Some (Errorf ''clusterRef and placement are mutually exclusive'')
              else None)"

section \<open>The hard deadline\<close>

text \<open>
  \<open>EnsureTimestamps\<close> returns the lease with the flags \<open>changed\<close> and \<open>renewalRejected\<close>.
\<close>

definition EnsureTimestamps ::
  "EnvironmentLease \<Rightarrow> duration \<Rightarrow> duration \<Rightarrow> bool \<Rightarrow> time
     \<Rightarrow> go_error + (EnvironmentLease \<times> bool \<times> bool)" where
  "EnsureTimestamps l ttl maxTTL renewable now =
     (if ttl \<le> 0 then Inl (Errorf ''ttl must be greater than zero'')
      else if maxTTL \<le> 0 then Inl (Errorf ''maxTTL must be greater than zero'')
      else if maxTTL < ttl
      then Inl (Errorf (''maxTTL ('' @ dur_string maxTTL @ '') must be >= ttl ('' @ dur_string ttl @ '')''))
      else
        let (created, changed) =
              (case st_CreatedAt (el_Status l) of
                 Some c \<Rightarrow> (c, False)
               | None \<Rightarrow> (if om_CreationTimestamp (el_Meta l) \<noteq> zero_time
                         then om_CreationTimestamp (el_Meta l) else now, True));
            l = l\<lparr>el_Status := (el_Status l)\<lparr>st_CreatedAt := Some created\<rparr>\<rparr>;
            maxExp = created + maxTTL;
            (l, changed) =
              (if st_MaximumExpiresAt (el_Status l) \<noteq> Some maxExp
               then (l\<lparr>el_Status := (el_Status l)\<lparr>st_MaximumExpiresAt := Some maxExp\<rparr>\<rparr>, True)
               else (l, changed));
            desired = created + ttl;
            (desired, renewalRejected) =
              (case st_ExpiresAt (el_Status l) of
                 Some e \<Rightarrow> if \<not> renewable \<and> e < desired then (e, True) else (desired, False)
               | None \<Rightarrow> (desired, False));
            (l, changed) =
              (if st_ExpiresAt (el_Status l) \<noteq> Some desired
               then (l\<lparr>el_Status := (el_Status l)\<lparr>st_ExpiresAt := Some desired\<rparr>\<rparr>, True)
               else (l, changed))
        in Inr (l, changed, renewalRejected))"

section \<open>The idle deadline\<close>

record ExpirationWindow =
  ew_HardExpiresAt :: time
  ew_IdleExpiresAt :: "time option"
  ew_EffectiveExpiresAt :: time

definition ComputeExpirationWindow :: "time \<Rightarrow> time \<Rightarrow> duration \<Rightarrow> ExpirationWindow" where
  "ComputeExpirationWindow hardExpiresAt lastActivityAt idleTTL =
     (let hard = hardExpiresAt;
          out = \<lparr>ew_HardExpiresAt = hard, ew_IdleExpiresAt = None, ew_EffectiveExpiresAt = hard\<rparr>
      in if idleTTL \<le> 0 then out
         else
           let idle = lastActivityAt + idleTTL;
               idle = (if idle > hard then hard else idle);
               out = out\<lparr>ew_IdleExpiresAt := Some idle\<rparr>
           in if idle < hard then out\<lparr>ew_EffectiveExpiresAt := idle\<rparr> else out)"

definition ResolveExpirationReason :: "time \<Rightarrow> time \<Rightarrow> time option \<Rightarrow> ExpirationReason" where
  "ResolveExpirationReason now hard idleExpiresAt =
     (if (case idleExpiresAt of None \<Rightarrow> False | Some idle \<Rightarrow> \<not> now < idle \<and> idle < hard)
      then ExpirationReasonIdleTimeout
      else if \<not> now < hard then ExpirationReasonTTLExpired
      else NoExpirationReason)"

text \<open>Lines 91--94 and 130--133 of \<open>activity.go\<close>: the hard deadline capped by the maximum.\<close>

definition capped_hard :: "time \<Rightarrow> time option \<Rightarrow> time" where
  "capped_hard expiresAt maximum =
     (case maximum of None \<Rightarrow> expiresAt | Some m \<Rightarrow> if expiresAt > m then m else expiresAt)"

definition SyncExpirationStatus :: "EnvironmentLease \<Rightarrow> duration \<Rightarrow> time \<Rightarrow> EnvironmentLease" where
  "SyncExpirationStatus l idleTTL now =
     (case (st_CreatedAt (el_Status l), st_ExpiresAt (el_Status l)) of
        (Some created, Some expiresAt) \<Rightarrow>
          let lastActivity = (case st_LastActivityAt (el_Status l) of Some t \<Rightarrow> t | None \<Rightarrow> created);
              hard = capped_hard expiresAt (st_MaximumExpiresAt (el_Status l));
              win = ComputeExpirationWindow hard lastActivity idleTTL;
              reason =
                (case st_ExpirationReason (el_Status l) of
                   ExpirationReasonManualExpiration \<Rightarrow> ExpirationReasonManualExpiration
                 | ExpirationReasonSourceClosed \<Rightarrow> ExpirationReasonSourceClosed
                 | _ \<Rightarrow> if now < ew_EffectiveExpiresAt win then NoExpirationReason
                        else ResolveExpirationReason now (ew_HardExpiresAt win) (ew_IdleExpiresAt win))
          in l\<lparr>el_Status := (el_Status l)\<lparr>st_LastActivityAt := Some lastActivity,
                 st_IdleExpiresAt := ew_IdleExpiresAt win,
                 st_EffectiveExpiresAt := Some (ew_EffectiveExpiresAt win),
                 st_ExpirationReason := reason\<rparr>\<rparr>
      | _ \<Rightarrow> l)"

text \<open>
  \<open>RecordActivity\<close> may return an error after it has synchronised the status; the lease it leaves
  behind is returned in both cases.
\<close>

definition RecordActivity ::
  "EnvironmentLease \<Rightarrow> time \<Rightarrow> duration \<Rightarrow> go_error option \<times> EnvironmentLease" where
  "RecordActivity l now idleTTL =
     (case (st_CreatedAt (el_Status l), st_ExpiresAt (el_Status l)) of
        (Some created, Some expiresAt) \<Rightarrow>
          if idleTTL \<le> 0
          then (Some (Errorf ''idleTTL is not configured; touch has no effect without idle expiration''), l)
          else
            let hard = capped_hard expiresAt (st_MaximumExpiresAt (el_Status l))
            in if \<not> now < hard
               then (Some (Errorf (''cannot touch: hard TTL already elapsed at '' @ rfc3339 hard)), l)
               else
                 let l = SyncExpirationStatus l idleTTL now
                 in if (case st_EffectiveExpiresAt (el_Status l) of None \<Rightarrow> False | Some e \<Rightarrow> \<not> now < e)
                    then
                      let reason = st_ExpirationReason (el_Status l);
                          reason = (if reason = NoExpirationReason then ExpirationReasonIdleTimeout
                                    else reason)
                      in (Some (Errorf (''cannot touch: lease already expired (''
                            @ expiration_reason_text reason @ '')'')), l)
                    else
                      let l = l\<lparr>el_Status := (el_Status l)\<lparr>st_LastActivityAt := Some now\<rparr>\<rparr>
                      in (None, SyncExpirationStatus l idleTTL now)
      | _ \<Rightarrow> (Some (Errorf ''lease has not been initialized by the controller yet''), l))"

definition EffectiveDeadline :: "EnvironmentLease \<Rightarrow> time option" where
  "EffectiveDeadline l =
     (case st_EffectiveExpiresAt (el_Status l) of
        Some t \<Rightarrow> Some t
      | None \<Rightarrow> st_ExpiresAt (el_Status l))"

definition IsExpired :: "EnvironmentLease \<Rightarrow> time \<Rightarrow> bool" where
  "IsExpired l now = (case EffectiveDeadline l of None \<Rightarrow> False | Some deadline \<Rightarrow> \<not> now < deadline)"

text \<open>The loop of \<open>IsExpiringWindow\<close>: the first element, or any larger one.\<close>

fun earliest_warning :: "nat \<Rightarrow> duration \<Rightarrow> duration list \<Rightarrow> duration" where
  "earliest_warning i earliest [] = earliest"
| "earliest_warning i earliest (w # ws) =
     earliest_warning (Suc i) (if i = 0 \<or> w > earliest then w else earliest) ws"

definition IsExpiringWindow :: "EnvironmentLease \<Rightarrow> time \<Rightarrow> bool" where
  "IsExpiringWindow l now =
     (case EffectiveDeadline l of
        None \<Rightarrow> False
      | Some deadline \<Rightarrow>
          if IsExpired l now then False
          else
            let warnings = WarningDurations (sp_Warnings (el_Spec l))
            in if warnings = [] then False
               else
                 let threshold = deadline + dur_neg (earliest_warning 0 0 warnings)
                 in \<not> now < threshold)"

section \<open>Extension\<close>

definition ComputeExtendedTTL ::
  "time \<Rightarrow> time \<Rightarrow> time \<Rightarrow> duration \<Rightarrow> bool \<Rightarrow> go_error + (duration \<times> time)" where
  "ComputeExtendedTTL createdAt currentExpiresAt maxExpiresAt extendBy renewable =
     (if extendBy \<le> 0 then Inl (Errorf ''extension duration must be greater than zero'')
      else if \<not> renewable then Inl (Errorf ''lease is not renewable'')
      else
        let newExpires = currentExpiresAt + extendBy;
            newExpires = (if newExpires > maxExpiresAt then maxExpiresAt else newExpires)
        in if \<not> newExpires > currentExpiresAt
           then Inl (Errorf (''extension would exceed maximum lifetime (max expires at ''
                  @ rfc3339 maxExpiresAt @ '')''))
           else Inr (time_sub newExpires createdAt, newExpires))"

section \<open>Lemmas\<close>

subsection \<open>Validation\<close>

lemma validate_warnings_None_iff:
  "validate_warnings seen ws = None \<longleftrightarrow> (\<forall>w\<in>set ws. 0 < w) \<and> distinct ws \<and> set ws \<inter> seen = {}"
  by (induction ws arbitrary: seen) auto

lemma ValidateWarnings_None_iff: "ValidateWarnings ws = None \<longleftrightarrow> (\<forall>w\<in>set ws. 0 < w) \<and> distinct ws"
  by (simp add: ValidateWarnings_def validate_warnings_None_iff)

subsection \<open>EnsureTimestamps\<close>

text \<open>The creation instant and the hard deadline \<open>EnsureTimestamps\<close> computes.\<close>

definition lease_created :: "EnvironmentLease \<Rightarrow> time \<Rightarrow> time" where
  "lease_created l now =
     (case st_CreatedAt (el_Status l) of
        Some c \<Rightarrow> c
      | None \<Rightarrow> if om_CreationTimestamp (el_Meta l) \<noteq> zero_time then om_CreationTimestamp (el_Meta l) else now)"

definition hard_deadline :: "EnvironmentLease \<Rightarrow> duration \<Rightarrow> bool \<Rightarrow> time \<Rightarrow> time" where
  "hard_deadline l ttl renewable now =
     (case st_ExpiresAt (el_Status l) of
        Some e \<Rightarrow> if renewable then lease_created l now + ttl else min e (lease_created l now + ttl)
      | None \<Rightarrow> lease_created l now + ttl)"

definition stamp :: "EnvironmentLease \<Rightarrow> time \<Rightarrow> time \<Rightarrow> time \<Rightarrow> EnvironmentLease" where
  "stamp l created expires maximum =
     l\<lparr>el_Status := (el_Status l)\<lparr>st_CreatedAt := Some created, st_ExpiresAt := Some expires,
        st_MaximumExpiresAt := Some maximum\<rparr>\<rparr>"

lemma stamp_fields [simp]:
  "st_CreatedAt (el_Status (stamp l c e m)) = Some c"
  "st_ExpiresAt (el_Status (stamp l c e m)) = Some e"
  "st_MaximumExpiresAt (el_Status (stamp l c e m)) = Some m"
  "el_Meta (stamp l c e m) = el_Meta l" "el_Spec (stamp l c e m) = el_Spec l"
  "st_Namespace (el_Status (stamp l c e m)) = st_Namespace (el_Status l)"
  "st_Cluster (el_Status (stamp l c e m)) = st_Cluster (el_Status l)"
  "st_Conditions (el_Status (stamp l c e m)) = st_Conditions (el_Status l)"
  "st_Phase (el_Status (stamp l c e m)) = st_Phase (el_Status l)"
  "st_LastActivityAt (el_Status (stamp l c e m)) = st_LastActivityAt (el_Status l)"
  "st_ExpirationReason (el_Status (stamp l c e m)) = st_ExpirationReason (el_Status l)"
  "st_WarningsDelivered (el_Status (stamp l c e m)) = st_WarningsDelivered (el_Status l)"
  "st_Effective (el_Status (stamp l c e m)) = st_Effective (el_Status l)"
  by (simp_all add: stamp_def)

lemma stamp_stamp [simp]: "stamp (stamp l c e m) c' e' m' = stamp l c' e' m'"
  by (simp add: stamp_def)

lemma stamp_eq_iff:
  "stamp l c e m = l \<longleftrightarrow> st_CreatedAt (el_Status l) = Some c \<and> st_ExpiresAt (el_Status l) = Some e
     \<and> st_MaximumExpiresAt (el_Status l) = Some m"
proof
  assume *: "stamp l c e m = l"
  show "st_CreatedAt (el_Status l) = Some c \<and> st_ExpiresAt (el_Status l) = Some e
     \<and> st_MaximumExpiresAt (el_Status l) = Some m"
    using stamp_fields(1-3) [of l c e m] unfolding * by simp
next
  assume *: "st_CreatedAt (el_Status l) = Some c \<and> st_ExpiresAt (el_Status l) = Some e
     \<and> st_MaximumExpiresAt (el_Status l) = Some m"
  obtain meta spec st where l: "l = \<lparr>el_Meta = meta, el_Spec = spec, el_Status = st\<rparr>" by (cases l)
  show "stamp l c e m = l" using * by (cases st) (simp add: l stamp_def)
qed

lemma guarded_max:
  "(if st_MaximumExpiresAt (el_Status l) \<noteq> Some m
    then (l\<lparr>el_Status := (el_Status l)\<lparr>st_MaximumExpiresAt := Some m\<rparr>\<rparr>, True) else (l, ch))
   = (l\<lparr>el_Status := (el_Status l)\<lparr>st_MaximumExpiresAt := Some m\<rparr>\<rparr>,
      ch \<or> st_MaximumExpiresAt (el_Status l) \<noteq> Some m)"
  by (cases l; cases "el_Status l") auto

lemma guarded_expires:
  "(if st_ExpiresAt (el_Status l) \<noteq> Some d
    then (l\<lparr>el_Status := (el_Status l)\<lparr>st_ExpiresAt := Some d\<rparr>\<rparr>, True) else (l, ch))
   = (l\<lparr>el_Status := (el_Status l)\<lparr>st_ExpiresAt := Some d\<rparr>\<rparr>,
      ch \<or> st_ExpiresAt (el_Status l) \<noteq> Some d)"
  by (cases l; cases "el_Status l") auto

lemma created_pair:
  "(case st_CreatedAt (el_Status l) of
      Some c \<Rightarrow> (c, False)
    | None \<Rightarrow> (if om_CreationTimestamp (el_Meta l) \<noteq> zero_time
              then om_CreationTimestamp (el_Meta l) else now, True))
   = (lease_created l now, st_CreatedAt (el_Status l) = None)"
  by (simp add: lease_created_def split: option.split)

lemma deadline_pair:
  "(case st_ExpiresAt (el_Status l) of
      Some e \<Rightarrow> if \<not> renewable \<and> e < lease_created l now + ttl then (e, True)
                else (lease_created l now + ttl, False)
    | None \<Rightarrow> (lease_created l now + ttl, False))
   = (hard_deadline l ttl renewable now, hard_deadline l ttl renewable now < lease_created l now + ttl)"
  by (simp add: hard_deadline_def split: option.split)

lemma EnsureTimestamps_eq:
  assumes "0 < ttl" "ttl \<le> maxTTL"
  shows "EnsureTimestamps l ttl maxTTL renewable now =
    (let c = lease_created l now; d = hard_deadline l ttl renewable now;
         l' = stamp l c d (c + maxTTL)
     in Inr (l', l' \<noteq> l, d < c + ttl))"
proof -
  have c: "st_CreatedAt (el_Status l) = None \<or> st_CreatedAt (el_Status l) = Some (lease_created l now)"
    by (simp add: lease_created_def split: option.split)
  have upd: "l\<lparr>el_Status := (el_Status l)\<lparr>st_CreatedAt := Some c, st_MaximumExpiresAt := Some m,
      st_ExpiresAt := Some d\<rparr>\<rparr> = stamp l c d m" for c d m
    by (simp add: stamp_def)
  from assms have "\<not> ttl \<le> 0" "\<not> maxTTL \<le> 0" "\<not> maxTTL < ttl" by simp_all
  then show ?thesis
    unfolding EnsureTimestamps_def created_pair Let_def prod.case guarded_max guarded_expires
    using c by (auto simp: deadline_pair upd stamp_eq_iff)
qed

lemma EnsureTimestamps_Inl_iff:
  "(\<exists>e. EnsureTimestamps l ttl maxTTL renewable now = Inl e) \<longleftrightarrow> \<not> (0 < ttl \<and> ttl \<le> maxTTL)"
proof (cases "0 < ttl \<and> ttl \<le> maxTTL")
  case True
  then show ?thesis by (simp add: EnsureTimestamps_eq Let_def)
next
  case False
  then show ?thesis by (auto simp: EnsureTimestamps_def)
qed

lemma EnsureTimestamps_Inr:
  assumes "EnsureTimestamps l ttl maxTTL renewable now = Inr (l', changed, rejected)"
  shows "0 < ttl" "ttl \<le> maxTTL"
    "l' = stamp l (lease_created l now) (hard_deadline l ttl renewable now) (lease_created l now + maxTTL)"
    "changed \<longleftrightarrow> l' \<noteq> l" "rejected \<longleftrightarrow> hard_deadline l ttl renewable now < lease_created l now + ttl"
proof -
  have ok: "0 < ttl \<and> ttl \<le> maxTTL"
    using assms EnsureTimestamps_Inl_iff [of l ttl maxTTL renewable now] by auto
  then show "0 < ttl" "ttl \<le> maxTTL" by simp_all
  show "l' = stamp l (lease_created l now) (hard_deadline l ttl renewable now) (lease_created l now + maxTTL)"
    "changed \<longleftrightarrow> l' \<noteq> l" "rejected \<longleftrightarrow> hard_deadline l ttl renewable now < lease_created l now + ttl"
    using assms ok by (auto simp: EnsureTimestamps_eq Let_def)
qed

lemma lease_created_stamp [simp]: "lease_created (stamp l c e m) now = c"
  by (simp add: lease_created_def)

lemma hard_deadline_le: "hard_deadline l ttl renewable now \<le> lease_created l now + ttl"
  by (simp add: hard_deadline_def split: option.splits)

subsection \<open>The activity operations\<close>

text \<open>
  What synchronisation and activity may change: the activity instant and the derived deadlines
  and reason. Everything else, the hard deadline above all, is the lease's \<open>activity_core\<close>.
\<close>

definition activity_core :: "EnvironmentLease \<Rightarrow> EnvironmentLease" where
  "activity_core l = l\<lparr>el_Status := (el_Status l)\<lparr>st_LastActivityAt := None, st_IdleExpiresAt := None,
     st_EffectiveExpiresAt := None, st_ExpirationReason := NoExpirationReason\<rparr>\<rparr>"

lemma activity_core_fields:
  assumes "activity_core a = activity_core b"
  shows "el_Meta a = el_Meta b" "el_Spec a = el_Spec b"
    "st_Namespace (el_Status a) = st_Namespace (el_Status b)"
    "st_Cluster (el_Status a) = st_Cluster (el_Status b)"
    "st_CreatedAt (el_Status a) = st_CreatedAt (el_Status b)"
    "st_ExpiresAt (el_Status a) = st_ExpiresAt (el_Status b)"
    "st_MaximumExpiresAt (el_Status a) = st_MaximumExpiresAt (el_Status b)"
    "st_WarningsDelivered (el_Status a) = st_WarningsDelivered (el_Status b)"
    "st_Effective (el_Status a) = st_Effective (el_Status b)"
    "st_Phase (el_Status a) = st_Phase (el_Status b)"
    "st_Conditions (el_Status a) = st_Conditions (el_Status b)"
proof -
  have "el_Meta (activity_core a) = el_Meta (activity_core b)"
    "el_Spec (activity_core a) = el_Spec (activity_core b)"
    and st: "\<And>f. f (el_Status (activity_core a)) = f (el_Status (activity_core b))"
    using assms by simp_all
  then show "el_Meta a = el_Meta b" "el_Spec a = el_Spec b"
    by (simp_all add: activity_core_def)
  show "st_Namespace (el_Status a) = st_Namespace (el_Status b)"
    "st_Cluster (el_Status a) = st_Cluster (el_Status b)"
    "st_CreatedAt (el_Status a) = st_CreatedAt (el_Status b)"
    "st_ExpiresAt (el_Status a) = st_ExpiresAt (el_Status b)"
    "st_MaximumExpiresAt (el_Status a) = st_MaximumExpiresAt (el_Status b)"
    "st_WarningsDelivered (el_Status a) = st_WarningsDelivered (el_Status b)"
    "st_Effective (el_Status a) = st_Effective (el_Status b)"
    "st_Phase (el_Status a) = st_Phase (el_Status b)"
    "st_Conditions (el_Status a) = st_Conditions (el_Status b)"
    using st [of st_Namespace] st [of st_Cluster] st [of st_CreatedAt] st [of st_ExpiresAt]
      st [of st_MaximumExpiresAt] st [of st_WarningsDelivered] st [of st_Effective]
      st [of st_Phase] st [of st_Conditions]
    by (simp_all add: activity_core_def)
qed

locale activity_op =
  fixes act :: "EnvironmentLease \<Rightarrow> EnvironmentLease"
  assumes keeps_core: "activity_core (act l) = activity_core l"
    and effective_le_hard: "\<lbrakk>st_EffectiveExpiresAt (el_Status (act l)) = Some e;
        st_EffectiveExpiresAt (el_Status l) \<noteq> Some e; st_ExpiresAt (el_Status l) = Some h\<rbrakk>
      \<Longrightarrow> e \<le> capped_hard h (st_MaximumExpiresAt (el_Status l))"
begin

lemmas acted = activity_core_fields [OF keeps_core]

lemma act_frame [simp]:
  "el_Meta (act l) = el_Meta l" "el_Spec (act l) = el_Spec l"
  "st_Namespace (el_Status (act l)) = st_Namespace (el_Status l)"
  "st_Cluster (el_Status (act l)) = st_Cluster (el_Status l)"
  "st_CreatedAt (el_Status (act l)) = st_CreatedAt (el_Status l)"
  "st_ExpiresAt (el_Status (act l)) = st_ExpiresAt (el_Status l)"
  "st_MaximumExpiresAt (el_Status (act l)) = st_MaximumExpiresAt (el_Status l)"
  "st_WarningsDelivered (el_Status (act l)) = st_WarningsDelivered (el_Status l)"
  "st_Effective (el_Status (act l)) = st_Effective (el_Status l)"
  "st_Phase (el_Status (act l)) = st_Phase (el_Status l)"
  "st_Conditions (el_Status (act l)) = st_Conditions (el_Status l)"
  by (rule acted)+

text \<open>A lease whose effective deadline respects the hard one keeps that property.\<close>

lemma bounded_step:
  assumes "\<And>e. st_EffectiveExpiresAt (el_Status l) = Some e \<Longrightarrow> e \<le> capped_hard h (st_MaximumExpiresAt (el_Status l))"
    and "st_ExpiresAt (el_Status l) = Some h" and "st_EffectiveExpiresAt (el_Status (act l)) = Some e"
  shows "e \<le> capped_hard h (st_MaximumExpiresAt (el_Status (act l)))"
proof (cases "st_EffectiveExpiresAt (el_Status l) = Some e")
  case True
  then show ?thesis using assms(1) by simp
next
  case False
  then show ?thesis using effective_le_hard assms(2,3) by simp
qed

end

lemma ComputeExpirationWindow_eq:
  "ComputeExpirationWindow hard lastA idleTTL =
     \<lparr>ew_HardExpiresAt = hard,
      ew_IdleExpiresAt = (if idleTTL \<le> 0 then None else Some (min hard (lastA + idleTTL))),
      ew_EffectiveExpiresAt = (if idleTTL \<le> 0 then hard else min hard (lastA + idleTTL))\<rparr>"
  by (auto simp: ComputeExpirationWindow_def Let_def min_def)

lemma capped_hard_le: "capped_hard h m \<le> h" "m = Some x \<Longrightarrow> capped_hard h m \<le> x"
  by (auto simp: capped_hard_def split: option.splits)

lemma Sync_core: "activity_core (SyncExpirationStatus l idleTTL now) = activity_core l"
  by (auto simp: SyncExpirationStatus_def Let_def activity_core_def split: option.splits)

lemma Sync_effective:
  assumes "st_CreatedAt (el_Status l) = Some c" "st_ExpiresAt (el_Status l) = Some h"
  shows "st_EffectiveExpiresAt (el_Status (SyncExpirationStatus l idleTTL now)) =
     Some (let hard = capped_hard h (st_MaximumExpiresAt (el_Status l));
               lastA = case_option c id (st_LastActivityAt (el_Status l))
           in if idleTTL \<le> 0 then hard else min hard (lastA + idleTTL))"
  using assms
  by (simp add: SyncExpirationStatus_def Let_def ComputeExpirationWindow_eq split: option.split)

lemma Sync_noop:
  "st_CreatedAt (el_Status l) = None \<or> st_ExpiresAt (el_Status l) = None
     \<Longrightarrow> SyncExpirationStatus l idleTTL now = l"
  by (auto simp: SyncExpirationStatus_def split: option.split)

interpretation sync_expiration: activity_op "\<lambda>l. SyncExpirationStatus l idleTTL now" for idleTTL now
proof (unfold_locales, goal_cases)
  case (1 l)
  then show ?case by (rule Sync_core)
next
  case (2 l e h)
  then show ?case
    by (cases "st_CreatedAt (el_Status l)")
       (auto simp: Sync_effective Sync_noop Let_def split: if_splits)
qed

lemma set_activity_core [simp]:
  "activity_core (l\<lparr>el_Status := (el_Status l)\<lparr>st_LastActivityAt := t\<rparr>\<rparr>) = activity_core l"
  by (simp add: activity_core_def)

lemma RecordActivity_core: "activity_core (snd (RecordActivity l now idleTTL)) = activity_core l"
  by (auto simp: RecordActivity_def Let_def Sync_core split: option.splits)

interpretation record_activity: activity_op "\<lambda>l. snd (RecordActivity l now idleTTL)" for now idleTTL
proof (unfold_locales, goal_cases)
  case (1 l)
  then show ?case by (rule RecordActivity_core)
next
  case (2 l e h)
  then obtain c where c: "st_CreatedAt (el_Status l) = Some c"
    by (auto simp: RecordActivity_def split: option.splits)
  let ?s = "SyncExpirationStatus l idleTTL now"
  let ?t = "SyncExpirationStatus (?s\<lparr>el_Status := (el_Status ?s)\<lparr>st_LastActivityAt := Some now\<rparr>\<rparr>) idleTTL now"
  have "snd (RecordActivity l now idleTTL) = l \<or> snd (RecordActivity l now idleTTL) = ?s
      \<or> snd (RecordActivity l now idleTTL) = ?t"
    unfolding RecordActivity_def c 2(3) option.case prod.case Let_def
    by (simp only: snd_conv simp_thms split: if_split)
  moreover have "e \<le> capped_hard h (st_MaximumExpiresAt (el_Status l))"
    if "st_EffectiveExpiresAt (el_Status ?s) = Some e"
    using that 2(3) c by (simp add: Sync_effective Let_def split: if_splits)
  moreover have "e \<le> capped_hard h (st_MaximumExpiresAt (el_Status l))"
    if "st_EffectiveExpiresAt (el_Status ?t) = Some e"
    using that 2(3) c by (simp add: Sync_effective Let_def split: if_splits)
  ultimately show ?case using 2(1,2) by auto
qed

subsection \<open>Deadlines\<close>

lemma IsExpired_Sync:
  assumes "st_CreatedAt (el_Status l) = Some c" "st_ExpiresAt (el_Status l) = Some h"
  shows "IsExpired (SyncExpirationStatus l idleTTL now) t \<longleftrightarrow>
     the (st_EffectiveExpiresAt (el_Status (SyncExpirationStatus l idleTTL now))) \<le> t"
  using assms by (auto simp: IsExpired_def EffectiveDeadline_def Sync_effective split: option.splits)

lemma earliest_warning_Suc: "earliest_warning (Suc i) e ws = Max (insert e (set ws))"
proof (induction ws arbitrary: i e)
  case (Cons w ws)
  have "earliest_warning (Suc i) e (w # ws) = Max (insert (max e w) (set ws))"
    using Cons by (simp add: max_def)
  also have "\<dots> = Max (insert e (set (w # ws)))"
    by (cases "ws = []") (simp_all add: max.assoc)
  finally show ?case .
qed simp

lemma earliest_warning_Max: "ws \<noteq> [] \<Longrightarrow> earliest_warning 0 e ws = Max (set ws)"
  by (cases ws) (simp_all add: earliest_warning_Suc)

section \<open>Properties\<close>

text \<open>
  C12. Whenever \<open>EnsureTimestamps\<close> succeeds, the hard deadline is at most the creation instant plus
  the TTL and at most \<open>MaximumExpiresAt\<close>, which is creation plus the maximum TTL; a recorded
  \<open>CreatedAt\<close> is never changed; the deadline of a lease that is not renewable never moves later;
  nothing but the three instants changes; and \<open>changed\<close> is exactly whether the lease changed.
\<close>

theorem ensure_timestamps_window:
  assumes "EnsureTimestamps l ttl maxTTL renewable now = Inr (l', changed, rejected)"
  shows "\<exists>c e. l' = l\<lparr>el_Status := (el_Status l)\<lparr>st_CreatedAt := Some c, st_ExpiresAt := Some e,
              st_MaximumExpiresAt := Some (c + maxTTL)\<rparr>\<rparr>
        \<and> e \<le> c + ttl \<and> e \<le> c + maxTTL
        \<and> (case st_CreatedAt (el_Status l) of Some c0 \<Rightarrow> c = c0 | None \<Rightarrow> True)
        \<and> (case st_ExpiresAt (el_Status l) of
             Some e0 \<Rightarrow> if renewable then e = c + ttl else e = min e0 (c + ttl)
           | None \<Rightarrow> e = c + ttl)
        \<and> (changed \<longleftrightarrow> l' \<noteq> l) \<and> (rejected \<longleftrightarrow> e < c + ttl)"
proof -
  note r = EnsureTimestamps_Inr [OF assms]
  let ?c = "lease_created l now" and ?e = "hard_deadline l ttl renewable now"
  have max: "?e \<le> ?c + maxTTL" using hard_deadline_le r(2) by (metis add_left_mono order_trans)
  have created: "case st_CreatedAt (el_Status l) of Some c0 \<Rightarrow> ?c = c0 | None \<Rightarrow> True"
    by (simp add: lease_created_def split: option.split)
  have expires: "case st_ExpiresAt (el_Status l) of
      Some e0 \<Rightarrow> if renewable then ?e = ?c + ttl else ?e = min e0 (?c + ttl) | None \<Rightarrow> ?e = ?c + ttl"
    by (simp add: hard_deadline_def split: option.split)
  show ?thesis
    by (intro exI [of _ ?c] exI [of _ ?e] conjI)
       (fact r(3) [unfolded stamp_def] hard_deadline_le max created expires r(4) r(5))+
qed

theorem ensure_timestamps_window_witness:
  "\<exists>c e l'. EnsureTimestamps demo_lease 10 20 True 5 = Inr (l', True, False)
     \<and> l' = demo_lease\<lparr>el_Status := (el_Status demo_lease)\<lparr>st_CreatedAt := Some c, st_ExpiresAt := Some e,
              st_MaximumExpiresAt := Some (c + 20)\<rparr>\<rparr> \<and> e \<le> c + 10 \<and> e \<le> c + 20"
proof -
  have "st_CreatedAt (el_Status demo_lease) = None" by (simp add: demo_lease_def zero_defs)
  then have "stamp demo_lease c d m \<noteq> demo_lease" for c d m by (simp add: stamp_eq_iff)
  then obtain l' where "EnsureTimestamps demo_lease 10 20 True 5 = Inr (l', True, False)"
    by (simp add: EnsureTimestamps_eq Let_def hard_deadline_def demo_lease_def zero_defs)
  then show ?thesis using ensure_timestamps_window by blast
qed

text \<open>
  \<open>EnsureTimestamps\<close> is idempotent: run again on its own result, at any later instant, it changes
  nothing, reports no change and repeats the same verdict on the renewal.
\<close>

theorem ensure_timestamps_idempotent:
  assumes "EnsureTimestamps l ttl maxTTL renewable now = Inr (l', changed, rejected)"
  shows "EnsureTimestamps l' ttl maxTTL renewable now' = Inr (l', False, rejected)"
proof -
  note r = EnsureTimestamps_Inr [OF assms]
  have d: "hard_deadline l' ttl renewable now' = hard_deadline l ttl renewable now"
    by (auto simp: r(3) hard_deadline_def lease_created_def split: option.splits)
  have c: "lease_created l' now' = lease_created l now" by (simp add: r(3))
  have "stamp l' (lease_created l now) (hard_deadline l ttl renewable now)
      (lease_created l now + maxTTL) = l'"
    by (simp add: r(3))
  then show ?thesis
    using r(1,2,5) by (simp add: EnsureTimestamps_eq Let_def c d)
qed

theorem ensure_timestamps_idempotent_witness:
  "\<exists>l'. EnsureTimestamps demo_lease 10 20 False 5 = Inr (l', True, False)
     \<and> EnsureTimestamps l' 10 20 False 99 = Inr (l', False, False)"
proof -
  have "st_CreatedAt (el_Status demo_lease) = None" by (simp add: demo_lease_def zero_defs)
  then have "stamp demo_lease c d m \<noteq> demo_lease" for c d m by (simp add: stamp_eq_iff)
  then obtain l' where "EnsureTimestamps demo_lease 10 20 False 5 = Inr (l', True, False)"
    by (simp add: EnsureTimestamps_eq Let_def hard_deadline_def demo_lease_def zero_defs)
  then show ?thesis using ensure_timestamps_idempotent by blast
qed

text \<open>
  C22. After synchronisation, the effective deadline is the minimum of the hard deadline, the maximum
  and (when an idle TTL is set) the last activity plus the idle TTL; the lease counts as expired exactly
  from that instant on, and an expiration reason that was not set explicitly is present exactly when
  the lease is expired, being \<open>IdleTimeout\<close> exactly when the idle deadline comes first.
\<close>

theorem sync_expiration_effective:
  assumes "st_CreatedAt (el_Status l) = Some c" and "st_ExpiresAt (el_Status l) = Some h"
    and "st_ExpirationReason (el_Status l) \<notin> {ExpirationReasonManualExpiration, ExpirationReasonSourceClosed}"
  shows "let l' = SyncExpirationStatus l idleTTL now;
             hard = (case st_MaximumExpiresAt (el_Status l) of None \<Rightarrow> h | Some m \<Rightarrow> min h m);
             lastActivity = (case st_LastActivityAt (el_Status l) of None \<Rightarrow> c | Some t \<Rightarrow> t);
             deadline = (if 0 < idleTTL then min hard (lastActivity + idleTTL) else hard)
         in st_EffectiveExpiresAt (el_Status l') = Some deadline
          \<and> (IsExpired l' now \<longleftrightarrow> deadline \<le> now)
          \<and> st_ExpirationReason (el_Status l') =
              (if now < deadline then NoExpirationReason
               else if deadline < hard then ExpirationReasonIdleTimeout else ExpirationReasonTTLExpired)"
proof -
  have hard: "(case st_MaximumExpiresAt (el_Status l) of None \<Rightarrow> h | Some m \<Rightarrow> min h m)
      = capped_hard h (st_MaximumExpiresAt (el_Status l))"
    by (simp add: capped_hard_def min_def split: option.split)
  show ?thesis
    using assms unfolding hard
    by (auto simp: SyncExpirationStatus_def Let_def ComputeExpirationWindow_eq IsExpired_def
        EffectiveDeadline_def ResolveExpirationReason_def split: option.splits ExpirationReason.splits)
qed

definition active_lease :: EnvironmentLease where
  "active_lease = stamp demo_lease 0 100 200"

theorem sync_expiration_effective_witness:
  "let l' = SyncExpirationStatus active_lease 30 40
   in st_EffectiveExpiresAt (el_Status l') = Some 30 \<and> IsExpired l' 40
    \<and> st_ExpirationReason (el_Status l') = ExpirationReasonIdleTimeout"
  using sync_expiration_effective [of active_lease 0 100 30 40]
  by (simp add: active_lease_def stamp_def demo_lease_def zero_defs Let_def)

text \<open>
  Activity never extends a lease past its hard deadline: a touch changes neither the creation nor
  the hard nor the maximum deadline; if it is accepted, the lease was not expired, the new effective
  deadline is \<open>now\<close> plus the idle TTL capped by the hard deadline, the lease is alive at \<open>now\<close>, and
  the deadline has not moved earlier when activity goes forward in time.
\<close>

theorem record_activity_bounded:
  assumes "RecordActivity l now idleTTL = (None, l')"
    and "st_ExpiresAt (el_Status l) = Some h"
  shows "activity_core l' = activity_core l
    \<and> (let hard = capped_hard h (st_MaximumExpiresAt (el_Status l))
         in now < hard \<and> 0 < idleTTL
          \<and> st_LastActivityAt (el_Status l') = Some now
          \<and> st_EffectiveExpiresAt (el_Status l') = Some (min hard (now + idleTTL))
          \<and> \<not> IsExpired l' now
          \<and> (case st_LastActivityAt (el_Status l) of
               Some t \<Rightarrow> now < t + idleTTL
                 \<and> (if t \<le> now then min hard (t + idleTTL) \<le> min hard (now + idleTTL) else True)
             | None \<Rightarrow> True))"
proof (intro conjI)
  show "activity_core l' = activity_core l" using RecordActivity_core [of l now idleTTL] assms(1) by simp
next
  let ?hard = "capped_hard h (st_MaximumExpiresAt (el_Status l))"
  let ?s = "SyncExpirationStatus l idleTTL now"
  obtain c where c: "st_CreatedAt (el_Status l) = Some c"
    using assms(1) by (auto simp: RecordActivity_def split: option.splits)
  let ?e = "min ?hard (case_option c id (st_LastActivityAt (el_Status l)) + idleTTL)"
  have idle: "0 < idleTTL" and now: "now < ?hard"
    using assms c by (auto simp: RecordActivity_def Let_def split: if_splits)
  have se: "st_EffectiveExpiresAt (el_Status ?s) = Some ?e"
    using c assms(2) idle by (simp add: Sync_effective Let_def)
  have alive: "now < ?e" and l': "l' = SyncExpirationStatus
      (?s\<lparr>el_Status := (el_Status ?s)\<lparr>st_LastActivityAt := Some now\<rparr>\<rparr>) idleTTL now"
    using assms c idle now unfolding RecordActivity_def Let_def
    by (simp_all only: se option.case prod.case) (simp_all split: if_splits)
  have eff: "st_EffectiveExpiresAt (el_Status l') = Some (min ?hard (now + idleTTL))"
    using c assms(2) idle by (simp add: l' Sync_effective Let_def)
  have "st_LastActivityAt (el_Status l') = Some now"
    using c assms(2) by (simp add: l' SyncExpirationStatus_def [of "?s\<lparr>el_Status := _\<rparr>"] Let_def)
  then show "let hard = ?hard
         in now < hard \<and> 0 < idleTTL
          \<and> st_LastActivityAt (el_Status l') = Some now
          \<and> st_EffectiveExpiresAt (el_Status l') = Some (min hard (now + idleTTL))
          \<and> \<not> IsExpired l' now
          \<and> (case st_LastActivityAt (el_Status l) of
               Some t \<Rightarrow> now < t + idleTTL
                 \<and> (if t \<le> now then min hard (t + idleTTL) \<le> min hard (now + idleTTL) else True)
             | None \<Rightarrow> True)"
    using now idle alive eff
    by (simp add: Let_def IsExpired_def EffectiveDeadline_def min_le_iff_disj split: option.splits)
qed

theorem record_activity_bounded_witness:
  "let l' = snd (RecordActivity active_lease 20 30)
   in activity_core l' = activity_core active_lease
    \<and> st_EffectiveExpiresAt (el_Status l') = Some 50 \<and> \<not> IsExpired l' 20"
proof -
  have "fst (RecordActivity active_lease 20 30) = None"
    by (simp add: RecordActivity_def SyncExpirationStatus_def active_lease_def stamp_def demo_lease_def
        zero_defs Let_def capped_hard_def ComputeExpirationWindow_eq)
  then have r: "RecordActivity active_lease 20 30 = (None, snd (RecordActivity active_lease 20 30))"
    by (metis prod.collapse)
  have h: "st_ExpiresAt (el_Status active_lease) = Some 100"
    "capped_hard 100 (st_MaximumExpiresAt (el_Status active_lease)) = 100"
    by (simp_all add: active_lease_def capped_hard_def)
  show ?thesis using record_activity_bounded [OF r h(1)] h(2) by (simp add: Let_def)
qed

lemma extension_reached:
  assumes "ComputeExtendedTTL c cur m extendBy renewable = Inr (ttl, new)"
    and "st_CreatedAt (el_Status l) = Some c" and "m = c + maxTTL" and "c \<le> cur"
    and "is_int64 maxTTL"
  shows "cur < new \<and> new \<le> m \<and> new = min (cur + extendBy) m \<and> renewable
    \<and> (\<exists>l' changed. EnsureTimestamps l ttl maxTTL renewable now = Inr (l', changed, False)
          \<and> st_ExpiresAt (el_Status l') = Some new \<and> st_MaximumExpiresAt (el_Status l') = Some m)"
proof (intro conjI)
  have r: "cur < new" "new \<le> m" "new = min (cur + extendBy) m" "renewable" "ttl = sat64 (new - c)"
    using assms(1) by (auto simp: ComputeExtendedTTL_def Let_def time_sub_def min_def split: if_splits)
  then show "cur < new" "new \<le> m" "new = min (cur + extendBy) m" "renewable" by simp_all
  have "c < new" "new \<le> c + maxTTL" using r(1,2) assms(3,4) by simp_all
  then have "is_int64 (new - c)" using assms(5) by (simp add: int64_defs)
  then have ttl: "ttl = new - c" using r(5) by simp
  then have "0 < ttl" "ttl \<le> maxTTL" using r assms(3,4) by simp_all
  then show "\<exists>l' changed. EnsureTimestamps l ttl maxTTL renewable now = Inr (l', changed, False)
        \<and> st_ExpiresAt (el_Status l') = Some new \<and> st_MaximumExpiresAt (el_Status l') = Some m"
    using assms(2,3) r(4) ttl
    by (simp add: EnsureTimestamps_eq Let_def lease_created_def hard_deadline_def split: option.split)
qed

text \<open>
  An accepted extension and the controller agree: \<open>ComputeExtendedTTL\<close> moves the deadline strictly
  later, by at most the requested amount and never past the maximum, and when the controller next runs
  \<open>EnsureTimestamps\<close> with the returned TTL the new hard deadline is exactly the one shown to the user.
\<close>

theorem extend_then_reconcile:
  assumes "ComputeExtendedTTL c cur m extendBy renewable = Inr (ttl, new)"
    and "st_CreatedAt (el_Status l) = Some c" and "m = c + maxTTL" and "c \<le> cur"
    and "is_int64 maxTTL"
  shows "cur < new \<and> new \<le> m \<and> new = min (cur + extendBy) m \<and> renewable
    \<and> (\<exists>l' changed. EnsureTimestamps l ttl maxTTL renewable now = Inr (l', changed, False)
          \<and> st_ExpiresAt (el_Status l') = Some new \<and> st_MaximumExpiresAt (el_Status l') = Some m)"
  by (rule extension_reached [OF assms])

theorem extend_then_reconcile_witness:
  "\<exists>ttl. ComputeExtendedTTL 0 100 200 150 True = Inr (ttl, 200)
     \<and> (\<exists>l' changed. EnsureTimestamps active_lease ttl 200 True 120 = Inr (l', changed, False)
          \<and> st_ExpiresAt (el_Status l') = Some 200)"
proof -
  have e: "ComputeExtendedTTL 0 100 200 150 True = Inr (200, 200)"
    by (simp add: ComputeExtendedTTL_def time_sub_def int64_defs)
  show ?thesis
    using extend_then_reconcile [OF e, of active_lease 200 120] e
    by (auto simp: active_lease_def int64_defs)
qed

text \<open>
  The Expiring phase is entered exactly inside the largest configured warning window: the lease has a
  deadline that has not passed, and some positive warning \<open>w\<close> has \<open>deadline - w <= now\<close>.
\<close>

theorem expiring_window_iff:
  assumes "\<forall>w\<in>set (sp_Warnings (el_Spec l)). is_int64 w"
  shows "IsExpiringWindow l now \<longleftrightarrow>
     (\<exists>d. EffectiveDeadline l = Some d \<and> now < d
        \<and> (\<exists>w\<in>set (sp_Warnings (el_Spec l)). 0 < w \<and> d - w \<le> now))"
proof (cases "EffectiveDeadline l")
  case None
  then show ?thesis by (simp add: IsExpiringWindow_def)
next
  case (Some d)
  let ?ws = "WarningDurations (sp_Warnings (el_Spec l))"
  have set: "set ?ws = {w \<in> set (sp_Warnings (el_Spec l)). 0 < w}"
    by (auto simp: WarningDurations_def)
  have empty: "?ws = [] \<longleftrightarrow> (\<forall>w\<in>set (sp_Warnings (el_Spec l)). \<not> 0 < w)"
    by (simp add: WarningDurations_def filter_empty_conv)
  have max: "d - Max (set ?ws) \<le> now \<longleftrightarrow> (\<exists>w\<in>set ?ws. d - w \<le> now)" if "?ws \<noteq> []"
  proof -
    have "d - Max (set ?ws) \<le> now \<longleftrightarrow> d - now \<le> Max (set ?ws)" by linarith
    also have "\<dots> \<longleftrightarrow> (\<exists>w\<in>set ?ws. d - now \<le> w)" using that by (intro Max_ge_iff) simp_all
    also have "\<dots> \<longleftrightarrow> (\<exists>w\<in>set ?ws. d - w \<le> now)" by (intro bex_cong) auto
    finally show ?thesis .
  qed
  have neg: "dur_neg (Max (set ?ws)) = - Max (set ?ws)" if "?ws \<noteq> []"
  proof -
    have "Max (set ?ws) \<in> set ?ws" using that by (intro Max_in) simp_all
    then show ?thesis using assms set by simp
  qed
  show ?thesis
    using Some max neg empty
    by (auto simp: IsExpiringWindow_def IsExpired_def Let_def earliest_warning_Max set not_less)
qed

theorem expiring_window_iff_witness:
  "IsExpiringWindow (active_lease\<lparr>el_Spec := zero_lease_spec\<lparr>sp_Warnings := [5, 20]\<rparr>\<rparr>) 85"
  by (subst expiring_window_iff)
     (simp_all add: active_lease_def demo_lease_def stamp_def zero_defs EffectiveDeadline_def int64_defs)

end
