(* ===== verification/Policy_Resolve.thy ===== *)
theory Policy_Resolve
  imports Expiration
begin

text \<open>
  \<open>src/internal/policy/resolve.go\<close>: merging a lease spec with an optional policy. Every error
  return is a left value with the text of the source.
\<close>

record Resolved =
  re_PolicyName :: string
  re_TTL :: duration
  re_MaxTTL :: duration
  re_IdleTTL :: duration
  re_Renewable :: bool
  re_Quota :: "QuotaSpec option"
  re_NetworkPolicy :: "NetworkPolicySpec option"
  re_DefaultDeny :: bool

definition ToEffectiveStatus :: "Resolved \<Rightarrow> EffectiveLeaseSpec" where
  "ToEffectiveStatus r =
     \<lparr>ef_PolicyName = re_PolicyName r, ef_TTL = re_TTL r, ef_MaxTTL = re_MaxTTL r,
      ef_IdleTTL = (if re_IdleTTL r > 0 then Some (re_IdleTTL r) else None),
      ef_Renewable = re_Renewable r, ef_DefaultDeny = re_DefaultDeny r\<rparr>"

text \<open>
  The closure \<open>check\<close> of \<open>validatePolicySpec\<close>; \<open>both_exceed\<close> is its test
  \<open>a != nil && b != nil && *a > *b\<close>.
\<close>

definition both_exceed :: "duration option \<Rightarrow> duration option \<Rightarrow> bool" where
  "both_exceed a b = (case (a, b) of (Some x, Some y) \<Rightarrow> x > y | _ \<Rightarrow> False)"

definition check_duration_policy :: "string \<Rightarrow> DurationPolicy option \<Rightarrow> go_error option" where
  "check_duration_policy name d =
     (case d of
        None \<Rightarrow> None
      | Some p \<Rightarrow>
          if both_exceed (dp_Default p) (dp_Maximum p)
          then Some (Errorf (''policy '' @ name @ ''.default '' @ dur_string (the (dp_Default p))
                 @ '' exceeds '' @ name @ ''.maximum '' @ dur_string (the (dp_Maximum p))))
          else if both_exceed (dp_Minimum p) (dp_Maximum p)
          then Some (Errorf (''policy '' @ name @ ''.minimum '' @ dur_string (the (dp_Minimum p))
                 @ '' exceeds '' @ name @ ''.maximum '' @ dur_string (the (dp_Maximum p))))
          else None)"

definition validatePolicySpec :: "EnvironmentLeasePolicySpec \<Rightarrow> go_error option" where
  "validatePolicySpec pol =
     (case check_duration_policy ''ttl'' (ps_TTL pol) of
        Some err \<Rightarrow> Some err
      | None \<Rightarrow>
          case check_duration_policy ''maxTTL'' (ps_MaxTTL pol) of
            Some err \<Rightarrow> Some err
          | None \<Rightarrow> check_duration_policy ''idleTTL'' (ps_IdleTTL pol))"

definition durationPolicy :: "EnvironmentLeasePolicySpec option \<Rightarrow> string \<Rightarrow> DurationPolicy option" where
  "durationPolicy pol field =
     (case pol of
        None \<Rightarrow> None
      | Some p \<Rightarrow>
          if field = ''ttl'' then ps_TTL p
          else if field = ''maxTTL'' then ps_MaxTTL p
          else if field = ''idleTTL'' then ps_IdleTTL p
          else None)"

definition boolPolicy :: "EnvironmentLeasePolicySpec option \<Rightarrow> BoolPolicy option" where
  "boolPolicy pol = (case pol of None \<Rightarrow> None | Some p \<Rightarrow> ps_Renewable p)"

definition quotaPolicy :: "EnvironmentLeasePolicySpec option \<Rightarrow> QuotaPolicy option" where
  "quotaPolicy pol = (case pol of None \<Rightarrow> None | Some p \<Rightarrow> ps_Quota p)"

definition networkPolicy :: "EnvironmentLeasePolicySpec option \<Rightarrow> NetworkPolicyPolicy option" where
  "networkPolicy pol = (case pol of None \<Rightarrow> None | Some p \<Rightarrow> ps_NetworkPolicy p)"

text \<open>Lines 211--222 of \<open>resolveDuration\<close>: the bounds on a value that is present.\<close>

definition bound_duration :: "string \<Rightarrow> duration \<Rightarrow> DurationPolicy option \<Rightarrow> go_error + duration" where
  "bound_duration name d pol =
     (if d \<le> 0 then Inl (Errorf (name @ '' must be greater than zero, got '' @ dur_string d))
      else case pol of
          None \<Rightarrow> Inr d
        | Some p \<Rightarrow>
            if (case dp_Minimum p of None \<Rightarrow> False | Some m \<Rightarrow> d < m)
            then Inl (Errorf (name @ '' '' @ dur_string d @ '' is below policy minimum ''
                   @ dur_string (the (dp_Minimum p))))
            else if (case dp_Maximum p of None \<Rightarrow> False | Some m \<Rightarrow> d > m)
            then Inl (Errorf (name @ '' '' @ dur_string d @ '' exceeds policy maximum ''
                   @ dur_string (the (dp_Maximum p))))
            else Inr d)"

definition resolveDuration ::
  "string \<Rightarrow> duration option \<Rightarrow> DurationPolicy option \<Rightarrow> bool \<Rightarrow> go_error + duration" where
  "resolveDuration name leaseVal pol required =
     (case leaseVal of
        Some d \<Rightarrow> bound_duration name d pol
      | None \<Rightarrow>
          case (case pol of None \<Rightarrow> None | Some p \<Rightarrow> dp_Default p) of
            Some d \<Rightarrow> bound_duration name d pol
          | None \<Rightarrow>
              if required
              then Inl (Errorf (name @ '' is required (set spec.'' @ name
                     @ '' or reference a policy with '' @ name @ ''.default)''))
              else Inr 0)"

definition resolveBool :: "bool option \<Rightarrow> BoolPolicy option \<Rightarrow> go_error + bool" where
  "resolveBool leaseVal pol =
     (let v = (case leaseVal of
                 Some b \<Rightarrow> b
               | None \<Rightarrow> (case (case pol of None \<Rightarrow> None | Some p \<Rightarrow> bp_Default p) of
                           Some b \<Rightarrow> b | None \<Rightarrow> True))
      in case (case pol of None \<Rightarrow> None | Some p \<Rightarrow> bp_Force p) of
           Some f \<Rightarrow>
             if v \<noteq> f
             then Inl (Errorf (''renewable='' @ bool_text v @ '' violates policy force='' @ bool_text f))
             else Inr v
         | None \<Rightarrow> Inr v)"

text \<open>The closure \<open>check\<close> of \<open>validateQuota\<close>.\<close>

definition check_quota_list :: "QuotaPolicy \<Rightarrow> ResourceList \<Rightarrow> string \<Rightarrow> go_error option" where
  "check_quota_list pol list kind =
     (case (case qp_MaxCPU pol of
              None \<Rightarrow> None
            | Some mx \<Rightarrow>
                (case fmlookup list ''cpu'' of
                   None \<Rightarrow> None
                 | Some cpu \<Rightarrow>
                     if Quantity_Cmp cpu mx > 0
                     then Some (Errorf (''quota.'' @ kind @ ''.cpu '' @ q_text cpu
                            @ '' exceeds policy maxCPU '' @ q_text mx))
                     else None)) of
        Some err \<Rightarrow> Some err
      | None \<Rightarrow>
          (case qp_MaxMemory pol of
             None \<Rightarrow> None
           | Some mx \<Rightarrow>
               (case fmlookup list ''memory'' of
                  None \<Rightarrow> None
                | Some mem \<Rightarrow>
                    if Quantity_Cmp mem mx > 0
                    then Some (Errorf (''quota.'' @ kind @ ''.memory '' @ q_text mem
                           @ '' exceeds policy maxMemory '' @ q_text mx))
                    else None)))"

definition validateQuota :: "QuotaSpec option \<Rightarrow> QuotaPolicy option \<Rightarrow> go_error option" where
  "validateQuota quota pol =
     (case (pol, quota) of
        (Some p, Some q) \<Rightarrow>
          (case check_quota_list p (qs_Requests q) ''requests'' of
             Some err \<Rightarrow> Some err
           | None \<Rightarrow> check_quota_list p (qs_Limits q) ''limits'')
      | _ \<Rightarrow> None)"

definition resolveNetworkPolicy ::
  "NetworkPolicySpec option \<Rightarrow> NetworkPolicyPolicy option
     \<Rightarrow> go_error + (NetworkPolicySpec option \<times> bool)" where
  "resolveNetworkPolicy leaseNP pol =
     (let (defaultDeny, explicitFalse) =
            (case leaseNP of
               Some np \<Rightarrow> (nps_DefaultDeny np, \<not> nps_DefaultDeny np)
             | None \<Rightarrow>
                 (case (case pol of None \<Rightarrow> None | Some p \<Rightarrow> npp_DefaultDenyDefault p) of
                    Some b \<Rightarrow> (b, False)
                  | None \<Rightarrow> (False, False)));
          required = (case pol of None \<Rightarrow> False | Some p \<Rightarrow> npp_DefaultDenyRequired p)
      in if required \<and> explicitFalse
         then Inl (Errorf ''networkPolicy.defaultDeny=false violates policy defaultDenyRequired'')
         else
           let defaultDeny = (if required then True else defaultDeny)
           in if \<not> defaultDeny then Inr (leaseNP, False)
              else Inr (Some \<lparr>nps_DefaultDeny = True\<rparr>, True))"

text \<open>
  \<open>ttl_maximum\<close> is \<open>polSpec.TTL.Maximum\<close> where it exists, and \<open>max_ttl_policy\<close> the policy of line
  80--87, where \<open>ttl.maximum\<close> stands in for an absent \<open>maxTTL\<close> policy.
\<close>

definition ttl_maximum :: "EnvironmentLeasePolicySpec option \<Rightarrow> duration option" where
  "ttl_maximum pol =
     (case pol of None \<Rightarrow> None | Some p \<Rightarrow> (case ps_TTL p of None \<Rightarrow> None | Some d \<Rightarrow> dp_Maximum d))"

definition max_ttl_policy :: "EnvironmentLeasePolicySpec option \<Rightarrow> DurationPolicy option" where
  "max_ttl_policy pol =
     (case durationPolicy pol ''maxTTL'' of
        Some p \<Rightarrow> Some p
      | None \<Rightarrow>
          (case ttl_maximum pol of
             None \<Rightarrow> None
           | Some m \<Rightarrow> Some \<lparr>dp_Default = Some m, dp_Maximum = Some m, dp_Minimum = None\<rparr>))"

definition Resolve ::
  "EnvironmentLeaseSpec \<Rightarrow> EnvironmentLeasePolicy option \<Rightarrow> go_error + Resolved" where
  "Resolve spec policy =
     (let polSpec = map_option po_Spec policy;
          policyName = (case policy of None \<Rightarrow> [] | Some p \<Rightarrow> om_Name (po_Meta p))
      in case (case polSpec of None \<Rightarrow> None | Some p \<Rightarrow> validatePolicySpec p) of
           Some err \<Rightarrow> Inl err
         | None \<Rightarrow>
         case resolveDuration ''ttl'' (sp_TTL spec) (durationPolicy polSpec ''ttl'') True of
           Inl err \<Rightarrow> Inl err
         | Inr ttl \<Rightarrow>
         case resolveDuration ''maxTTL'' (sp_MaxTTL spec) (max_ttl_policy polSpec) False of
           Inl err \<Rightarrow> Inl err
         | Inr maxTTL \<Rightarrow>
         let maxTTL = (if maxTTL = 0 then ttl else maxTTL)
         in if maxTTL < ttl
         then Inl (Errorf (''maxTTL ('' @ dur_string maxTTL @ '') must be >= ttl ('' @ dur_string ttl @ '')''))
         else if (case ttl_maximum polSpec of None \<Rightarrow> False | Some m \<Rightarrow> maxTTL > m \<and> sp_MaxTTL spec \<noteq> None)
         then Inl (Errorf (''maxTTL '' @ dur_string maxTTL @ '' exceeds policy ttl.maximum ''
                @ dur_string (the (ttl_maximum polSpec))))
         else
         case resolveDuration ''idleTTL'' (sp_IdleTTL spec) (durationPolicy polSpec ''idleTTL'') False of
           Inl err \<Rightarrow> Inl err
         | Inr idleTTL \<Rightarrow>
         case resolveBool (sp_Renewable spec) (boolPolicy polSpec) of
           Inl err \<Rightarrow> Inl err
         | Inr renewable \<Rightarrow>
         case validateQuota (sp_Quota spec) (quotaPolicy polSpec) of
           Some err \<Rightarrow> Inl err
         | None \<Rightarrow>
         case resolveNetworkPolicy (sp_NetworkPolicy spec) (networkPolicy polSpec) of
           Inl err \<Rightarrow> Inl err
         | Inr (np, defaultDeny) \<Rightarrow>
             Inr \<lparr>re_PolicyName = policyName, re_TTL = ttl, re_MaxTTL = maxTTL, re_IdleTTL = idleTTL,
                  re_Renewable = renewable, re_Quota = sp_Quota spec, re_NetworkPolicy = np,
                  re_DefaultDeny = defaultDeny\<rparr>)"

section \<open>Lemmas\<close>

text \<open>The value a duration takes, and the bounds a policy puts on it.\<close>

definition chosen :: "duration option \<Rightarrow> DurationPolicy option \<Rightarrow> duration option" where
  "chosen leaseVal pol =
     (case leaseVal of Some d \<Rightarrow> Some d | None \<Rightarrow> (case pol of None \<Rightarrow> None | Some p \<Rightarrow> dp_Default p))"

definition within :: "duration \<Rightarrow> DurationPolicy option \<Rightarrow> bool" where
  "within d pol \<longleftrightarrow> 0 < d \<and>
     (case pol of None \<Rightarrow> True
      | Some p \<Rightarrow> (case dp_Minimum p of None \<Rightarrow> True | Some m \<Rightarrow> m \<le> d)
                \<and> (case dp_Maximum p of None \<Rightarrow> True | Some m \<Rightarrow> d \<le> m))"

lemma bound_duration_Inr_iff: "bound_duration name d pol = Inr e \<longleftrightarrow> e = d \<and> within d pol"
  by (auto simp: bound_duration_def within_def split: option.splits)

lemma resolveDuration_Inr_iff:
  "resolveDuration name v pol required = Inr d \<longleftrightarrow>
     (case chosen v pol of Some c \<Rightarrow> d = c \<and> within c pol | None \<Rightarrow> \<not> required \<and> d = 0)"
  by (auto simp: resolveDuration_def chosen_def bound_duration_Inr_iff split: option.splits)

lemma resolveBool_Inr_iff:
  "resolveBool v pol = Inr b \<longleftrightarrow>
     b = (case v of Some x \<Rightarrow> x
          | None \<Rightarrow> (case pol of None \<Rightarrow> True | Some p \<Rightarrow> case_option True id (bp_Default p)))
   \<and> (case pol of None \<Rightarrow> True | Some p \<Rightarrow> (case bp_Force p of None \<Rightarrow> True | Some f \<Rightarrow> b = f))"
  by (auto simp: resolveBool_def Let_def split: option.splits)

lemma resolveNetworkPolicy_Inr:
  assumes "resolveNetworkPolicy np pol = Inr (np', deny)"
  shows "deny \<longleftrightarrow> (case np' of None \<Rightarrow> False | Some s \<Rightarrow> nps_DefaultDeny s)"
    and "case pol of None \<Rightarrow> True | Some p \<Rightarrow> npp_DefaultDenyRequired p \<longrightarrow> deny"
  using assms by (auto simp: resolveNetworkPolicy_def Let_def split: option.splits if_splits)

lemma Resolve_Inr:
  assumes "Resolve spec policy = Inr r"
  defines "pol \<equiv> map_option po_Spec policy"
  shows "case chosen (sp_TTL spec) (durationPolicy pol ''ttl'') of
           Some c \<Rightarrow> re_TTL r = c \<and> within c (durationPolicy pol ''ttl'') | None \<Rightarrow> False"
    and "case chosen (sp_MaxTTL spec) (max_ttl_policy pol) of
           Some c \<Rightarrow> re_MaxTTL r = c \<and> within c (max_ttl_policy pol) | None \<Rightarrow> re_MaxTTL r = re_TTL r"
    and "re_TTL r \<le> re_MaxTTL r"
    and "resolveDuration ''idleTTL'' (sp_IdleTTL spec) (durationPolicy pol ''idleTTL'') False = Inr (re_IdleTTL r)"
    and "resolveBool (sp_Renewable spec) (boolPolicy pol) = Inr (re_Renewable r)"
    and "validateQuota (sp_Quota spec) (quotaPolicy pol) = None" "re_Quota r = sp_Quota spec"
    and "resolveNetworkPolicy (sp_NetworkPolicy spec) (networkPolicy pol)
           = Inr (re_NetworkPolicy r, re_DefaultDeny r)"
    and "case ttl_maximum pol of None \<Rightarrow> True | Some m \<Rightarrow> sp_MaxTTL spec = None \<or> re_MaxTTL r \<le> m"
proof -
  obtain ttl mx idle ren np deny where
    ttl: "resolveDuration ''ttl'' (sp_TTL spec) (durationPolicy pol ''ttl'') True = Inr ttl"
    and mx: "resolveDuration ''maxTTL'' (sp_MaxTTL spec) (max_ttl_policy pol) False = Inr mx"
    and le: "ttl \<le> (if mx = 0 then ttl else mx)"
    and cap: "\<not> (case ttl_maximum pol of None \<Rightarrow> False
                | Some m \<Rightarrow> (if mx = 0 then ttl else mx) > m \<and> sp_MaxTTL spec \<noteq> None)"
    and idle: "resolveDuration ''idleTTL'' (sp_IdleTTL spec) (durationPolicy pol ''idleTTL'') False = Inr idle"
    and ren: "resolveBool (sp_Renewable spec) (boolPolicy pol) = Inr ren"
    and quota: "validateQuota (sp_Quota spec) (quotaPolicy pol) = None"
    and np: "resolveNetworkPolicy (sp_NetworkPolicy spec) (networkPolicy pol) = Inr (np, deny)"
    and r: "re_TTL r = ttl" "re_MaxTTL r = (if mx = 0 then ttl else mx)" "re_IdleTTL r = idle"
      "re_Renewable r = ren" "re_Quota r = sp_Quota spec" "re_NetworkPolicy r = np" "re_DefaultDeny r = deny"
    using assms(1) unfolding Resolve_def Let_def pol_def [symmetric]
    by (auto split: option.split_asm sum.split_asm if_split_asm prod.split_asm)
  have "case chosen (sp_MaxTTL spec) (max_ttl_policy pol) of
      Some c \<Rightarrow> mx = c \<and> within c (max_ttl_policy pol) \<and> mx \<noteq> 0 | None \<Rightarrow> mx = 0"
    using mx by (auto simp: resolveDuration_Inr_iff within_def split: option.splits)
  then show "case chosen (sp_MaxTTL spec) (max_ttl_policy pol) of
      Some c \<Rightarrow> re_MaxTTL r = c \<and> within c (max_ttl_policy pol) | None \<Rightarrow> re_MaxTTL r = re_TTL r"
    using r by (simp split: option.splits)
  show "case chosen (sp_TTL spec) (durationPolicy pol ''ttl'') of
      Some c \<Rightarrow> re_TTL r = c \<and> within c (durationPolicy pol ''ttl'') | None \<Rightarrow> False"
    using ttl r(1) by (simp add: resolveDuration_Inr_iff split: option.splits)
  show "re_TTL r \<le> re_MaxTTL r" using le r by simp
  show "case ttl_maximum pol of None \<Rightarrow> True | Some m \<Rightarrow> sp_MaxTTL spec = None \<or> re_MaxTTL r \<le> m"
    using cap r(2) by (auto split: option.splits)
  show "resolveDuration ''idleTTL'' (sp_IdleTTL spec) (durationPolicy pol ''idleTTL'') False
      = Inr (re_IdleTTL r)"
    "resolveBool (sp_Renewable spec) (boolPolicy pol) = Inr (re_Renewable r)"
    "validateQuota (sp_Quota spec) (quotaPolicy pol) = None" "re_Quota r = sp_Quota spec"
    "resolveNetworkPolicy (sp_NetworkPolicy spec) (networkPolicy pol)
      = Inr (re_NetworkPolicy r, re_DefaultDeny r)"
    using idle ren quota np r by simp_all
qed

text \<open>A quota list respects an optional ceiling on one resource.\<close>

definition under_cap :: "ResourceList \<Rightarrow> string \<Rightarrow> Quantity option \<Rightarrow> bool" where
  "under_cap list res cap \<longleftrightarrow>
     (case (fmlookup list res, cap) of (Some q, Some m) \<Rightarrow> q_nanos q \<le> q_nanos m | _ \<Rightarrow> True)"

lemma Quantity_Cmp_pos [simp]: "0 < Quantity_Cmp a b \<longleftrightarrow> q_nanos b < q_nanos a"
  by (simp add: Quantity_Cmp_def sgn_if)

lemma check_quota_list_None_iff:
  "check_quota_list pol list kind = None \<longleftrightarrow>
     under_cap list ''cpu'' (qp_MaxCPU pol) \<and> under_cap list ''memory'' (qp_MaxMemory pol)"
  by (auto simp: check_quota_list_def under_cap_def not_less split: option.splits)

lemma validateQuota_None_iff:
  "validateQuota quota pol = None \<longleftrightarrow>
     (case (pol, quota) of
        (Some p, Some q) \<Rightarrow>
          under_cap (qs_Requests q) ''cpu'' (qp_MaxCPU p) \<and> under_cap (qs_Requests q) ''memory'' (qp_MaxMemory p)
        \<and> under_cap (qs_Limits q) ''cpu'' (qp_MaxCPU p) \<and> under_cap (qs_Limits q) ''memory'' (qp_MaxMemory p)
      | _ \<Rightarrow> True)"
proof -
  have seq: "(case a of Some err \<Rightarrow> Some err | None \<Rightarrow> b) = None \<longleftrightarrow> a = None \<and> b = None"
    for a b :: "go_error option"
    by (cases a) simp_all
  show ?thesis by (simp add: validateQuota_def seq check_quota_list_None_iff split: option.split)
qed

section \<open>Properties\<close>

text \<open>
  What \<open>Resolve\<close> may make of \<open>maxTTL\<close>. A value in the spec is kept and bounded by the \<open>maxTTL\<close> policy and by
  \<open>ttl.maximum\<close>. Without one, the default of the \<open>maxTTL\<close> policy is taken and bounded by that policy; a policy
  without \<open>maxTTL\<close> gives \<open>ttl.maximum\<close>; and where neither exists, the maximum is the TTL itself.
\<close>

definition max_ttl_obeys :: "duration option \<Rightarrow> EnvironmentLeasePolicySpec \<Rightarrow> Resolved \<Rightarrow> bool" where
  "max_ttl_obeys requested p r \<longleftrightarrow>
     (case requested of
        Some d \<Rightarrow> re_MaxTTL r = d \<and> within d (ps_MaxTTL p)
          \<and> (case ttl_maximum (Some p) of Some m \<Rightarrow> d \<le> m | None \<Rightarrow> True)
      | None \<Rightarrow>
          (case ps_MaxTTL p of
             Some q \<Rightarrow> (case dp_Default q of
                 Some d \<Rightarrow> re_MaxTTL r = d \<and> within d (Some q)
               | None \<Rightarrow> re_MaxTTL r = re_TTL r)
           | None \<Rightarrow> (case ttl_maximum (Some p) of Some m \<Rightarrow> re_MaxTTL r = m | None \<Rightarrow> re_MaxTTL r = re_TTL r)))"

lemma Resolve_max_ttl_obeys:
  assumes "Resolve spec (Some policy) = Inr r"
  shows "max_ttl_obeys (sp_MaxTTL spec) (po_Spec policy) r"
  using Resolve_Inr(2,9) [OF assms]
  by (auto simp: max_ttl_obeys_def chosen_def durationPolicy_def max_ttl_policy_def within_def split: option.splits)

text \<open>
  C13. A resolved lease obeys its policy. When \<open>Resolve\<close> succeeds, \<open>0 < TTL <= MaxTTL\<close>. The TTL is the one the
  lease asked for, else the policy's default, and lies within the policy's \<open>ttl\<close> bounds; the idle TTL likewise
  lies within the \<open>idleTTL\<close> bounds, or is off (zero) where neither side sets one. The maximum TTL obeys
  \<open>max_ttl_obeys\<close>: an explicit one respects both the \<open>maxTTL\<close> bounds and \<open>ttl.maximum\<close>, a policy default respects the
  \<open>maxTTL\<close> bounds only, and without either it is \<open>ttl.maximum\<close> or the TTL, which no \<open>maxTTL\<close> bound is then applied
  to. The renewable flag is the lease's, else the
  policy's default, and equals a forced value; a required default deny is on; the quota is the lease's and exceeds none
  of the policy's ceilings.
\<close>

theorem resolve_obeys_policy:
  assumes "Resolve spec (Some policy) = Inr r"
  shows "0 < re_TTL r \<and> re_TTL r \<le> re_MaxTTL r
    \<and> chosen (sp_TTL spec) (ps_TTL (po_Spec policy)) = Some (re_TTL r)
    \<and> within (re_TTL r) (ps_TTL (po_Spec policy))
    \<and> max_ttl_obeys (sp_MaxTTL spec) (po_Spec policy) r
    \<and> (case chosen (sp_IdleTTL spec) (ps_IdleTTL (po_Spec policy)) of
         Some d \<Rightarrow> re_IdleTTL r = d \<and> within d (ps_IdleTTL (po_Spec policy))
       | None \<Rightarrow> re_IdleTTL r = 0)
    \<and> re_Renewable r = (case sp_Renewable spec of Some b \<Rightarrow> b
         | None \<Rightarrow> (case ps_Renewable (po_Spec policy) of
               None \<Rightarrow> True | Some p \<Rightarrow> (case bp_Default p of Some b \<Rightarrow> b | None \<Rightarrow> True)))
    \<and> (case ps_Renewable (po_Spec policy) of
         Some p \<Rightarrow> (case bp_Force p of Some f \<Rightarrow> re_Renewable r = f | None \<Rightarrow> True)
       | None \<Rightarrow> True)
    \<and> (case ps_NetworkPolicy (po_Spec policy) of
         Some p \<Rightarrow> (if npp_DefaultDenyRequired p then re_DefaultDeny r else True)
       | None \<Rightarrow> True)
    \<and> re_Quota r = sp_Quota spec
    \<and> (case (ps_Quota (po_Spec policy), re_Quota r) of
         (Some p, Some q) \<Rightarrow>
           under_cap (qs_Requests q) ''cpu'' (qp_MaxCPU p) \<and> under_cap (qs_Requests q) ''memory'' (qp_MaxMemory p)
         \<and> under_cap (qs_Limits q) ''cpu'' (qp_MaxCPU p) \<and> under_cap (qs_Limits q) ''memory'' (qp_MaxMemory p)
       | _ \<Rightarrow> True)"
proof -
  note R = Resolve_Inr [OF assms, simplified]
  have ttl: "chosen (sp_TTL spec) (ps_TTL (po_Spec policy)) = Some (re_TTL r)" "within (re_TTL r) (ps_TTL (po_Spec policy))"
    using R(1) by (auto simp: durationPolicy_def split: option.splits)
  have idle: "case chosen (sp_IdleTTL spec) (ps_IdleTTL (po_Spec policy)) of
         Some d \<Rightarrow> re_IdleTTL r = d \<and> within d (ps_IdleTTL (po_Spec policy)) | None \<Rightarrow> re_IdleTTL r = 0"
    using R(4) by (simp add: resolveDuration_Inr_iff durationPolicy_def split: option.splits)
  have renewable: "re_Renewable r = (case sp_Renewable spec of Some b \<Rightarrow> b
         | None \<Rightarrow> (case ps_Renewable (po_Spec policy) of
               None \<Rightarrow> True | Some p \<Rightarrow> (case bp_Default p of Some b \<Rightarrow> b | None \<Rightarrow> True)))"
    and force: "case ps_Renewable (po_Spec policy) of
         Some p \<Rightarrow> (case bp_Force p of Some f \<Rightarrow> re_Renewable r = f | None \<Rightarrow> True) | None \<Rightarrow> True"
    using R(5) by (simp_all add: resolveBool_Inr_iff boolPolicy_def split: option.splits)
  have deny: "case ps_NetworkPolicy (po_Spec policy) of
         Some p \<Rightarrow> (if npp_DefaultDenyRequired p then re_DefaultDeny r else True) | None \<Rightarrow> True"
    using resolveNetworkPolicy_Inr(2) [OF R(8)] by (simp add: networkPolicy_def split: option.splits)
  have "0 < re_TTL r" using ttl(2) by (simp add: within_def)
  then show ?thesis
    using ttl idle renewable force deny R(3,6,7) Resolve_max_ttl_obeys [OF assms]
    by (simp add: validateQuota_None_iff quotaPolicy_def)
qed

definition demo_policy :: EnvironmentLeasePolicy where
  "demo_policy = \<lparr>po_Meta = zero_meta, po_Spec = zero_policy_spec
     \<lparr>ps_TTL := Some \<lparr>dp_Default = Some 30, dp_Maximum = Some 100, dp_Minimum = Some 10\<rparr>,
      ps_IdleTTL := Some \<lparr>dp_Default = Some 5, dp_Maximum = Some 20, dp_Minimum = None\<rparr>,
      ps_Renewable := Some \<lparr>bp_Default = None, bp_Force = Some True\<rparr>,
      ps_NetworkPolicy := Some \<lparr>npp_DefaultDenyRequired = True, npp_DefaultDenyDefault = None\<rparr>\<rparr>\<rparr>"

lemmas resolve_defs = Resolve_def validatePolicySpec_def check_duration_policy_def both_exceed_def
  durationPolicy_def max_ttl_policy_def ttl_maximum_def resolveDuration_def bound_duration_def
  resolveBool_def boolPolicy_def validateQuota_def quotaPolicy_def resolveNetworkPolicy_def
  networkPolicy_def

theorem resolve_obeys_policy_witness:
  "\<exists>r. Resolve zero_lease_spec (Some demo_policy) = Inr r \<and> 0 < re_TTL r \<and> re_TTL r \<le> re_MaxTTL r
     \<and> within (re_TTL r) (ps_TTL (po_Spec demo_policy)) \<and> max_ttl_obeys None (po_Spec demo_policy) r
     \<and> re_IdleTTL r = 5 \<and> within 5 (ps_IdleTTL (po_Spec demo_policy)) \<and> re_Renewable r \<and> re_DefaultDeny r"
proof -
  obtain r where r: "Resolve zero_lease_spec (Some demo_policy) = Inr r"
    by (simp add: resolve_defs demo_policy_def zero_defs Let_def)
  show ?thesis using resolve_obeys_policy [OF r] r by (simp add: demo_policy_def zero_defs chosen_def within_def)
qed

text \<open>
  Without a policy, \<open>Resolve\<close> accepts exactly the specs with a positive TTL whose \<open>maxTTL\<close>, if set,
  is at least the TTL and whose \<open>idleTTL\<close>, if set, is positive; it then returns the spec's own
  values, with \<open>MaxTTL\<close> equal to the TTL and \<open>renewable\<close> true by default.
\<close>

theorem resolve_without_policy:
  "Resolve spec None = Inr r \<longleftrightarrow>
     sp_TTL spec = Some (re_TTL r) \<and> 0 < re_TTL r
   \<and> re_MaxTTL r = (case sp_MaxTTL spec of Some m \<Rightarrow> m | None \<Rightarrow> re_TTL r) \<and> re_TTL r \<le> re_MaxTTL r
   \<and> (case sp_IdleTTL spec of Some d \<Rightarrow> 0 < d \<and> re_IdleTTL r = d | None \<Rightarrow> re_IdleTTL r = 0)
   \<and> re_Renewable r = IsRenewable spec \<and> re_Quota r = sp_Quota spec
   \<and> re_NetworkPolicy r = sp_NetworkPolicy spec
   \<and> re_DefaultDeny r = (case sp_NetworkPolicy spec of Some n \<Rightarrow> nps_DefaultDeny n | None \<Rightarrow> False)
   \<and> re_PolicyName r = []"
proof -
  have np: "resolveNetworkPolicy np None = Inr (np,
      case np of Some n \<Rightarrow> nps_DefaultDeny n | None \<Rightarrow> False)" for np :: "NetworkPolicySpec option"
    by (cases np) (auto simp: resolveNetworkPolicy_def intro: NetworkPolicySpec.equality)
  have b: "resolveBool (sp_Renewable spec) None = Inr (IsRenewable spec)"
    by (simp add: resolveBool_def IsRenewable_def split: option.split)
  show ?thesis
    unfolding Resolve_def durationPolicy_def max_ttl_policy_def ttl_maximum_def boolPolicy_def
      quotaPolicy_def networkPolicy_def validateQuota_def Let_def option.map option.case np b
      sum.case prod.case
    by (cases r)
       (auto simp: resolveDuration_def bound_duration_def split: option.splits sum.splits if_splits)
qed

text \<open>
  A resolved lease never hits the error branch of \<open>EnsureTimestamps\<close>: with the durations of any
  successful \<open>Resolve\<close>, the controller's next step succeeds for every lease and instant.
\<close>

theorem resolve_enables_timestamps:
  assumes "Resolve spec policy = Inr r"
  shows "\<exists>l' changed rejected. EnsureTimestamps l (re_TTL r) (re_MaxTTL r) renewable now
           = Inr (l', changed, rejected)"
proof -
  have "0 < re_TTL r" using Resolve_Inr(1) [OF assms] by (auto simp: within_def split: option.splits)
  then show ?thesis using Resolve_Inr(3) [OF assms] by (simp add: EnsureTimestamps_eq Let_def)
qed

theorem resolve_enables_timestamps_witness:
  "\<exists>l' changed rejected. EnsureTimestamps demo_lease 30 100 True 7 = Inr (l', changed, rejected)"
proof -
  obtain r where r: "Resolve zero_lease_spec (Some demo_policy) = Inr r" "re_TTL r = 30" "re_MaxTTL r = 100"
    by (simp add: resolve_defs demo_policy_def zero_defs Let_def)
  show ?thesis using resolve_enables_timestamps [OF r(1), of demo_lease True 7] r(2,3) by simp
qed

text \<open>
  The comment on the default path is not right in general: a policy whose \<open>maxTTL.default\<close> lies
  above its \<open>ttl.maximum\<close> is accepted, and a lease that sets neither value resolves to a \<open>MaxTTL\<close>
  above \<open>ttl.maximum\<close>.
\<close>

theorem max_ttl_default_may_exceed_ttl_maximum:
  "\<exists>policy r m. Resolve zero_lease_spec (Some policy) = Inr r
     \<and> ttl_maximum (Some (po_Spec policy)) = Some m \<and> m < re_MaxTTL r"
proof -
  define pol where "pol = demo_policy\<lparr>po_Spec := (po_Spec demo_policy)
    \<lparr>ps_MaxTTL := Some \<lparr>dp_Default = Some 500, dp_Maximum = None, dp_Minimum = None\<rparr>\<rparr>\<rparr>"
  have "ttl_maximum (Some (po_Spec pol)) = Some 100"
    by (simp add: pol_def demo_policy_def ttl_maximum_def zero_defs)
  moreover obtain r where "Resolve zero_lease_spec (Some pol) = Inr r" "re_MaxTTL r = 500"
    by (simp add: resolve_defs pol_def demo_policy_def zero_defs Let_def)
  ultimately show ?thesis by (intro exI [of _ pol] exI [of _ r] exI [of _ 100]) simp
qed

end
