(* ===== verification/Status_Compare.thy ===== *)
theory Status_Compare
  imports Conditions
begin

text \<open>
  \<open>src/internal/lease/status.go\<close>: the comparison that decides whether the controller writes the
  status back, and the copy it compares against. The main result is that the comparison is
  equality of statuses up to the order of the conditions and their transition times.
\<close>

definition clusterStatusEqual :: "ClusterStatus option \<Rightarrow> ClusterStatus option \<Rightarrow> bool" where
  "clusterStatusEqual a b =
     (case (a, b) of
        (None, None) \<Rightarrow> True
      | (Some x, Some y) \<Rightarrow> cs_Name x = cs_Name y \<and> cs_TargetUID x = cs_TargetUID y
          \<and> cs_RemoteIdentity x = cs_RemoteIdentity y
      | _ \<Rightarrow> False)"

definition effectiveEqual :: "EffectiveLeaseSpec option \<Rightarrow> EffectiveLeaseSpec option \<Rightarrow> bool" where
  "effectiveEqual a b =
     (case (a, b) of
        (None, None) \<Rightarrow> True
      | (Some x, Some y) \<Rightarrow>
          if ef_PolicyName x \<noteq> ef_PolicyName y \<or> ef_Renewable x \<noteq> ef_Renewable y
             \<or> ef_DefaultDeny x \<noteq> ef_DefaultDeny y then False
          else if ef_TTL x \<noteq> ef_TTL y \<or> ef_MaxTTL x \<noteq> ef_MaxTTL y then False
          else (case (ef_IdleTTL x, ef_IdleTTL y) of
                  (None, None) \<Rightarrow> True
                | (Some d, Some e) \<Rightarrow> d = e
                | _ \<Rightarrow> False)
      | _ \<Rightarrow> False)"

definition timePtrEqual :: "time option \<Rightarrow> time option \<Rightarrow> bool" where
  "timePtrEqual a b =
     (case (a, b) of (None, None) \<Rightarrow> True | (Some s, Some t) \<Rightarrow> s = t | _ \<Rightarrow> False)"

fun slice_items_equal :: "string list \<Rightarrow> string list \<Rightarrow> bool" where
  "slice_items_equal (x # xs) (y # ys) = (if x \<noteq> y then False else slice_items_equal xs ys)"
| "slice_items_equal _ _ = True"

definition stringSliceEqual :: "string list \<Rightarrow> string list \<Rightarrow> bool" where
  "stringSliceEqual a b = (if length a \<noteq> length b then False else slice_items_equal a b)"

text \<open>The index \<open>byType\<close>: a later condition of the same type overwrites an earlier one.\<close>

definition by_type :: "Condition list \<Rightarrow> (CondType, Condition) fmap" where
  "by_type b = fold (\<lambda>c m. fmupd (cd_Type c) c m) b fmempty"

definition conditionsEqual :: "Condition list \<Rightarrow> Condition list \<Rightarrow> bool" where
  "conditionsEqual a b =
     (if length a \<noteq> length b then False
      else list_all (\<lambda>ac. case fmlookup (by_type b) (cd_Type ac) of
                        None \<Rightarrow> False
                      | Some bc \<Rightarrow> cd_Status ac = cd_Status bc \<and> cd_Reason ac = cd_Reason bc
                          \<and> cd_Message ac = cd_Message bc
                          \<and> cd_ObservedGeneration ac = cd_ObservedGeneration bc) a)"

definition StatusEqual :: "EnvironmentLeaseStatus \<Rightarrow> EnvironmentLeaseStatus \<Rightarrow> bool" where
  "StatusEqual a b =
     (if st_Phase a \<noteq> st_Phase b \<or> st_Namespace a \<noteq> st_Namespace b
         \<or> st_ObservedGeneration a \<noteq> st_ObservedGeneration b then False
      else if \<not> clusterStatusEqual (st_Cluster a) (st_Cluster b) then False
      else if \<not> timePtrEqual (st_CreatedAt a) (st_CreatedAt b)
         \<or> \<not> timePtrEqual (st_ExpiresAt a) (st_ExpiresAt b)
         \<or> \<not> timePtrEqual (st_MaximumExpiresAt a) (st_MaximumExpiresAt b)
         \<or> \<not> timePtrEqual (st_LastActivityAt a) (st_LastActivityAt b)
         \<or> \<not> timePtrEqual (st_IdleExpiresAt a) (st_IdleExpiresAt b)
         \<or> \<not> timePtrEqual (st_EffectiveExpiresAt a) (st_EffectiveExpiresAt b) then False
      else if st_ExpirationReason a \<noteq> st_ExpirationReason b then False
      else if \<not> stringSliceEqual (st_WarningsDelivered a) (st_WarningsDelivered b) then False
      else if \<not> effectiveEqual (st_Effective a) (st_Effective b) then False
      else conditionsEqual (st_Conditions a) (st_Conditions b))"

text \<open>
  \<open>DeepCopyStatus\<close> copies every pointer's target; on values that is the same status, which is what
  the later comparison relies on.
\<close>

definition DeepCopyStatus :: "EnvironmentLeaseStatus \<Rightarrow> EnvironmentLeaseStatus" where
  "DeepCopyStatus s = s\<lparr>
     st_CreatedAt := (case st_CreatedAt s of None \<Rightarrow> None | Some t \<Rightarrow> Some t),
     st_ExpiresAt := (case st_ExpiresAt s of None \<Rightarrow> None | Some t \<Rightarrow> Some t),
     st_MaximumExpiresAt := (case st_MaximumExpiresAt s of None \<Rightarrow> None | Some t \<Rightarrow> Some t),
     st_LastActivityAt := (case st_LastActivityAt s of None \<Rightarrow> None | Some t \<Rightarrow> Some t),
     st_IdleExpiresAt := (case st_IdleExpiresAt s of None \<Rightarrow> None | Some t \<Rightarrow> Some t),
     st_EffectiveExpiresAt := (case st_EffectiveExpiresAt s of None \<Rightarrow> None | Some t \<Rightarrow> Some t),
     st_Cluster := (case st_Cluster s of None \<Rightarrow> None | Some c \<Rightarrow> Some c),
     st_WarningsDelivered := [] @ st_WarningsDelivered s,
     st_Effective := (case st_Effective s of None \<Rightarrow> None
        | Some e \<Rightarrow> Some (e\<lparr>ef_IdleTTL := (case ef_IdleTTL e of None \<Rightarrow> None | Some d \<Rightarrow> Some d)\<rparr>)),
     st_Conditions := map id (st_Conditions s)\<rparr>"

section \<open>Lemmas\<close>

lemma option_copy [simp]: "(case x of None \<Rightarrow> None | Some t \<Rightarrow> Some t) = x"
  by (cases x) simp_all

lemma DeepCopyStatus_id [simp]: "DeepCopyStatus s = s"
proof -
  have e: "e\<lparr>ef_IdleTTL := ef_IdleTTL e\<rparr> = e" for e :: EffectiveLeaseSpec by (cases e) simp
  have "(case x of None \<Rightarrow> None
      | Some e \<Rightarrow> Some (e\<lparr>ef_IdleTTL := (case ef_IdleTTL e of None \<Rightarrow> None | Some d \<Rightarrow> Some d)\<rparr>)) = x" for x
    by (cases x) (simp_all add: e)
  then show ?thesis by (cases s) (simp add: DeepCopyStatus_def)
qed

lemma timePtrEqual_iff [simp]: "timePtrEqual a b \<longleftrightarrow> a = b"
  by (auto simp: timePtrEqual_def split: option.splits)

lemma clusterStatusEqual_iff [simp]: "clusterStatusEqual a b \<longleftrightarrow> a = b"
  by (auto simp: clusterStatusEqual_def split: option.splits intro: ClusterStatus.equality)

lemma effectiveEqual_iff [simp]: "effectiveEqual a b \<longleftrightarrow> a = b"
  by (auto simp: effectiveEqual_def split: option.splits if_splits intro: EffectiveLeaseSpec.equality)

lemma slice_items_equal_iff: "length a = length b \<Longrightarrow> slice_items_equal a b \<longleftrightarrow> a = b"
  by (induction a b rule: list_induct2) simp_all

lemma stringSliceEqual_iff [simp]: "stringSliceEqual a b \<longleftrightarrow> a = b"
  using slice_items_equal_iff by (auto simp: stringSliceEqual_def)

text \<open>A condition without its transition time.\<close>

definition untimed :: "Condition \<Rightarrow> Condition" where
  "untimed c = c\<lparr>cd_LastTransitionTime := 0\<rparr>"

lemma untimed_eq_iff:
  "untimed a = untimed b \<longleftrightarrow> cd_Type a = cd_Type b \<and> cd_Status a = cd_Status b \<and> cd_Reason a = cd_Reason b
     \<and> cd_Message a = cd_Message b \<and> cd_ObservedGeneration a = cd_ObservedGeneration b"
  by (cases a, cases b) (auto simp: untimed_def)

lemma lookup_by_type:
  assumes "distinct (map cd_Type b)"
  shows "fmlookup (by_type b) t = Some c \<longleftrightarrow> c \<in> set b \<and> cd_Type c = t"
  using assms
proof (induction b rule: rev_induct)
  case (snoc x xs)
  then show ?case by (auto simp: by_type_def)
qed (simp add: by_type_def)

lemma untimed_inj_on: "distinct (map cd_Type b) \<Longrightarrow> inj_on untimed (set b)"
  by (auto simp: inj_on_def untimed_eq_iff distinct_map)

lemma conditionsEqual_iff:
  assumes "distinct (map cd_Type a)" "distinct (map cd_Type b)"
  shows "conditionsEqual a b \<longleftrightarrow> mset (map untimed a) = mset (map untimed b)"
proof -
  have d: "distinct (map untimed a)" "distinct (map untimed b)"
    using assms untimed_inj_on by (auto simp: distinct_map)
  have "(case fmlookup (by_type b) (cd_Type ac) of None \<Rightarrow> False
          | Some bc \<Rightarrow> cd_Status ac = cd_Status bc \<and> cd_Reason ac = cd_Reason bc
              \<and> cd_Message ac = cd_Message bc \<and> cd_ObservedGeneration ac = cd_ObservedGeneration bc)
      \<longleftrightarrow> untimed ac \<in> untimed ` set b" for ac
  proof (cases "fmlookup (by_type b) (cd_Type ac)")
    case None
    then have "untimed ac \<noteq> untimed c" if "c \<in> set b" for c
      using lookup_by_type [OF assms(2), of "cd_Type ac" c] that by (auto simp: untimed_eq_iff)
    then have "untimed ac \<notin> untimed ` set b" by blast
    with None show ?thesis by simp
  next
    case (Some bc)
    then have "c \<in> set b \<and> cd_Type c = cd_Type ac \<longleftrightarrow> c = bc" for c
      using lookup_by_type [OF assms(2), of "cd_Type ac" c] by auto
    then have bc: "bc \<in> set b" "cd_Type bc = cd_Type ac"
      and uniq: "\<And>c. c \<in> set b \<Longrightarrow> cd_Type c = cd_Type ac \<Longrightarrow> c = bc" by blast+
    have "untimed ac \<in> untimed ` set b \<longleftrightarrow> untimed ac = untimed bc"
      using bc(1) uniq by (auto simp: image_iff untimed_eq_iff)
    then show ?thesis unfolding Some option.case by (simp add: untimed_eq_iff bc(2))
  qed
  then have "conditionsEqual a b \<longleftrightarrow> length a = length b \<and> set (map untimed a) \<subseteq> set (map untimed b)"
    by (auto simp: conditionsEqual_def list_all_iff)
  also have "\<dots> \<longleftrightarrow> mset (map untimed a) = mset (map untimed b)"
  proof
    assume *: "length a = length b \<and> set (map untimed a) \<subseteq> set (map untimed b)"
    then have "card (set (map untimed a)) = card (set (map untimed b))"
      using distinct_card [OF d(1)] distinct_card [OF d(2)] by simp
    with * have "set (map untimed a) = set (map untimed b)" by (intro card_subset_eq) simp_all
    then show "mset (map untimed a) = mset (map untimed b)"
      using set_eq_iff_mset_eq_distinct [OF d] by simp
  next
    assume *: "mset (map untimed a) = mset (map untimed b)"
    then show "length a = length b \<and> set (map untimed a) \<subseteq> set (map untimed b)"
      by (metis length_map mset_eq_length set_mset_mset order_refl)
  qed
  finally show ?thesis .
qed

lemma status_equality:
  "(a :: EnvironmentLeaseStatus)\<lparr>st_Conditions := []\<rparr> = b\<lparr>st_Conditions := []\<rparr> \<longleftrightarrow>
     st_Phase a = st_Phase b \<and> st_Namespace a = st_Namespace b \<and> st_Cluster a = st_Cluster b
   \<and> st_CreatedAt a = st_CreatedAt b \<and> st_ExpiresAt a = st_ExpiresAt b
   \<and> st_MaximumExpiresAt a = st_MaximumExpiresAt b \<and> st_LastActivityAt a = st_LastActivityAt b
   \<and> st_IdleExpiresAt a = st_IdleExpiresAt b \<and> st_EffectiveExpiresAt a = st_EffectiveExpiresAt b
   \<and> st_ExpirationReason a = st_ExpirationReason b
   \<and> st_WarningsDelivered a = st_WarningsDelivered b \<and> st_Effective a = st_Effective b
   \<and> st_ObservedGeneration a = st_ObservedGeneration b"
  by (cases a; cases b) auto

section \<open>Property\<close>

text \<open>
  C23. The controller skips a status write exactly when nothing but the order of the conditions or their
  transition times changed: on statuses whose conditions have distinct types, \<open>StatusEqual\<close> against a
  deep copy is equality of every other field, and of the conditions as a multiset without their
  transition times.
\<close>

theorem status_equal_iff:
  assumes "distinct (map cd_Type (st_Conditions a))" and "distinct (map cd_Type (st_Conditions b))"
  shows "StatusEqual (DeepCopyStatus a) b \<longleftrightarrow>
     a\<lparr>st_Conditions := []\<rparr> = b\<lparr>st_Conditions := []\<rparr>
   \<and> mset (map (\<lambda>c. c\<lparr>cd_LastTransitionTime := 0\<rparr>) (st_Conditions a))
       = mset (map (\<lambda>c. c\<lparr>cd_LastTransitionTime := 0\<rparr>) (st_Conditions b))"
  using conditionsEqual_iff [OF assms]
  by (auto simp: StatusEqual_def status_equality untimed_def [abs_def])

text \<open>Two conditions in another order and with other times are the same status; one condition less is not.\<close>

definition demo_condition :: "CondType \<Rightarrow> time \<Rightarrow> Condition" where
  "demo_condition ty t = \<lparr>cd_Type = ty, cd_Status = ConditionTrue, cd_ObservedGeneration = 1, cd_LastTransitionTime = t,
     cd_Reason = ReasonEnvironmentReady, cd_Message = []\<rparr>"

theorem status_equal_iff_witness:
  "let a = zero_lease_status\<lparr>st_Conditions := [demo_condition ConditionReady 3, demo_condition ConditionDegraded 4]\<rparr>
   in StatusEqual (DeepCopyStatus a)
        (a\<lparr>st_Conditions := [demo_condition ConditionDegraded 8, demo_condition ConditionReady 9]\<rparr>)
    \<and> \<not> StatusEqual (DeepCopyStatus a) (a\<lparr>st_Conditions := [demo_condition ConditionReady 3]\<rparr>)"
  unfolding Let_def
  by (subst (1 2) status_equal_iff) (simp_all add: demo_condition_def zero_defs add_mset_commute)

end
