(* ===== verification/Lease_Controller.thy ===== *)
theory Lease_Controller
  imports Ensure Placement Policy_Resolve Status_Compare
begin

text \<open>
  \<open>src/internal/controller/environmentlease_controller.go\<close>: the lease reconciler. Every handler is a
  program over the platform with the control flow of the source; the lease a handler mutates is
  passed in and returned. Long handlers are split at the places where the source has a comment,
  each part with its own lines.
\<close>

section \<open>Constants and helpers\<close>

definition cleanupRequeueAfter :: duration where
  "cleanupRequeueAfter = 5 * Second"
definition targetUnavailableAfter :: duration where
  "targetUnavailableAfter = 30 * Second"
definition remoteDriftRequeue :: duration where
  "remoteDriftRequeue = 2 * Minute"

definition now :: "'w platform \<Rightarrow> ('w, time) prog" where
  "now P = call (api_Now (pf_hub P))"

definition event :: "reconciler \<Rightarrow> event_type \<Rightarrow> string \<Rightarrow> string \<Rightarrow> ('w, unit) prog" where
  "event R et reason message =
     (if rec_Recorder R then emit (Event et reason message) else State_Monad.return ())"

text \<open>
  \<open>Gate.Acquire\<close> with the deferred release: the slot is given back after the body, whichever way the
  body returns. A nil gate and the ungated names do nothing.
\<close>

definition with_gate :: "reconciler \<Rightarrow> string \<Rightarrow> ('w, 'a) prog \<Rightarrow> ('w, 'a) prog" where
  "with_gate R targetName body =
     (if rec_Gate R \<and> gated targetName
      then do { emit (Acquired targetName); x \<leftarrow> body; emit (Released targetName); State_Monad.return x }
      else body)"

definition observeClusterOp :: "TargetSession \<Rightarrow> string \<Rightarrow> go_error option \<Rightarrow> ('w, unit) prog" where
  "observeClusterOp sess op err =
     (if ses_Local sess then State_Monad.return ()
      else emit (ClusterOp (ses_Name sess) op (err = None)))"

definition observeOp :: "TargetSession \<Rightarrow> string \<Rightarrow> go_error option \<Rightarrow> ('w, unit) prog" where
  "observeOp sess op err = observeClusterOp sess op err"

definition err_of :: "go_error + 'a \<Rightarrow> go_error option" where
  "err_of r = (case r of Inl err \<Rightarrow> Some err | Inr _ \<Rightarrow> None)"

definition upd_cluster :: "(ClusterStatus \<Rightarrow> ClusterStatus) \<Rightarrow> EnvironmentLease \<Rightarrow> EnvironmentLease" where
  "upd_cluster f l = l\<lparr>el_Status := (el_Status l)\<lparr>st_Cluster := map_option f (st_Cluster (el_Status l))\<rparr>\<rparr>"

definition set_cluster :: "ClusterStatus \<Rightarrow> EnvironmentLease \<Rightarrow> EnvironmentLease" where
  "set_cluster c l = l\<lparr>el_Status := (el_Status l)\<lparr>st_Cluster := Some c\<rparr>\<rparr>"

definition set_effective :: "EffectiveLeaseSpec \<Rightarrow> EnvironmentLease \<Rightarrow> EnvironmentLease" where
  "set_effective e l = l\<lparr>el_Status := (el_Status l)\<lparr>st_Effective := Some e\<rparr>\<rparr>"

definition named_cluster :: "string \<Rightarrow> ClusterStatus" where
  "named_cluster n = \<lparr>cs_Name = n, cs_TargetUID = [], cs_RemoteIdentity = []\<rparr>"

definition cluster_name :: "EnvironmentLease \<Rightarrow> string" where
  "cluster_name l = (case st_Cluster (el_Status l) of None \<Rightarrow> [] | Some c \<Rightarrow> cs_Name c)"

definition fetchPolicy :: "'w platform \<Rightarrow> EnvironmentLease \<Rightarrow> ('w, go_error + EnvironmentLeasePolicy option) prog" where
  "fetchPolicy P l =
     (let name = ref_name (sp_PolicyRef (el_Spec l))
      in if name = [] then State_Monad.return (Inr None)
         else do {
           r \<leftarrow> call (api_GetPolicy (pf_hub P) name);
           State_Monad.return (case r of
               Inl err \<Rightarrow> Inl (Wrapf (''get EnvironmentLeasePolicy '' @ quote name @ '': '') err)
             | Inr pol \<Rightarrow> Inr (Some pol)) })"

section \<open>Writing the status and the finalizer\<close>

definition patchStatusIfChanged ::
  "'w platform \<Rightarrow> EnvironmentLease \<Rightarrow> EnvironmentLeaseStatus \<Rightarrow> ('w, go_error + EnvironmentLease) prog" where
  "patchStatusIfChanged P l before =
     (let desired = el_Status l
      in if StatusEqual before desired then State_Monad.return (Inr l)
         else lib_RetryLease P (do {
           r \<leftarrow> call (api_GetLease (pf_hub P) (el_Name l));
           (case r of
              Inl err \<Rightarrow> State_Monad.return (Inl err)
            | Inr got \<Rightarrow>
                let latest = got\<lparr>el_Status := desired\<rparr>
                in do {
                  u \<leftarrow> act (StatusUpdateLease latest) (api_StatusUpdateLease (pf_hub P) latest);
                  State_Monad.return (case u of
                      Inl err \<Rightarrow> Inl (Wrapf (''update status for '' @ el_Name l @ '': '') err)
                    | Inr stored \<Rightarrow> Inr (l\<lparr>el_Status := el_Status stored\<rparr>)) }) }))"

definition removeLeaseFinalizer :: "'w platform \<Rightarrow> EnvironmentLease \<Rightarrow> ('w, go_error + EnvironmentLease) prog" where
  "removeLeaseFinalizer P l =
     lib_RetryLease P (do {
       r \<leftarrow> call (api_GetLease (pf_hub P) (el_Name l));
       (case r of
          Inl err \<Rightarrow> State_Monad.return (if IsNotFound err then Inr l else Inl err)
        | Inr current \<Rightarrow>
            if \<not> ContainsFinalizer (pf_lib P) (om_Finalizers (el_Meta current)) FinalizerName
            then State_Monad.return (Inr l)
            else
              let current = current\<lparr>el_Meta := (el_Meta current)\<lparr>om_Finalizers :=
                    RemoveFinalizer (pf_lib P) (om_Finalizers (el_Meta current)) FinalizerName\<rparr>\<rparr>
              in do {
                u \<leftarrow> act (UpdateLease current) (api_UpdateLease (pf_hub P) current);
                State_Monad.return (map_sum id (\<lambda>_. l) u) }) })"

section \<open>Choosing the cluster\<close>

text \<open>
  \<open>resolveTargetSessionForProvision\<close> returns a session, a result to return at once, or an error.
\<close>

datatype session_outcome = SessionErr go_error | SessionResult Result | Session TargetSession

text \<open>Lines 416--434: the identity of a remote target is captured in the status.\<close>

definition capture_identity ::
  "'w platform \<Rightarrow> TargetSession \<Rightarrow> EnvironmentLease \<Rightarrow> ('w, session_outcome \<times> EnvironmentLease) prog" where
  "capture_identity P sess l = do {
     t \<leftarrow> call (api_GetTarget (pf_hub P) (ses_Name sess));
     let l = (case t of
                Inl err \<Rightarrow> l
              | Inr target \<Rightarrow> upd_cluster (\<lambda>c. let c = c\<lparr>cs_TargetUID := om_UID (ct_Meta target)\<rparr>
                  in if tst_RemoteIdentity (ct_Status target) \<noteq> []
                     then c\<lparr>cs_RemoteIdentity := tst_RemoteIdentity (ct_Status target)\<rparr> else c) l);
     probed \<leftarrow> (if recorded_identity l = [] then do {
         ns \<leftarrow> call (api_GetNamespace (pf_cluster P) (ses_Client sess) ''kube-system'');
         State_Monad.return (map_sum (Wrapf ''probe remote identity: '')
             (\<lambda>i. upd_cluster (cs_RemoteIdentity_update (\<lambda>_. i)) l) (ProbeRemoteIdentity ns)) }
       else State_Monad.return (Inr l));
     (case probed of
        Inl err \<Rightarrow> State_Monad.return (SessionErr err, l)
      | Inr l \<Rightarrow> do {
          ot \<leftarrow> read_outages;
          write_outages (Clear ot (ses_Name sess));
          State_Monad.return (Session sess, l) }) }"

text \<open>Lines 395--435: the outage window, the recorded cluster, the client.\<close>

definition open_session ::
  "'w platform \<Rightarrow> EnvironmentLease \<Rightarrow> string \<Rightarrow> ('w, session_outcome \<times> EnvironmentLease) prog" where
  "open_session P l name = do {
     ot \<leftarrow> read_outages;
     wait \<leftarrow> (case ot of None \<Rightarrow> State_Monad.return 0
             | Some _ \<Rightarrow> do { n \<leftarrow> now P; State_Monad.return (RequeueAfter ot name n) });
     if wait > 0
     then State_Monad.return (SessionResult (requeue_after wait),
       SetCondition (pf_lib P) l ConditionTargetClusterReady ConditionFalse ReasonTargetClusterUnavailable
         (''target '' @ name @ '' in shared outage backoff''))
     else do {
       let l = set_cluster (case st_Cluster (el_Status l) of
                   Some c \<Rightarrow> if cs_Name c = name then c else named_cluster name
                 | None \<Rightarrow> named_cluster name) l;
       s \<leftarrow> ResolveNamedTarget P name;
       (case s of
          Inl err \<Rightarrow> State_Monad.return (SessionErr err, l)
        | Inr sess \<Rightarrow>
            if ses_Local sess then State_Monad.return (Session sess, l)
            else capture_identity P sess l) } }"

definition resolveTargetSessionForProvision ::
  "'w platform \<Rightarrow> EnvironmentLease \<Rightarrow> EnvironmentLeasePolicy option
     \<Rightarrow> ('w, session_outcome \<times> EnvironmentLease) prog" where
  "resolveTargetSessionForProvision P l pol = do {
     emit (Inc ''PlacementAttemptsTotal'');
     c \<leftarrow> CountActiveLeases P;
     (case c of
        Inl err \<Rightarrow> State_Monad.return (SessionErr err, l)
      | Inr counts \<Rightarrow> do {
          d \<leftarrow> Decide P l pol (Some counts);
          (case d of
             Inl err \<Rightarrow>
               if contains (err_text err) (reason_text ReasonPolicyViolation) then do {
                 emit (Inc ''ProvisionFailuresTotal'');
                 emit (Inc ''PolicyRejectionsTotal'');
                 State_Monad.return (SessionResult no_requeue,
                   MarkFailed (pf_lib P) l ReasonPolicyViolation (err_text err)) }
               else State_Monad.return (SessionErr err, l)
           | Inr decision \<Rightarrow>
               if de_Pending decision then do {
                 emit (Inc ''PlacementFailuresTotal'');
                 State_Monad.return (SessionResult (requeue_after targetUnavailableAfter),
                   SetCondition (pf_lib P)
                     (MarkPending (pf_lib P) l ReasonNoMatchingCluster (de_Message decision))
                     ConditionTargetClusterReady ConditionFalse ReasonNoMatchingCluster (de_Message decision)) }
               else open_session P l (de_ClusterName decision)) }) }"

definition resolveTargetSession :: "'w platform \<Rightarrow> EnvironmentLease \<Rightarrow> ('w, go_error + TargetSession) prog" where
  "resolveTargetSession P l =
     (let name = (if ref_name (sp_ClusterRef (el_Spec l)) \<noteq> [] then ref_name (sp_ClusterRef (el_Spec l))
                  else if cluster_name l \<noteq> [] then cluster_name l
                  else LocalClusterName)
      in ResolveNamedTarget P name)"

definition handleTargetError ::
  "'w platform \<Rightarrow> EnvironmentLease \<Rightarrow> go_error \<Rightarrow> ('w, (go_error + Result) \<times> EnvironmentLease) prog" where
  "handleTargetError P l err =
     (let cluster = cluster_name l;
          (reason, msg) = (case AsTargetError err of
              Some rm \<Rightarrow> rm | None \<Rightarrow> (ReasonTargetClusterUnavailable, err_text err));
          l = MarkFailed (pf_lib P) l reason msg;
          l = SetCondition (pf_lib P) l ConditionTargetClusterReady ConditionFalse reason msg
      in do {
        emit (Inc ''ProvisionFailuresTotal'');
        ot \<leftarrow> read_outages;
        if ot \<noteq> None \<and> cluster \<noteq> [] \<and> cluster \<noteq> LocalClusterName then do {
          n \<leftarrow> now P;
          write_outages (snd (MarkUnavailable ot cluster n));
          State_Monad.return (Inr (requeue_after (fst (MarkUnavailable ot cluster n))), l) }
        else State_Monad.return (Inr (requeue_after targetUnavailableAfter), l) })"

section \<open>An active lease\<close>

text \<open>Lines 258--270 and 293--305: write the status, read the lease back, restore what is derived.\<close>

definition persist_status ::
  "'w platform \<Rightarrow> string \<Rightarrow> EnvironmentLease \<Rightarrow> Resolved \<Rightarrow> string
     \<Rightarrow> ('w, go_error option \<times> EnvironmentLease) prog" where
  "persist_status P what l resolved clusterName = do {
     u \<leftarrow> act (StatusUpdateLease l) (api_StatusUpdateLease (pf_hub P) l);
     (case u of
        Inl err \<Rightarrow> State_Monad.return (Some (Wrapf (''persist status.'' @ what @ '': '') err), l)
      | Inr stored \<Rightarrow> do {
          r \<leftarrow> call (api_GetLease (pf_hub P) (el_Name stored));
          State_Monad.return (case r of
              Inl err \<Rightarrow> (Some err, stored)
            | Inr fresh \<Rightarrow> (None, set_cluster (named_cluster clusterName)
                               (set_effective (ToEffectiveStatus resolved) fresh))) }) }"

definition persist_cluster ::
  "'w platform \<Rightarrow> EnvironmentLease \<Rightarrow> LeasePhase \<Rightarrow> Resolved \<Rightarrow> string
     \<Rightarrow> ('w, go_error option \<times> EnvironmentLease) prog" where
  "persist_cluster P l previousPhase resolved clusterName =
     (if previousPhase \<noteq> LeasePhaseActive \<and> previousPhase \<noteq> LeasePhaseExpiring
         \<and> st_Namespace (el_Status l) = []
      then persist_status P ''cluster'' l resolved clusterName
      else State_Monad.return (None, l))"

definition persist_namespace ::
  "'w platform \<Rightarrow> EnvironmentLease \<Rightarrow> string \<Rightarrow> Resolved \<Rightarrow> string
     \<Rightarrow> ('w, go_error option \<times> EnvironmentLease) prog" where
  "persist_namespace P l nsName resolved clusterName =
     (if st_Namespace (el_Status l) \<noteq> nsName
      then persist_status P ''namespace'' (l\<lparr>el_Status := (el_Status l)\<lparr>st_Namespace := nsName\<rparr>\<rparr>)
             resolved clusterName
      else State_Monad.return (None, l))"

text \<open>Lines 310--327: the three resources, each with its failure reason.\<close>

definition provision_failed ::
  "'w platform \<Rightarrow> TargetSession \<Rightarrow> EnvironmentLease \<Rightarrow> string \<Rightarrow> Reason \<Rightarrow> go_error
     \<Rightarrow> ('w, go_error option \<times> EnvironmentLease) prog" where
  "provision_failed P sess l op reason err = do {
     observeOp sess op (Some err);
     emit (Inc ''ProvisionFailuresTotal'');
     State_Monad.return (Some err, MarkFailed (pf_lib P) l reason (err_text err)) }"

definition provision_resources ::
  "'w platform \<Rightarrow> TargetSession \<Rightarrow> EnvironmentLease \<Rightarrow> EnvironmentLease \<Rightarrow> string
     \<Rightarrow> ('w, go_error option \<times> EnvironmentLease) prog" where
  "provision_resources P sess working l nsName = do {
     q \<leftarrow> ensureResourceQuota P sess working nsName;
     (case q of
        Some err \<Rightarrow> provision_failed P sess l ''update'' ReasonResourceQuotaCreationFailed err
      | None \<Rightarrow> do {
          r \<leftarrow> ensureLimitRange P sess working nsName;
          (case r of
             Some err \<Rightarrow> provision_failed P sess l ''update'' ReasonLimitRangeCreationFailed err
           | None \<Rightarrow> do {
               n \<leftarrow> ensureNetworkPolicy P sess working nsName;
               (case n of
                  Some err \<Rightarrow> provision_failed P sess l ''update'' ReasonNetworkPolicyCreationFailed err
                | None \<Rightarrow> State_Monad.return (None, l)) }) }) }"

text \<open>The loop of \<open>emitWarnings\<close>; the clock is read for every message.\<close>

fun deliver_warnings ::
  "'w platform \<Rightarrow> reconciler \<Rightarrow> time \<Rightarrow> duration list \<Rightarrow> EnvironmentLease \<Rightarrow> ('w, EnvironmentLease) prog" where
  "deliver_warnings P R deadline [] l = State_Monad.return l"
| "deliver_warnings P R deadline (x # xs) l = do {
     n \<leftarrow> now P;
     event R EventTypeWarning ''LeaseExpiring'' (WarningMessage (el_Name l) (time_sub deadline n));
     emit (Inc ''WarningEventsTotal'');
     deliver_warnings P R deadline xs (l\<lparr>el_Status := (el_Status l)\<lparr>st_WarningsDelivered :=
       MarkWarningDelivered (st_WarningsDelivered (el_Status l)) x\<rparr>\<rparr>) }"

definition emitWarnings :: "'w platform \<Rightarrow> reconciler \<Rightarrow> EnvironmentLease \<Rightarrow> ('w, EnvironmentLease) prog" where
  "emitWarnings P R l =
     (case EffectiveDeadline l of
        None \<Rightarrow> State_Monad.return l
      | Some deadline \<Rightarrow> do {
          n \<leftarrow> now P;
          deliver_warnings P R deadline
            (PendingWarnings n deadline (WarningDurations (sp_Warnings (el_Spec l)))
               (st_WarningsDelivered (el_Status l))) l })"

text \<open>Lines 346--362: when to come back.\<close>

definition next_visit :: "'w platform \<Rightarrow> TargetSession \<Rightarrow> EnvironmentLease \<Rightarrow> ('w, Result) prog" where
  "next_visit P sess l =
     (case EffectiveDeadline l of
        None \<Rightarrow> State_Monad.return (if \<not> ses_Local sess then requeue_after remoteDriftRequeue else no_requeue)
      | Some deadline \<Rightarrow> do {
          n \<leftarrow> now P;
          let until = NextReconcileAfter n deadline (WarningDurations (sp_Warnings (el_Spec l)))
                        (st_WarningsDelivered (el_Status l));
          let until = (if \<not> ses_Local sess \<and> (until = 0 \<or> until > remoteDriftRequeue)
                       then remoteDriftRequeue else until);
          State_Monad.return (requeue_after until) })"

text \<open>Lines 329--362: warnings, the Ready condition, the provisioning event, the next visit.\<close>

definition finish_active ::
  "'w platform \<Rightarrow> reconciler \<Rightarrow> TargetSession \<Rightarrow> EnvironmentLease \<Rightarrow> bool \<Rightarrow> LeasePhase \<Rightarrow> string
     \<Rightarrow> ('w, (go_error + Result) \<times> EnvironmentLease) prog" where
  "finish_active P R sess l wasReady previousPhase nsName = do {
     l \<leftarrow> emitWarnings P R l;
     n \<leftarrow> now P;
     let l = MarkReady (pf_lib P) l (IsExpiringWindow l n);
     let l = SetCondition (pf_lib P) l ConditionTargetClusterReady ConditionTrue ReasonEnvironmentReady
               (''Using cluster '' @ ses_Name sess);
     (if \<not> wasReady \<and> previousPhase \<noteq> LeasePhaseActive \<and> previousPhase \<noteq> LeasePhaseExpiring then do {
        emit (Inc ''LeasesCreatedTotal'');
        event R EventTypeNormal ''EnvironmentProvisioned''
          (''Environment provisioned in namespace '' @ nsName @ '' on cluster '' @ ses_Name sess) }
      else State_Monad.return ());
     res \<leftarrow> next_visit P sess l;
     State_Monad.return (Inr res, l) }"

text \<open>Lines 278--283: the copy the desired objects are built from.\<close>

definition working_copy :: "EnvironmentLease \<Rightarrow> Resolved \<Rightarrow> EnvironmentLease" where
  "working_copy l resolved =
     (case re_NetworkPolicy resolved of
        None \<Rightarrow> l
      | Some np \<Rightarrow> l\<lparr>el_Spec := (el_Spec l)\<lparr>sp_NetworkPolicy := Some np\<rparr>\<rparr>)"

text \<open>Lines 272--328: namespace, its persistence, resources.\<close>

definition provision_environment ::
  "'w platform \<Rightarrow> reconciler \<Rightarrow> TargetSession \<Rightarrow> EnvironmentLease \<Rightarrow> bool \<Rightarrow> LeasePhase \<Rightarrow> Resolved
     \<Rightarrow> ('w, (go_error + Result) \<times> EnvironmentLease) prog" where
  "provision_environment P R sess l wasReady previousPhase resolved =
     (let l = (if \<not> wasReady \<and> st_Phase (el_Status l) \<noteq> LeasePhaseFailed
               then MarkProvisioning (pf_lib P) l ''Provisioning managed environment'' else l);
          working = working_copy l resolved
      in do {
        n \<leftarrow> ensureNamespace P R sess l;
        (case n of
           Inl err \<Rightarrow> do {
             (_, l) \<leftarrow> provision_failed P sess l ''create'' ReasonNamespaceCreationFailed err;
             State_Monad.return (Inl err, l) }
         | Inr (nsName, created) \<Rightarrow> do {
             observeOp sess ''create'' None;
             (e, l) \<leftarrow> persist_namespace P l nsName resolved (ses_Name sess);
             (case e of
                Some err \<Rightarrow> State_Monad.return (Inl err, l)
              | None \<Rightarrow> do {
                  (e, l) \<leftarrow> provision_resources P sess working l nsName;
                  (case e of
                     Some err \<Rightarrow> State_Monad.return (Inl err, l)
                   | None \<Rightarrow> finish_active P R sess l wasReady previousPhase nsName) }) }) })"

text \<open>Lines 250--271: record the cluster, persist the selection.\<close>

definition provision_on ::
  "'w platform \<Rightarrow> reconciler \<Rightarrow> TargetSession \<Rightarrow> EnvironmentLease \<Rightarrow> bool \<Rightarrow> LeasePhase \<Rightarrow> Resolved
     \<Rightarrow> ('w, (go_error + Result) \<times> EnvironmentLease) prog" where
  "provision_on P R sess l wasReady previousPhase resolved =
     (let l = (case st_Cluster (el_Status l) of
                 None \<Rightarrow> set_cluster (named_cluster (ses_Name sess)) l
               | Some c \<Rightarrow> set_cluster (c\<lparr>cs_Name := ses_Name sess\<rparr>) l);
          l = SetCondition (pf_lib P) l ConditionTargetClusterReady ConditionTrue ReasonEnvironmentReady
                (''Using cluster '' @ ses_Name sess)
      in do {
        (e, l) \<leftarrow> persist_cluster P l previousPhase resolved (ses_Name sess);
        (case e of
           Some err \<Rightarrow> State_Monad.return (Inl err, l)
         | None \<Rightarrow> provision_environment P R sess l wasReady previousPhase resolved) })"

definition reconcileActive ::
  "'w platform \<Rightarrow> reconciler \<Rightarrow> EnvironmentLease \<Rightarrow> LeasePhase \<Rightarrow> Resolved \<Rightarrow> EnvironmentLeasePolicy option
     \<Rightarrow> ('w, (go_error + Result) \<times> EnvironmentLease) prog" where
  "reconcileActive P R l previousPhase resolved pol = do {
     let wasReady = ConditionTrue_lease (pf_lib P) l ConditionReady;
     (out, l) \<leftarrow> resolveTargetSessionForProvision P l pol;
     (case out of
        SessionResult res \<Rightarrow> State_Monad.return (Inr res, l)
      | SessionErr err \<Rightarrow> handleTargetError P l err
      | Session sess \<Rightarrow>
          with_gate R (ses_Name sess) (provision_on P R sess l wasReady previousPhase resolved)) }"

section \<open>Cleanup\<close>

text \<open>Lines 742--773: find the namespace, verify it, delete it.\<close>

definition delete_owned_namespace ::
  "'w platform \<Rightarrow> reconciler \<Rightarrow> TargetSession \<Rightarrow> EnvironmentLease \<Rightarrow> string
     \<Rightarrow> ('w, (go_error + bool) \<times> EnvironmentLease) prog" where
  "delete_owned_namespace P R sess l nsName = do {
     g \<leftarrow> call (api_GetNamespace (pf_cluster P) (ses_Client sess) nsName);
     observeClusterOp sess ''get'' (err_of g);
     (case g of
        Inl err \<Rightarrow>
          if IsNotFound err then State_Monad.return (Inr True, l)
          else if EffectiveCleanupMode (el_Spec l) = CleanupModeBestEffort
          then State_Monad.return (Inr True, l)
          else State_Monad.return (Inl (Wrapf (''get namespace '' @ nsName @ '' on cluster ''
                 @ ses_Name sess @ '': '') err), l)
      | Inr ns \<Rightarrow>
          (case VerifyNamespaceOwnership (Some ns) l (rec_ControlClusterID R) of
             Some err \<Rightarrow> State_Monad.return (Inl err,
               SetCondition (pf_lib P) l ConditionCleanup ConditionFalse ReasonOwnershipMismatch (err_text err))
           | None \<Rightarrow>
               if ptr_is_zero (om_DeletionTimestamp (ns_Meta ns)) then do {
                 d \<leftarrow> act (DeleteNamespace (ses_Client sess) ns)
                        (api_DeleteNamespace (pf_cluster P) (ses_Client sess) ns);
                 observeClusterOp sess ''delete'' d;
                 State_Monad.return (case d of
                     None \<Rightarrow> (Inr False, l)
                   | Some err \<Rightarrow>
                       if IsNotFound err then (Inr False, l)
                       else (Inl (Wrapf (''delete namespace '' @ nsName @ '' on cluster ''
                              @ ses_Name sess @ '': '') err), l)) }
               else State_Monad.return (Inr False, l))) }"

text \<open>Lines 729--740: the live identity check of a remote target.\<close>

definition cleanup_on ::
  "'w platform \<Rightarrow> reconciler \<Rightarrow> TargetSession \<Rightarrow> EnvironmentLease \<Rightarrow> string
     \<Rightarrow> ('w, (go_error + bool) \<times> EnvironmentLease) prog" where
  "cleanup_on P R sess l nsName =
     (if \<not> ses_Local sess \<and> recorded_identity l \<noteq> [] then do {
        k \<leftarrow> call (api_GetNamespace (pf_cluster P) (ses_Client sess) ''kube-system'');
        (case ProbeRemoteIdentity k of
           Inl err \<Rightarrow> State_Monad.return (Inl (Wrapf ''probe target identity before cleanup: '' err), l)
         | Inr live \<Rightarrow>
             (case VerifyLiveTargetIdentity (recorded_identity l) live of
                Some err \<Rightarrow> State_Monad.return (Inl err,
                  SetCondition (pf_lib P) l ConditionCleanup ConditionFalse ReasonOwnershipMismatch (err_text err))
              | None \<Rightarrow> delete_owned_namespace P R sess l nsName)) }
      else delete_owned_namespace P R sess l nsName)"

definition cleanupEnvironment ::
  "'w platform \<Rightarrow> reconciler \<Rightarrow> EnvironmentLease \<Rightarrow> ('w, (go_error + bool) \<times> EnvironmentLease) prog" where
  "cleanupEnvironment P R l =
     (let nsName = st_Namespace (el_Status l)
      in if nsName = [] then State_Monad.return (Inr True, l)
         else if IsProtectedNamespace nsName
         then State_Monad.return (Inl (Errorf (''refusing to delete protected namespace '' @ quote nsName)), l)
         else if ForceCleanupAcknowledged (Some l) then State_Monad.return (Inr True, l)
         else do {
           s \<leftarrow> resolveTargetSession P l;
           (case s of
              Inl err \<Rightarrow>
                if EffectiveCleanupMode (el_Spec l) = CleanupModeBestEffort
                then State_Monad.return (Inr True, l)
                else State_Monad.return
                  (Inl (Wrapf (reason_text ReasonRemoteCleanupBlocked @ '': '') err),
                   SetCondition (pf_lib P) l ConditionTargetClusterReady ConditionFalse
                     ReasonRemoteCleanupBlocked (err_text err))
            | Inr sess \<Rightarrow> with_gate R (ses_Name sess) (cleanup_on P R sess l nsName)) })"

section \<open>Expiration and deletion\<close>

text \<open>Lines 525--537: the reason of an expiration.\<close>

definition expiry_reason :: "'w platform \<Rightarrow> EnvironmentLease \<Rightarrow> ('w, ExpirationReason) prog" where
  "expiry_reason P l =
     (if st_ExpirationReason (el_Status l) \<noteq> NoExpirationReason
      then State_Monad.return (st_ExpirationReason (el_Status l))
      else do {
        n \<leftarrow> now P;
        State_Monad.return (ResolveExpirationReason n
          (case st_ExpiresAt (el_Status l) of None \<Rightarrow> zero_time | Some t \<Rightarrow> t)
          (st_IdleExpiresAt (el_Status l))) })"

text \<open>Lines 539--566: metrics and events of the first expiration.\<close>

definition announce_expiry :: "reconciler \<Rightarrow> ExpirationReason \<Rightarrow> ('w, unit) prog" where
  "announce_expiry R reason = do {
     emit (Inc ''LeasesExpiredTotal'');
     (case reason of
        ExpirationReasonIdleTimeout \<Rightarrow> emit (Inc ''IdleExpirationsTotal'')
      | ExpirationReasonManualExpiration \<Rightarrow> emit (Inc ''ManualExpirationsTotal'')
      | _ \<Rightarrow> State_Monad.return ());
     (case reason of
        ExpirationReasonIdleTimeout \<Rightarrow> event R EventTypeNormal ''LeaseIdleExpired''
          ''Lease idle timeout elapsed; cleaning up environment''
      | ExpirationReasonSourceClosed \<Rightarrow> event R EventTypeNormal ''SourceClosed''
          ''Upstream source closed; cleaning up environment''
      | _ \<Rightarrow> event R EventTypeNormal ''LeaseExpired''
          (''Lease expired ('' @ expiration_reason_text reason @ ''); cleaning up environment''));
     event R EventTypeNormal ''CleanupStarted'' ''Cleanup started'' }"

text \<open>
  Lines 569--593 and 648--670: what both handlers do when the cleanup returns an error. \<open>obs\<close> is
  \<open>EnsureObservedGeneration\<close> on the expiration path and nothing on the deletion path.
\<close>

definition cleanup_error ::
  "'w platform \<Rightarrow> reconciler \<Rightarrow> (EnvironmentLease \<Rightarrow> EnvironmentLease) \<Rightarrow> EnvironmentLease
     \<Rightarrow> EnvironmentLeaseStatus \<Rightarrow> go_error \<Rightarrow> ('w, go_error + Result) prog" where
  "cleanup_error P R obs l before err =
     (if AsOwnershipMismatch err then do {
        let l = MarkCleanupFailed (pf_lib P) l (err_text err);
        let l = SetCondition (pf_lib P) l ConditionCleanup ConditionFalse ReasonOwnershipMismatch (err_text err);
        p \<leftarrow> patchStatusIfChanged P (obs l) before;
        State_Monad.return (map_sum id (\<lambda>_. no_requeue) p) }
      else do {
        let l = MarkCleanupFailed (pf_lib P) l (err_text err);
        emit (Inc ''CleanupFailuresTotal'');
        event R EventTypeWarning ''CleanupFailed'' (err_text err);
        p \<leftarrow> patchStatusIfChanged P (obs l) before;
        State_Monad.return (map_sum id (\<lambda>_. requeue_after targetUnavailableAfter) p) })"

text \<open>Lines 603--617: the cleaned-up lease loses its finalizer and is deleted.\<close>

definition finish_expired ::
  "'w platform \<Rightarrow> reconciler \<Rightarrow> EnvironmentLease \<Rightarrow> EnvironmentLeaseStatus \<Rightarrow> bool
     \<Rightarrow> ('w, go_error + Result) prog" where
  "finish_expired P R l before firstExpiry = do {
     p \<leftarrow> patchStatusIfChanged P (EnsureObservedGeneration (MarkCleanupComplete (pf_lib P) l)) before;
     (case p of
        Inl err \<Rightarrow> State_Monad.return (Inl err)
      | Inr l \<Rightarrow> do {
          (if firstExpiry then event R EventTypeNormal ''CleanupCompleted'' ''Cleanup completed''
           else State_Monad.return ());
          f \<leftarrow> removeLeaseFinalizer P l;
          (case f of
             Inl err \<Rightarrow> State_Monad.return (Inl (Wrapf ''remove finalizer: '' err))
           | Inr l \<Rightarrow> do {
               d \<leftarrow> act (DeleteLease l) (api_DeleteLease (pf_hub P) l);
               State_Monad.return (case d of
                   None \<Rightarrow> Inr no_requeue
                 | Some err \<Rightarrow> if IsNotFound err then Inr no_requeue
                              else Inl (Wrapf ''delete expired lease: '' err)) }) }) }"

definition reconcileExpired ::
  "'w platform \<Rightarrow> reconciler \<Rightarrow> EnvironmentLease \<Rightarrow> EnvironmentLeaseStatus \<Rightarrow> LeasePhase
     \<Rightarrow> ('w, go_error + Result) prog" where
  "reconcileExpired P R l before previousPhase = do {
     let firstExpiry = (previousPhase \<noteq> LeasePhaseExpired \<and> previousPhase \<noteq> LeasePhaseCleaning
                        \<and> previousPhase \<noteq> LeasePhaseExpiring);
     reason \<leftarrow> expiry_reason P l;
     (if firstExpiry then announce_expiry R reason else State_Monad.return ());
     (r, l) \<leftarrow> cleanupEnvironment P R (MarkExpired (pf_lib P) l reason);
     (case r of
        Inl err \<Rightarrow> cleanup_error P R EnsureObservedGeneration l before err
      | Inr done \<Rightarrow>
          if \<not> done then do {
            p \<leftarrow> patchStatusIfChanged P
                   (EnsureObservedGeneration (MarkCleaning (pf_lib P) l ''Waiting for namespace deletion'')) before;
            State_Monad.return (map_sum id (\<lambda>_. requeue_after cleanupRequeueAfter) p) }
          else finish_expired P R l before firstExpiry) }"

text \<open>Lines 629--646: the deletion is announced and the lease marked.\<close>

definition deletion_reason :: "EnvironmentLease \<Rightarrow> EnvironmentLease" where
  "deletion_reason l =
     (if st_ExpirationReason (el_Status l) \<noteq> ExpirationReasonSourceClosed
      then l\<lparr>el_Status := (el_Status l)\<lparr>st_ExpirationReason := ExpirationReasonManualExpiration\<rparr>\<rparr> else l)"

definition announce_delete :: "reconciler \<Rightarrow> EnvironmentLease \<Rightarrow> ('w, unit) prog" where
  "announce_delete R l = do {
     (if st_ExpirationReason (el_Status l) = ExpirationReasonManualExpiration
      then emit (Inc ''ManualExpirationsTotal'') else State_Monad.return ());
     (if st_ExpirationReason (el_Status l) = ExpirationReasonSourceClosed
      then event R EventTypeNormal ''SourceClosed'' ''Upstream source closed; cleaning up environment''
      else State_Monad.return ());
     event R EventTypeNormal ''CleanupStarted'' ''Cleanup started'' }"

text \<open>Lines 678--689.\<close>

definition finish_delete ::
  "'w platform \<Rightarrow> reconciler \<Rightarrow> EnvironmentLease \<Rightarrow> EnvironmentLeaseStatus \<Rightarrow> ('w, go_error + Result) prog" where
  "finish_delete P R l before = do {
     p \<leftarrow> patchStatusIfChanged P (MarkCleanupComplete (pf_lib P) l) before;
     (case p of
        Inl err \<Rightarrow> State_Monad.return (Inl err)
      | Inr l \<Rightarrow> do {
          event R EventTypeNormal ''CleanupCompleted'' ''Cleanup completed'';
          f \<leftarrow> removeLeaseFinalizer P l;
          State_Monad.return (map_sum (Wrapf ''remove finalizer: '') (\<lambda>_. no_requeue) f) }) }"

definition reconcileDelete ::
  "'w platform \<Rightarrow> reconciler \<Rightarrow> EnvironmentLease \<Rightarrow> ('w, go_error + Result) prog" where
  "reconcileDelete P R l =
     (if \<not> ContainsFinalizer (pf_lib P) (om_Finalizers (el_Meta l)) FinalizerName
      then State_Monad.return (Inr no_requeue)
      else do {
        let before = DeepCopyStatus (el_Status l);
        let firstDelete = (st_Phase (el_Status l) \<noteq> LeasePhaseCleaning
                           \<and> st_Phase (el_Status l) \<noteq> LeasePhaseExpired);
        let l = deletion_reason l;
        (if firstDelete then announce_delete R l else State_Monad.return ());
        (r, l) \<leftarrow> cleanupEnvironment P R (MarkCleaning (pf_lib P) l ''Deleting managed environment'');
        (case r of
           Inl err \<Rightarrow> cleanup_error P R id l before err
         | Inr done \<Rightarrow>
             if \<not> done then do {
               p \<leftarrow> patchStatusIfChanged P l before;
               State_Monad.return (map_sum id (\<lambda>_. requeue_after cleanupRequeueAfter) p) }
             else finish_delete P R l before) })"

section \<open>Reconcile\<close>

text \<open>Lines 137--169 and 173--180: a rejected spec is marked Failed; there is no requeue.\<close>

fun emit_all :: "effect list \<Rightarrow> ('w, unit) prog" where
  "emit_all [] = State_Monad.return ()"
| "emit_all (e # es) = do { emit e; emit_all es }"

definition reject_lease ::
  "'w platform \<Rightarrow> EnvironmentLease \<Rightarrow> EnvironmentLeaseStatus \<Rightarrow> Reason \<Rightarrow> go_error \<Rightarrow> effect list
     \<Rightarrow> ('w, go_error + Result) prog" where
  "reject_lease P l before reason err metrics = do {
     p \<leftarrow> patchStatusIfChanged P
            (EnsureObservedGeneration (MarkFailed (pf_lib P) l reason (err_text err))) before;
     (case p of
        Inl perr \<Rightarrow> State_Monad.return (Inl perr)
      | Inr _ \<Rightarrow> do { emit_all metrics; State_Monad.return (Inr no_requeue) }) }"

text \<open>Lines 188--213: renewal event, then the expired or the active handler.\<close>

definition reconcile_live ::
  "'w platform \<Rightarrow> reconciler \<Rightarrow> EnvironmentLease \<Rightarrow> EnvironmentLeaseStatus \<Rightarrow> LeasePhase \<Rightarrow> time option
     \<Rightarrow> Resolved \<Rightarrow> EnvironmentLeasePolicy option \<Rightarrow> ('w, go_error + Result) prog" where
  "reconcile_live P R l before previousPhase previousExpires resolved pol = do {
     (case (previousExpires, st_ExpiresAt (el_Status l)) of
        (Some prev, Some e) \<Rightarrow>
          if e > prev \<and> re_Renewable resolved then do {
            emit (Inc ''RenewalsTotal'');
            event R EventTypeNormal ''LeaseRenewed'' (''Lease renewed; new expiration '' @ rfc3339 e) }
          else State_Monad.return ()
      | _ \<Rightarrow> State_Monad.return ());
     n \<leftarrow> now P;
     (if IsExpired l n then reconcileExpired P R l before previousPhase
      else do {
        (r, l) \<leftarrow> reconcileActive P R l previousPhase resolved pol;
        p \<leftarrow> patchStatusIfChanged P (EnsureObservedGeneration l) before;
        State_Monad.return (case p of Inl perr \<Rightarrow> Inl perr | Inr _ \<Rightarrow> r) }) }"

text \<open>Lines 133--187: validation, policy, timestamps.\<close>

definition reconcile_spec :: "'w platform \<Rightarrow> reconciler \<Rightarrow> EnvironmentLease \<Rightarrow> ('w, go_error + Result) prog" where
  "reconcile_spec P R l =
     (let before = DeepCopyStatus (el_Status l);
          previousPhase = st_Phase (el_Status l);
          previousExpires = st_ExpiresAt (el_Status l)
      in case ValidateSpec l of
           Some err \<Rightarrow> reject_lease P l before ReasonInvalidConfiguration err [Inc ''ProvisionFailuresTotal'']
         | None \<Rightarrow> do {
             fp \<leftarrow> fetchPolicy P l;
             (case fp of
                Inl err \<Rightarrow> reject_lease P l before ReasonPolicyNotFound err [Inc ''ProvisionFailuresTotal'']
              | Inr pol \<Rightarrow>
             (case Resolve (el_Spec l) pol of
                Inl err \<Rightarrow> reject_lease P l before ReasonPolicyViolation err
                             [Inc ''ProvisionFailuresTotal'', Inc ''PolicyRejectionsTotal'']
              | Inr resolved \<Rightarrow> do {
                  let l = set_effective (ToEffectiveStatus resolved) l;
                  n \<leftarrow> now P;
                  (case EnsureTimestamps l (re_TTL resolved) (re_MaxTTL resolved) (re_Renewable resolved) n of
                     Inl err \<Rightarrow> reject_lease P l before ReasonInvalidConfiguration err []
                   | Inr (l, _, renewalRejected) \<Rightarrow> do {
                       let l = (if renewalRejected
                                then SetCondition (pf_lib P) l ConditionDegraded ConditionTrue ReasonRenewalRejected
                                       ''TTL increase ignored because lease is not renewable''
                                else l);
                       n \<leftarrow> now P;
                       reconcile_live P R (SyncExpirationStatus l (re_IdleTTL resolved) n) before
                         previousPhase previousExpires resolved pol }) })) })"

text \<open>Lines 121--132: deletion, the finalizer, then the spec.\<close>

definition reconcile_found :: "'w platform \<Rightarrow> reconciler \<Rightarrow> EnvironmentLease \<Rightarrow> ('w, go_error + Result) prog" where
  "reconcile_found P R l =
     (if \<not> ptr_is_zero (om_DeletionTimestamp (el_Meta l)) then reconcileDelete P R l
      else if \<not> ContainsFinalizer (pf_lib P) (om_Finalizers (el_Meta l)) FinalizerName then do {
        let l = l\<lparr>el_Meta := (el_Meta l)\<lparr>om_Finalizers :=
                  AddFinalizer (pf_lib P) (om_Finalizers (el_Meta l)) FinalizerName\<rparr>\<rparr>;
        u \<leftarrow> act (UpdateLease l) (api_UpdateLease (pf_hub P) l);
        State_Monad.return (map_sum (Wrapf ''add finalizer: '') (\<lambda>_. requeue_now) u) }
      else reconcile_spec P R l)"

definition Reconcile :: "'w platform \<Rightarrow> reconciler \<Rightarrow> string \<Rightarrow> ('w, go_error + Result) prog" where
  "Reconcile P R name = do {
     g \<leftarrow> call (api_GetLease (pf_hub P) name);
     (case g of
        Inl err \<Rightarrow> State_Monad.return (if IsNotFound err then Inr no_requeue
                     else Inl (Wrapf (''get EnvironmentLease '' @ name @ '': '') err))
      | Inr l \<Rightarrow> reconcile_found P R l) }"

lemma run_Reconcile:
  "api_GetLease (pf_hub P) name (w_env w) = (Inr l, e) \<Longrightarrow>
     run_state (Reconcile P R name) w = run_state (reconcile_found P R l) (w\<lparr>w_env := e\<rparr>)"
  by (simp add: Reconcile_def)

end
