(* ===== verification/Lease_Effects.thy ===== *)
theory Lease_Effects
  imports Lease_Controller
begin

text \<open>
  What the lease reconciler may do to the outside, for every platform: which namespaces it may delete and when,
  and when the finalizer may go. The lemmas follow the structure of the handlers with the trace calculus of
  \<open>Platform\<close>; nothing is assumed of the API servers except, where stated, that a read returns an
  object of the requested name and that \<open>RetryOnConflict\<close> behaves as documented. The properties built on
  them are in \<open>Lease_Safety\<close>.
\<close>

definition namespace_reads :: "'w platform \<Rightarrow> bool" where
  "namespace_reads P \<longleftrightarrow>
     (\<forall>c n e ns e'. api_GetNamespace (pf_cluster P) c n e = (Inr ns, e') \<longrightarrow> ns_Name ns = n)"

definition clock_reads :: "'w platform \<Rightarrow> time \<Rightarrow> bool" where
  "clock_reads P t \<longleftrightarrow> (\<exists>e e'. api_Now (pf_hub P) e = (t, e'))"

lemma returns_now: "returns (clock_reads P) (now P)"
  unfolding now_def clock_reads_def by (rule returns_call)

lemma emits_now [emits_rules]: "emits Q (now P)"
  unfolding now_def by (rule emits_call)

lemma emits_bind_now: "(\<And>t. clock_reads P t \<Longrightarrow> emits Q (f t)) \<Longrightarrow> emits Q (State_Monad.bind (now P) f)"
  by (rule emits_bind_returns [OF returns_now emits_now])

section \<open>Quiet programs\<close>

text \<open>Effects that neither delete anything nor write a lease's metadata.\<close>

definition quiet :: "effect \<Rightarrow> bool" where
  "quiet e \<longleftrightarrow> (case e of DeleteNamespace _ _ \<Rightarrow> False | UpdateLease _ \<Rightarrow> False | DeleteLease _ \<Rightarrow> False
     | _ \<Rightarrow> True)"

lemma quiet_simps [simp]:
  "quiet (StatusUpdateLease l)" "quiet (Event et r m)" "quiet (Inc x)" "quiet (ClusterOp n op b)"
  "quiet (Acquired n)" "quiet (Released n)" "quiet (CreateNamespace c n')" "quiet (PatchNamespace c n')"
  "\<not> quiet (DeleteNamespace c n')" "\<not> quiet (UpdateLease l)" "\<not> quiet (DeleteLease l)"
  by (simp_all add: quiet_def)

lemma provisions_quiet: "provisions cl e \<Longrightarrow> quiet e"
  by (auto simp: provisions_def quiet_def split: effect.splits)

lemma emits_event [emits_rules]: "(\<And>et r m. Q (Event et r m)) \<Longrightarrow> emits Q (event R et reason msg)"
  unfolding event_def by (intro emits_rules)

lemma emits_observe [emits_rules]:
  "(\<And>n op b. Q (ClusterOp n op b)) \<Longrightarrow> emits Q (observeClusterOp s op err)"
  unfolding observeClusterOp_def by (intro emits_rules)

lemma emits_observeOp [emits_rules]:
  "(\<And>n op b. Q (ClusterOp n op b)) \<Longrightarrow> emits Q (observeOp s op err)"
  unfolding observeOp_def by (intro emits_rules)

lemma emits_with_gate [emits_rules]:
  assumes "\<And>n. Q (Acquired n)" "\<And>n. Q (Released n)" "emits Q m"
  shows "emits Q (with_gate R n m)"
  unfolding with_gate_def by (intro emits_rules assms)

lemma emits_fetchPolicy [emits_rules]: "emits Q (fetchPolicy P l)"
  unfolding fetchPolicy_def Let_def by (intro emits_rules)

lemma emits_patchStatusIfChanged:
  assumes "retry_lib P" and "\<And>l. Q (StatusUpdateLease l)"
  shows "emits Q (patchStatusIfChanged P l before)"
  unfolding patchStatusIfChanged_def Let_def
  by (intro emits_rules emits_RetryLease [OF assms(1)] assms(2))

lemma emits_capture_identity [emits_rules]: "emits Q (capture_identity P s l)"
  unfolding capture_identity_def Let_def by (intro emits_rules)

lemma emits_open_session [emits_rules]: "(\<And>m. Q (Inc m)) \<Longrightarrow> emits Q (open_session P l n)"
  unfolding open_session_def Let_def by (intro emits_rules)

lemma emits_resolveForProvision [emits_rules]:
  "(\<And>m. Q (Inc m)) \<Longrightarrow> emits Q (resolveTargetSessionForProvision P l pol)"
  unfolding resolveTargetSessionForProvision_def by (intro emits_rules)

lemma emits_resolveTargetSession [emits_rules]: "(\<And>m. Q (Inc m)) \<Longrightarrow> emits Q (resolveTargetSession P l)"
  unfolding resolveTargetSession_def Let_def by (intro emits_rules)

lemma emits_handleTargetError [emits_rules]: "(\<And>m. Q (Inc m)) \<Longrightarrow> emits Q (handleTargetError P l err)"
  unfolding handleTargetError_def Let_def by (intro emits_rules)

lemma emits_persist [emits_rules]:
  assumes "\<And>l. Q (StatusUpdateLease l)"
  shows "emits Q (persist_status P what l r n)" "emits Q (persist_cluster P l ph r n)"
    "emits Q (persist_namespace P l ns r n)"
  unfolding persist_cluster_def persist_namespace_def persist_status_def by (intro emits_rules assms)+

lemma emits_provision_failed [emits_rules]:
  assumes "\<And>n op b. Q (ClusterOp n op b)" "\<And>m. Q (Inc m)"
  shows "emits Q (provision_failed P s l op reason err)"
  unfolding provision_failed_def by (intro emits_rules assms)

lemma emits_provision_resources:
  assumes "\<And>e. provisions (ses_Client s) e \<Longrightarrow> Q e" "\<And>n op b. Q (ClusterOp n op b)" "\<And>m. Q (Inc m)"
  shows "emits Q (provision_resources P s wc l ns)"
  unfolding provision_resources_def
  by (intro emits_rules quota.emits_ensure limits.emits_ensure netpol.emits_ensure assms)

lemma emits_deliver_warnings [emits_rules]:
  assumes "\<And>et r m. Q (Event et r m)" "\<And>m. Q (Inc m)"
  shows "emits Q (deliver_warnings P R d ws l)"
  by (induction ws arbitrary: l) (auto intro!: emits_rules assms)

lemma emits_emitWarnings [emits_rules]:
  assumes "\<And>et r m. Q (Event et r m)" "\<And>m. Q (Inc m)"
  shows "emits Q (emitWarnings P R l)"
  unfolding emitWarnings_def by (intro emits_rules assms)

lemma emits_next_visit [emits_rules]: "emits Q (next_visit P s l)"
  unfolding next_visit_def Let_def by (intro emits_rules)

lemma emits_finish_active [emits_rules]:
  assumes "\<And>et r m. Q (Event et r m)" "\<And>m. Q (Inc m)"
  shows "emits Q (finish_active P R s l wr ph ns)"
  unfolding finish_active_def Let_def by (intro emits_rules assms)

lemma emits_provision_on: "emits quiet (provision_on P R s l wr ph res)"
  unfolding provision_on_def provision_environment_def Let_def
  by (intro emits_rules emits_ensureNamespace emits_provision_resources)
     (simp_all add: provisions_quiet)

lemma emits_reconcileActive: "emits quiet (reconcileActive P R l ph res pol)"
proof -
  have out: "emits quiet (case x of SessionResult r \<Rightarrow> State_Monad.return (Inr r, l)
      | SessionErr err \<Rightarrow> handleTargetError P l err
      | Session s \<Rightarrow> with_gate R (ses_Name s) (provision_on P R s l wr ph res))" for x l wr
    by (cases x) (simp_all add: emits_rules emits_provision_on)
  show ?thesis
    unfolding reconcileActive_def Let_def by (intro emits_rules out) simp_all
qed

lemma emits_cleanup_error:
  assumes "retry_lib P"
  shows "emits quiet (cleanup_error P R obs l before err)"
  unfolding cleanup_error_def Let_def
  by (intro emits_rules emits_patchStatusIfChanged [OF assms]) simp_all

lemma emits_emit_all: "list_all Q es \<Longrightarrow> emits Q (emit_all es)"
  by (induction es) (auto intro: emits_rules)

lemma emits_reject_lease:
  assumes "retry_lib P" "list_all quiet es"
  shows "emits quiet (reject_lease P l before reason err es)"
  unfolding reject_lease_def
  by (intro emits_rules emits_patchStatusIfChanged [OF assms(1)] emits_emit_all assms(2)) simp_all

lemma emits_expiry_reason [emits_rules]: "emits Q (expiry_reason P l)"
  unfolding expiry_reason_def by (intro emits_rules)

lemma emits_announce [emits_rules]:
  assumes "\<And>et r m. Q (Event et r m)" "\<And>m. Q (Inc m)"
  shows "emits Q (announce_expiry R reason)" "emits Q (announce_delete R l)"
proof -
  show "emits Q (announce_expiry R reason)"
    unfolding announce_expiry_def by (cases reason) (auto intro!: emits_rules assms)
  show "emits Q (announce_delete R l)"
    unfolding announce_delete_def by (intro emits_rules assms)
qed

section \<open>What a deletion requires\<close>

text \<open>
  \<open>deletable P R l ns\<close>: the namespace is the one the lease records, is not protected, is not already
  terminating, and is owned by the lease.
\<close>

definition deletable :: "reconciler \<Rightarrow> EnvironmentLease \<Rightarrow> Namespace \<Rightarrow> bool" where
  "deletable R l ns \<longleftrightarrow> ns_Name ns = st_Namespace (el_Status l) \<and> \<not> IsProtectedNamespace (ns_Name ns)
     \<and> ptr_is_zero (om_DeletionTimestamp (ns_Meta ns)) \<and> ns_owned ns l (rec_ControlClusterID R)"

text \<open>
  \<open>given_up P l\<close> and \<open>gone P l\<close> are what a cleanup may end with, for a lease with a namespace on record that is not
  protected. Both look at the cluster that \<open>resolveTargetSession\<close> picks for the lease: \<open>spec.clusterRef\<close>, else the
  recorded cluster, else the control cluster. If a remote identity is on record and the cluster is remote, it has
  answered with this identity before it is believed. The namespace is gone when that cluster answers that it does not
  exist; it is given up when the operator acknowledged a forced cleanup, or the mode is best effort and the cluster
  could not be resolved or answered with an error.
\<close>

definition cluster_verified :: "'w platform \<Rightarrow> EnvironmentLease \<Rightarrow> TargetSession \<Rightarrow> bool" where
  "cluster_verified P l s \<longleftrightarrow> ses_Local s \<or> recorded_identity l = []
     \<or> (\<exists>k e e' live. api_GetNamespace (pf_cluster P) (ses_Client s) ''kube-system'' e = (k, e')
          \<and> ProbeRemoteIdentity k = Inr live \<and> VerifyLiveTargetIdentity (recorded_identity l) live = None)"

definition cleanup_answer :: "'w platform \<Rightarrow> EnvironmentLease \<Rightarrow> go_error \<Rightarrow> bool" where
  "cleanup_answer P l err \<longleftrightarrow> (\<exists>s w1 w2 e e'. run_state (resolveTargetSession P l) w1 = (Inr s, w2)
     \<and> cluster_verified P l s
     \<and> api_GetNamespace (pf_cluster P) (ses_Client s) (st_Namespace (el_Status l)) e = (Inl err, e'))"

definition gone :: "'w platform \<Rightarrow> EnvironmentLease \<Rightarrow> bool" where
  "gone P l \<longleftrightarrow> (\<exists>err. cleanup_answer P l err \<and> IsNotFound err)"

definition given_up :: "'w platform \<Rightarrow> EnvironmentLease \<Rightarrow> bool" where
  "given_up P l \<longleftrightarrow> ForceCleanupAcknowledged (Some l)
     \<or> EffectiveCleanupMode (el_Spec l) = CleanupModeBestEffort
       \<and> ((\<exists>err. cleanup_answer P l err) \<or> (\<exists>err w1 w2. run_state (resolveTargetSession P l) w1 = (Inl err, w2)))"

definition released :: "'w platform \<Rightarrow> EnvironmentLease \<Rightarrow> bool" where
  "released P l \<longleftrightarrow> st_Namespace (el_Status l) = []
     \<or> \<not> IsProtectedNamespace (st_Namespace (el_Status l)) \<and> (given_up P l \<or> gone P l)"

lemma deletable_cong:
  assumes "el_Meta l' = el_Meta l" "st_Namespace (el_Status l') = st_Namespace (el_Status l)"
    "st_Cluster (el_Status l') = st_Cluster (el_Status l)"
  shows "deletable R l' ns \<longleftrightarrow> deletable R l ns"
  using assms by (simp add: deletable_def ns_owned_def recorded_identity_def)

lemma released_cong:
  assumes "el_Meta l' = el_Meta l" "el_Spec l' = el_Spec l"
    "st_Namespace (el_Status l') = st_Namespace (el_Status l)" "st_Cluster (el_Status l') = st_Cluster (el_Status l)"
  shows "released P l' \<longleftrightarrow> released P l"
proof -
  have s: "resolveTargetSession P l' = resolveTargetSession P l" "recorded_identity l' = recorded_identity l"
    "ForceCleanupAcknowledged (Some l') = ForceCleanupAcknowledged (Some l)"
    using assms by (simp_all add: resolveTargetSession_def cluster_name_def recorded_identity_def ForceCleanupAcknowledged_def)
  then show ?thesis
    using assms by (simp add: released_def given_up_def gone_def cleanup_answer_def cluster_verified_def)
qed

definition deletes_only :: "(Namespace \<Rightarrow> bool) \<Rightarrow> effect \<Rightarrow> bool" where
  "deletes_only D e \<longleftrightarrow> (case e of DeleteNamespace c ns \<Rightarrow> D ns | UpdateLease _ \<Rightarrow> False
     | DeleteLease _ \<Rightarrow> False | _ \<Rightarrow> True)"

lemma deletes_only_simps [simp]:
  "deletes_only D (DeleteNamespace c ns) \<longleftrightarrow> D ns" "quiet e \<Longrightarrow> deletes_only D e"
  by (auto simp: deletes_only_def quiet_def split: effect.splits)

lemma emits_delete_owned_namespace:
  assumes "namespace_reads P" "\<not> IsProtectedNamespace ns" "st_Namespace (el_Status l) = ns"
  shows "emits (deletes_only (deletable R l)) (delete_owned_namespace P R s l ns)"
proof -
  have ok: "deletable R l n" if "api_GetNamespace (pf_cluster P) c ns e = (Inr n, e')"
      "VerifyNamespaceOwnership (Some n) l (rec_ControlClusterID R) = None"
      "ptr_is_zero (om_DeletionTimestamp (ns_Meta n))" for c n e e'
  proof -
    have "ns_Name n = ns" using assms(1) that(1) unfolding namespace_reads_def by blast
    then show ?thesis using that assms(2,3) by (simp add: deletable_def VerifyNamespaceOwnership_None_iff)
  qed
  show ?thesis
    unfolding delete_owned_namespace_def by (rule emits_bind_call, intro emits_rules) (simp_all add: ok)
qed

lemma emits_cleanup_on:
  assumes "namespace_reads P" "\<not> IsProtectedNamespace ns" "st_Namespace (el_Status l) = ns"
  shows "emits (deletes_only (deletable R l)) (cleanup_on P R s l ns)"
  unfolding cleanup_on_def
  by (intro emits_rules emits_delete_owned_namespace assms)

lemma emits_cleanupEnvironment:
  assumes "namespace_reads P"
  shows "emits (deletes_only (deletable R l)) (cleanupEnvironment P R l)"
  unfolding cleanupEnvironment_def Let_def
  by (intro emits_rules emits_cleanup_on assms) simp_all

lemma returns_with_gate [returns_rules]: "returns S m \<Longrightarrow> returns S (with_gate R n m)"
  unfolding with_gate_def by (intro returns_rules returns_bind [where S = S and m = m]) assumption+

text \<open>A cleanup that reports completion has one of the reasons for releasing the lease.\<close>

lemma returns_delete_owned_namespace:
  assumes "st_Namespace (el_Status l) = ns" "\<not> IsProtectedNamespace ns"
    and "run_state (resolveTargetSession P l) w1 = (Inr s, w2)" "cluster_verified P l s"
  shows "returns (\<lambda>(r, l'). r = Inr True \<longrightarrow> released P l) (delete_owned_namespace P R s l ns)"
proof -
  have "released P l" if "api_GetNamespace (pf_cluster P) (ses_Client s) ns e = (Inl err, e')"
      "IsNotFound err \<or> EffectiveCleanupMode (el_Spec l) = CleanupModeBestEffort" for e err e'
    using that assms unfolding released_def given_up_def gone_def cleanup_answer_def by blast
  then show ?thesis
    unfolding delete_owned_namespace_def
    by (intro returns_bind_call returns_rules) (auto split: option.splits)
qed

lemma returns_cleanup_on:
  assumes "st_Namespace (el_Status l) = ns" "\<not> IsProtectedNamespace ns"
    and "run_state (resolveTargetSession P l) w1 = (Inr s, w2)"
  shows "returns (\<lambda>(r, l'). r = Inr True \<longrightarrow> released P l) (cleanup_on P R s l ns)"
proof (cases "\<not> ses_Local s \<and> recorded_identity l \<noteq> []")
  case True
  have "returns (\<lambda>(r, l'). r = Inr True \<longrightarrow> released P l) (delete_owned_namespace P R s l ns)"
    if "api_GetNamespace (pf_cluster P) (ses_Client s) ''kube-system'' e = (k, e')" "ProbeRemoteIdentity k = Inr live"
      "VerifyLiveTargetIdentity (recorded_identity l) live = None" for k e e' live
    by (rule returns_delete_owned_namespace [OF assms]) (use that in \<open>auto simp: cluster_verified_def\<close>)
  then show ?thesis
    using True unfolding cleanup_on_def if_P [OF True]
    by (intro returns_bind_call returns_rules) (auto split: sum.splits option.splits)
next
  case False
  then have "cluster_verified P l s" by (auto simp: cluster_verified_def)
  then show ?thesis
    unfolding cleanup_on_def if_not_P [OF False] by (rule returns_delete_owned_namespace [OF assms])
qed

lemma released_untouched: "st_Namespace (el_Status l) = [] \<Longrightarrow> released P l"
  by (simp add: released_def)

lemma released_forced:
  "\<not> IsProtectedNamespace (st_Namespace (el_Status l)) \<Longrightarrow> ForceCleanupAcknowledged (Some l) \<Longrightarrow> released P l"
  by (simp add: released_def given_up_def)

lemma released_unresolved:
  "\<not> IsProtectedNamespace (st_Namespace (el_Status l)) \<Longrightarrow> EffectiveCleanupMode (el_Spec l) = CleanupModeBestEffort
     \<Longrightarrow> run_state (resolveTargetSession P l) w1 = (Inl err, w2) \<Longrightarrow> released P l"
  unfolding released_def given_up_def by blast

lemma returns_cleanupEnvironment:
  "returns (\<lambda>(r, l'). r = Inr True \<longrightarrow> released P l) (cleanupEnvironment P R l)"
proof -
  have outcome: "returns (\<lambda>x. \<exists>w1 w2. run_state (resolveTargetSession P l) w1 = (x, w2)) (resolveTargetSession P l)"
    unfolding returns_def by (metis prod.collapse)
  show ?thesis
    unfolding cleanupEnvironment_def Let_def
    by (intro returns_if returns_return returns_bind [OF outcome])
       (auto intro!: returns_return returns_with_gate returns_cleanup_on
          intro: released_untouched released_forced released_unresolved split: sum.splits)
qed

section \<open>What the lease's own object may suffer\<close>

text \<open>
  \<open>permitted P R l D F\<close>: namespaces are deleted only where \<open>D\<close> holds, and the finalizer is removed or the lease
  deleted only if \<open>F\<close>.
\<close>

definition permitted :: "(Namespace \<Rightarrow> bool) \<Rightarrow> bool \<Rightarrow> effect \<Rightarrow> bool" where
  "permitted D F e \<longleftrightarrow>
     (case e of DeleteNamespace c ns \<Rightarrow> D ns
      | UpdateLease u \<Rightarrow> FinalizerName \<in> set (om_Finalizers (el_Meta u)) \<or> F
      | DeleteLease _ \<Rightarrow> F
      | _ \<Rightarrow> True)"

lemma permitted_simps [simp]:
  "permitted D F (DeleteNamespace c ns) \<longleftrightarrow> D ns"
  "permitted D F (UpdateLease u) \<longleftrightarrow> FinalizerName \<in> set (om_Finalizers (el_Meta u)) \<or> F"
  "permitted D F (DeleteLease u) \<longleftrightarrow> F"
  "permitted D F (StatusUpdateLease l)" "permitted D F (Event et r m)" "permitted D F (Inc x)"
  by (simp_all add: permitted_def)

lemma quiet_permitted: "quiet e \<Longrightarrow> permitted D F e"
  by (auto simp: quiet_def permitted_def split: effect.splits)

lemma deletes_only_permitted:
  "deletes_only D e \<Longrightarrow> (\<And>ns. D ns \<Longrightarrow> D' ns) \<Longrightarrow> permitted D' F e"
  by (auto simp: deletes_only_def permitted_def split: effect.splits)

lemma emits_removeLeaseFinalizer:
  assumes "retry_lib P" "F"
  shows "emits (permitted D F) (removeLeaseFinalizer P l)"
  unfolding removeLeaseFinalizer_def Let_def
  by (intro emits_rules emits_RetryLease [OF assms(1)]) (simp add: assms(2))

lemma emits_finish_expired:
  assumes "retry_lib P" "F"
  shows "emits (permitted D F) (finish_expired P R l before first)"
  unfolding finish_expired_def
  by (intro emits_rules emits_patchStatusIfChanged [OF assms(1)] emits_removeLeaseFinalizer assms)
     (simp_all add: assms(2))

lemma emits_finish_delete:
  assumes "retry_lib P" "F"
  shows "emits (permitted D F) (finish_delete P R l before)"
  unfolding finish_delete_def
  by (intro emits_rules emits_patchStatusIfChanged [OF assms(1)] emits_removeLeaseFinalizer assms) simp_all

lemma emits_reconcileExpired:
  assumes "retry_lib P" "namespace_reads P"
  shows "emits (permitted (deletable R l) (released P l)) (reconcileExpired P R l before ph)"
proof -
  have same: "deletable R (MarkExpired (pf_lib P) l reason) ns \<longleftrightarrow> deletable R l ns"
    "released P (MarkExpired (pf_lib P) l reason) \<longleftrightarrow> released P l" for reason ns
    by (rule deletable_cong released_cong; simp)+
  have cleanup: "emits (permitted (deletable R l) (released P l))
      (cleanupEnvironment P R (MarkExpired (pf_lib P) l reason))" for reason
    by (rule emits_mono [OF emits_cleanupEnvironment [OF assms(2)]], erule deletes_only_permitted)
       (simp add: same)
  have "returns (\<lambda>(r, l'). r = Inr True \<longrightarrow> released P l)
      (cleanupEnvironment P R (MarkExpired (pf_lib P) l reason))" for reason
    using returns_cleanupEnvironment [where P = P and R = R and l = "MarkExpired (pf_lib P) l reason"] by (simp add: same)
  note cleaned = emits_bind_returns [OF this cleanup]
  show ?thesis
    unfolding reconcileExpired_def Let_def
    by (intro emits_rules cleaned emits_mono [OF emits_cleanup_error [OF assms(1)]] quiet_permitted
        emits_patchStatusIfChanged [OF assms(1)])
       (auto intro!: emits_rules emits_mono [OF emits_cleanup_error [OF assms(1)]] quiet_permitted
          emits_patchStatusIfChanged [OF assms(1)] emits_finish_expired [OF assms(1)] split: sum.splits)
qed

lemma emits_reconcileDelete:
  assumes "retry_lib P" "namespace_reads P"
  shows "emits (permitted (deletable R l) (released P l)) (reconcileDelete P R l)"
proof -
  let ?l = "MarkCleaning (pf_lib P) (deletion_reason l) ''Deleting managed environment''"
  have f: "el_Meta (deletion_reason l) = el_Meta l" "el_Spec (deletion_reason l) = el_Spec l"
    "st_Namespace (el_Status (deletion_reason l)) = st_Namespace (el_Status l)"
    "st_Cluster (el_Status (deletion_reason l)) = st_Cluster (el_Status l)"
    by (simp_all add: deletion_reason_def)
  have same: "deletable R ?l ns \<longleftrightarrow> deletable R l ns" "released P ?l \<longleftrightarrow> released P l" for ns
    by (rule deletable_cong released_cong; simp add: f)+
  have cleanup: "emits (permitted (deletable R l) (released P l)) (cleanupEnvironment P R ?l)"
    by (rule emits_mono [OF emits_cleanupEnvironment [OF assms(2)]], erule deletes_only_permitted)
       (simp add: same)
  have "returns (\<lambda>(r, l'). r = Inr True \<longrightarrow> released P l) (cleanupEnvironment P R ?l)"
    using returns_cleanupEnvironment [where P = P and R = R and l = ?l] by (simp add: same)
  note cleaned = emits_bind_returns [OF this cleanup]
  show ?thesis
    unfolding reconcileDelete_def Let_def
    by (intro emits_rules cleaned)
       (auto intro!: emits_rules emits_mono [OF emits_cleanup_error [OF assms(1)]] quiet_permitted
          emits_patchStatusIfChanged [OF assms(1)] emits_finish_delete [OF assms(1)] split: sum.splits)
qed

section \<open>When a lease is due\<close>

text \<open>
  The effective deadline of a lease with resolved durations, as a function of what the lease records;
  \<open>t\<close> is only used when the lease has neither \<open>CreatedAt\<close> nor a creation timestamp.
\<close>

definition lease_deadline :: "EnvironmentLease \<Rightarrow> Resolved \<Rightarrow> time \<Rightarrow> time" where
  "lease_deadline l r t =
     (let hard = hard_deadline l (re_TTL r) (re_Renewable r) t;
          lastActivity = (case st_LastActivityAt (el_Status l) of Some a \<Rightarrow> a | None \<Rightarrow> lease_created l t)
      in if re_IdleTTL r \<le> 0 then hard else min hard (lastActivity + re_IdleTTL r))"

definition policy_read :: "'w platform \<Rightarrow> EnvironmentLease \<Rightarrow> EnvironmentLeasePolicy option \<Rightarrow> bool" where
  "policy_read P l pol \<longleftrightarrow>
     (let name = ref_name (sp_PolicyRef (el_Spec l))
      in if name = [] then pol = None
         else \<exists>p e e'. api_GetPolicy (pf_hub P) name e = (Inr p, e') \<and> pol = Some p)"

text \<open>A clock reading has reached the deadline under a policy the API server returned.\<close>

definition expired_at_reading :: "'w platform \<Rightarrow> EnvironmentLease \<Rightarrow> bool" where
  "expired_at_reading P l \<longleftrightarrow>
     (\<exists>pol r t t'. policy_read P l pol \<and> Resolve (el_Spec l) pol = Inr r
        \<and> clock_reads P t \<and> clock_reads P t' \<and> lease_deadline l r t \<le> t')"

lemma set_effective_fields [simp]:
  "el_Meta (set_effective x l) = el_Meta l" "el_Spec (set_effective x l) = el_Spec l"
  "st_Namespace (el_Status (set_effective x l)) = st_Namespace (el_Status l)"
  "st_Cluster (el_Status (set_effective x l)) = st_Cluster (el_Status l)"
  "st_CreatedAt (el_Status (set_effective x l)) = st_CreatedAt (el_Status l)"
  "st_ExpiresAt (el_Status (set_effective x l)) = st_ExpiresAt (el_Status l)"
  "st_LastActivityAt (el_Status (set_effective x l)) = st_LastActivityAt (el_Status l)"
  by (simp_all add: set_effective_def)

lemma timestamps_set_effective [simp]:
  "lease_created (set_effective x l) t = lease_created l t"
  "hard_deadline (set_effective x l) ttl ren t = hard_deadline l ttl ren t"
  by (simp_all add: lease_created_def hard_deadline_def split: option.split)

text \<open>The lease the reconciler holds after lines 170--186, relative to the one it read.\<close>

definition timed :: "EnvironmentLease \<Rightarrow> Resolved \<Rightarrow> time \<Rightarrow> EnvironmentLease \<Rightarrow> bool" where
  "timed l r t l' \<longleftrightarrow> el_Meta l' = el_Meta l \<and> el_Spec l' = el_Spec l
     \<and> st_Namespace (el_Status l') = st_Namespace (el_Status l)
     \<and> st_Cluster (el_Status l') = st_Cluster (el_Status l)
     \<and> st_CreatedAt (el_Status l') = Some (lease_created l t)
     \<and> st_ExpiresAt (el_Status l') = Some (hard_deadline l (re_TTL r) (re_Renewable r) t)
     \<and> st_MaximumExpiresAt (el_Status l') = Some (lease_created l t + re_MaxTTL r)
     \<and> st_LastActivityAt (el_Status l') = st_LastActivityAt (el_Status l)"

lemma timed_EnsureTimestamps:
  assumes "EnsureTimestamps (set_effective x l) (re_TTL r) (re_MaxTTL r) (re_Renewable r) t = Inr (l1, ch, rej)"
  shows "timed l r t l1" "timed l r t (SetCondition K l1 ct s rs m)" "re_TTL r \<le> re_MaxTTL r"
  using EnsureTimestamps_Inr [OF assms] by (simp_all add: timed_def)

lemma IsExpired_timed:
  assumes "timed l r t l1" "re_TTL r \<le> re_MaxTTL r"
  shows "IsExpired (SyncExpirationStatus l1 (re_IdleTTL r) t2) n \<longleftrightarrow> lease_deadline l r t \<le> n"
proof -
  have "hard_deadline l (re_TTL r) (re_Renewable r) t \<le> lease_created l t + re_MaxTTL r"
    using hard_deadline_le [of l "re_TTL r" "re_Renewable r" t] assms(2) by linarith
  then have "capped_hard (hard_deadline l (re_TTL r) (re_Renewable r) t) (Some (lease_created l t + re_MaxTTL r))
      = hard_deadline l (re_TTL r) (re_Renewable r) t"
    by (simp add: capped_hard_def)
  then have "st_EffectiveExpiresAt (el_Status (SyncExpirationStatus l1 (re_IdleTTL r) t2))
      = Some (lease_deadline l r t)"
    using assms(1) by (simp add: timed_def Sync_effective lease_deadline_def Let_def split: option.split)
  then show ?thesis by (auto simp: IsExpired_def EffectiveDeadline_def)
qed

lemma returns_fetchPolicy:
  "returns (\<lambda>r. case r of Inr pol \<Rightarrow> policy_read P l pol | Inl _ \<Rightarrow> True) (fetchPolicy P l)"
proof (cases "ref_name (sp_PolicyRef (el_Spec l)) = []")
  case True
  then show ?thesis by (simp add: fetchPolicy_def returns_def policy_read_def)
next
  case False
  then show ?thesis
    unfolding fetchPolicy_def Let_def if_not_P [OF False]
    by (intro returns_bind_call returns_return) (auto simp: policy_read_def split: sum.split)
qed

section \<open>The whole reconciler\<close>

text \<open>What a reconcile of the lease \<open>l\<close> may do.\<close>

abbreviation reconcile_may :: "'w platform \<Rightarrow> reconciler \<Rightarrow> EnvironmentLease \<Rightarrow> effect \<Rightarrow> bool" where
  "reconcile_may P R l \<equiv> permitted (\<lambda>ns. deletable R l ns \<and> expired_at_reading P l)
     (released P l \<and> expired_at_reading P l)"

lemma permitted_mono:
  "permitted D F e \<Longrightarrow> (\<And>ns. D ns \<Longrightarrow> D' ns) \<Longrightarrow> (F \<Longrightarrow> F') \<Longrightarrow> permitted D' F' e"
  by (auto simp: permitted_def split: effect.splits)

lemma emits_reconcile_live:
  assumes "retry_lib P" "namespace_reads P" "policy_read P l pol" "Resolve (el_Spec l) pol = Inr r"
    "clock_reads P t" "timed l r t l1" "re_TTL r \<le> re_MaxTTL r"
  shows "emits (reconcile_may P R l)
     (reconcile_live P R (SyncExpirationStatus l1 (re_IdleTTL r) t2) before ph pe r pol)"
proof -
  let ?l = "SyncExpirationStatus l1 (re_IdleTTL r) t2"
  have same: "deletable R ?l ns \<longleftrightarrow> deletable R l ns" "released P ?l \<longleftrightarrow> released P l" for ns
    by (rule deletable_cong released_cong; use assms(6) in \<open>simp add: timed_def\<close>)+
  have expired: "emits (reconcile_may P R l) (reconcileExpired P R ?l before ph)"
    if "clock_reads P n" "IsExpired ?l n" for n
  proof -
    have "lease_deadline l r t \<le> n" using that(2) IsExpired_timed [OF assms(6,7)] by simp
    then have "expired_at_reading P l" unfolding expired_at_reading_def using assms(3,4,5) that(1) by blast
    then show ?thesis
      using emits_reconcileExpired [OF assms(1,2), of R ?l before ph]
      by (elim emits_mono permitted_mono) (simp_all add: same)
  qed
  have active: "emits (reconcile_may P R l) (reconcileActive P R ?l ph r pol)"
    by (rule emits_mono [OF emits_reconcileActive quiet_permitted])
  have bind: "emits (reconcile_may P R l) (State_Monad.bind (now P) (\<lambda>n. if IsExpired ?l n
      then reconcileExpired P R ?l before ph
      else State_Monad.bind (reconcileActive P R ?l ph r pol) (\<lambda>(r, l).
        State_Monad.bind (patchStatusIfChanged P (EnsureObservedGeneration l) before)
          (\<lambda>p. State_Monad.return (case p of Inl perr \<Rightarrow> Inl perr | Inr _ \<Rightarrow> r)))))"
    by (rule emits_bind_now)
       (intro emits_rules expired active emits_patchStatusIfChanged [OF assms(1)]; simp)
  have renew: "emits (reconcile_may P R l)
      (case (pe, st_ExpiresAt (el_Status ?l)) of
        (Some prev, Some e) \<Rightarrow>
          if e > prev \<and> re_Renewable r then State_Monad.bind (emit (Inc ''RenewalsTotal''))
            (\<lambda>_. event R EventTypeNormal ''LeaseRenewed'' (''Lease renewed; new expiration '' @ rfc3339 e))
          else State_Monad.return ()
      | _ \<Rightarrow> State_Monad.return ())"
    by (cases pe; cases "st_ExpiresAt (el_Status ?l)") (simp_all add: emits_rules)
  show ?thesis
    unfolding reconcile_live_def by (rule emits_bind [OF renew bind])
qed

lemma emits_reconcile_spec:
  assumes "retry_lib P" "namespace_reads P"
  shows "emits (reconcile_may P R l) (reconcile_spec P R l)"
proof -
  have reject: "list_all quiet es \<Longrightarrow> emits (reconcile_may P R l) (reject_lease P l' before rs err es)"
    for l' before rs err es
    by (rule emits_mono [OF emits_reject_lease [OF assms(1)] quiet_permitted])
  have stamped: "emits (reconcile_may P R l)
      (case EnsureTimestamps (set_effective (ToEffectiveStatus r) l) (re_TTL r) (re_MaxTTL r) (re_Renewable r) t of
         Inl err \<Rightarrow> reject_lease P (set_effective (ToEffectiveStatus r) l) before ReasonInvalidConfiguration err []
       | Inr (l1, _, rej) \<Rightarrow> State_Monad.bind (now P) (\<lambda>n.
           reconcile_live P R (SyncExpirationStatus (if rej
               then SetCondition (pf_lib P) l1 ConditionDegraded ConditionTrue ReasonRenewalRejected
                      ''TTL increase ignored because lease is not renewable'' else l1) (re_IdleTTL r) n)
             before ph pe r pol))"
    if "policy_read P l pol" "Resolve (el_Spec l) pol = Inr r" "clock_reads P t" for pol r t before ph pe
    using that
    by (intro emits_rules reject emits_reconcile_live [OF assms])
       (auto intro: timed_EnsureTimestamps)
  show ?thesis
    unfolding reconcile_spec_def Let_def
    by (intro emits_rules reject emits_bind_returns [OF returns_fetchPolicy] emits_bind_now stamped)
       simp_all
qed

text \<open>Either the lease is being deleted or a clock reading has reached its deadline.\<close>

definition due :: "'w platform \<Rightarrow> EnvironmentLease \<Rightarrow> bool" where
  "due P l \<longleftrightarrow> \<not> ptr_is_zero (om_DeletionTimestamp (el_Meta l)) \<or> expired_at_reading P l"

lemma Reconcile_effects:
  assumes "retry_lib P" "namespace_reads P" "finalizers_lib (pf_lib P)"
    "api_GetLease (pf_hub P) name (w_env w) = (Inr l, e)"
    "run_state (Reconcile P R name) w = (r, w')"
  obtains es where "w_trace w' = w_trace w @ es"
    "list_all (permitted (\<lambda>ns. deletable R l ns \<and> due P l) (released P l \<and> due P l)) es"
proof -
  let ?Q = "permitted (\<lambda>ns. deletable R l ns \<and> due P l) (released P l \<and> due P l)"
  have add: "FinalizerName \<in> set (AddFinalizer (pf_lib P) fs FinalizerName)" for fs
    using assms(3) by (simp add: finalizers_lib_def)
  have del: "emits ?Q (reconcileDelete P R l)" if "\<not> ptr_is_zero (om_DeletionTimestamp (el_Meta l))"
    by (rule emits_mono [OF emits_reconcileDelete [OF assms(1,2)]], erule permitted_mono)
       (use that in \<open>simp_all add: due_def\<close>)
  have spec: "emits ?Q (reconcile_spec P R l)"
    by (rule emits_mono [OF emits_reconcile_spec [OF assms(1,2)]], erule permitted_mono)
       (simp_all add: due_def)
  have "emits ?Q (reconcile_found P R l)"
    unfolding reconcile_found_def Let_def by (intro emits_rules del spec) (simp_all add: add)
  moreover have "run_state (reconcile_found P R l) (w\<lparr>w_env := e\<rparr>) = (r, w')"
    using assms(5) run_Reconcile [OF assms(4)] by simp
  ultimately obtain es where "w_trace w' = w_trace (w\<lparr>w_env := e\<rparr>) @ es" "list_all ?Q es"
    by (rule emitsD)
  then show thesis by (intro that) simp_all
qed

end
