(* ===== verification/Lease_Runs.thy ===== *)
theory Lease_Runs
  imports Lease_Effects
begin

text \<open>
  Runs of the deletion path, computed: what a cleanup on the control cluster does when the namespace is there
  and when it is gone, and that the handler ends when the control cluster accepts its writes. The last
  section is a concrete platform with a lease in deletion.
\<close>

section \<open>Cleaning up on the control cluster\<close>

text \<open>Leases without a target: the cleanup is a read and, if the namespace is there, one delete.\<close>

definition on_control_cluster :: "EnvironmentLease \<Rightarrow> bool" where
  "on_control_cluster l \<longleftrightarrow> ref_name (sp_ClusterRef (el_Spec l)) = []
     \<and> (cluster_name l = [] \<or> cluster_name l = LocalClusterName)"

definition cleanable :: "EnvironmentLease \<Rightarrow> bool" where
  "cleanable l \<longleftrightarrow> on_control_cluster l \<and> st_Namespace (el_Status l) \<noteq> []
     \<and> \<not> IsProtectedNamespace (st_Namespace (el_Status l)) \<and> \<not> ForceCleanupAcknowledged (Some l)"

lemma cleanable_cong:
  assumes "el_Meta l' = el_Meta l" "el_Spec l' = el_Spec l"
    "st_Namespace (el_Status l') = st_Namespace (el_Status l)"
    "st_Cluster (el_Status l') = st_Cluster (el_Status l)"
  shows "cleanable l' \<longleftrightarrow> cleanable l"
  using assms by (simp add: cleanable_def on_control_cluster_def cluster_name_def ForceCleanupAcknowledged_def)

lemma run_cleanup_local:
  assumes "cleanable l"
  shows "run_state (cleanupEnvironment P R l) w
     = run_state (delete_owned_namespace P R local_session l (st_Namespace (el_Status l))) w"
proof -
  have "run_state (resolveTargetSession P l) w = (Inr local_session, w)"
    using assms by (auto simp: cleanable_def on_control_cluster_def resolveTargetSession_def
        ResolveNamedTarget_def Let_def)
  then show ?thesis
    using assms by (simp add: cleanable_def cleanupEnvironment_def with_gate_def gated_def cleanup_on_def
        local_session_def LocalClusterName_def Let_def)
qed

lemma run_delete_present:
  assumes "api_GetNamespace (pf_cluster P) HubClient n (w_env w) = (Inr ns, e)"
    and "ns_owned ns l (rec_ControlClusterID R)" and "ptr_is_zero (om_DeletionTimestamp (ns_Meta ns))"
    and "api_DeleteNamespace (pf_cluster P) HubClient ns e = (None, e')"
  shows "run_state (delete_owned_namespace P R local_session l n) w
     = ((Inr False, l), w\<lparr>w_env := e', w_trace := w_trace w @ [DeleteNamespace HubClient ns]\<rparr>)"
proof -
  have "VerifyNamespaceOwnership (Some ns) l (rec_ControlClusterID R) = None"
    using assms(2) by (simp add: VerifyNamespaceOwnership_None_iff)
  then show ?thesis
    using assms(1,3,4) by (simp add: delete_owned_namespace_def local_session_def observeClusterOp_def act_def)
qed

lemma run_delete_gone:
  assumes "api_GetNamespace (pf_cluster P) HubClient n (w_env w) = (Inl err, e)" and "IsNotFound err"
  shows "run_state (delete_owned_namespace P R local_session l n) w = ((Inr True, l), w\<lparr>w_env := e\<rparr>)"
  using assms by (simp add: delete_owned_namespace_def local_session_def observeClusterOp_def)

subsection \<open>A deletion step by step\<close>

lemma run_event: "\<exists>es. run_state (event R et reason msg) w = ((), w\<lparr>w_trace := w_trace w @ es\<rparr>)"
proof (cases "rec_Recorder R")
  case True
  then show ?thesis by (intro exI [of _ "[Event et reason msg]"]) (simp add: event_def)
next
  case False
  then show ?thesis by (intro exI [of _ "[]"]) (simp add: event_def)
qed

lemma run_announce_delete:
  "\<exists>es. run_state (if b then announce_delete R l else State_Monad.return ()) w = ((), w\<lparr>w_trace := w_trace w @ es\<rparr>)"
proof (cases b)
  case True
  let ?rs = "st_ExpirationReason (el_Status l)"
  let ?es = "(if ?rs = ExpirationReasonManualExpiration then [Inc ''ManualExpirationsTotal''] else [])
    @ (if rec_Recorder R \<and> ?rs = ExpirationReasonSourceClosed
       then [Event EventTypeNormal ''SourceClosed'' ''Upstream source closed; cleaning up environment''] else [])
    @ (if rec_Recorder R then [Event EventTypeNormal ''CleanupStarted'' ''Cleanup started''] else [])"
  have "run_state (announce_delete R l) w = ((), w\<lparr>w_trace := w_trace w @ ?es\<rparr>)"
    by (simp add: announce_delete_def event_def)
  then show ?thesis unfolding if_P [OF True] by (rule exI)
next
  case False
  then show ?thesis by (intro exI [of _ "[]"]) simp
qed

text \<open>
  What \<open>reconcileDelete\<close> does with the outcome of the cleanup of a lease that still has its finalizer.
\<close>

definition after_cleanup ::
  "'w platform \<Rightarrow> reconciler \<Rightarrow> EnvironmentLeaseStatus \<Rightarrow> (go_error + bool) \<times> EnvironmentLease
     \<Rightarrow> ('w, go_error + Result) prog" where
  "after_cleanup P R before x =
     (case x of (r, l) \<Rightarrow> (case r of
        Inl err \<Rightarrow> cleanup_error P R id l before err
      | Inr done \<Rightarrow>
          if \<not> done then do {
            p \<leftarrow> patchStatusIfChanged P l before;
            State_Monad.return (map_sum id (\<lambda>_. requeue_after cleanupRequeueAfter) p) }
          else finish_delete P R l before))"

lemma reconcileDelete_cleanup:
  assumes "ContainsFinalizer (pf_lib P) (om_Finalizers (el_Meta l)) FinalizerName" and "cleanable l"
  obtains l1 es where "el_Meta l1 = el_Meta l" "st_Namespace (el_Status l1) = st_Namespace (el_Status l)"
    "st_Cluster (el_Status l1) = st_Cluster (el_Status l)"
    "run_state (reconcileDelete P R l) w =
       run_state (State_Monad.bind
         (delete_owned_namespace P R local_session l1 (st_Namespace (el_Status l)))
         (after_cleanup P R (DeepCopyStatus (el_Status l)))) (w\<lparr>w_trace := w_trace w @ es\<rparr>)"
proof -
  let ?l1 = "MarkCleaning (pf_lib P) (deletion_reason l) ''Deleting managed environment''"
  have f: "el_Meta ?l1 = el_Meta l" "el_Spec ?l1 = el_Spec l"
    "st_Namespace (el_Status ?l1) = st_Namespace (el_Status l)"
    "st_Cluster (el_Status ?l1) = st_Cluster (el_Status l)"
    by (simp_all add: deletion_reason_def)
  then have "cleanable ?l1" using assms(2) cleanable_cong by blast
  note cleanup = run_cleanup_local [OF this]
  obtain es where es: "run_state (if st_Phase (el_Status l) \<noteq> LeasePhaseCleaning
       \<and> st_Phase (el_Status l) \<noteq> LeasePhaseExpired then announce_delete R (deletion_reason l)
       else State_Monad.return ()) w = ((), w\<lparr>w_trace := w_trace w @ es\<rparr>)"
    using run_announce_delete by blast
  have "run_state (reconcileDelete P R l) w = run_state (State_Monad.bind (cleanupEnvironment P R ?l1)
      (after_cleanup P R (DeepCopyStatus (el_Status l)))) (w\<lparr>w_trace := w_trace w @ es\<rparr>)"
    using assms(1) es unfolding reconcileDelete_def Let_def after_cleanup_def by simp
  also have "\<dots> = run_state (State_Monad.bind
      (delete_owned_namespace P R local_session ?l1 (st_Namespace (el_Status l)))
      (after_cleanup P R (DeepCopyStatus (el_Status l)))) (w\<lparr>w_trace := w_trace w @ es\<rparr>)"
    by (simp only: run_state_bind cleanup f(3))
  finally show thesis by (intro that [OF f(1,3,4)])
qed

lemma emits_after_cleanup:
  assumes "retry_lib P"
  shows "emits (permitted D True) (after_cleanup P R before x)"
  unfolding after_cleanup_def
  by (intro emits_rules emits_finish_delete [OF assms] emits_patchStatusIfChanged [OF assms]
      emits_mono [OF emits_cleanup_error [OF assms] quiet_permitted]) simp_all

lemma reconcileDelete_deletes:
  assumes "retry_lib P" and "ContainsFinalizer (pf_lib P) (om_Finalizers (el_Meta l)) FinalizerName"
    and "cleanable l"
    and "api_GetNamespace (pf_cluster P) HubClient (st_Namespace (el_Status l)) (w_env w) = (Inr ns, e)"
    and "ns_owned ns l (rec_ControlClusterID R)" and "ptr_is_zero (om_DeletionTimestamp (ns_Meta ns))"
    and "api_DeleteNamespace (pf_cluster P) HubClient ns e = (None, e')"
  shows "DeleteNamespace HubClient ns \<in> set (w_trace (snd (run_state (reconcileDelete P R l) w)))"
proof -
  obtain l1 es where l1: "el_Meta l1 = el_Meta l" "st_Namespace (el_Status l1) = st_Namespace (el_Status l)"
    "st_Cluster (el_Status l1) = st_Cluster (el_Status l)"
    and run: "run_state (reconcileDelete P R l) w =
       run_state (State_Monad.bind
         (delete_owned_namespace P R local_session l1 (st_Namespace (el_Status l)))
         (after_cleanup P R (DeepCopyStatus (el_Status l)))) (w\<lparr>w_trace := w_trace w @ es\<rparr>)"
    by (rule reconcileDelete_cleanup [OF assms(2,3)])
  have "ns_owned ns l1 (rec_ControlClusterID R)"
    using assms(5) l1 by (simp add: ns_owned_def recorded_identity_def)
  note del = run_delete_present [of P "st_Namespace (el_Status l)" "w\<lparr>w_trace := w_trace w @ es\<rparr>" ns e l1 R e',
      OF _ this assms(6,7)]
  let ?w = "w\<lparr>w_env := e', w_trace := (w_trace w @ es) @ [DeleteNamespace HubClient ns]\<rparr>"
  have "run_state (reconcileDelete P R l) w
      = run_state (after_cleanup P R (DeepCopyStatus (el_Status l)) (Inr False, l1)) ?w"
    unfolding run using del assms(4) by simp
  moreover obtain a w2 where r: "run_state (after_cleanup P R (DeepCopyStatus (el_Status l)) (Inr False, l1)) ?w
      = (a, w2)" by fastforce
  moreover obtain es' where "w_trace w2 = w_trace ?w @ es'"
    by (rule emitsD [OF emits_after_cleanup [OF assms(1)] r])
  ultimately show ?thesis by simp
qed

text \<open>
  The control cluster serves the lease: every read returns it with its finalizer, every write is accepted.
\<close>

definition hub_serves :: "'w platform \<Rightarrow> bool" where
  "hub_serves P \<longleftrightarrow>
     (\<forall>n e. \<exists>g e'. api_GetLease (pf_hub P) n e = (Inr g, e') \<and> FinalizerName \<in> set (om_Finalizers (el_Meta g)))
   \<and> (\<forall>l e. \<exists>s e'. api_StatusUpdateLease (pf_hub P) l e = (Inr s, e'))
   \<and> (\<forall>l e. \<exists>s e'. api_UpdateLease (pf_hub P) l e = (Inr s, e'))"

lemma run_patch_serves:
  assumes "retry_lib P" "hub_serves P"
  obtains l' w' es where "run_state (patchStatusIfChanged P l before) w = (Inr l', w')"
    "w_trace w' = w_trace w @ es"
    "if StatusEqual before (el_Status l) then es = []
     else \<exists>u. es = [StatusUpdateLease u] \<and> el_Status u = el_Status l"
proof (cases "StatusEqual before (el_Status l)")
  case True
  then show thesis by (intro that [of l w "[]"]) (simp_all add: patchStatusIfChanged_def)
next
  case False
  obtain g e where g: "api_GetLease (pf_hub P) (el_Name l) (w_env w) = (Inr g, e)"
    using assms(2) unfolding hub_serves_def by blast
  let ?u = "g\<lparr>el_Status := el_Status l\<rparr>"
  obtain s e' where s: "api_StatusUpdateLease (pf_hub P) ?u e = (Inr s, e')"
    using assms(2) unfolding hub_serves_def by blast
  show thesis
    by (rule that [of "l\<lparr>el_Status := el_Status s\<rparr>" "w\<lparr>w_env := e', w_trace := w_trace w @ [StatusUpdateLease ?u]\<rparr>"
          "[StatusUpdateLease ?u]"])
       (use False g s in \<open>auto simp: patchStatusIfChanged_def Let_def act_def RetryLease_Inr [OF assms(1)]\<close>)
qed

lemma run_remove_finalizer_serves:
  assumes "retry_lib P" "finalizers_lib (pf_lib P)" "hub_serves P"
  obtains w' u where "run_state (removeLeaseFinalizer P l) w = (Inr l, w')"
    "w_trace w' = w_trace w @ [UpdateLease u]" "FinalizerName \<notin> set (om_Finalizers (el_Meta u))"
proof -
  obtain g e where g: "api_GetLease (pf_hub P) (el_Name l) (w_env w) = (Inr g, e)"
    "FinalizerName \<in> set (om_Finalizers (el_Meta g))"
    using assms(3) unfolding hub_serves_def by blast
  let ?u = "g\<lparr>el_Meta := (el_Meta g)\<lparr>om_Finalizers :=
    RemoveFinalizer (pf_lib P) (om_Finalizers (el_Meta g)) FinalizerName\<rparr>\<rparr>"
  obtain s e' where s: "api_UpdateLease (pf_hub P) ?u e = (Inr s, e')"
    using assms(3) unfolding hub_serves_def by blast
  have lib: "ContainsFinalizer (pf_lib P) (om_Finalizers (el_Meta g)) FinalizerName"
    "FinalizerName \<notin> set (om_Finalizers (el_Meta ?u))"
    using assms(2) g(2) by (simp_all add: finalizers_lib_def)
  show thesis
    by (rule that [of "w\<lparr>w_env := e', w_trace := w_trace w @ [UpdateLease ?u]\<rparr>" ?u])
       (use g(1) s lib in \<open>simp_all add: removeLeaseFinalizer_def Let_def act_def RetryLease_Inr [OF assms(1)]\<close>)
qed

lemma run_finish_delete_serves:
  assumes "retry_lib P" "finalizers_lib (pf_lib P)" "hub_serves P"
  obtains w' es u where "run_state (finish_delete P R l before) w = (Inr no_requeue, w')"
    "w_trace w' = w_trace w @ es @ [UpdateLease u]" "FinalizerName \<notin> set (om_Finalizers (el_Meta u))"
proof -
  obtain l1 w1 es1 where 1: "run_state (patchStatusIfChanged P (MarkCleanupComplete (pf_lib P) l) before) w = (Inr l1, w1)"
    "w_trace w1 = w_trace w @ es1" by (rule run_patch_serves [OF assms(1,3)])
  obtain es2 where 2: "run_state (event R EventTypeNormal ''CleanupCompleted'' ''Cleanup completed'') w1
      = ((), w1\<lparr>w_trace := w_trace w1 @ es2\<rparr>)" using run_event by blast
  obtain w3 u where 3: "run_state (removeLeaseFinalizer P l1) (w1\<lparr>w_trace := w_trace w1 @ es2\<rparr>) = (Inr l1, w3)"
    "w_trace w3 = w_trace (w1\<lparr>w_trace := w_trace w1 @ es2\<rparr>) @ [UpdateLease u]"
    "FinalizerName \<notin> set (om_Finalizers (el_Meta u))"
    by (rule run_remove_finalizer_serves [OF assms])
  show thesis
    by (rule that [of w3 "es1 @ es2" u]) (use 1 2 3 in \<open>simp_all add: finish_delete_def\<close>)
qed

lemma reconcileDelete_completes:
  assumes "retry_lib P" "finalizers_lib (pf_lib P)" "hub_serves P"
    and "FinalizerName \<in> set (om_Finalizers (el_Meta l))" and "cleanable l"
    and "api_GetNamespace (pf_cluster P) HubClient (st_Namespace (el_Status l)) (w_env w) = (Inl err, e)"
    and "IsNotFound err"
  shows "\<exists>w' es u. run_state (reconcileDelete P R l) w = (Inr no_requeue, w')
     \<and> w_trace w' = w_trace w @ es @ [UpdateLease u] \<and> FinalizerName \<notin> set (om_Finalizers (el_Meta u))"
proof -
  have "ContainsFinalizer (pf_lib P) (om_Finalizers (el_Meta l)) FinalizerName"
    using assms(2,4) by (simp add: finalizers_lib_def)
  then obtain l1 es where run: "run_state (reconcileDelete P R l) w =
       run_state (State_Monad.bind
         (delete_owned_namespace P R local_session l1 (st_Namespace (el_Status l)))
         (after_cleanup P R (DeepCopyStatus (el_Status l)))) (w\<lparr>w_trace := w_trace w @ es\<rparr>)"
    using reconcileDelete_cleanup [OF _ assms(5)] by metis
  let ?w = "w\<lparr>w_env := e, w_trace := w_trace w @ es\<rparr>"
  have "run_state (delete_owned_namespace P R local_session l1 (st_Namespace (el_Status l)))
      (w\<lparr>w_trace := w_trace w @ es\<rparr>) = ((Inr True, l1), ?w)"
    using run_delete_gone [of P "st_Namespace (el_Status l)" "w\<lparr>w_trace := w_trace w @ es\<rparr>" err e R l1]
      assms(6,7) by simp
  then have run: "run_state (reconcileDelete P R l) w
      = run_state (finish_delete P R l1 (DeepCopyStatus (el_Status l))) ?w"
    unfolding run by (simp add: after_cleanup_def)
  obtain w' es' u where "run_state (finish_delete P R l1 (DeepCopyStatus (el_Status l))) ?w = (Inr no_requeue, w')"
    "w_trace w' = w_trace ?w @ es' @ [UpdateLease u]" "FinalizerName \<notin> set (om_Finalizers (el_Meta u))"
    by (rule run_finish_delete_serves [OF assms(1-3)])
  then show ?thesis unfolding run by (intro exI [of _ w'] exI [of _ "es @ es'"] exI [of _ u]) simp
qed

section \<open>A lease being deleted\<close>

text \<open>
  A lease in deletion whose namespace \<open>env\<close> exists on the control cluster and carries its marks: the concrete
  input of the witnesses below.
\<close>

definition doomed_lease :: EnvironmentLease where
  "doomed_lease = demo_lease\<lparr>
     el_Meta := (el_Meta demo_lease)\<lparr>om_Finalizers := [FinalizerName], om_DeletionTimestamp := Some 40\<rparr>,
     el_Status := zero_lease_status\<lparr>st_Namespace := ''env'', st_Phase := LeasePhaseActive\<rparr>\<rparr>"

definition owned_namespace :: "string \<Rightarrow> Namespace" where
  "owned_namespace n = \<lparr>ns_Meta = zero_meta\<lparr>om_Name := n,
     om_Labels := fmap_of_list [(LabelManagedBy, ManagedByValue), (LabelLease, ''demo'')],
     om_Annotations := fmap_of_list [(AnnotationLeaseUID, ''uid-1'')]\<rparr>\<rparr>"

definition doomed_platform :: "unit platform" where
  "doomed_platform = demo_platform\<lparr>
     pf_hub := demo_hub\<lparr>api_GetLease := (\<lambda>n w. (Inr doomed_lease, w))\<rparr>,
     pf_cluster := demo_cluster\<lparr>api_GetNamespace := (\<lambda>c n w. (Inr (owned_namespace n), w))\<rparr>\<rparr>"

definition demo_reconciler :: reconciler where
  "demo_reconciler = \<lparr>rec_ControlClusterID = ''ctl'', rec_Recorder = True, rec_Gate = True\<rparr>"

lemma demo_world_env: "demo_world\<lparr>w_env := u\<rparr> = demo_world" "w_env demo_world = ()" "w_trace demo_world = []"
  by (simp_all add: demo_world_def)

lemma doomed_platform_simps [simp]:
  "pf_lib doomed_platform = demo_lib" "lib_RetryLease doomed_platform fn = fn"
  "api_GetLease (pf_hub doomed_platform) n w = (Inr doomed_lease, w)"
  "api_GetNamespace (pf_cluster doomed_platform) c n w = (Inr (owned_namespace n), w)"
  "api_DeleteNamespace (pf_cluster doomed_platform) c ns w = (None, w)"
  "api_StatusUpdateLease (pf_hub doomed_platform) l w = (Inr l, w)"
  by (simp_all add: doomed_platform_def)

lemma doomed_platform_laws:
  "retry_lib doomed_platform" "namespace_reads doomed_platform" "finalizers_lib (pf_lib doomed_platform)"
  using demo_platform_retry demo_lib_laws(2)
  by (auto simp: retry_lib_def namespace_reads_def doomed_platform_def owned_namespace_def)

lemma doomed_lease_fields [simp]:
  "el_Name doomed_lease = ''demo''" "el_UID doomed_lease = ''uid-1''"
  "st_Namespace (el_Status doomed_lease) = ''env''" "st_Phase (el_Status doomed_lease) = LeasePhaseActive"
  "st_Cluster (el_Status doomed_lease) = None" "om_DeletionTimestamp (el_Meta doomed_lease) = Some 40"
  "om_Finalizers (el_Meta doomed_lease) = [FinalizerName]" "sp_ClusterRef (el_Spec doomed_lease) = None"
  by (simp_all add: doomed_lease_def demo_lease_def zero_defs)

lemma doomed_lease_cleanable: "cleanable doomed_lease"
  by (simp add: cleanable_def on_control_cluster_def cluster_name_def IsProtectedNamespace_def
      ProtectedNamespaces_def ForceCleanupAcknowledged_def doomed_lease_def demo_lease_def zero_defs lk_def)

lemma doomed_namespace_owned: "ns_owned (owned_namespace ''env'') doomed_lease ''ctl''"
  by (simp add: ns_owned_def owned_namespace_def recorded_identity_def agrees_def lk_def zero_meta_def
      LabelManagedBy_def LabelLease_def AnnotationLeaseUID_def AnnotationControlClusterID_def
      AnnotationTargetIdentity_def)

text \<open>The same lease after its namespace has gone, and a lease whose spec is not valid.\<close>

definition gone_platform :: "unit platform" where
  "gone_platform = doomed_platform\<lparr>
     pf_cluster := demo_cluster\<lparr>api_GetNamespace := (\<lambda>c n w. (Inl (ApiError NotFound ''gone''), w))\<rparr>\<rparr>"

definition invalid_lease :: EnvironmentLease where
  "invalid_lease = demo_lease\<lparr>
     el_Meta := (el_Meta demo_lease)\<lparr>om_Finalizers := [FinalizerName]\<rparr>,
     el_Spec := zero_lease_spec\<lparr>sp_Namespace := zero_namespace_spec\<lparr>nss_Name := ''default''\<rparr>\<rparr>\<rparr>"

definition invalid_platform :: "unit platform" where
  "invalid_platform = demo_platform\<lparr>pf_hub := demo_hub\<lparr>api_GetLease := (\<lambda>n w. (Inr invalid_lease, w))\<rparr>\<rparr>"

lemma gone_platform_laws:
  "retry_lib gone_platform" "namespace_reads gone_platform" "finalizers_lib (pf_lib gone_platform)"
  "hub_serves gone_platform"
  using demo_platform_retry demo_lib_laws(2)
  by (auto simp: retry_lib_def namespace_reads_def hub_serves_def gone_platform_def doomed_platform_def)

lemma gone_platform_simps [simp]:
  "api_GetLease (pf_hub gone_platform) n w = (Inr doomed_lease, w)"
  "api_GetNamespace (pf_cluster gone_platform) c n w = (Inl (ApiError NotFound ''gone''), w)"
  by (simp_all add: gone_platform_def)

lemma invalid_lease_fields [simp]:
  "om_Finalizers (el_Meta invalid_lease) = [FinalizerName]" "om_DeletionTimestamp (el_Meta invalid_lease) = None"
  by (simp_all add: invalid_lease_def demo_lease_def zero_defs)

lemma invalid_platform_laws:
  "retry_lib invalid_platform" "finalizers_lib (pf_lib invalid_platform)" "conditions_lib (pf_lib invalid_platform)"
  "hub_serves invalid_platform" "api_GetLease (pf_hub invalid_platform) n w = (Inr invalid_lease, w)"
  using demo_platform_retry demo_lib_laws
  by (auto simp: retry_lib_def hub_serves_def invalid_platform_def)

lemma invalid_lease_rejected: "ValidateSpec invalid_lease \<noteq> None"
  by (simp add: ValidateSpec_def ValidateNamespaceSpec_def IsProtectedNamespace_def ProtectedNamespaces_def
      invalid_lease_def demo_lease_def zero_defs ValidateWarnings_def)

end
