(* ===== verification/Lease_Safety.thy ===== *)
theory Lease_Safety
  imports Lease_Runs
begin

text \<open>
  The properties of the lease reconciler as a whole: what it deletes, when it lets a lease go, that a deletion
  ends, what happens to a rejected lease and when it comes back to a healthy one.
\<close>

section \<open>Properties\<close>

text \<open>
  C1. No reconcile deletes a namespace it should not. Whatever the API servers answer, if a reconcile of a
  lease deletes a namespace, it is the one recorded in the lease's status, it is not a protected one, it
  passed the ownership check against this lease and this control cluster, and the lease was either being
  deleted or past its effective deadline at a reading of the clock, under the policy the API server returned.
\<close>

theorem reconcile_deletes_only_due_owned_namespaces:
  assumes "retry_lib P" and "namespace_reads P" and "finalizers_lib (pf_lib P)"
    and "api_GetLease (pf_hub P) name (w_env w) = (Inr l, e)"
    and "run_state (Reconcile P R name) w = (r, w')"
  shows "\<exists>es. w_trace w' = w_trace w @ es
     \<and> (\<forall>c ns. DeleteNamespace c ns \<in> set es \<longrightarrow>
          ns_Name ns = st_Namespace (el_Status l) \<and> \<not> IsProtectedNamespace (ns_Name ns)
        \<and> VerifyNamespaceOwnership (Some ns) l (rec_ControlClusterID R) = None
        \<and> (\<not> ptr_is_zero (om_DeletionTimestamp (el_Meta l)) \<or> expired_at_reading P l))"
proof -
  obtain es where es: "w_trace w' = w_trace w @ es"
    "list_all (permitted (\<lambda>ns. deletable R l ns \<and> due P l) (released P l \<and> due P l)) es"
    by (rule Reconcile_effects [OF assms])
  have "deletable R l ns \<and> due P l" if "DeleteNamespace c ns \<in> set es" for c ns
    using es(2) that by (auto simp: list_all_iff)
  with es(1) show ?thesis
    unfolding deletable_def due_def VerifyNamespaceOwnership_None_iff by blast
qed

text \<open>
  C8. The finalizer goes last. If a reconcile writes the lease without its finalizer, or deletes it, then the
  lease was being deleted or expired, and it records no namespace, or its namespace is not a protected one and either
  was given up (a forced cleanup was acknowledged, or the mode is best effort and the cluster could not be resolved or
  answered with an error) or is gone: the cluster that \<open>resolveTargetSession\<close> picks for the lease, after it
  proved a recorded remote identity if it is remote, answered that the namespace does not exist. That cluster is
  \<open>spec.clusterRef\<close> where it is set, even if the lease was provisioned elsewhere.
\<close>

theorem reconcile_releases_finalizer_last:
  assumes "retry_lib P" and "namespace_reads P" and "finalizers_lib (pf_lib P)"
    and "api_GetLease (pf_hub P) name (w_env w) = (Inr l, e)"
    and "run_state (Reconcile P R name) w = (r, w')"
  shows "\<exists>es. w_trace w' = w_trace w @ es
     \<and> (\<forall>u. (UpdateLease u \<in> set es \<and> FinalizerName \<notin> set (om_Finalizers (el_Meta u)) \<or> DeleteLease u \<in> set es) \<longrightarrow>
          (\<not> ptr_is_zero (om_DeletionTimestamp (el_Meta l)) \<or> expired_at_reading P l)
        \<and> (st_Namespace (el_Status l) = []
           \<or> \<not> IsProtectedNamespace (st_Namespace (el_Status l)) \<and> (given_up P l \<or> gone P l)))"
proof -
  obtain es where es: "w_trace w' = w_trace w @ es"
    "list_all (permitted (\<lambda>ns. deletable R l ns \<and> due P l) (released P l \<and> due P l)) es"
    by (rule Reconcile_effects [OF assms])
  have "released P l \<and> due P l"
    if "UpdateLease u \<in> set es \<and> FinalizerName \<notin> set (om_Finalizers (el_Meta u)) \<or> DeleteLease u \<in> set es" for u
    using es(2) that by (auto simp: list_all_iff)
  with es(1) show ?thesis unfolding released_def due_def by blast
qed

text \<open>
  C24. The finalizer comes first. Reconciling a live lease without the finalizer does exactly one thing, a write
  of the lease with the finalizer added; nothing is provisioned until a later reconcile has read it back.
\<close>

theorem reconcile_adds_finalizer_first:
  assumes "finalizers_lib (pf_lib P)"
    and "api_GetLease (pf_hub P) name (w_env w) = (Inr l, e)"
    and "ptr_is_zero (om_DeletionTimestamp (el_Meta l))" and "FinalizerName \<notin> set (om_Finalizers (el_Meta l))"
  shows "\<exists>u. w_trace (snd (run_state (Reconcile P R name) w)) = w_trace w @ [UpdateLease u]
     \<and> set (om_Finalizers (el_Meta u)) = insert FinalizerName (set (om_Finalizers (el_Meta l)))
     \<and> el_Spec u = el_Spec l \<and> el_Status u = el_Status l"
proof -
  let ?u = "l\<lparr>el_Meta := (el_Meta l)\<lparr>om_Finalizers :=
    AddFinalizer (pf_lib P) (om_Finalizers (el_Meta l)) FinalizerName\<rparr>\<rparr>"
  have "set (om_Finalizers (el_Meta ?u)) = insert FinalizerName (set (om_Finalizers (el_Meta l)))"
    "\<not> ContainsFinalizer (pf_lib P) (om_Finalizers (el_Meta l)) FinalizerName"
    using assms(1,4) by (simp_all add: finalizers_lib_def)
  moreover have "w_trace (snd (run_state (Reconcile P R name) w)) = w_trace w @ [UpdateLease ?u]"
    using assms(3) calculation(2)
    by (simp add: run_Reconcile [OF assms(2)] reconcile_found_def act_def Let_def split: prod.split)
  ultimately show ?thesis by (intro exI [of _ ?u]) simp
qed


text \<open>
  A deletion ends. For a lease in deletion on the control cluster, once the API server answers that the recorded
  namespace is gone and as long as the control cluster serves the lease and accepts writes, one reconcile
  returns without error and without requeue, and its last effect is the write that removes the finalizer.
\<close>

theorem deletion_completes:
  assumes "retry_lib P" and "finalizers_lib (pf_lib P)" and "hub_serves P"
    and "api_GetLease (pf_hub P) name (w_env w) = (Inr l, e)"
    and "\<not> ptr_is_zero (om_DeletionTimestamp (el_Meta l))"
    and "FinalizerName \<in> set (om_Finalizers (el_Meta l))" and "cleanable l"
    and "api_GetNamespace (pf_cluster P) HubClient (st_Namespace (el_Status l)) e = (Inl err, e')"
    and "IsNotFound err"
  shows "\<exists>w' es u. run_state (Reconcile P R name) w = (Inr no_requeue, w')
     \<and> w_trace w' = w_trace w @ es @ [UpdateLease u] \<and> FinalizerName \<notin> set (om_Finalizers (el_Meta u))"
proof -
  have "run_state (Reconcile P R name) w = run_state (reconcileDelete P R l) (w\<lparr>w_env := e\<rparr>)"
    using assms(5) by (simp add: run_Reconcile [OF assms(4)] reconcile_found_def)
  moreover have "\<exists>w' es u. run_state (reconcileDelete P R l) (w\<lparr>w_env := e\<rparr>) = (Inr no_requeue, w')
     \<and> w_trace w' = w_trace (w\<lparr>w_env := e\<rparr>) @ es @ [UpdateLease u] \<and> FinalizerName \<notin> set (om_Finalizers (el_Meta u))"
    by (rule reconcileDelete_completes [OF assms(1-3,6,7)]) (use assms(8,9) in simp_all)
  ultimately show ?thesis by simp
qed

text \<open>
  C25. A rejected lease is parked. If the spec of a live lease fails validation, a reconcile that the control cluster
  serves marks the lease Failed and stops. Its effects are known exactly: unless the lease has the Failed status
  already, one status write, whose status is in phase Failed, not Ready, and Degraded; then the failure
  counter; and it returns no requeue. In particular an environment whose deadline has passed is not cleaned up while
  the spec is invalid.
\<close>

theorem rejected_lease_is_parked:
  assumes "retry_lib P" and "finalizers_lib (pf_lib P)" and "conditions_lib (pf_lib P)" and "hub_serves P"
    and "api_GetLease (pf_hub P) name (w_env w) = (Inr l, e)"
    and "ptr_is_zero (om_DeletionTimestamp (el_Meta l))"
    and "FinalizerName \<in> set (om_Finalizers (el_Meta l))" and "ValidateSpec l = Some err"
    and "failed = EnsureObservedGeneration (MarkFailed (pf_lib P) l ReasonInvalidConfiguration (err_text err))"
  shows "st_Phase (el_Status failed) = LeasePhaseFailed \<and> \<not> ConditionTrue_lease (pf_lib P) failed ConditionReady
     \<and> ConditionTrue_lease (pf_lib P) failed ConditionDegraded
     \<and> (\<exists>w' es. run_state (Reconcile P R name) w = (Inr no_requeue, w')
          \<and> w_trace w' = w_trace w @ es @ [Inc ''ProvisionFailuresTotal'']
          \<and> (if StatusEqual (el_Status l) (el_Status failed) then es = []
             else \<exists>u. es = [StatusUpdateLease u] \<and> el_Status u = el_Status failed))"
proof -
  let ?m = "reject_lease P l (DeepCopyStatus (el_Status l)) ReasonInvalidConfiguration err
     [Inc ''ProvisionFailuresTotal'']"
  have copy: "DeepCopyStatus (el_Status l) = el_Status l" by (simp add: DeepCopyStatus_def)
  have "ContainsFinalizer (pf_lib P) (om_Finalizers (el_Meta l)) FinalizerName"
    using assms(2,7) by (simp add: finalizers_lib_def)
  then have run: "run_state (Reconcile P R name) w = run_state ?m (w\<lparr>w_env := e\<rparr>)"
    using assms(6,8) by (simp add: run_Reconcile [OF assms(5)] reconcile_found_def reconcile_spec_def)
  obtain l' w1 es where patch: "run_state (patchStatusIfChanged P failed (el_Status l)) (w\<lparr>w_env := e\<rparr>) = (Inr l', w1)"
    "w_trace w1 = w_trace (w\<lparr>w_env := e\<rparr>) @ es" "if StatusEqual (el_Status l) (el_Status failed) then es = []
       else \<exists>u. es = [StatusUpdateLease u] \<and> el_Status u = el_Status failed"
    by (rule run_patch_serves [OF assms(1,4)])
  then have "\<exists>w' es. run_state (Reconcile P R name) w = (Inr no_requeue, w')
      \<and> w_trace w' = w_trace w @ es @ [Inc ''ProvisionFailuresTotal'']
      \<and> (if StatusEqual (el_Status l) (el_Status failed) then es = []
         else \<exists>u. es = [StatusUpdateLease u] \<and> el_Status u = el_Status failed)"
    unfolding run by (simp add: reject_lease_def copy assms(9) [symmetric] emit_def)
  moreover have "ConditionTrue_lease (pf_lib P) failed t
      = ConditionTrue_lease (pf_lib P) (MarkFailed (pf_lib P) l ReasonInvalidConfiguration (err_text err)) t" for t
    by (simp add: assms(9) EnsureObservedGeneration_def ConditionTrue_lease_def)
  moreover have "st_Phase (el_Status failed) = LeasePhaseFailed"
    by (simp add: assms(9) EnsureObservedGeneration_def MarkFailed_def Let_def)
  ultimately show ?thesis by (simp add: MarkFailed_def Let_def SetCondition_true [OF assms(3)])
qed

text \<open>
  C26. When the controller comes back to a healthy lease with a deadline. On the control cluster it waits exactly until
  the next event, the earliest of the deadline and the undelivered warnings, and asks for no visit at all (zero) when
  this event is already due at this reading of the clock: the deadline has passed or a warning has become pending,
  although it had not at the earlier readings of the same reconcile. For a remote cluster the wait is the same but
  at most two minutes, and two minutes where it would be zero, so it is always positive.
\<close>

theorem next_visit_delay:
  assumes "EffectiveDeadline l = Some deadline" and "api_Now (pf_hub P) (w_env w) = (n, e)"
    and "run_state (next_visit P sess l) w = (res, w')"
    and "due_at = Min (open_events deadline (WarningDurations (sp_Warnings (el_Spec l))) (st_WarningsDelivered (el_Status l)))"
  shows "\<not> res_Requeue res
     \<and> (due_at \<le> n \<longleftrightarrow> deadline \<le> n
         \<or> (\<exists>d. d \<in> set (PendingWarnings n deadline (WarningDurations (sp_Warnings (el_Spec l)))
                 (st_WarningsDelivered (el_Status l)))))
     \<and> res_RequeueAfter res =
         (if ses_Local sess then (if due_at \<le> n then 0 else sat64 (due_at - n))
          else if due_at \<le> n then 2 * Minute else min (2 * Minute) (sat64 (due_at - n)))
     \<and> (ses_Local sess \<or> 0 < res_RequeueAfter res)"
proof -
  let ?u = "NextReconcileAfter n deadline (WarningDurations (sp_Warnings (el_Spec l)))
    (st_WarningsDelivered (el_Status l))"
  have res: "res = requeue_after (if \<not> ses_Local sess \<and> (?u = 0 \<or> ?u > remoteDriftRequeue) then remoteDriftRequeue else ?u)"
    using assms(1-3) by (auto simp: next_visit_def now_def Let_def)
  have u: "?u = (if due_at \<le> n then 0 else sat64 (due_at - n))"
    unfolding NextReconcileAfter_Min assms(4) by (simp add: Let_def)
  have pos: "0 < sat64 (due_at - n)" if "\<not> due_at \<le> n" using that by (simp add: sat64_def int64_defs)
  have "remoteDriftRequeue = 2 * Minute" "0 < Minute" by (simp_all add: remoteDriftRequeue_def dur_units)
  moreover have "due_at \<le> n \<longleftrightarrow> ?u = 0" using u pos by (metis less_irrefl)
  ultimately show ?thesis
    unfolding res NextReconcileAfter_zero_iff [symmetric] using u pos by (auto simp: min_def)
qed

section \<open>Witnesses\<close>

text \<open>On the platform with the doomed lease the reconcile really deletes the namespace.\<close>

theorem reconcile_deletes_only_due_owned_namespaces_witness:
  "\<exists>es. w_trace (snd (run_state (Reconcile doomed_platform demo_reconciler ''demo'') demo_world)) = es
     \<and> DeleteNamespace HubClient (owned_namespace ''env'') \<in> set es
     \<and> list_all (\<lambda>x. case x of DeleteNamespace c ns \<Rightarrow> ns_Name ns = ''env''
          \<and> VerifyNamespaceOwnership (Some ns) doomed_lease ''ctl'' = None | _ \<Rightarrow> True) es"
proof -
  have "run_state (Reconcile doomed_platform demo_reconciler ''demo'') demo_world
      = run_state (reconcileDelete doomed_platform demo_reconciler doomed_lease) demo_world"
    by (simp add: Reconcile_def reconcile_found_def ptr_is_zero_def zero_time_def demo_world_env)
  moreover have "DeleteNamespace HubClient (owned_namespace ''env'')
      \<in> set (w_trace (snd (run_state (reconcileDelete doomed_platform demo_reconciler doomed_lease) demo_world)))"
    by (rule reconcileDelete_deletes [OF doomed_platform_laws(1)])
       (use doomed_namespace_owned doomed_lease_cleanable in
         \<open>simp_all add: demo_reconciler_def owned_namespace_def zero_meta_def demo_lib_def\<close>)
  moreover obtain es where "w_trace (snd (run_state (Reconcile doomed_platform demo_reconciler ''demo'') demo_world)) = es"
    "DeleteNamespace c ns \<in> set es \<Longrightarrow> ns_Name ns = ''env''
        \<and> VerifyNamespaceOwnership (Some ns) doomed_lease ''ctl'' = None" for c ns
    using reconcile_deletes_only_due_owned_namespaces [OF doomed_platform_laws,
        of "''demo''" demo_world doomed_lease "()" demo_reconciler, OF _ prod.collapse [symmetric]]
    by (auto simp: demo_world_env demo_reconciler_def)
  ultimately show ?thesis by (auto simp: list_all_iff split: effect.split)
qed

theorem reconcile_adds_finalizer_first_witness:
  "\<exists>u. w_trace (snd (run_state (Reconcile demo_platform demo_reconciler ''demo'') demo_world)) = [UpdateLease u]
     \<and> FinalizerName \<in> set (om_Finalizers (el_Meta u))"
  using reconcile_adds_finalizer_first [of demo_platform "''demo''" demo_world demo_lease "()" demo_reconciler]
    demo_lib_laws(2)
  by (auto simp: demo_world_def demo_lease_def zero_defs)

text \<open>Where the namespace has gone the reconcile really lets the lease go.\<close>

theorem deletion_completes_witness:
  "\<exists>w' es u. run_state (Reconcile gone_platform demo_reconciler ''demo'') demo_world = (Inr no_requeue, w')
     \<and> w_trace w' = es @ [UpdateLease u] \<and> FinalizerName \<notin> set (om_Finalizers (el_Meta u))"
  using deletion_completes [OF gone_platform_laws(1,3,4), of "''demo''" demo_world doomed_lease "()"
      "ApiError NotFound ''gone''" "()" demo_reconciler]
  by (simp add: demo_world_env doomed_lease_cleanable ptr_is_zero_def zero_time_def IsNotFound_def)

theorem reconcile_releases_finalizer_last_witness:
  "\<exists>es u. w_trace (snd (run_state (Reconcile gone_platform demo_reconciler ''demo'') demo_world)) = es
     \<and> UpdateLease u \<in> set es \<and> FinalizerName \<notin> set (om_Finalizers (el_Meta u))
     \<and> (\<not> ptr_is_zero (om_DeletionTimestamp (el_Meta doomed_lease))) \<and> gone gone_platform doomed_lease"
proof -
  have get: "api_GetLease (pf_hub gone_platform) ''demo'' (w_env demo_world) = (Inr doomed_lease, ())" by simp
  obtain w' es u where run: "run_state (Reconcile gone_platform demo_reconciler ''demo'') demo_world = (Inr no_requeue, w')"
    and u: "w_trace w' = es @ [UpdateLease u]" "FinalizerName \<notin> set (om_Finalizers (el_Meta u))"
    using reconcileDelete_completes [OF gone_platform_laws(1,3,4), of doomed_lease demo_world "ApiError NotFound ''gone''" "()"
        demo_reconciler]
    by (auto simp: run_Reconcile [OF get] reconcile_found_def demo_world_env doomed_lease_cleanable ptr_is_zero_def
        zero_time_def IsNotFound_def)
  have not_given_up: "\<not> given_up gone_platform doomed_lease"
    by (simp add: given_up_def ForceCleanupAcknowledged_def EffectiveCleanupMode_def doomed_lease_def demo_lease_def zero_defs lk_def)
  from reconcile_releases_finalizer_last [OF gone_platform_laws(1-3) get run] u
  have "gone gone_platform doomed_lease"
    using not_given_up doomed_lease_fields(3) unfolding demo_world_env append_Nil by auto
  then show ?thesis using run u by (intro exI [of _ "es @ [UpdateLease u]"] exI [of _ u])
      (simp add: ptr_is_zero_def zero_time_def)
qed

text \<open>A lease that asks for a protected namespace and has no status yet: the Failed status is really written.\<close>

theorem rejected_lease_is_parked_witness:
  "\<exists>w' u. run_state (Reconcile invalid_platform demo_reconciler ''demo'') demo_world = (Inr no_requeue, w')
     \<and> w_trace w' = [StatusUpdateLease u, Inc ''ProvisionFailuresTotal''] \<and> st_Phase (el_Status u) = LeasePhaseFailed"
proof -
  obtain err where err: "ValidateSpec invalid_lease = Some err" using invalid_lease_rejected by blast
  have "st_Phase (el_Status invalid_lease) \<noteq> LeasePhaseFailed" by (simp add: invalid_lease_def demo_lease_def zero_defs)
  then have new: "\<not> StatusEqual (el_Status invalid_lease) s" if "st_Phase s = LeasePhaseFailed" for s
    using that by (auto simp: StatusEqual_def)
  show ?thesis
    using rejected_lease_is_parked [OF invalid_platform_laws(1-4), of "''demo''" demo_world invalid_lease "()" err _
        demo_reconciler, OF _ _ _ err refl] new
    by (auto simp: invalid_platform_laws(5) demo_world_env split: if_splits)
qed

text \<open>At instant 50, with the deadline at 170 and a warning 70 before it, the next visit is 50 away, or in two minutes.\<close>

theorem next_visit_delay_witness:
  "\<exists>l. EffectiveDeadline l = Some 170
     \<and> res_RequeueAfter (fst (run_state (next_visit demo_platform local_session l) demo_world)) = 50
     \<and> EffectiveDeadline (l\<lparr>el_Status := (el_Status l)\<lparr>st_EffectiveExpiresAt := Some 10\<rparr>\<rparr>) = Some 10
     \<and> res_RequeueAfter (fst (run_state (next_visit demo_platform local_session
          (l\<lparr>el_Status := (el_Status l)\<lparr>st_EffectiveExpiresAt := Some 10\<rparr>\<rparr>)) demo_world)) = 0"
proof -
  let ?l = "\<lambda>d. demo_lease\<lparr>el_Spec := zero_lease_spec\<lparr>sp_Warnings := [70]\<rparr>,
    el_Status := zero_lease_status\<lparr>st_EffectiveExpiresAt := Some d\<rparr>\<rparr>"
  have "res_RequeueAfter (fst (run_state (next_visit demo_platform local_session (?l d)) demo_world)) =
      (if Min {d, d - 70} \<le> 50 then 0 else sat64 (Min {d, d - 70} - 50))" for d
    using next_visit_delay [of "?l d" d demo_platform demo_world 50 "()" local_session,
        OF _ _ prod.collapse [symmetric] refl]
    by (simp add: demo_world_env EffectiveDeadline_def local_session_def open_events_def WarningDurations_def
        zero_defs dur_neg_def int64_defs)
  from this [of 170] this [of 10] show ?thesis
    by (intro exI [of _ "?l 170"]) (simp add: EffectiveDeadline_def sat64_def int64_defs)
qed

end
