(* ===== verification/Lease_Status.thy ===== *)
theory Lease_Status
  imports Lease_Runs
begin

text \<open>
  How the status of a lease travels through the handlers of the reconciler. Every handler takes a lease, changes its
  status by a few operations and writes it or hands it on; what a property needs is that these operations keep a
  predicate on the status. The locales state that contract, one for the active path and one for the cleanup
  path, and the lemmas carry the predicate through the programs. \<open>Lease_Record\<close> and \<open>Lease_Phases\<close> interpret them.
\<close>

section \<open>Writes of the status\<close>

definition status_write :: "(EnvironmentLeaseStatus \<Rightarrow> bool) \<Rightarrow> effect \<Rightarrow> bool" where
  "status_write K e \<longleftrightarrow> (case e of StatusUpdateLease u \<Rightarrow> K (el_Status u) | _ \<Rightarrow> True)"

definition status_in :: "(EnvironmentLeaseStatus \<Rightarrow> bool) \<Rightarrow> 'x \<times> EnvironmentLease \<Rightarrow> bool" where
  "status_in K x \<longleftrightarrow> K (el_Status (snd x))"

lemma status_write_simps [simp]:
  "status_write K (StatusUpdateLease u) \<longleftrightarrow> K (el_Status u)"
  "status_write K (UpdateLease u)" "status_write K (DeleteLease u)" "status_write K (Event et rs m)"
  "status_write K (Inc x)" "status_write K (ClusterOp n op b)" "status_write K (Acquired n)"
  "status_write K (Released n)" "status_write K (CreateNamespace c n')" "status_write K (PatchNamespace c n')"
  "status_write K (DeleteNamespace c n')"
  by (simp_all add: status_write_def)

lemma status_in_pair [simp]: "status_in K (x, l) \<longleftrightarrow> K (el_Status l)"
  by (simp add: status_in_def)

lemma provisions_status_write: "provisions cl e \<Longrightarrow> status_write K e"
  by (auto simp: provisions_def status_write_def split: effect.splits)

lemma status_write_mono: "status_write K e \<Longrightarrow> (\<And>s. K s \<Longrightarrow> K' s) \<Longrightarrow> status_write K' e"
  by (auto simp: status_write_def split: effect.splits)

lemma map_sum_case: "map_sum f g x = (case x of Inl a \<Rightarrow> Inl (f a) | Inr b \<Rightarrow> Inr (g b))"
  by (cases x) simp_all

lemma emits_patch_status:
  assumes "retry_lib P" and "K (el_Status l)"
  shows "emits (status_write K) (patchStatusIfChanged P l before)"
  unfolding patchStatusIfChanged_def Let_def
  by (intro emits_rules emits_RetryLease [OF assms(1)]) (simp add: assms(2))

lemma emits_removeLeaseFinalizer_status: "retry_lib P \<Longrightarrow> emits (status_write K) (removeLeaseFinalizer P l)"
  unfolding removeLeaseFinalizer_def Let_def by (intro emits_rules emits_RetryLease) simp_all

lemma emits_renewal_status:
  "emits (status_write K) (case (pe, x) of
      (Some prev, Some e) \<Rightarrow>
        if prev < e \<and> ren then State_Monad.bind (emit (Inc ''RenewalsTotal''))
          (\<lambda>_. event R EventTypeNormal ''LeaseRenewed'' (''Lease renewed; new expiration '' @ rfc3339 e))
        else State_Monad.return ()
    | _ \<Rightarrow> State_Monad.return ())"
  by (cases pe; cases x) (simp_all add: emits_rules)

section \<open>Fields a predicate ignores\<close>

locale status_frame =
  fixes K :: "EnvironmentLeaseStatus \<Rightarrow> bool"
  assumes conditions: "K (s\<lparr>st_Conditions := cs\<rparr>) \<longleftrightarrow> K s"
    and generation: "K (s\<lparr>st_ObservedGeneration := g\<rparr>) \<longleftrightarrow> K s"
    and cluster: "K (s\<lparr>st_Cluster := c\<rparr>) \<longleftrightarrow> K s"
    and effective: "K (s\<lparr>st_Effective := x\<rparr>) \<longleftrightarrow> K s"
begin

lemma marks [simp]:
  "K (el_Status (SetCondition L l t s rs m)) \<longleftrightarrow> K (el_Status l)"
  "K (el_Status (EnsureObservedGeneration l)) \<longleftrightarrow> K (el_Status l)"
  "K (el_Status (set_effective x l)) \<longleftrightarrow> K (el_Status l)"
  "K (el_Status (set_cluster c l)) \<longleftrightarrow> K (el_Status l)"
  "K (el_Status (upd_cluster f l)) \<longleftrightarrow> K (el_Status l)"
  by (simp_all add: SetCondition_def EnsureObservedGeneration_def set_effective_def set_cluster_def upd_cluster_def
      conditions generation cluster effective)

lemma markers:
  "K (el_Status (MarkProvisioning L l m)) \<longleftrightarrow> K ((el_Status l)\<lparr>st_Phase := LeasePhaseProvisioning\<rparr>)"
  "K (el_Status (MarkReady L l b))
     \<longleftrightarrow> K ((el_Status l)\<lparr>st_Phase := if b then LeasePhaseExpiring else LeasePhaseActive\<rparr>)"
  "K (el_Status (MarkPending L l rs m)) \<longleftrightarrow> K ((el_Status l)\<lparr>st_Phase := LeasePhasePending\<rparr>)"
  "K (el_Status (MarkFailed L l rs m)) \<longleftrightarrow> K ((el_Status l)\<lparr>st_Phase := LeasePhaseFailed\<rparr>)"
  "K (el_Status (MarkCleaning L l m)) \<longleftrightarrow> K ((el_Status l)\<lparr>st_Phase := LeasePhaseCleaning\<rparr>)"
  "K (el_Status (MarkCleanupComplete L l)) \<longleftrightarrow> K ((el_Status l)\<lparr>st_Phase := LeasePhaseExpired\<rparr>)"
  "K (el_Status (MarkCleanupFailed L l m)) \<longleftrightarrow> K ((el_Status l)\<lparr>st_Phase := LeasePhaseCleaning\<rparr>)"
  by (simp_all add: marker_defs SetPhase_def)

lemma emits_reject:
  assumes "retry_lib P" "K ((el_Status l)\<lparr>st_Phase := LeasePhaseFailed\<rparr>)" "list_all (status_write K) es"
  shows "emits (status_write K) (reject_lease P l before reason err es)"
  unfolding reject_lease_def
  by (intro emits_rules emits_patch_status [OF assms(1)] emits_emit_all assms(3)) (simp add: assms(2) markers)

end

section \<open>The active path\<close>

text \<open>
  \<open>N l n\<close> bounds the namespaces \<open>n\<close> that \<open>ensureNamespace\<close> may return for \<open>l\<close>. The two programs that write the status on the
  way and read the lease back have to keep \<open>K\<close> as a whole, since what they return comes from the API server.
\<close>

locale active_status = status_frame K
  for K +
  fixes P :: "'w platform" and R :: reconciler and N :: "EnvironmentLeaseStatus \<Rightarrow> string \<Rightarrow> bool"
  assumes phases: "\<lbrakk>K s; p \<in> {LeasePhasePending, LeasePhaseActive, LeasePhaseExpiring, LeasePhaseFailed}\<rbrakk>
      \<Longrightarrow> K (s\<lparr>st_Phase := p\<rparr>)"
    and provisioning: "\<lbrakk>K s; st_Phase s \<noteq> LeasePhaseFailed\<rbrakk> \<Longrightarrow> K (s\<lparr>st_Phase := LeasePhaseProvisioning\<rparr>)"
    and delivered: "K s \<Longrightarrow> K (s\<lparr>st_WarningsDelivered := MarkWarningDelivered (st_WarningsDelivered s) x\<rparr>)"
    and ensured: "K (el_Status l) \<Longrightarrow>
      returns (\<lambda>x. case x of Inl _ \<Rightarrow> True | Inr (n, _) \<Rightarrow> N (el_Status l) n) (ensureNamespace P R sess l)"
    and persist_cluster: "K (el_Status l) \<Longrightarrow> emits (status_write K) (persist_cluster P l ph r n)"
      "K (el_Status l) \<Longrightarrow> returns (status_in K) (persist_cluster P l ph r n)"
    and persist_namespace: "\<lbrakk>K (el_Status l); N (el_Status l) ns\<rbrakk> \<Longrightarrow> emits (status_write K) (persist_namespace P l ns r n)"
      "\<lbrakk>K (el_Status l); N (el_Status l) ns\<rbrakk> \<Longrightarrow> returns (status_in K) (persist_namespace P l ns r n)"
begin

lemma returns_capture:
  assumes "K (el_Status l)"
  shows "returns (status_in K) (capture_identity P s l)"
proof -
  have seen: "K (el_Status (case t of Inl err \<Rightarrow> l | Inr target \<Rightarrow> upd_cluster (f target) l))" for t f
    using assms by (simp split: sum.split)
  show ?thesis
    unfolding capture_identity_def Let_def
    by (rule returns_bind_any,
        rule returns_bind [where S = "\<lambda>x. case x of Inl _ \<Rightarrow> True | Inr l \<Rightarrow> K (el_Status l)"])
       (intro returns_rules; auto simp: seen assms map_sum_case split: sum.splits)+
qed

lemma returns_session:
  assumes "K (el_Status l)"
  shows "returns (status_in K) (open_session P l n)" "returns (status_in K) (resolveTargetSessionForProvision P l pol)"
proof -
  show open': "returns (status_in K) (open_session P l n)" for n
    unfolding open_session_def Let_def by (intro returns_rules returns_capture) (simp_all add: assms)
  show "returns (status_in K) (resolveTargetSessionForProvision P l pol)"
    unfolding resolveTargetSessionForProvision_def Let_def
    by (intro returns_rules open') (simp_all add: assms markers phases)
qed

lemma returns_target_error: "K (el_Status l) \<Longrightarrow> returns (status_in K) (handleTargetError P l err)"
  unfolding handleTargetError_def Let_def by (intro returns_rules) (simp_all add: markers phases)

lemma returns_provision_failed: "K (el_Status l) \<Longrightarrow> returns (status_in K) (provision_failed P s l op rs err)"
  unfolding provision_failed_def by (intro returns_rules) (simp add: markers phases)

lemma returns_provision_resources: "K (el_Status l) \<Longrightarrow> returns (status_in K) (provision_resources P s wc l n)"
  unfolding provision_resources_def by (intro returns_rules returns_provision_failed) simp_all

lemma returns_warnings:
  assumes "K (el_Status l)"
  shows "returns (\<lambda>l. K (el_Status l)) (emitWarnings P R l)"
proof -
  have "returns (\<lambda>l. K (el_Status l)) (deliver_warnings P R d ws l)" for d ws
    using assms by (induction ws arbitrary: l) (auto intro!: returns_rules simp: delivered)
  then show ?thesis unfolding emitWarnings_def by (intro returns_rules) (simp_all add: assms)
qed

lemma returns_finish_active:
  assumes "K (el_Status l)"
  shows "returns (status_in K) (finish_active P R s l wr ph n)"
  unfolding finish_active_def Let_def
  by (rule returns_bind [OF returns_warnings [OF assms]]) (intro returns_rules, simp add: markers phases)

text \<open>The lease that \<open>provision_environment\<close> starts from, marked unless it was ready or has failed before.\<close>

lemma provision_environment_status:
  assumes "K (el_Status l)"
  shows "emits (status_write K) (provision_environment P R s l wr ph res)"
    "returns (status_in K) (provision_environment P R s l wr ph res)"
proof -
  define l1 where "l1 = (if \<not> wr \<and> st_Phase (el_Status l) \<noteq> LeasePhaseFailed
    then MarkProvisioning (pf_lib P) l ''Provisioning managed environment'' else l)"
  have l1: "K (el_Status l1)" using assms by (simp add: l1_def markers provisioning)
  have ns: "emits (status_write K) (ensureNamespace P R s l1)" by (rule emits_ensureNamespace) simp_all
  have res: "emits (status_write K) (provision_resources P s wc l n)" for wc l n
    by (rule emits_provision_resources) (simp_all add: provisions_status_write)
  have fin: "emits (status_write K) (finish_active P R s l wr ph n)" for l n
    by (intro emits_rules) simp_all
  have fail: "emits (status_write K) (provision_failed P s l op rs err)" for l op rs err
    by (intro emits_rules) simp_all
  show "emits (status_write K) (provision_environment P R s l wr ph res)"
    unfolding provision_environment_def Let_def l1_def [symmetric]
    by (rule emits_bind_returns [OF ensured [OF l1] ns])
       (auto intro!: emits_bind emits_return emits_option emits_observeOp persist_namespace(1) l1 res fin fail
          split: sum.split prod.split)
  show "returns (status_in K) (provision_environment P R s l wr ph res)"
    unfolding provision_environment_def Let_def l1_def [symmetric]
    by (rule returns_bind [OF ensured [OF l1]])
       (auto intro!: returns_bind_any [where m = "observeOp s op err" for op err] returns_bind [OF persist_namespace(2) [OF l1]]
          returns_bind [OF returns_provision_failed [OF l1]] returns_bind [OF returns_provision_resources]
          returns_option returns_return returns_finish_active split: sum.split prod.split)
qed

lemma provision_on_status:
  assumes "K (el_Status l)"
  shows "emits (status_write K) (provision_on P R s l wr ph res)"
    "returns (status_in K) (provision_on P R s l wr ph res)"
proof -
  let ?l = "SetCondition (pf_lib P) (case st_Cluster (el_Status l) of
      None \<Rightarrow> set_cluster (named_cluster (ses_Name s)) l
    | Some c \<Rightarrow> set_cluster (c\<lparr>cs_Name := ses_Name s\<rparr>) l)
    ConditionTargetClusterReady ConditionTrue ReasonEnvironmentReady (''Using cluster '' @ ses_Name s)"
  have l: "K (el_Status ?l)" using assms by (simp split: option.split)
  show "emits (status_write K) (provision_on P R s l wr ph res)"
    unfolding provision_on_def Let_def
    by (rule emits_bind_returns [OF persist_cluster(2) [OF l] persist_cluster(1) [OF l]])
       (auto intro!: emits_return provision_environment_status split: option.split)
  show "returns (status_in K) (provision_on P R s l wr ph res)"
    unfolding provision_on_def Let_def
    by (rule returns_bind [OF persist_cluster(2) [OF l]])
       (auto intro!: returns_return provision_environment_status split: option.split)
qed

lemma reconcileActive_status:
  assumes "K (el_Status l)"
  shows "emits (status_write K) (reconcileActive P R l ph res pol)"
    "returns (status_in K) (reconcileActive P R l ph res pol)"
proof -
  have handle: "emits (status_write K) (case x of SessionResult res \<Rightarrow> State_Monad.return (Inr res, l)
      | SessionErr err \<Rightarrow> handleTargetError P l err
      | Session s \<Rightarrow> with_gate R (ses_Name s) (provision_on P R s l wr ph res))"
    "returns (status_in K) (case x of SessionResult res \<Rightarrow> State_Monad.return (Inr res, l)
      | SessionErr err \<Rightarrow> handleTargetError P l err
      | Session s \<Rightarrow> with_gate R (ses_Name s) (provision_on P R s l wr ph res))"
    if "K (el_Status l)" for x l wr
    using that
    by (cases x; simp add: emits_rules provision_on_status returns_target_error returns_with_gate returns_return)+
  show "emits (status_write K) (reconcileActive P R l ph res pol)"
    unfolding reconcileActive_def Let_def
    by (rule emits_bind_returns [OF returns_session(2) [OF assms]]) (auto intro: emits_resolveForProvision handle)
  show "returns (status_in K) (reconcileActive P R l ph res pol)"
    unfolding reconcileActive_def Let_def
    by (rule returns_bind [OF returns_session(2) [OF assms]]) (auto intro: handle)
qed

lemma emits_active_patched:
  assumes "retry_lib P" "K (el_Status l)"
  shows "emits (status_write K) (State_Monad.bind (reconcileActive P R l ph res pol) (\<lambda>(x, l).
      State_Monad.bind (patchStatusIfChanged P (EnsureObservedGeneration l) before)
        (\<lambda>p. State_Monad.return (case p of Inl perr \<Rightarrow> Inl perr | Inr _ \<Rightarrow> x))))"
  by (rule emits_bind_returns [OF reconcileActive_status(2,1) [OF assms(2)]])
     (auto intro!: emits_rules emits_patch_status [OF assms(1)])

end

section \<open>The cleanup path\<close>

text \<open>\<open>K\<close> holds while the environment is cleaned up, \<open>W\<close> of what is written afterwards.\<close>

locale cleanup_status = inner: status_frame K + outer: status_frame W
  for K W :: "EnvironmentLeaseStatus \<Rightarrow> bool" +
  assumes cleaned: "\<lbrakk>K s; p \<in> {LeasePhaseCleaning, LeasePhaseExpired}\<rbrakk> \<Longrightarrow> W (s\<lparr>st_Phase := p\<rparr>)"
begin

lemma returns_cleanup:
  assumes "K (el_Status l)"
  shows "returns (status_in K) (cleanupEnvironment P R l)"
proof -
  have del: "returns (status_in K) (delete_owned_namespace P R s l n)" for s n
    unfolding delete_owned_namespace_def by (intro returns_rules) (auto simp: assms split: option.split)
  have "returns (status_in K) (cleanup_on P R s l n)" for s n
    unfolding cleanup_on_def by (intro returns_rules del) (simp add: assms)+
  then show ?thesis
    unfolding cleanupEnvironment_def Let_def by (intro returns_rules) (simp_all add: assms)
qed

lemma emits_cleanup: "emits (status_write W) (cleanupEnvironment P R l)"
  unfolding cleanupEnvironment_def cleanup_on_def delete_owned_namespace_def Let_def
  by (intro emits_rules) simp_all

lemma cleanup_error_status:
  assumes "retry_lib P" "K (el_Status l)" "\<And>l. W (el_Status (obs l)) \<longleftrightarrow> W (el_Status l)"
  shows "emits (status_write W) (cleanup_error P R obs l before err)"
  unfolding cleanup_error_def Let_def
  by (intro emits_rules emits_patch_status [OF assms(1)]) (simp_all add: assms(2,3) outer.markers cleaned)

lemma reconcileExpired_status:
  assumes "retry_lib P"
    and marked: "\<And>x. st_ExpirationReason (el_Status l) = NoExpirationReason \<or> x = st_ExpirationReason (el_Status l)
      \<Longrightarrow> K (el_Status (MarkExpired (pf_lib P) l x))"
  shows "emits (status_write W) (reconcileExpired P R l before ph)"
proof -
  have reason: "returns (\<lambda>x. st_ExpirationReason (el_Status l) = NoExpirationReason
      \<or> x = st_ExpirationReason (el_Status l)) (expiry_reason P l)"
    unfolding expiry_reason_def by (intro returns_rules) simp_all
  have finish: "emits (status_write W) (finish_expired P R l' before b)" if "K (el_Status l')" for l' b
    unfolding finish_expired_def
    by (intro emits_rules emits_patch_status [OF assms(1)] emits_removeLeaseFinalizer_status [OF assms(1)])
       (simp_all add: that outer.markers cleaned)
  have cleanup: "emits (status_write W) (State_Monad.bind (cleanupEnvironment P R l') (\<lambda>(x, l).
      case x of Inl err \<Rightarrow> cleanup_error P R EnsureObservedGeneration l before err
      | Inr done \<Rightarrow> if \<not> done then State_Monad.bind (patchStatusIfChanged P
              (EnsureObservedGeneration (MarkCleaning (pf_lib P) l ''Waiting for namespace deletion'')) before)
              (\<lambda>p. State_Monad.return (map_sum id (\<lambda>_. requeue_after cleanupRequeueAfter) p))
          else finish_expired P R l before b))"
    if "K (el_Status l')" for l' b
    by (rule emits_bind_returns [OF returns_cleanup [OF that] emits_cleanup])
       (auto intro!: emits_rules cleanup_error_status [OF assms(1)] emits_patch_status [OF assms(1)] finish
          simp: outer.markers cleaned)
  show ?thesis
    unfolding reconcileExpired_def Let_def
    by (rule emits_bind_returns [OF reason emits_expiry_reason]) (intro emits_rules cleanup marked; simp)
qed

lemma reconcileDelete_status:
  assumes "retry_lib P" "K ((el_Status (deletion_reason l))\<lparr>st_Phase := LeasePhaseCleaning\<rparr>)" "\<And>s. K s \<Longrightarrow> W s"
  shows "emits (status_write W) (reconcileDelete P R l)"
proof -
  let ?l = "MarkCleaning (pf_lib P) (deletion_reason l) ''Deleting managed environment''"
  have "K (el_Status ?l)" by (simp add: inner.markers assms(2))
  note cleaned_up = emits_bind_returns [OF returns_cleanup [OF this] emits_cleanup]
  have finish: "emits (status_write W) (finish_delete P R l' before)" if "K (el_Status l')" for l' before
    unfolding finish_delete_def
    by (intro emits_rules emits_patch_status [OF assms(1)] emits_removeLeaseFinalizer_status [OF assms(1)])
       (simp_all add: that outer.markers cleaned)
  have cleanup: "emits (status_write W) (State_Monad.bind (cleanupEnvironment P R ?l) (\<lambda>(x, l).
      case x of Inl err \<Rightarrow> cleanup_error P R id l before err
      | Inr done \<Rightarrow> if \<not> done then State_Monad.bind (patchStatusIfChanged P l before)
              (\<lambda>p. State_Monad.return (map_sum id (\<lambda>_. requeue_after cleanupRequeueAfter) p))
          else finish_delete P R l before))" for before
    by (rule cleaned_up)
       (auto intro!: emits_rules cleanup_error_status [OF assms(1), where obs = id, simplified]
          emits_patch_status [OF assms(1)] finish intro: assms(3))
  show ?thesis
    unfolding reconcileDelete_def Let_def by (intro emits_rules cleanup) simp_all
qed

end

section \<open>A run that writes\<close>

lemma status_written_iff:
  "list_ex (\<lambda>x. case x of StatusUpdateLease u \<Rightarrow> Q u | _ \<Rightarrow> False) es
     \<longleftrightarrow> (\<exists>u. StatusUpdateLease u \<in> set es \<and> Q u)"
  by (force simp: list_ex_iff split: effect.split_asm)

text \<open>On the platform with the doomed lease a reconcile really writes the status.\<close>

lemma doomed_run_writes_status:
  "list_ex (\<lambda>x. case x of StatusUpdateLease u \<Rightarrow> True | _ \<Rightarrow> False)
     (w_trace (snd (run_state (Reconcile doomed_platform demo_reconciler ''demo'') demo_world)))"
  by code_simp

end
