(* ===== verification/Lease_Phases.thy ===== *)
theory Lease_Phases
  imports Lease_Status Policy_Resolve
begin

text \<open>
  The phase of a lease against a specification. The documentation describes the phases as a progression; the
  reconciler computes the phase anew on every visit from what it finds. The specification is a step relation
  that says, for each situation a lease can be in, to which phases it may move; the result is that every status a
  reconcile writes is such a step. Nothing is assumed of the API servers.
\<close>

section \<open>The specification\<close>

text \<open>
  \<open>Doomed\<close>: the lease is being deleted. \<open>Rejected\<close>: its spec or its policy is not acceptable. \<open>Overdue\<close>: its effective
  deadline has passed. \<open>Serving\<close>: none of these.
\<close>

datatype situation = Doomed | Rejected | Overdue | Serving

inductive phase_step :: "situation \<Rightarrow> LeasePhase \<Rightarrow> LeasePhase \<Rightarrow> bool" where
  stays: "phase_step Serving p p"
| waits: "phase_step Serving p LeasePhasePending"
| starts: "phase_step Serving p LeasePhaseProvisioning"
| serves: "phase_step Serving p LeasePhaseActive"
| warns: "phase_step Serving p LeasePhaseExpiring"
| fails: "phase_step Serving p LeasePhaseFailed"
| rejects: "phase_step Rejected p LeasePhaseFailed"
| cleans: "s \<in> {Doomed, Overdue} \<Longrightarrow> phase_step s p LeasePhaseCleaning"
| ends: "s \<in> {Doomed, Overdue} \<Longrightarrow> phase_step s p LeasePhaseExpired"

inductive_simps phase_step_simps:
  "phase_step Doomed p q" "phase_step Rejected p q" "phase_step Overdue p q" "phase_step s p LeasePhaseActive"
  "phase_step s p LeasePhaseExpired" "phase_step s p LeasePhaseCleaning"

text \<open>A run of the machine in situations \<open>ss\<close> from one phase to another.\<close>

fun phase_run :: "situation list \<Rightarrow> LeasePhase \<Rightarrow> LeasePhase \<Rightarrow> bool" where
  "phase_run [] p q \<longleftrightarrow> p = q"
| "phase_run (s # ss) p q \<longleftrightarrow> (\<exists>p'. phase_step s p p' \<and> phase_run ss p' q)"

lemma phase_run_append: "phase_run (ss @ ss') p q \<longleftrightarrow> (\<exists>p'. phase_run ss p p' \<and> phase_run ss' p' q)"
  by (induction ss arbitrary: p) auto

text \<open>From a new lease, the phases of the end of life are reached only in a situation that ends it, and a doomed lease never leaves them.\<close>

lemma ended_only_if_due:
  assumes "phase_run ss p q" "q \<in> {LeasePhaseCleaning, LeasePhaseExpired}" "p \<notin> {LeasePhaseCleaning, LeasePhaseExpired}"
  shows "Doomed \<in> set ss \<or> Overdue \<in> set ss"
  using assms
proof (induction ss arbitrary: q rule: rev_induct)
  case (snoc s ss)
  then obtain q' where q': "phase_run ss p q'" "phase_step s q' q" by (auto simp: phase_run_append)
  show ?case
  proof (cases "s = Doomed \<or> s = Overdue")
    case False
    then have "q' = q" using q'(2) snoc.prems(2) by (cases s) (auto simp: phase_step_simps elim: phase_step.cases)
    then show ?thesis using snoc.IH [OF q'(1)] snoc.prems by auto
  qed auto
qed auto

lemma doomed_stays_ended: "phase_run (ss @ replicate (Suc n) Doomed) p q \<Longrightarrow> q \<in> {LeasePhaseCleaning, LeasePhaseExpired}"
proof -
  assume "phase_run (ss @ replicate (Suc n) Doomed) p q"
  then have "phase_run ((ss @ replicate n Doomed) @ [Doomed]) p q" by (simp add: replicate_append_same)
  then show ?thesis unfolding phase_run_append by (auto simp: phase_step_simps)
qed

section \<open>Situations of a lease\<close>

definition policy_missing :: "'w platform \<Rightarrow> EnvironmentLease \<Rightarrow> bool" where
  "policy_missing P l \<longleftrightarrow> ref_name (sp_PolicyRef (el_Spec l)) \<noteq> []
     \<and> (\<exists>err e e'. api_GetPolicy (pf_hub P) (ref_name (sp_PolicyRef (el_Spec l))) e = (Inl err, e'))"

fun in_situation :: "'w platform \<Rightarrow> EnvironmentLease \<Rightarrow> situation \<Rightarrow> bool" where
  "in_situation P l Doomed \<longleftrightarrow> \<not> ptr_is_zero (om_DeletionTimestamp (el_Meta l))"
| "in_situation P l Rejected \<longleftrightarrow> ptr_is_zero (om_DeletionTimestamp (el_Meta l))
     \<and> (ValidateSpec l \<noteq> None \<or> policy_missing P l
        \<or> (\<exists>pol err. policy_read P l pol \<and> Resolve (el_Spec l) pol = Inl err))"
| "in_situation P l Overdue \<longleftrightarrow> ptr_is_zero (om_DeletionTimestamp (el_Meta l)) \<and> ValidateSpec l = None
     \<and> expired_at_reading P l"
| "in_situation P l Serving \<longleftrightarrow> ptr_is_zero (om_DeletionTimestamp (el_Meta l)) \<and> ValidateSpec l = None
     \<and> (\<exists>pol r t n. policy_read P l pol \<and> Resolve (el_Spec l) pol = Inr r
          \<and> clock_reads P t \<and> clock_reads P n \<and> n < lease_deadline l r t)"

text \<open>A phase that the API server reported, in answer to a read or to a write.\<close>

definition served_phase :: "'w platform \<Rightarrow> LeasePhase \<Rightarrow> bool" where
  "served_phase P p \<longleftrightarrow> (\<exists>l. st_Phase (el_Status l) = p
     \<and> ((\<exists>n e e'. api_GetLease (pf_hub P) n e = (Inr l, e')) \<or> (\<exists>u e e'. api_StatusUpdateLease (pf_hub P) u e = (Inr l, e'))))"

definition machine_step :: "'w platform \<Rightarrow> EnvironmentLease \<Rightarrow> EnvironmentLeaseStatus \<Rightarrow> bool" where
  "machine_step P l s \<longleftrightarrow> (\<exists>sit p. in_situation P l sit \<and> served_phase P p \<and> phase_step sit p (st_Phase s))"

lemma machine_stepI:
  "\<lbrakk>in_situation P l sit; served_phase P p; phase_step sit p (st_Phase s)\<rbrakk> \<Longrightarrow> machine_step P l s"
  unfolding machine_step_def by blast

lemma served_phase_read: "api_GetLease (pf_hub P) n e = (Inr l, e') \<Longrightarrow> served_phase P (st_Phase (el_Status l))"
  unfolding served_phase_def by blast

lemma served_phase_stored: "api_StatusUpdateLease (pf_hub P) u e = (Inr l, e') \<Longrightarrow> served_phase P (st_Phase (el_Status l))"
  unfolding served_phase_def by blast

section \<open>Through the handlers\<close>

definition serving_phase :: "'w platform \<Rightarrow> EnvironmentLeaseStatus \<Rightarrow> bool" where
  "serving_phase P s \<longleftrightarrow> (\<exists>p. served_phase P p \<and> phase_step Serving p (st_Phase s))"

text \<open>Inside the cleanup an overdue lease is Expiring, a doomed one Cleaning; what is written afterwards is an end.\<close>

definition in_phase :: "LeasePhase \<Rightarrow> EnvironmentLeaseStatus \<Rightarrow> bool" where
  "in_phase p s \<longleftrightarrow> st_Phase s = p"

definition ending_phase :: "EnvironmentLeaseStatus \<Rightarrow> bool" where
  "ending_phase s \<longleftrightarrow> st_Phase s \<in> {LeasePhaseCleaning, LeasePhaseExpired}"

lemma serving_phase_served: "served_phase P (st_Phase s) \<Longrightarrow> serving_phase P s"
  unfolding serving_phase_def by (blast intro: stays)

lemma serving_phase_frame [simp]:
  "serving_phase P (s\<lparr>st_Conditions := cs\<rparr>) \<longleftrightarrow> serving_phase P s"
  "serving_phase P (s\<lparr>st_ObservedGeneration := g\<rparr>) \<longleftrightarrow> serving_phase P s"
  "serving_phase P (s\<lparr>st_Cluster := c\<rparr>) \<longleftrightarrow> serving_phase P s"
  "serving_phase P (s\<lparr>st_Effective := x\<rparr>) \<longleftrightarrow> serving_phase P s"
  "serving_phase P (s\<lparr>st_WarningsDelivered := d\<rparr>) \<longleftrightarrow> serving_phase P s"
  "serving_phase P (s\<lparr>st_Namespace := ns\<rparr>) \<longleftrightarrow> serving_phase P s"
  by (simp_all add: serving_phase_def)

lemma serving_phase_moves:
  "\<lbrakk>serving_phase P s; p \<in> {LeasePhasePending, LeasePhaseProvisioning, LeasePhaseActive, LeasePhaseExpiring, LeasePhaseFailed}\<rbrakk>
     \<Longrightarrow> serving_phase P (s\<lparr>st_Phase := p\<rparr>)"
  unfolding serving_phase_def by (auto intro: phase_step.intros)

lemma persist_status_serving:
  assumes "serving_phase P (el_Status l)"
  shows "emits (status_write (serving_phase P)) (persist_status P what l r n)"
    "returns (status_in (serving_phase P)) (persist_status P what l r n)"
proof -
  show "emits (status_write (serving_phase P)) (persist_status P what l r n)"
    unfolding persist_status_def
    by (intro emits_bind emits_act emits_sum emits_return emits_call) (simp add: assms)
  have served: "serving_phase P (el_Status (set_cluster c (set_effective x l)))" if "served_phase P (st_Phase (el_Status l))" for c x l
    using serving_phase_served [OF that] by (simp add: set_cluster_def set_effective_def)
  show "returns (status_in (serving_phase P)) (persist_status P what l r n)"
    unfolding persist_status_def act_def State_Monad.bind_assoc
    by (rule returns_bind_any, rule returns_bind_call, rule returns_sum, rule returns_return, simp add: assms,
        rule returns_bind_call, rule returns_return)
       (auto intro: served served_phase_read serving_phase_served served_phase_stored split: sum.split)
qed

interpretation phases_active: active_status "serving_phase P" P R "\<lambda>_ _. True" for P R
proof unfold_locales
  fix l :: EnvironmentLease and sess assume "serving_phase P (el_Status l)"
  show "returns (\<lambda>x. case x of Inl _ \<Rightarrow> True | Inr (n, _) \<Rightarrow> True) (ensureNamespace P R sess l)"
    by (simp add: returns_def split: sum.split)
next
  fix l :: EnvironmentLease and ph r n assume "serving_phase P (el_Status l)"
  then show "emits (status_write (serving_phase P)) (persist_cluster P l ph r n)"
    "returns (status_in (serving_phase P)) (persist_cluster P l ph r n)"
    by (simp_all add: persist_cluster_def persist_status_serving emits_return returns_return)
next
  fix l :: EnvironmentLease and ns r n assume "serving_phase P (el_Status l)"
  then show "emits (status_write (serving_phase P)) (persist_namespace P l ns r n)"
    "returns (status_in (serving_phase P)) (persist_namespace P l ns r n)"
    by (simp_all add: persist_namespace_def persist_status_serving emits_return returns_return)
qed (auto intro: serving_phase_moves)

interpretation phases_cleanup: cleanup_status "in_phase p" ending_phase for p
  by unfold_locales (auto simp: in_phase_def ending_phase_def)

section \<open>The whole reconciler\<close>

lemma returns_fetchPolicy_missing:
  "returns (\<lambda>x. case x of Inr pol \<Rightarrow> policy_read P l pol | Inl _ \<Rightarrow> policy_missing P l) (fetchPolicy P l)"
proof (cases "ref_name (sp_PolicyRef (el_Spec l)) = []")
  case True
  then show ?thesis by (simp add: fetchPolicy_def returns_def policy_read_def)
next
  case False
  then show ?thesis
    unfolding fetchPolicy_def Let_def if_not_P [OF False]
    by (intro returns_bind_call returns_return) (auto simp: policy_read_def policy_missing_def split: sum.split)
qed

lemma machine_write:
  assumes "emits (status_write K) m" "\<And>s. K s \<Longrightarrow> machine_step P l s"
  shows "emits (status_write (machine_step P l)) m"
  by (rule emits_mono [OF assms(1)], erule status_write_mono, rule assms(2))

lemma machine_ends:
  assumes "in_situation P l sit" "sit \<in> {Doomed, Overdue}" "served_phase P p" "ending_phase s"
  shows "machine_step P l s"
  using assms(4) cleans [OF assms(2)] ends [OF assms(2)]
  by (auto simp: ending_phase_def intro!: machine_stepI [OF assms(1,3)])

lemma emits_rejected_machine:
  assumes "retry_lib P" "in_situation P l Rejected" "served_phase P p" "list_all (status_write (in_phase LeasePhaseFailed)) es"
  shows "emits (status_write (machine_step P l)) (reject_lease P l' before reason err es)"
  by (rule machine_write [OF phases_cleanup.inner.emits_reject [OF assms(1) _ assms(4)]])
     (use assms(2,3) in \<open>auto simp: in_phase_def simp del: in_situation.simps intro!: machine_stepI rejects\<close>)

lemma emits_live_machine:
  assumes "retry_lib P" "ptr_is_zero (om_DeletionTimestamp (el_Meta l))" "ValidateSpec l = None"
    and "served_phase P (st_Phase (el_Status l))" "policy_read P l pol" "Resolve (el_Spec l) pol = Inr r" "clock_reads P t"
    and "timed l r t l1" "re_TTL r \<le> re_MaxTTL r" "st_Phase (el_Status l1) = st_Phase (el_Status l)"
  shows "emits (status_write (machine_step P l))
    (reconcile_live P R (SyncExpirationStatus l1 (re_IdleTTL r) t2) before ph pe r pol)"
proof -
  let ?l = "SyncExpirationStatus l1 (re_IdleTTL r) t2"
  have phase: "st_Phase (el_Status ?l) = st_Phase (el_Status l)"
    using assms(10) by (simp add: SyncExpirationStatus_def Let_def split: option.split)
  have expired: "emits (status_write (machine_step P l)) (reconcileExpired P R ?l before ph)"
    if "clock_reads P n" "IsExpired ?l n" for n
  proof (rule machine_write [OF phases_cleanup.reconcileExpired_status [where p = LeasePhaseExpiring, OF assms(1)]])
    have "in_situation P l Overdue"
      using that IsExpired_timed [OF assms(8,9)] assms(2,3,5,6,7) by (auto simp: expired_at_reading_def)
    then show "machine_step P l s" if "ending_phase s" for s
      by (rule machine_ends [OF _ _ assms(4) that]) simp
  qed (simp add: in_phase_def)
  have active: "emits (status_write (machine_step P l)) (State_Monad.bind (reconcileActive P R ?l ph r pol) (\<lambda>(x, l).
      State_Monad.bind (patchStatusIfChanged P (EnsureObservedGeneration l) before)
        (\<lambda>p. State_Monad.return (case p of Inl perr \<Rightarrow> Inl perr | Inr _ \<Rightarrow> x))))"
    if "clock_reads P n" "\<not> IsExpired ?l n" for n
  proof (rule machine_write [OF phases_active.emits_active_patched [OF assms(1)]])
    show "serving_phase P (el_Status ?l)" using assms(4) phase by (intro serving_phase_served) simp
  next
    fix s assume "serving_phase P s"
    moreover have "in_situation P l Serving"
      using that IsExpired_timed [OF assms(8,9)] assms(2,3,5,6,7) by (auto simp: not_le)
    ultimately show "machine_step P l s" unfolding serving_phase_def by (blast intro: machine_stepI)
  qed
  show ?thesis
    unfolding reconcile_live_def
    by (rule emits_bind [OF emits_renewal_status], rule emits_bind_now) (intro emits_if expired active)
qed

lemma timed_phase:
  assumes "EnsureTimestamps (set_effective x l) ttl mx ren t = Inr (l1, ch, rej)"
  shows "st_Phase (el_Status l1) = st_Phase (el_Status l)"
  by (simp add: EnsureTimestamps_Inr(3) [OF assms] stamp_def set_effective_def)

lemma emits_spec_machine:
  assumes "retry_lib P" "ptr_is_zero (om_DeletionTimestamp (el_Meta l))" "served_phase P (st_Phase (el_Status l))"
  shows "emits (status_write (machine_step P l)) (reconcile_spec P R l)"
proof -
  note reject = emits_rejected_machine [OF assms(1) _ assms(3)]
  have stamped: "emits (status_write (machine_step P l))
      (case EnsureTimestamps (set_effective (ToEffectiveStatus r) l) (re_TTL r) (re_MaxTTL r) (re_Renewable r) t of
         Inl err \<Rightarrow> reject_lease P (set_effective (ToEffectiveStatus r) l) before ReasonInvalidConfiguration err []
       | Inr (l1, _, rej) \<Rightarrow> State_Monad.bind (now P) (\<lambda>n.
           reconcile_live P R (SyncExpirationStatus (if rej
               then SetCondition (pf_lib P) l1 ConditionDegraded ConditionTrue ReasonRenewalRejected
                      ''TTL increase ignored because lease is not renewable'' else l1) (re_IdleTTL r) n)
             before ph pe r pol))"
    if "ValidateSpec l = None" "policy_read P l pol" "Resolve (el_Spec l) pol = Inr r" "clock_reads P t" for pol r t before ph pe
  proof -
    note valid = that
    obtain l1 ch rej where st: "EnsureTimestamps (set_effective (ToEffectiveStatus r) l) (re_TTL r) (re_MaxTTL r)
        (re_Renewable r) t = Inr (l1, ch, rej)"
      using resolve_enables_timestamps [OF valid(3)] by metis
    show ?thesis
      unfolding st sum.case prod.case
      by (intro emits_bind emits_now emits_live_machine [OF assms(1,2) valid(1) assms(3) valid(2,3,4)])
         (use timed_EnsureTimestamps [OF st] timed_phase [OF st] in \<open>auto simp: SetCondition_def\<close>)
  qed
  show ?thesis
    unfolding reconcile_spec_def Let_def
    by (intro emits_option emits_bind_returns [OF returns_fetchPolicy_missing emits_fetchPolicy] emits_sum emits_bind_now stamped reject)
       (use assms(2) in \<open>auto simp: list_all_iff\<close>)
qed

lemma Reconcile_machine:
  assumes "retry_lib P" "api_GetLease (pf_hub P) name (w_env w) = (Inr l, e)" "run_state (Reconcile P R name) w = (x, w')"
  obtains es where "w_trace w' = w_trace w @ es" "list_all (status_write (machine_step P l)) es"
proof -
  have served: "served_phase P (st_Phase (el_Status l))" by (rule served_phase_read [OF assms(2)])
  have doomed: "emits (status_write (machine_step P l)) (reconcileDelete P R l)"
    if "\<not> ptr_is_zero (om_DeletionTimestamp (el_Meta l))"
    by (rule machine_write [OF phases_cleanup.reconcileDelete_status [where p = LeasePhaseCleaning, OF assms(1)]])
       (use that served in \<open>auto simp: ending_phase_def in_phase_def intro: machine_ends [where sit = Doomed]\<close>)
  have "emits (status_write (machine_step P l)) (reconcile_found P R l)"
    unfolding reconcile_found_def Let_def
    by (intro emits_rules doomed emits_spec_machine assms(1) served) simp_all
  moreover have "run_state (reconcile_found P R l) (w\<lparr>w_env := e\<rparr>) = (x, w')"
    using assms(3) run_Reconcile [OF assms(2)] by simp
  ultimately obtain es where "w_trace w' = w_trace (w\<lparr>w_env := e\<rparr>) @ es" "list_all (status_write (machine_step P l)) es"
    by (rule emitsD)
  then show thesis by (intro that) simp_all
qed

section \<open>Property\<close>

text \<open>
  C7. Every phase a reconcile writes is a step of the specification, from a phase the API server reported and in a
  situation the lease is in: a lease being deleted or past its deadline becomes Cleaning or Expired, a rejected one
  Failed, and only a lease with an acceptable spec at a clock reading before its deadline becomes Active or Expiring.
\<close>

theorem written_phases_refine_the_machine:
  assumes "retry_lib P" and "api_GetLease (pf_hub P) name (w_env w) = (Inr l, e)"
    and "run_state (Reconcile P R name) w = (x, w')"
  shows "\<exists>es. w_trace w' = w_trace w @ es \<and> (\<forall>u. StatusUpdateLease u \<in> set es \<longrightarrow>
    (\<exists>sit p. in_situation P l sit \<and> served_phase P p \<and> phase_step sit p (st_Phase (el_Status u))))"
proof -
  obtain es where es: "w_trace w' = w_trace w @ es" "list_all (status_write (machine_step P l)) es"
    by (rule Reconcile_machine [OF assms])
  have "machine_step P l (el_Status u)" if "StatusUpdateLease u \<in> set es" for u
    using es(2) that by (auto simp: list_all_iff)
  with es(1) show ?thesis unfolding machine_step_def by blast
qed

theorem written_phases_refine_the_machine_witness:
  "\<exists>u. StatusUpdateLease u \<in> set (w_trace (snd (run_state (Reconcile doomed_platform demo_reconciler ''demo'') demo_world)))
     \<and> st_Phase (el_Status u) \<in> {LeasePhaseCleaning, LeasePhaseExpired}"
proof -
  obtain u where u: "StatusUpdateLease u \<in> set (w_trace (snd (run_state
      (Reconcile doomed_platform demo_reconciler ''demo'') demo_world)))"
    using doomed_run_writes_status unfolding status_written_iff by blast
  moreover obtain sit p where "in_situation doomed_platform doomed_lease sit" "phase_step sit p (st_Phase (el_Status u))"
    using written_phases_refine_the_machine [OF doomed_platform_laws(1), of "''demo''" demo_world doomed_lease "()",
        OF _ prod.collapse [symmetric], of demo_reconciler] u
    by (auto simp: demo_world_env)
  moreover have "\<not> ptr_is_zero (om_DeletionTimestamp (el_Meta doomed_lease))"
    by (simp add: ptr_is_zero_def zero_time_def)
  ultimately show ?thesis by (cases sit) (auto simp: phase_step_simps)
qed

end
