(* ===== verification/Triples.thy ===== *)
theory Triples
  imports Platform
begin

text \<open>
  What a program is bound to do. \<open>emits\<close> and \<open>returns\<close> of \<open>Platform\<close> bound what a program may do;
  a claim that something does happen needs the state in between. \<open>triple P m Q\<close> says that from every world in
  \<open>P\<close> the program ends, and its result and final world satisfy \<open>Q\<close>. Programs are total functions, so there is
  nothing partial about it. The rules follow the structure of a program; a step that is of no interest is passed
  with what \<open>emits\<close> and \<open>returns\<close> say of it.
\<close>

section \<open>Rules\<close>

definition triple ::
  "('w world \<Rightarrow> bool) \<Rightarrow> ('w, 'a) prog \<Rightarrow> ('a \<Rightarrow> 'w world \<Rightarrow> bool) \<Rightarrow> bool" where
  "triple P m Q \<longleftrightarrow> (\<forall>w. P w \<longrightarrow> (case run_state m w of (a, w') \<Rightarrow> Q a w'))"

lemma tripleD: "triple P m Q \<Longrightarrow> P w \<Longrightarrow> run_state m w = (a, w') \<Longrightarrow> Q a w'"
  unfolding triple_def by fastforce

lemma triple_return: "(\<And>w. P w \<Longrightarrow> Q a w) \<Longrightarrow> triple P (State_Monad.return a) Q"
  by (simp add: triple_def)

lemma triple_bind:
  assumes "triple P m R" and "\<And>a. triple (R a) (f a) Q"
  shows "triple P (State_Monad.bind m f) Q"
  unfolding triple_def
proof (intro allI impI)
  fix w assume "P w"
  obtain a w1 where m: "run_state m w = (a, w1)" by fastforce
  have "R a w1" by (rule tripleD [OF assms(1) \<open>P w\<close> m])
  then show "case run_state (State_Monad.bind m f) w of (b, w2) \<Rightarrow> Q b w2"
    using assms(2) [of a] by (simp add: triple_def m)
qed

lemma triple_call:
  "(\<And>w a e. P w \<Longrightarrow> f (w_env w) = (a, e) \<Longrightarrow> Q a (w\<lparr>w_env := e\<rparr>)) \<Longrightarrow> triple P (call f) Q"
  by (auto simp: triple_def split: prod.split)

lemma triple_emit:
  "(\<And>w. P w \<Longrightarrow> Q () (w\<lparr>w_trace := w_trace w @ [x]\<rparr>)) \<Longrightarrow> triple P (emit x) Q"
  by (simp add: triple_def)

lemma triple_act:
  assumes "\<And>w a e. P w \<Longrightarrow> f (w_env w) = (a, e) \<Longrightarrow> Q a (w\<lparr>w_trace := w_trace w @ [x], w_env := e\<rparr>)"
  shows "triple P (act x f) Q"
  unfolding triple_def
proof (intro allI impI)
  fix w assume "P w"
  obtain a e where "f (w_env w) = (a, e)" by fastforce
  with assms [OF \<open>P w\<close>] show "case run_state (act x f) w of (a, w') \<Rightarrow> Q a w'"
    by (simp add: act_def split: prod.splits)
qed

lemma triple_conseq:
  "triple P m Q \<Longrightarrow> (\<And>w. P' w \<Longrightarrow> P w) \<Longrightarrow> (\<And>a w. Q a w \<Longrightarrow> Q' a w) \<Longrightarrow> triple P' m Q'"
  unfolding triple_def by fastforce

lemma triple_pre: "(\<And>w. P w \<Longrightarrow> A) \<Longrightarrow> (A \<Longrightarrow> triple P m Q) \<Longrightarrow> triple P m Q"
  unfolding triple_def by fastforce

section \<open>Growing traces\<close>

text \<open>
  A claim about the trace that no further effect can undo. Steps of no interest carry it along.
\<close>

definition lasting :: "(effect list \<Rightarrow> bool) \<Rightarrow> bool" where
  "lasting F \<longleftrightarrow> (\<forall>es es'. F es \<longrightarrow> F (es @ es'))"

lemma lasting_mem [intro]: "lasting (\<lambda>es. x \<in> set es)" "lasting (\<lambda>es. \<exists>x. x \<in> set es \<and> Q x)"
  by (auto simp: lasting_def)

lemma lasting_conj [intro]: "lasting F \<Longrightarrow> lasting G \<Longrightarrow> lasting (\<lambda>es. F es \<and> G es)"
  by (simp add: lasting_def)

lemma lasting_True [intro]: "lasting (\<lambda>_. True)"
  by (simp add: lasting_def)

abbreviation logged :: "(effect list \<Rightarrow> bool) \<Rightarrow> 'w world \<Rightarrow> bool" where
  "logged F \<equiv> \<lambda>w. F (w_trace w)"

lemma triple_pass:
  fixes m :: "('w, 'a) prog"
  assumes "emits (\<lambda>_. True) m" "returns S m" "lasting F"
  shows "triple (logged F) m (\<lambda>a w. S a \<and> F (w_trace w))"
  unfolding triple_def
proof (intro allI impI)
  fix w :: "'w world" assume F: "F (w_trace w)"
  obtain a w1 where m: "run_state m w = (a, w1)" by fastforce
  obtain es where "w_trace w1 = w_trace w @ es" by (rule emitsD [OF assms(1) m])
  then show "case run_state m w of (a, w') \<Rightarrow> S a \<and> F (w_trace w')"
    using F assms(3) returnsD [OF assms(2) m] by (simp add: m lasting_def)
qed

lemma triple_trace:
  assumes "triple (logged F) m (\<lambda>a w. S a \<and> G (w_trace w))"
    and "\<And>a. S a \<Longrightarrow> triple (logged G) (f a) Q"
  shows "triple (logged F) (State_Monad.bind m f) Q"
  by (rule triple_bind [OF assms(1)]) (use assms(2) in \<open>auto simp: triple_def\<close>)

text \<open>The step is passed, the rest does the work; or the step does the work and the rest is passed.\<close>

lemma triple_later:
  assumes "returns S m" "emits (\<lambda>_. True) m" "lasting F"
    and "\<And>a. S a \<Longrightarrow> triple (logged F) (f a) Q"
  shows "triple (logged F) (State_Monad.bind m f) Q"
  by (rule triple_trace [OF triple_pass [OF assms(2,1,3)] assms(4)])

lemma triple_done:
  assumes "triple P m (\<lambda>_. logged F)" "\<And>a. emits (\<lambda>_. True) (f a)" "lasting F"
  shows "triple P (State_Monad.bind m f) (\<lambda>_. logged F)"
  by (rule triple_bind [OF assms(1)],
      rule triple_conseq [OF triple_pass [OF assms(2) _ assms(3), where S = "\<lambda>_. True"]])
     (simp_all add: returns_def)

lemma returns_any: "returns (\<lambda>_. True) m"
  by (simp add: returns_def)

section \<open>Steady assertions\<close>

text \<open>
  An assertion that calls to the platform and further effects cannot undo, for instance one about the
  outage tracker; \<open>carries m\<close>: the program consists of such steps only.
\<close>

definition steady :: "('w world \<Rightarrow> bool) \<Rightarrow> bool" where
  "steady A \<longleftrightarrow> (\<forall>w e. A w \<longrightarrow> A (w\<lparr>w_env := e\<rparr>)) \<and> (\<forall>w x. A w \<longrightarrow> A (w\<lparr>w_trace := w_trace w @ [x]\<rparr>))"

named_theorems carries_rules \<open>programs of calls and effects\<close>

definition carries :: "('w, 'a) prog \<Rightarrow> bool" where
  "carries m \<longleftrightarrow> (\<forall>A. steady A \<longrightarrow> triple A m (\<lambda>_. A))"

lemma steady_logged: "lasting F \<Longrightarrow> steady (logged F)"
  by (auto simp: steady_def lasting_def)

lemma carriesD: "carries m \<Longrightarrow> steady A \<Longrightarrow> triple A m (\<lambda>_. A)"
  by (simp add: carries_def)

lemma carries_return [carries_rules]: "carries (State_Monad.return a)"
  by (simp add: carries_def triple_return)

lemma carries_bind [carries_rules]:
  "carries m \<Longrightarrow> (\<And>a. carries (f a)) \<Longrightarrow> carries (State_Monad.bind m f)"
  unfolding carries_def by (blast intro: triple_bind)

lemma carries_call [carries_rules]: "carries (call f)"
  unfolding carries_def by (auto intro!: triple_call simp: steady_def)

lemma carries_emit [carries_rules]: "carries (emit x)"
  unfolding carries_def by (auto intro!: triple_emit simp: steady_def)

lemma carries_if [carries_rules]: "carries m \<Longrightarrow> carries n \<Longrightarrow> carries (if b then m else n)"
  by simp

lemma carries_option [carries_rules]:
  "carries m \<Longrightarrow> (\<And>y. carries (f y)) \<Longrightarrow> carries (case x of None \<Rightarrow> m | Some y \<Rightarrow> f y)"
  by (cases x) simp_all

lemma carries_sum [carries_rules]:
  "(\<And>e. carries (f e)) \<Longrightarrow> (\<And>y. carries (g y)) \<Longrightarrow> carries (case x of Inl e \<Rightarrow> f e | Inr y \<Rightarrow> g y)"
  by (cases x) simp_all

lemma carries_prod [carries_rules]:
  "(\<And>a b. carries (f a b)) \<Longrightarrow> carries (case x of (a, b) \<Rightarrow> f a b)"
  by (cases x) simp

lemma triple_through:
  assumes "returns S m" "triple A m (\<lambda>_. A)" and "\<And>a. S a \<Longrightarrow> triple A (f a) Q"
  shows "triple A (State_Monad.bind m f) Q"
proof (rule triple_bind)
  show "triple A m (\<lambda>a w. S a \<and> A w)"
    using assms(1,2) by (simp add: triple_def returns_def case_prod_beta)
  show "triple (\<lambda>w. S a \<and> A w) (f a) Q" for a
    by (rule triple_pre [where A = "S a"]) (auto elim: triple_conseq [OF assms(3)])
qed

lemma triple_carry:
  assumes "returns S m" "carries m" "steady A" and "\<And>a. S a \<Longrightarrow> triple A (f a) Q"
  shows "triple A (State_Monad.bind m f) Q"
  by (rule triple_through [OF assms(1) carriesD [OF assms(2,3)] assms(4)])

end
