(* ===== verification/Lease_Lifecycle.thy ===== *)
theory Lease_Lifecycle
  imports Lease_Runs Triples
begin

text \<open>
  The end of a lease, as something that happens: an expired environment is deleted, and an expired lease whose
  environment is gone is let go. The hypotheses say what the platform serves; the proofs follow the reconcile
  from the first read to the effect with the rules of \<open>Triples\<close>.
\<close>

section \<open>Reaching the handlers\<close>

definition policy_served :: "'w platform \<Rightarrow> EnvironmentLease \<Rightarrow> EnvironmentLeasePolicy option \<Rightarrow> bool" where
  "policy_served P l pol \<longleftrightarrow>
     (let name = ref_name (sp_PolicyRef (el_Spec l))
      in if name = [] then pol = None
         else \<exists>p. pol = Some p \<and> (\<forall>e. \<exists>e'. api_GetPolicy (pf_hub P) name e = (Inr p, e')))"

lemma returns_fetchPolicy_served:
  assumes "policy_served P l pol"
  shows "returns (\<lambda>r. r = Inr pol) (fetchPolicy P l)"
proof (cases "ref_name (sp_PolicyRef (el_Spec l)) = []")
  case True
  then show ?thesis using assms by (simp add: fetchPolicy_def returns_def policy_served_def)
next
  case False
  then obtain p where p: "pol = Some p" "\<And>e. \<exists>e'. api_GetPolicy (pf_hub P) (ref_name (sp_PolicyRef (el_Spec l))) e = (Inr p, e')"
    using assms by (auto simp: policy_served_def Let_def)
  have "r = Inr p" if "api_GetPolicy (pf_hub P) (ref_name (sp_PolicyRef (el_Spec l))) e = (r, e')" for r e e'
    using p(2) [of e] that by auto
  then show ?thesis
    unfolding fetchPolicy_def Let_def if_not_P [OF False]
    by (intro returns_bind_call returns_return) (fastforce simp: p(1))
qed

text \<open>A live lease with the finalizer and a valid spec reaches \<open>reconcile_live\<close> with its deadline computed.\<close>

definition admissible :: "'w platform \<Rightarrow> EnvironmentLease \<Rightarrow> EnvironmentLeasePolicy option \<Rightarrow> Resolved \<Rightarrow> bool" where
  "admissible P l pol r \<longleftrightarrow> ptr_is_zero (om_DeletionTimestamp (el_Meta l))
     \<and> FinalizerName \<in> set (om_Finalizers (el_Meta l)) \<and> ValidateSpec l = None
     \<and> policy_served P l pol \<and> Resolve (el_Spec l) pol = Inr r"

lemma carries_reads [carries_rules]: "carries (fetchPolicy P l)" "carries (now P)" "carries (event R et rs m)"
  unfolding fetchPolicy_def now_def event_def Let_def by (intro carries_rules)+

lemma reaches_live_keeping:
  assumes "finalizers_lib (pf_lib P)" "admissible P l pol r"
    and keep: "triple A (fetchPolicy P l) (\<lambda>_. A)" "triple A (now P) (\<lambda>_. A)"
    and live: "\<And>t l1 t2. clock_reads P t \<Longrightarrow> timed l r t l1 \<Longrightarrow> clock_reads P t2 \<Longrightarrow>
      triple A (reconcile_live P R (SyncExpirationStatus l1 (re_IdleTTL r) t2)
        (DeepCopyStatus (el_Status l)) (st_Phase (el_Status l)) (st_ExpiresAt (el_Status l)) r pol) Q"
  shows "triple A (reconcile_found P R l) Q"
proof -
  have a: "ptr_is_zero (om_DeletionTimestamp (el_Meta l))" "FinalizerName \<in> set (om_Finalizers (el_Meta l))"
    "ValidateSpec l = None" "policy_served P l pol" "Resolve (el_Spec l) pol = Inr r"
    using assms(2) by (simp_all add: admissible_def)
  have fin: "ContainsFinalizer (pf_lib P) (om_Finalizers (el_Meta l)) FinalizerName"
    using assms(1) a by (simp add: finalizers_lib_def)
  have ttl: "0 < re_TTL r" "re_TTL r \<le> re_MaxTTL r"
    using Resolve_Inr(1,3) [of "el_Spec l" pol r] a by (auto simp: within_def split: option.splits)
  obtain l1 ch rej where stamped: "EnsureTimestamps (set_effective (ToEffectiveStatus r) l) (re_TTL r) (re_MaxTTL r)
      (re_Renewable r) t = Inr (l1 t, ch t, rej t)" for t
    using EnsureTimestamps_eq [OF ttl] by (simp add: Let_def)
  have tm: "timed l r t (if rej t then SetCondition (pf_lib P) (l1 t) ConditionDegraded ConditionTrue
      ReasonRenewalRejected ''TTL increase ignored because lease is not renewable'' else l1 t)" for t
    using timed_EnsureTimestamps(1) [OF stamped] timed_EnsureTimestamps(2) [OF stamped, where K = "pf_lib P"] by simp
  have "triple A (reconcile_spec P R l) Q"
    unfolding reconcile_spec_def Let_def a(3) option.case
  proof (rule triple_through [OF returns_fetchPolicy_served [OF a(4)] keep(1)], goal_cases)
    case (1 x)
    show ?case
      unfolding 1 sum.case a(5)
      by (rule triple_through [OF returns_now keep(2)], unfold stamped sum.case prod.case,
          rule triple_through [OF returns_now keep(2)], rule live [OF _ tm])
  qed
  then show ?thesis using a fin by (simp add: reconcile_found_def)
qed

lemmas reaches_live = reaches_live_keeping [OF _ _ carriesD [OF carries_reads(1)] carriesD [OF carries_reads(2)]]

section \<open>An expired environment\<close>

text \<open>
  The environment of a lease on the control cluster exists: every read of the recorded namespace returns
  one that carries the lease's marks and is not terminating.
\<close>

definition environment_present :: "'w platform \<Rightarrow> reconciler \<Rightarrow> EnvironmentLease \<Rightarrow> bool" where
  "environment_present P R l \<longleftrightarrow>
     (\<forall>e. \<exists>ns e'. api_GetNamespace (pf_cluster P) HubClient (st_Namespace (el_Status l)) e = (Inr ns, e')
        \<and> ns_Name ns = st_Namespace (el_Status l) \<and> ns_owned ns l (rec_ControlClusterID R)
        \<and> ptr_is_zero (om_DeletionTimestamp (ns_Meta ns)))"

definition environment_gone :: "'w platform \<Rightarrow> EnvironmentLease \<Rightarrow> bool" where
  "environment_gone P l \<longleftrightarrow>
     (\<forall>e. \<exists>err e'. api_GetNamespace (pf_cluster P) HubClient (st_Namespace (el_Status l)) e = (Inl err, e') \<and> IsNotFound err)"

text \<open>The recorded namespace has been asked to go.\<close>

definition deletion_requested :: "EnvironmentLease \<Rightarrow> effect list \<Rightarrow> bool" where
  "deletion_requested l es \<longleftrightarrow>
     (\<exists>ns. DeleteNamespace HubClient ns \<in> set es \<and> ns_Name ns = st_Namespace (el_Status l))"

lemma lasting_deletion_requested [intro]: "lasting (deletion_requested l)"
  by (auto simp: lasting_def deletion_requested_def)

definition same_environment :: "EnvironmentLease \<Rightarrow> EnvironmentLease \<Rightarrow> bool" where
  "same_environment l l' \<longleftrightarrow> el_Meta l' = el_Meta l \<and> el_Spec l' = el_Spec l
     \<and> st_Namespace (el_Status l') = st_Namespace (el_Status l)
     \<and> st_Cluster (el_Status l') = st_Cluster (el_Status l)"

lemma same_environmentD:
  assumes "same_environment l l'"
  shows "cleanable l' \<longleftrightarrow> cleanable l" "environment_present P R l' \<longleftrightarrow> environment_present P R l"
    "environment_gone P l' \<longleftrightarrow> environment_gone P l" "deletion_requested l' = deletion_requested l"
  using assms cleanable_cong [of l' l]
  by (simp_all add: same_environment_def environment_present_def environment_gone_def ns_owned_def recorded_identity_def
      deletion_requested_def fun_eq_iff)

lemma run_state_triple:
  assumes "\<And>w. run_state m w = run_state m' w" "triple P m' Q"
  shows "triple P m Q"
  using assms by (simp add: triple_def)

lemma cleanup_requests_deletion:
  assumes "cleanable l" "environment_present P R l"
  shows "triple (\<lambda>_. True) (cleanupEnvironment P R l) (\<lambda>_. logged (deletion_requested l))"
proof (rule run_state_triple [OF run_cleanup_local [OF assms(1)]], unfold triple_def, intro allI impI)
  fix w :: "'a world"
  obtain ns e where ns: "api_GetNamespace (pf_cluster P) HubClient (st_Namespace (el_Status l)) (w_env w) = (Inr ns, e)"
    "ns_Name ns = st_Namespace (el_Status l)" "ns_owned ns l (rec_ControlClusterID R)"
    "ptr_is_zero (om_DeletionTimestamp (ns_Meta ns))"
    using assms(2) unfolding environment_present_def by blast
  have "VerifyNamespaceOwnership (Some ns) l (rec_ControlClusterID R) = None"
    using ns(3) by (simp add: VerifyNamespaceOwnership_None_iff)
  then show "case run_state (delete_owned_namespace P R local_session l (st_Namespace (el_Status l))) w of
      (a, w') \<Rightarrow> deletion_requested l (w_trace w')"
    using ns by (auto simp: delete_owned_namespace_def local_session_def observeClusterOp_def act_def
        deletion_requested_def split: prod.split option.split)
qed

lemma extends_any: "emits Q m \<Longrightarrow> emits (\<lambda>_. True) m"
  by (erule emits_mono) simp

lemma reconcileExpired_requests_deletion:
  assumes "retry_lib P" "cleanable l" "environment_present P R l"
  shows "triple (\<lambda>_. True) (reconcileExpired P R l before ph) (\<lambda>_. logged (deletion_requested l))"
proof -
  have cleanup: "triple (logged (\<lambda>_. True)) (State_Monad.bind (cleanupEnvironment P R (MarkExpired (pf_lib P) l reason)) f)
      (\<lambda>_. logged (deletion_requested l))" if "\<And>x. emits (\<lambda>_. True) (f x)" for f reason
  proof -
    let ?l = "MarkExpired (pf_lib P) l reason"
    have "same_environment l ?l" by (simp add: same_environment_def)
    note same = same_environmentD [OF this]
    have "triple (\<lambda>_. True) (cleanupEnvironment P R ?l) (\<lambda>_. logged (deletion_requested l))"
      using cleanup_requests_deletion [of ?l P R] assms(2,3) by (simp add: same)
    then show ?thesis by (rule triple_done) (auto intro: that)
  qed
  have ext: "emits (\<lambda>_. True) (cleanup_error P R obs l' before err)" "emits (\<lambda>_. True) (finish_expired P R l' before b)"
    for obs l' err b
    using emits_cleanup_error [OF assms(1)] emits_finish_expired [OF assms(1)] by (blast intro: extends_any)+
  show ?thesis
    unfolding reconcileExpired_def Let_def
    by (rule triple_later [where F = "\<lambda>_. True", OF returns_any emits_expiry_reason lasting_True],
        rule triple_later [where F = "\<lambda>_. True", OF returns_any _ lasting_True])
       (intro cleanup emits_rules ext emits_patchStatusIfChanged [OF assms(1)]; simp)+
qed

section \<open>Letting an expired lease go\<close>

text \<open>The lease was written without its finalizer and then deleted.\<close>

definition unfinalized :: "effect list \<Rightarrow> bool" where
  "unfinalized es \<longleftrightarrow> (\<exists>u. UpdateLease u \<in> set es \<and> FinalizerName \<notin> set (om_Finalizers (el_Meta u)))"

definition lease_let_go :: "effect list \<Rightarrow> bool" where
  "lease_let_go es \<longleftrightarrow> (\<exists>es' d. es = es' @ [DeleteLease d] \<and> unfinalized es')"

lemma lasting_unfinalized [intro]: "lasting unfinalized"
  by (auto simp: lasting_def unfinalized_def)

lemma returns_patch_served:
  assumes "retry_lib P" "hub_serves P"
  shows "returns (\<lambda>x. \<exists>l'. x = Inr l') (patchStatusIfChanged P l before)"
  unfolding returns_def by (metis fst_conv run_patch_serves [OF assms])

lemma finalizer_removed:
  assumes "retry_lib P" "finalizers_lib (pf_lib P)" "hub_serves P"
  shows "triple (logged (\<lambda>_. True)) (removeLeaseFinalizer P l) (\<lambda>x w. x = Inr l \<and> unfinalized (w_trace w))"
  unfolding triple_def
proof (intro allI impI)
  fix w :: "'a world"
  obtain w' u where "run_state (removeLeaseFinalizer P l) w = (Inr l, w')"
    "w_trace w' = w_trace w @ [UpdateLease u]" "FinalizerName \<notin> set (om_Finalizers (el_Meta u))"
    by (rule run_remove_finalizer_serves [OF assms])
  then show "case run_state (removeLeaseFinalizer P l) w of (x, w) \<Rightarrow> x = Inr l \<and> unfinalized (w_trace w)"
    by (auto simp: unfinalized_def)
qed

lemma finish_expired_lets_go:
  assumes "retry_lib P" "finalizers_lib (pf_lib P)" "hub_serves P"
  shows "triple (\<lambda>_. True) (finish_expired P R l before b) (\<lambda>_. logged lease_let_go)"
proof -
  have del: "triple (logged unfinalized) (State_Monad.bind (act (DeleteLease d) (api_DeleteLease (pf_hub P) d)) f)
      (\<lambda>_. logged lease_let_go)" if "\<And>x. \<exists>y. f x = State_Monad.return y" for d f
  proof (rule triple_bind [where R = "\<lambda>_. logged lease_let_go"])
    show "triple (logged unfinalized) (act (DeleteLease d) (api_DeleteLease (pf_hub P) d)) (\<lambda>_. logged lease_let_go)"
      by (rule triple_act) (auto simp: lease_let_go_def)
    show "triple (logged lease_let_go) (f x) (\<lambda>_. logged lease_let_go)" for x
      using that [of x] by (auto intro: triple_return)
  qed
  have gone: "triple (logged (\<lambda>_. True)) (State_Monad.bind (removeLeaseFinalizer P l') (\<lambda>f. case f of
      Inl err \<Rightarrow> State_Monad.return (Inl (Wrapf ''remove finalizer: '' err))
    | Inr l \<Rightarrow> State_Monad.bind (act (DeleteLease l) (api_DeleteLease (pf_hub P) l)) (\<lambda>d.
        State_Monad.return (case d of None \<Rightarrow> Inr no_requeue
          | Some err \<Rightarrow> if IsNotFound err then Inr no_requeue else Inl (Wrapf ''delete expired lease: '' err)))))
    (\<lambda>_. logged lease_let_go)" for l'
    by (rule triple_trace [OF finalizer_removed [OF assms]]) (auto intro: del)
  show ?thesis
    unfolding finish_expired_def
    by (rule triple_later [where F = "\<lambda>_. True", OF returns_patch_served [OF assms(1,3)]
          emits_patchStatusIfChanged [OF assms(1)] lasting_True])
       (auto intro!: triple_later [where F = "\<lambda>_. True", OF returns_any _ lasting_True] emits_rules gone)
qed

lemma returns_cleanup_gone:
  assumes "cleanable l" "environment_gone P l"
  shows "returns (\<lambda>(x, l'). x = Inr True) (cleanupEnvironment P R l)"
  unfolding returns_def
proof
  fix w :: "'a world"
  obtain err e where g: "api_GetNamespace (pf_cluster P) HubClient (st_Namespace (el_Status l)) (w_env w) = (Inl err, e)"
    "IsNotFound err" using assms(2) unfolding environment_gone_def by blast
  show "case fst (run_state (cleanupEnvironment P R l) w) of (x, l') \<Rightarrow> x = Inr True"
    unfolding run_cleanup_local [OF assms(1)] run_delete_gone [OF g] by simp
qed

lemma reconcileExpired_lets_go:
  assumes "retry_lib P" "finalizers_lib (pf_lib P)" "hub_serves P" "namespace_reads P" "cleanable l" "environment_gone P l"
  shows "triple (\<lambda>_. True) (reconcileExpired P R l before ph) (\<lambda>_. logged lease_let_go)"
proof -
  have "same_environment l (MarkExpired (pf_lib P) l reason)" for reason by (simp add: same_environment_def)
  then have "cleanable (MarkExpired (pf_lib P) l reason)" "environment_gone P (MarkExpired (pf_lib P) l reason)" for reason
    using assms(5,6) same_environmentD(1,3) by blast+
  note cleaned = triple_later [where F = "\<lambda>_. True", OF returns_cleanup_gone [OF this] 
      extends_any [OF emits_cleanupEnvironment [OF assms(4)]] lasting_True]
  show ?thesis
    unfolding reconcileExpired_def Let_def
    by (rule triple_later [where F = "\<lambda>_. True", OF returns_any emits_expiry_reason lasting_True],
        rule triple_later [where F = "\<lambda>_. True", OF returns_any _ lasting_True])
       (auto intro!: cleaned emits_rules finish_expired_lets_go [OF assms(1-3)])
qed

text \<open>An expired lease reaches \<open>reconcileExpired\<close>, with the environment it recorded.\<close>

lemma reaches_expired:
  assumes "finalizers_lib (pf_lib P)" "admissible P l pol r"
    and late: "\<And>t n. clock_reads P t \<Longrightarrow> clock_reads P n \<Longrightarrow> lease_deadline l r t \<le> n"
    and expired: "\<And>l' before ph. same_environment l l' \<Longrightarrow> triple (\<lambda>_. True) (reconcileExpired P R l' before ph) (\<lambda>_. logged G)"
  shows "triple (\<lambda>_. True) (reconcile_found P R l) (\<lambda>_. logged G)"
proof (rule reaches_live [OF assms(1,2)])
  show "steady (\<lambda>_. True)" "steady (\<lambda>_. True)" by (simp_all add: steady_def)
next
  fix t l1 t2 assume t: "clock_reads P t" "timed l r t l1"
  let ?l = "SyncExpirationStatus l1 (re_IdleTTL r) t2"
  have ttl: "re_TTL r \<le> re_MaxTTL r" using Resolve_Inr(3) assms(2) unfolding admissible_def by blast
  have env: "same_environment l ?l" using t(2) by (simp add: same_environment_def timed_def)
  have past: "IsExpired ?l n" if "clock_reads P n" for n
    using IsExpired_timed [OF t(2) ttl] late t(1) that by simp
  show "triple (\<lambda>_. True) (reconcile_live P R ?l (DeepCopyStatus (el_Status l)) (st_Phase (el_Status l))
      (st_ExpiresAt (el_Status l)) r pol) (\<lambda>_. logged G)"
    unfolding reconcile_live_def
    by (intro triple_later [where F = "\<lambda>_. True", OF returns_any _ lasting_True]
        triple_later [where F = "\<lambda>_. True", OF returns_now emits_now lasting_True] emits_rules)
       (simp_all add: past expired [OF env])
qed

lemma triple_Reconcile:
  assumes "api_GetLease (pf_hub P) name (w_env w) = (Inr l, e)"
    and "triple (\<lambda>_. True) (reconcile_found P R l) (\<lambda>_. logged G)"
  shows "G (w_trace (snd (run_state (Reconcile P R name) w)))"
  using tripleD [OF assms(2) _ prod.collapse [symmetric]] by (simp add: run_Reconcile [OF assms(1)])

section \<open>Properties\<close>

text \<open>
  C4. The promise of a lease is kept. For a live lease with a valid spec whose environment is on the control
  cluster, when every reading of the clock is at or past the effective deadline of the resolved spec and the
  recorded namespace exists with the lease's marks, one reconcile asks the cluster to delete that namespace,
  whatever else the API servers answer.
\<close>

theorem expired_environment_is_deleted:
  assumes "retry_lib P" and "finalizers_lib (pf_lib P)"
    and "api_GetLease (pf_hub P) name (w_env w) = (Inr l, e)"
    and "admissible P l pol r"
    and "\<And>t n. clock_reads P t \<Longrightarrow> clock_reads P n \<Longrightarrow> lease_deadline l r t \<le> n"
    and "cleanable l" and "environment_present P R l"
  shows "deletion_requested l (w_trace (snd (run_state (Reconcile P R name) w)))"
proof (rule triple_Reconcile [OF assms(3) reaches_expired [OF assms(2,4,5)]])
  fix l' before ph assume "same_environment l l'"
  note same = same_environmentD [OF this]
  show "triple (\<lambda>_. True) (reconcileExpired P R l' before ph) (\<lambda>_. logged (deletion_requested l))"
    using reconcileExpired_requests_deletion [OF assms(1), of l' R before ph] assms(6,7) by (simp add: same)
qed

text \<open>
  An expired lease is let go. Under the same conditions, once the API server answers that the recorded namespace is
  gone and as long as the control cluster serves the lease and accepts writes, one reconcile writes the lease
  without its finalizer and then, as its last effect, deletes it.
\<close>

theorem expired_lease_is_let_go:
  assumes "retry_lib P" and "finalizers_lib (pf_lib P)" and "hub_serves P" and "namespace_reads P"
    and "api_GetLease (pf_hub P) name (w_env w) = (Inr l, e)"
    and "admissible P l pol r"
    and "\<And>t n. clock_reads P t \<Longrightarrow> clock_reads P n \<Longrightarrow> lease_deadline l r t \<le> n"
    and "cleanable l" and "environment_gone P l"
  shows "lease_let_go (w_trace (snd (run_state (Reconcile P R name) w)))"
proof (rule triple_Reconcile [OF assms(5) reaches_expired [OF assms(2,6,7)]])
  fix l' before ph assume same: "same_environment l l'"
  then have "cleanable l'" "environment_gone P l'"
    using assms(8,9) by (simp_all add: same_environmentD [OF same])
  then show "triple (\<lambda>_. True) (reconcileExpired P R l' before ph) (\<lambda>_. logged lease_let_go)"
    by (rule reconcileExpired_lets_go [OF assms(1-4)])
qed

section \<open>Witnesses\<close>

text \<open>A lease of ten nanoseconds, created at 20, on a platform whose clock shows 50.\<close>

definition late_lease :: EnvironmentLease where
  "late_lease = demo_lease\<lparr>
     el_Meta := (el_Meta demo_lease)\<lparr>om_Finalizers := [FinalizerName]\<rparr>,
     el_Spec := zero_lease_spec\<lparr>sp_TTL := Some 10, sp_Namespace := zero_namespace_spec\<lparr>nss_Name := ''env''\<rparr>\<rparr>,
     el_Status := zero_lease_status\<lparr>st_Namespace := ''env'', st_CreatedAt := Some 20\<rparr>\<rparr>"

definition late_resolved :: Resolved where
  "late_resolved = \<lparr>re_PolicyName = [], re_TTL = 10, re_MaxTTL = 10, re_IdleTTL = 0, re_Renewable = True,
     re_Quota = None, re_NetworkPolicy = None, re_DefaultDeny = False\<rparr>"

definition late_hub :: "unit hub_api" where
  "late_hub = demo_hub\<lparr>api_GetLease := (\<lambda>n w. (Inr late_lease, w))\<rparr>"

definition late_platform :: "unit platform" where
  "late_platform = doomed_platform\<lparr>pf_hub := late_hub\<rparr>"

definition late_gone_platform :: "unit platform" where
  "late_gone_platform = gone_platform\<lparr>pf_hub := late_hub\<rparr>"

lemma late_lease_fields [simp]:
  "el_Name late_lease = ''demo''" "el_UID late_lease = ''uid-1''" "st_Namespace (el_Status late_lease) = ''env''"
  "om_DeletionTimestamp (el_Meta late_lease) = None" "om_Finalizers (el_Meta late_lease) = [FinalizerName]"
  "el_Spec late_lease = zero_lease_spec\<lparr>sp_TTL := Some 10, sp_Namespace := zero_namespace_spec\<lparr>nss_Name := ''env''\<rparr>\<rparr>"
  "st_CreatedAt (el_Status late_lease) = Some 20" "st_ExpiresAt (el_Status late_lease) = None"
  "st_Cluster (el_Status late_lease) = None"
  by (simp_all add: late_lease_def demo_lease_def zero_defs)

lemma late_lease_admissible: "admissible P late_lease None late_resolved"
proof -
  have "ValidateSpec late_lease = None" by code_simp
  moreover have "Resolve (el_Spec late_lease) None = Inr late_resolved"
    by (simp add: resolve_defs late_resolved_def zero_defs Let_def)
  ultimately show ?thesis by (simp add: admissible_def policy_served_def zero_defs ref_name_def)
qed

lemma late_lease_cleanable: "cleanable late_lease"
  by code_simp

lemma late_deadline: "lease_deadline late_lease late_resolved t = 30"
  by (simp add: lease_deadline_def hard_deadline_def lease_created_def late_resolved_def Let_def)

theorem expired_environment_is_deleted_witness:
  "deletion_requested late_lease (w_trace (snd (run_state (Reconcile late_platform demo_reconciler ''demo'') demo_world)))"
  by (rule expired_environment_is_deleted [of late_platform _ _ _ "()" None late_resolved])
     (use doomed_platform_laws late_lease_admissible late_lease_cleanable in
       \<open>auto simp: late_platform_def late_hub_def retry_lib_def clock_reads_def late_deadline environment_present_def
          owned_namespace_def ns_owned_def recorded_identity_def agrees_def lk_def zero_meta_def
          LabelManagedBy_def LabelLease_def AnnotationLeaseUID_def AnnotationControlClusterID_def
          AnnotationTargetIdentity_def demo_reconciler_def\<close>)

theorem expired_lease_is_let_go_witness:
  "lease_let_go (w_trace (snd (run_state (Reconcile late_gone_platform demo_reconciler ''demo'') demo_world)))"
  by (rule expired_lease_is_let_go [of late_gone_platform _ _ late_lease "()" None late_resolved])
     (use gone_platform_laws late_lease_admissible late_lease_cleanable in
       \<open>auto simp: late_gone_platform_def late_hub_def retry_lib_def hub_serves_def namespace_reads_def
          clock_reads_def late_deadline environment_gone_def gone_platform_def IsNotFound_def
          doomed_platform_def\<close>)

end
