(* ===== verification/Lease_Record.thy ===== *)
theory Lease_Record
  imports Lease_Status
begin

text \<open>
  What the reconciler never takes back. The status of a lease is the controller's only memory: where the
  environment is, when it began, when it was last used, which warnings went out, and whether its source was
  closed. \<open>keeps_record\<close> relates the status a reconcile read to one it writes, and the lemmas follow it
  through the operations on the status; the locales of \<open>Lease_Status\<close> carry it through the handlers. Nothing is
  assumed of the API servers.
\<close>

section \<open>The record\<close>

definition keeps_record :: "EnvironmentLeaseStatus \<Rightarrow> EnvironmentLeaseStatus \<Rightarrow> bool" where
  "keeps_record s s' \<longleftrightarrow> st_Namespace s' = st_Namespace s
     \<and> (st_CreatedAt s = None \<or> st_CreatedAt s' = st_CreatedAt s)
     \<and> (st_LastActivityAt s = None \<or> st_LastActivityAt s' = st_LastActivityAt s)
     \<and> set (st_WarningsDelivered s) \<subseteq> set (st_WarningsDelivered s')
     \<and> (st_ExpirationReason s \<noteq> ExpirationReasonSourceClosed
        \<or> st_ExpirationReason s' = ExpirationReasonSourceClosed)"

lemma keeps_record_refl [simp]: "keeps_record s s"
  by (simp add: keeps_record_def)

lemma keeps_record_trans: "keeps_record r s \<Longrightarrow> keeps_record s t \<Longrightarrow> keeps_record r t"
  by (auto simp: keeps_record_def)

lemma keeps_record_namespace: "keeps_record r s \<Longrightarrow> st_Namespace s = st_Namespace r"
  by (simp add: keeps_record_def)

lemma keeps_record_phase [simp]: "keeps_record r (s\<lparr>st_Phase := p\<rparr>) \<longleftrightarrow> keeps_record r s"
  by (simp add: keeps_record_def)

interpretation record_frame: status_frame "keeps_record r" for r
  by unfold_locales (simp_all add: keeps_record_def)

lemma keeps_reason:
  assumes "keeps_record r (el_Status l)"
    and "st_ExpirationReason (el_Status l) \<noteq> ExpirationReasonSourceClosed \<or> x = ExpirationReasonSourceClosed"
  shows "keeps_record r ((el_Status l)\<lparr>st_ExpirationReason := x\<rparr>)"
  using assms by (auto simp: keeps_record_def)

lemma keeps_MarkExpired:
  assumes "keeps_record r (el_Status l)"
    and "st_ExpirationReason (el_Status l) = NoExpirationReason \<or> x = st_ExpirationReason (el_Status l)"
  shows "keeps_record r (el_Status (MarkExpired K l x))"
  using keeps_reason [OF assms(1), of "if x = NoExpirationReason then ExpirationReasonTTLExpired else x"] assms(2)
  by (auto simp: MarkExpired_def Let_def SetPhase_def)

lemma keeps_deletion_reason:
  "keeps_record r (el_Status l) \<Longrightarrow> keeps_record r (el_Status (deletion_reason l))"
  by (auto simp: deletion_reason_def keeps_reason)

lemma keeps_delivered:
  "keeps_record r s \<Longrightarrow>
     keeps_record r (s\<lparr>st_WarningsDelivered := MarkWarningDelivered (st_WarningsDelivered s) x\<rparr>)"
  using MarkWarningDelivered_superset by (fastforce simp: keeps_record_def)

lemma keeps_stamped:
  assumes "EnsureTimestamps (set_effective x l) ttl mx ren t = Inr (l1, ch, rej)"
  shows "keeps_record (el_Status l) (el_Status l1)"
proof -
  have l1: "l1 = stamp (set_effective x l) (lease_created (set_effective x l) t)
      (hard_deadline (set_effective x l) ttl ren t) (lease_created (set_effective x l) t + mx)"
    by (rule EnsureTimestamps_Inr [OF assms])
  have "st_CreatedAt (el_Status l) = None \<or> st_CreatedAt (el_Status l) = Some (lease_created l t)"
    by (simp add: lease_created_def split: option.split)
  moreover have "st_WarningsDelivered (el_Status (set_effective x l)) = st_WarningsDelivered (el_Status l)"
    "st_ExpirationReason (el_Status (set_effective x l)) = st_ExpirationReason (el_Status l)"
    by (simp_all add: set_effective_def)
  ultimately show ?thesis unfolding l1 by (auto simp: keeps_record_def)
qed

lemma keeps_Sync:
  "keeps_record r (el_Status l) \<Longrightarrow> keeps_record r (el_Status (SyncExpirationStatus l idle n))"
  by (auto simp: keeps_record_def SyncExpirationStatus_def Let_def split: option.splits ExpirationReason.splits)

section \<open>Through the handlers\<close>

text \<open>The record of a lease whose environment has a namespace.\<close>

definition kept :: "EnvironmentLeaseStatus \<Rightarrow> EnvironmentLeaseStatus \<Rightarrow> bool" where
  "kept r s \<longleftrightarrow> keeps_record r s \<and> st_Namespace s \<noteq> []"

text \<open>Such a lease is provisioned into that namespace, and its status is not written on the way.\<close>

lemma returns_ensure_recorded:
  assumes "st_Namespace (el_Status l) \<noteq> []"
  shows "returns (\<lambda>x. case x of Inl _ \<Rightarrow> True | Inr (n, _) \<Rightarrow> n = st_Namespace (el_Status l)) (ensureNamespace P R s l)"
  using assms unfolding ensureNamespace_def ensureExistingNamespace_def Let_def
  by (simp only: if_True) (intro returns_rules; simp split: sum.split)

lemma persist_cluster_recorded:
  "st_Namespace (el_Status l) \<noteq> [] \<Longrightarrow> persist_cluster P l ph res n = State_Monad.return (None, l)"
  by (simp add: persist_cluster_def)

lemma persist_namespace_recorded:
  "persist_namespace P l (st_Namespace (el_Status l)) res n = State_Monad.return (None, l)"
  by (simp add: persist_namespace_def)

lemma kept_frame [simp]:
  "kept r (s\<lparr>st_Conditions := cs\<rparr>) \<longleftrightarrow> kept r s" "kept r (s\<lparr>st_ObservedGeneration := g\<rparr>) \<longleftrightarrow> kept r s"
  "kept r (s\<lparr>st_Cluster := c\<rparr>) \<longleftrightarrow> kept r s" "kept r (s\<lparr>st_Effective := x\<rparr>) \<longleftrightarrow> kept r s"
  "kept r (s\<lparr>st_Phase := p\<rparr>) \<longleftrightarrow> kept r s"
  by (simp_all add: kept_def keeps_record_def)

interpretation record_active: active_status "kept r" P R "\<lambda>s n. n = st_Namespace s" for r P R
proof unfold_locales
  fix s x assume "kept r s"
  then show "kept r (s\<lparr>st_WarningsDelivered := MarkWarningDelivered (st_WarningsDelivered s) x\<rparr>)"
    by (simp add: kept_def keeps_delivered)
next
  fix l :: EnvironmentLease and sess assume "kept r (el_Status l)"
  then show "returns (\<lambda>x. case x of Inl _ \<Rightarrow> True | Inr (n, _) \<Rightarrow> n = st_Namespace (el_Status l)) (ensureNamespace P R sess l)"
    by (intro returns_ensure_recorded) (simp add: kept_def)
next
  fix l :: EnvironmentLease and ph ra n assume "kept r (el_Status l)"
  then show "emits (status_write (kept r)) (persist_cluster P l ph ra n)"
    "returns (status_in (kept r)) (persist_cluster P l ph ra n)"
    by (simp_all add: persist_cluster_recorded kept_def emits_return returns_return)
next
  fix l :: EnvironmentLease and ns ra n assume "kept r (el_Status l)" "ns = st_Namespace (el_Status l)"
  then show "emits (status_write (kept r)) (persist_namespace P l ns ra n)"
    "returns (status_in (kept r)) (persist_namespace P l ns ra n)"
    by (simp_all add: persist_namespace_recorded emits_return returns_return)
qed simp_all

interpretation record_cleanup: cleanup_status "kept r" "kept r" for r
  by unfold_locales simp_all

subsection \<open>The whole reconciler\<close>

lemma kept_MarkExpired:
  "\<lbrakk>kept r (el_Status l); st_ExpirationReason (el_Status l) = NoExpirationReason \<or> x = st_ExpirationReason (el_Status l)\<rbrakk>
     \<Longrightarrow> kept r (el_Status (MarkExpired K l x))"
  using keeps_MarkExpired [of r l x K] by (simp add: kept_def)

lemma emits_reconcile_live_record:
  assumes "retry_lib P" "kept r (el_Status l)"
  shows "emits (status_write (kept r)) (reconcile_live P R l before ph pe res pol)"
  unfolding reconcile_live_def
  by (rule emits_bind [OF emits_renewal_status], rule emits_bind [OF emits_now])
     (intro emits_if record_cleanup.reconcileExpired_status record_active.emits_active_patched kept_MarkExpired assms)

lemma kept_timed:
  assumes "EnsureTimestamps (set_effective x l) ttl mx ren t = Inr (l1, ch, rej)" "st_Namespace (el_Status l) \<noteq> []"
  shows "kept (el_Status l) (el_Status (SyncExpirationStatus l1 idle n))"
    "kept (el_Status l) (el_Status (SyncExpirationStatus (SetCondition K l1 ct cs rs m) idle n))"
  using keeps_stamped [OF assms(1)] assms(2) keeps_Sync keeps_record_namespace record_frame.marks(1)
  unfolding kept_def by metis+

lemma emits_reconcile_spec_record:
  assumes "retry_lib P" "st_Namespace (el_Status l) \<noteq> []"
  shows "emits (status_write (kept (el_Status l))) (reconcile_spec P R l)"
  unfolding reconcile_spec_def Let_def
  by (intro emits_rules record_active.emits_reject [OF assms(1)] emits_reconcile_live_record [OF assms(1)])
     (auto simp: assms(2) kept_def [of _ "el_Status l"] intro: kept_timed)

lemma Reconcile_record:
  assumes "retry_lib P" "st_Namespace (el_Status l) \<noteq> []"
    "api_GetLease (pf_hub P) name (w_env w) = (Inr l, e)" "run_state (Reconcile P R name) w = (x, w')"
  obtains es where "w_trace w' = w_trace w @ es" "list_all (status_write (kept (el_Status l))) es"
proof -
  have "kept (el_Status l) (el_Status (deletion_reason l))"
    using assms(2) keeps_deletion_reason [of "el_Status l" l] by (simp add: kept_def deletion_reason_def)
  then have "emits (status_write (kept (el_Status l))) (reconcile_found P R l)"
    unfolding reconcile_found_def Let_def
    by (intro emits_rules record_cleanup.reconcileDelete_status emits_reconcile_spec_record assms(1,2)) simp_all
  moreover have "run_state (reconcile_found P R l) (w\<lparr>w_env := e\<rparr>) = (x, w')"
    using assms(4) run_Reconcile [OF assms(3)] by simp
  ultimately obtain es where "w_trace w' = w_trace (w\<lparr>w_env := e\<rparr>) @ es" "list_all (status_write (kept (el_Status l))) es"
    by (rule emitsD)
  then show thesis by (intro that) simp_all
qed

section \<open>Property\<close>

text \<open>
  C6. The record of an environment is never lost. Whatever the API servers answer, once a lease records the namespace
  of its environment every status a reconcile of it writes, on every path, names the same namespace, keeps the
  creation instant and the last activity that were recorded, forgets no warning that was delivered, and keeps
  the reason \<open>SourceClosed\<close> the webhook source left there.
\<close>

theorem status_record_is_kept:
  assumes "retry_lib P" and "api_GetLease (pf_hub P) name (w_env w) = (Inr l, e)"
    and "st_Namespace (el_Status l) \<noteq> []" and "run_state (Reconcile P R name) w = (r, w')"
  shows "\<exists>es. w_trace w' = w_trace w @ es \<and> (\<forall>u. StatusUpdateLease u \<in> set es \<longrightarrow>
       st_Namespace (el_Status u) = st_Namespace (el_Status l)
     \<and> (\<forall>t. st_CreatedAt (el_Status l) = Some t \<longrightarrow> st_CreatedAt (el_Status u) = Some t)
     \<and> (\<forall>t. st_LastActivityAt (el_Status l) = Some t \<longrightarrow> st_LastActivityAt (el_Status u) = Some t)
     \<and> set (st_WarningsDelivered (el_Status l)) \<subseteq> set (st_WarningsDelivered (el_Status u))
     \<and> (st_ExpirationReason (el_Status l) = ExpirationReasonSourceClosed
          \<longrightarrow> st_ExpirationReason (el_Status u) = ExpirationReasonSourceClosed))"
proof -
  obtain es where es: "w_trace w' = w_trace w @ es" "list_all (status_write (kept (el_Status l))) es"
    by (rule Reconcile_record [OF assms(1,3,2,4)])
  have "keeps_record (el_Status l) (el_Status u)" if "StatusUpdateLease u \<in> set es" for u
    using es(2) that by (auto simp: list_all_iff kept_def)
  then show ?thesis using es(1) by (intro exI [of _ es]) (auto simp: keeps_record_def)
qed

theorem status_record_is_kept_witness:
  "\<exists>es u. w_trace (snd (run_state (Reconcile doomed_platform demo_reconciler ''demo'') demo_world)) = es
     \<and> StatusUpdateLease u \<in> set es \<and> st_Namespace (el_Status u) = ''env''"
proof -
  obtain u where "StatusUpdateLease u \<in> set (w_trace (snd (run_state
      (Reconcile doomed_platform demo_reconciler ''demo'') demo_world)))"
    using doomed_run_writes_status unfolding status_written_iff by blast
  then show ?thesis
    using status_record_is_kept [OF doomed_platform_laws(1), of "''demo''" demo_world doomed_lease "()",
        OF _ _ prod.collapse [symmetric], of demo_reconciler]
    by (auto simp: demo_world_env)
qed

end
