(* ===== verification/Lease_Provisioning.thy ===== *)
theory Lease_Provisioning
  imports Lease_Lifecycle Lease_Record
begin

text \<open>
  The beginning of a lease: on a platform that serves, one reconcile provisions the environment of a fresh
  lease on the control cluster and records it under the name the cluster gave it. The same path is followed with
  a read that lags behind the write before it: then the reconcile forgets what it created. The last section is a
  platform with resource versions and conflicts where this happens.
\<close>

section \<open>A platform that serves\<close>

text \<open>
  An accepted status write can be read back: the documented behaviour of an uncached read of the API server.
\<close>

definition reads_back :: "'w platform \<Rightarrow> bool" where
  "reads_back P \<longleftrightarrow>
     (\<forall>u e s e1. api_StatusUpdateLease (pf_hub P) u e = (Inr s, e1) \<longrightarrow> el_Name s = el_Name u
        \<and> (\<exists>g e2. api_GetLease (pf_hub P) (el_Name u) e1 = (Inr g, e2) \<and> el_Name g = el_Name u
             \<and> el_UID g = el_UID u \<and> el_Spec g = el_Spec u \<and> el_Status g = el_Status u))"

text \<open>
  What the provisioning path depends on is only the namespace of the lease read back, as a function of the one just
  written: the same name, or, where the read comes from a cache that has not seen the write, none.
\<close>

definition reads_namespace :: "(string \<Rightarrow> string) \<Rightarrow> 'w platform \<Rightarrow> bool" where
  "reads_namespace f P \<longleftrightarrow>
     (\<forall>u e s e1. api_StatusUpdateLease (pf_hub P) u e = (Inr s, e1) \<longrightarrow> el_Name s = el_Name u
        \<and> (\<exists>g e2. api_GetLease (pf_hub P) (el_Name u) e1 = (Inr g, e2) \<and> el_Name g = el_Name u
             \<and> el_UID g = el_UID u \<and> el_Spec g = el_Spec u
             \<and> st_Namespace (el_Status g) = f (st_Namespace (el_Status u))))"

lemma reads_back_namespace: "reads_back P \<Longrightarrow> reads_namespace (\<lambda>n. n) P"
  unfolding reads_back_def reads_namespace_def by metis

text \<open>
  The control cluster has no such namespace yet and accepts what is created or patched there; a namespace
  gets the requested name, or a generated one where none is requested.
\<close>

definition absent_or :: "('w \<Rightarrow> (go_error + 'a) \<times> 'w) \<Rightarrow> bool" where
  "absent_or get \<longleftrightarrow> (\<forall>e err e'. get e = (Inl err, e') \<longrightarrow> IsNotFound err)"

definition accepting :: "('w \<Rightarrow> go_error option \<times> 'w) \<Rightarrow> bool" where
  "accepting put \<longleftrightarrow> (\<forall>e. fst (put e) = None)"

definition cluster_accepts :: "'w platform \<Rightarrow> bool" where
  "cluster_accepts P \<longleftrightarrow>
     (\<forall>n e. \<exists>err e'. api_GetNamespace (pf_cluster P) HubClient n e = (Inl err, e') \<and> IsNotFound err)
   \<and> (\<forall>ns e. \<exists>c e'. api_CreateNamespace (pf_cluster P) HubClient ns e = (Inr c, e') \<and> ns_Name c \<noteq> []
        \<and> (ns_Name ns = [] \<or> ns_Name c = ns_Name ns))
   \<and> (\<forall>a b. absent_or (api_GetQuota (pf_cluster P) HubClient a b)) \<and> (\<forall>a b. absent_or (api_GetLimits (pf_cluster P) HubClient a b))
   \<and> (\<forall>a b. absent_or (api_GetNetPol (pf_cluster P) HubClient a b))
   \<and> (\<forall>x. accepting (api_CreateQuota (pf_cluster P) HubClient x)) \<and> (\<forall>x. accepting (api_PatchQuota (pf_cluster P) HubClient x))
   \<and> (\<forall>x. accepting (api_CreateLimits (pf_cluster P) HubClient x)) \<and> (\<forall>x. accepting (api_PatchLimits (pf_cluster P) HubClient x))
   \<and> (\<forall>x. accepting (api_CreateNetPol (pf_cluster P) HubClient x)) \<and> (\<forall>x. accepting (api_PatchNetPol (pf_cluster P) HubClient x))
   \<and> (\<forall>l m. \<exists>m'. SetControllerReference (pf_lib P) l m = Inr m')"

lemma accepting_returns: "accepting put \<Longrightarrow> returns (\<lambda>x. x = None) (act x' put)"
  unfolding accepting_def returns_def act_def by (auto split: prod.splits) (metis fst_conv)

lemma absent_or_returns: "absent_or get \<Longrightarrow> returns (\<lambda>x. case x of Inl err \<Rightarrow> IsNotFound err | Inr _ \<Rightarrow> True) (call get)"
  unfolding absent_or_def returns_def by (auto split: prod.splits sum.splits)

lemma set_owner_local: "cluster_accepts P \<Longrightarrow> \<exists>m'. set_owner P s l m = Inr m'"
  unfolding cluster_accepts_def set_owner_def by simp

text \<open>The shape the three operations share: read, create what is absent, patch what differs.\<close>

lemma returns_put:
  assumes "accepting put"
  shows "returns (\<lambda>x. x = None) (State_Monad.bind (act x put) (\<lambda>c. State_Monad.return (map_option f c)))"
  by (rule returns_bind [OF accepting_returns [OF assms]]) (simp add: returns_return)

lemma returns_read_or_create:
  assumes "absent_or get" "accepting put" "\<And>y. returns (\<lambda>x. x = None) (g y)"
  shows "returns (\<lambda>x. x = None) (State_Monad.bind (call get) (\<lambda>r. case r of
     Inl err \<Rightarrow> if IsNotFound err then State_Monad.bind (act x put) (\<lambda>c. State_Monad.return (map_option f c)) else h err
   | Inr y \<Rightarrow> g y))"
  by (rule returns_bind [OF absent_or_returns [OF assms(1)]])
     (auto simp: returns_put [OF assms(2)] assms(3) split: sum.split)

lemma resources_accepted:
  assumes "cluster_accepts P"
  shows "returns (\<lambda>x. x = None) (ensureResourceQuota P local_session l n)"
    "returns (\<lambda>x. x = None) (ensureLimitRange P local_session l n)"
    "returns (\<lambda>x. x = None) (ensureNetworkPolicy P local_session l n)"
proof -
  note a = assms [unfolded cluster_accepts_def]
  have client: "ses_Client local_session = HubClient" by (simp add: local_session_def)
  obtain own where own: "\<And>l m. set_owner P local_session l m = Inr (own l m)"
    using set_owner_local [OF assms] by metis
  show "returns (\<lambda>x. x = None) (ensureResourceQuota P local_session l n)"
    unfolding ensureResourceQuota_def Let_def own sum.case client
    by (intro returns_option returns_return returns_read_or_create returns_if returns_put refl) (use a in simp_all)
  show "returns (\<lambda>x. x = None) (ensureLimitRange P local_session l n)"
    unfolding ensureLimitRange_def Let_def own sum.case client
    by (intro returns_option returns_return returns_read_or_create returns_if returns_put refl) (use a in simp_all)
  show "returns (\<lambda>x. x = None) (ensureNetworkPolicy P local_session l n)"
    unfolding ensureNetworkPolicy_def Let_def own sum.case client
    by (intro returns_option returns_return returns_read_or_create returns_if returns_put refl) (use a in simp_all)
qed

lemma provision_resources_accepted:
  assumes "cluster_accepts P"
  shows "returns (\<lambda>x. x = (None, l)) (provision_resources P local_session wc l n)"
  unfolding provision_resources_def
  by (rule returns_bind [OF resources_accepted(1) [OF assms]], simp only: option.case,
      rule returns_bind [OF resources_accepted(2) [OF assms]], simp only: option.case,
      rule returns_bind [OF resources_accepted(3) [OF assms]]) (simp add: returns_return)

section \<open>Steps of the provisioning path\<close>

text \<open>Placement without a reference, a selector or a recorded remote cluster: the control cluster.\<close>

definition placed_locally :: "EnvironmentLease \<Rightarrow> EnvironmentLeasePolicy option \<Rightarrow> bool" where
  "placed_locally l pol \<longleftrightarrow> ref_name (sp_ClusterRef (el_Spec l)) = [] \<and> \<not> needs_placement l pol
     \<and> (sticky_cluster l = [] \<or> sticky_cluster l = LocalClusterName)"

definition no_local_outage :: "'w world \<Rightarrow> bool" where
  "no_local_outage w \<longleftrightarrow>
     (case w_outages w of None \<Rightarrow> True | Some t \<Rightarrow> fmlookup (ot_until t) LocalClusterName = None)"

lemma steady_no_local_outage: "steady no_local_outage"
  by (simp add: steady_def no_local_outage_def)

lemma carries_placement [carries_rules]: "carries (CountActiveLeases P)" "carries (Decide P l pol opts)"
  unfolding CountActiveLeases_def Decide_def decide_unpinned_def getTarget_def selectFromCandidates_def Let_def
  by (intro carries_rules)+

lemma returns_Decide_local:
  assumes "placed_locally l pol"
  shows "returns (\<lambda>d. d = Inr (decided LocalClusterName)) (Decide P l pol opts)"
proof -
  have sel: "selectorFromPlacement (pf_lib P) (policyPlacement pol) = Inr None"
    "selectorFromPlacement (pf_lib P) (sp_Placement (el_Spec l)) = Inr None" "ValidateExclusive (el_Spec l) = None"
    using assms by (auto simp: placed_locally_def needs_placement_def selectorFromPlacement_def ValidateExclusive_def
        split: option.splits)
  show ?thesis
    using assms by (auto simp: Decide_def sel placed_locally_def decide_unpinned_def Let_def intro: returns_return)
qed

lemma opens_local_session:
  "triple no_local_outage (open_session P l LocalClusterName)
     (\<lambda>x _. \<exists>c. x = (Session local_session, set_cluster c l))"
  unfolding triple_def
proof (intro allI impI)
  fix w :: "'a world" assume ok: "no_local_outage w"
  have wait: "RequeueAfter (w_outages w) LocalClusterName n = 0" for n
    using ok by (auto simp: no_local_outage_def RequeueAfter_def split: option.splits)
  show "case run_state (open_session P l LocalClusterName) w of (x, _) \<Rightarrow> \<exists>c. x = (Session local_session, set_cluster c l)"
  proof (cases "w_outages w")
    case None
    then show ?thesis
      by (simp add: open_session_def Let_def ResolveNamedTarget_def local_session_def) blast
  next
    case (Some t)
    then show ?thesis
      using wait unfolding Some
      by (simp add: open_session_def Let_def ResolveNamedTarget_def local_session_def now_def Some split: prod.split) blast
  qed
qed

lemma places_locally:
  assumes "placed_locally l pol" "\<And>e. \<exists>xs e'. api_ListLeases (pf_hub P) None e = (Inr xs, e')"
  shows "triple no_local_outage (resolveTargetSessionForProvision P l pol)
     (\<lambda>x _. \<exists>c. x = (Session local_session, set_cluster c l))"
proof -
  have counts: "returns (\<lambda>x. \<exists>c. x = Inr c) (CountActiveLeases P)"
    unfolding CountActiveLeases_def
  proof (intro returns_bind_call returns_return)
    fix a e e' assume "api_ListLeases (pf_hub P) None e = (a, e')"
    with assms(2) [of e] show "\<exists>c. map_sum id count_active a = Inr c" by auto
  qed
  show ?thesis
    unfolding resolveTargetSessionForProvision_def
    by (rule triple_carry [OF returns_any carries_emit steady_no_local_outage],
        rule triple_carry [OF counts carries_placement(1) steady_no_local_outage], elim exE, simp only: sum.case,
        rule triple_carry [OF returns_Decide_local [OF assms(1)] carries_placement(2) steady_no_local_outage])
       (simp add: opens_local_session)
qed

text \<open>A lease derived from another one in the same reconcile.\<close>

definition same_lease :: "EnvironmentLease \<Rightarrow> EnvironmentLease \<Rightarrow> bool" where
  "same_lease l l' \<longleftrightarrow> el_Name l' = el_Name l \<and> el_UID l' = el_UID l \<and> el_Spec l' = el_Spec l"

lemma status_persisted:
  assumes "hub_serves P" "reads_namespace f P" "lasting F"
  shows "triple (logged F) (persist_status P what l res n)
     (\<lambda>(x, l') w. x = None \<and> same_lease l l' \<and> st_Namespace (el_Status l') = f (st_Namespace (el_Status l)) \<and> F (w_trace w))"
  unfolding triple_def
proof (intro allI impI)
  fix w :: "'a world" assume F: "F (w_trace w)"
  obtain s e1 where s: "api_StatusUpdateLease (pf_hub P) l (w_env w) = (Inr s, e1)"
    using assms(1) unfolding hub_serves_def by blast
  then obtain g e2 where g: "el_Name s = el_Name l" "api_GetLease (pf_hub P) (el_Name l) e1 = (Inr g, e2)"
    "el_Name g = el_Name l" "el_UID g = el_UID l" "el_Spec g = el_Spec l"
    "st_Namespace (el_Status g) = f (st_Namespace (el_Status l))"
    using assms(2) unfolding reads_namespace_def by blast
  then show "case run_state (persist_status P what l res n) w of
      (a, w') \<Rightarrow> (case a of (x, l') \<Rightarrow> \<lambda>w. x = None \<and> same_lease l l'
        \<and> st_Namespace (el_Status l') = f (st_Namespace (el_Status l)) \<and> F (w_trace w)) w'"
    using s F assms(3)
    by (simp add: persist_status_def act_def same_lease_def set_cluster_def set_effective_def lasting_def)
qed

text \<open>
  The namespace \<open>n\<close> is created with the lease's marks: the trace has the request, and \<open>n\<close> is the name of
  the object that the cluster answers it with. It is the name the spec asks for, where it asks for one.
\<close>

definition environment_created :: "'w platform \<Rightarrow> EnvironmentLease \<Rightarrow> string \<Rightarrow> effect list \<Rightarrow> bool" where
  "environment_created P l n es \<longleftrightarrow> (\<exists>ns c e e'. CreateNamespace HubClient ns \<in> set es
     \<and> lk (ns_Labels ns) LabelManagedBy = ManagedByValue \<and> lk (ns_Labels ns) LabelLease = el_Name l
     \<and> lk (ns_Annotations ns) AnnotationLeaseUID = el_UID l
     \<and> api_CreateNamespace (pf_cluster P) HubClient ns e = (Inr c, e') \<and> n = ns_Name c \<and> n \<noteq> []
     \<and> (nss_Name (sp_Namespace (el_Spec l)) = [] \<or> n = nss_Name (sp_Namespace (el_Spec l))))"

lemma lasting_environment_created [intro]: "lasting (environment_created P l n)"
  unfolding lasting_def environment_created_def set_append Un_iff by blast

lemma environment_created_cong: "same_lease l l' \<Longrightarrow> environment_created P l' = environment_created P l"
  by (simp add: same_lease_def environment_created_def fun_eq_iff)

lemma namespace_created:
  assumes "cluster_accepts P" "ValidateNamespaceSpec (sp_Namespace (el_Spec l)) = None" "st_Namespace (el_Status l) = []"
  shows "triple (\<lambda>_. True) (ensureNamespace P R local_session l)
     (\<lambda>x w. \<exists>n b. x = Inr (n, b) \<and> environment_created P l n (w_trace w))"
  unfolding triple_def
proof (intro allI impI)
  fix w :: "'a world"
  let ?name = "nss_Name (sp_Namespace (el_Spec l))"
  note a = assms(1) [unfolded cluster_accepts_def]
  show "case run_state (ensureNamespace P R local_session l) w of
      (x, w) \<Rightarrow> \<exists>n b. x = Inr (n, b) \<and> environment_created P l n (w_trace w)"
  proof (cases "?name = []")
    case True
    let ?ns = "\<lparr>ns_Meta = zero_meta\<lparr>om_GenerateName := nss_GenerateName (sp_Namespace (el_Spec l)),
      om_Labels := MergeLabels (ManagedLabels (el_Name l)) (nss_Labels (sp_Namespace (el_Spec l))),
      om_Annotations := managedAnnotations l (rec_ControlClusterID R) (recorded_identity l)\<rparr>\<rparr>"
    obtain c e where c: "api_CreateNamespace (pf_cluster P) HubClient ?ns (w_env w) = (Inr c, e)" "ns_Name c \<noteq> []"
      using a by blast
    then have "environment_created P l (ns_Name c) (es @ [CreateNamespace HubClient ?ns])" for es
      using True unfolding environment_created_def
      by (intro exI [of _ ?ns] exI [of _ c] exI [of _ "w_env w"] exI [of _ e]) (simp add: managedAnnotations_owned)
    then show ?thesis
      using True assms(3) c by (auto simp: ensureNamespace_def act_def local_session_def Let_def)
  next
    case False
    then obtain ns where d: "DesiredNamespace l ?name (rec_ControlClusterID R) (recorded_identity l) = Inr ns"
      using assms(2) by (auto simp: ValidateNamespaceSpec_def DesiredNamespace_def Let_def split: if_splits)
    obtain err e1 where g: "api_GetNamespace (pf_cluster P) HubClient ?name (w_env w) = (Inl err, e1)" "IsNotFound err"
      using a by blast
    obtain c e2 where c: "api_CreateNamespace (pf_cluster P) HubClient ns e1 = (Inr c, e2)"
      "ns_Name ns = [] \<or> ns_Name c = ns_Name ns" using a by blast
    then have "environment_created P l ?name (es @ [CreateNamespace HubClient ns])" for es
      using False lk_DesiredNamespace(1-4) [OF d] unfolding environment_created_def
      by (intro exI [of _ ns] exI [of _ c] exI [of _ e1] exI [of _ e2]) simp
    then show ?thesis
      using False g assms(3) c(1)
      by (auto simp: ensureNamespace_def ensureExistingNamespace_def d act_def local_session_def)
  qed
qed

text \<open>
  What a provisioned lease looks like, and how its record relates to the namespace that was created: equal to it when
  \<open>f\<close> is the identity.
\<close>

definition ready_lease :: "'w platform \<Rightarrow> EnvironmentLease \<Rightarrow> bool" where
  "ready_lease P u \<longleftrightarrow> (st_Phase (el_Status u) = LeasePhaseActive \<or> st_Phase (el_Status u) = LeasePhaseExpiring)
     \<and> ConditionTrue_lease (pf_lib P) u ConditionReady"

definition established ::
  "(string \<Rightarrow> string) \<Rightarrow> 'w platform \<Rightarrow> EnvironmentLease \<Rightarrow> EnvironmentLease \<Rightarrow> effect list \<Rightarrow> bool" where
  "established f P l u es \<longleftrightarrow> ready_lease P u \<and> (\<exists>n. st_Namespace (el_Status u) = f n \<and> environment_created P l n es)"

abbreviation establishes ::
  "(string \<Rightarrow> string) \<Rightarrow> 'w platform \<Rightarrow> EnvironmentLease \<Rightarrow> (go_error + Result) \<times> EnvironmentLease \<Rightarrow> 'w world \<Rightarrow> bool" where
  "establishes f P l \<equiv> \<lambda>(x, u) w. (\<exists>y. x = Inr y) \<and> established f P l u (w_trace w)"

lemma established_cong: "same_lease l l' \<Longrightarrow> established f P l' = established f P l"
  by (simp add: established_def fun_eq_iff environment_created_cong)

lemma returns_warnings_namespace:
  "returns (\<lambda>l'. st_Namespace (el_Status l') = st_Namespace (el_Status l)) (emitWarnings P R l)"
proof -
  have "returns (\<lambda>l'. st_Namespace (el_Status l') = st_Namespace (el_Status l)) (deliver_warnings P R d ws l)" for d ws
  proof (induction ws arbitrary: l)
    case (Cons x ws)
    show ?case
      using Cons.IH [of "l\<lparr>el_Status := (el_Status l)\<lparr>st_WarningsDelivered :=
        MarkWarningDelivered (st_WarningsDelivered (el_Status l)) x\<rparr>\<rparr>"]
      by (auto intro!: returns_bind_any)
  qed (simp add: returns_return)
  then show ?thesis unfolding emitWarnings_def by (intro returns_rules) simp_all
qed

lemma returns_finish_active_ready:
  assumes "conditions_lib (pf_lib P)"
  shows "returns (\<lambda>(x, u). (\<exists>y. x = Inr y) \<and> ready_lease P u
     \<and> st_Namespace (el_Status u) = st_Namespace (el_Status l')) (finish_active P R s l' wr ph n)"
  unfolding finish_active_def Let_def
proof (rule returns_bind [OF returns_warnings_namespace], goal_cases)
  case (1 l2)
  have "ready_lease P (SetCondition (pf_lib P) (MarkReady (pf_lib P) l2 x) ConditionTargetClusterReady ConditionTrue
      ReasonEnvironmentReady m)" for x m
    using assms by (simp add: ready_lease_def SetCondition_true MarkReady_def Let_def)
  then show ?case using 1 by (intro returns_rules) auto
qed

lemma environment_provisioned:
  assumes "hub_serves P" "reads_namespace f P" "f [] = []" "cluster_accepts P" "conditions_lib (pf_lib P)"
    and "ValidateNamespaceSpec (sp_Namespace (el_Spec l)) = None" "st_Namespace (el_Status l) = []"
  shows "triple (\<lambda>_. True) (provision_environment P R local_session l wr ph res) (establishes f P l)"
proof -
  define l1 where "l1 = (if \<not> wr \<and> st_Phase (el_Status l) \<noteq> LeasePhaseFailed
    then MarkProvisioning (pf_lib P) l ''Provisioning managed environment'' else l)"
  have l1: "same_lease l l1" "st_Namespace (el_Status l1) = []"
    using assms(7) by (simp_all add: l1_def same_lease_def)
  have spec: "el_Spec l1 = el_Spec l" using l1(1) by (simp add: same_lease_def)
  have created: "triple (\<lambda>_. True) (ensureNamespace P R local_session l1)
     (\<lambda>x w. \<exists>n b. x = Inr (n, b) \<and> environment_created P l n (w_trace w))"
    using namespace_created [OF assms(4), of l1 R] assms(6) l1(2)
    by (simp add: spec environment_created_cong [OF l1(1)])
  have finish: "triple (logged (environment_created P l n)) (finish_active P R local_session l' wr ph m) (establishes f P l)"
    if "st_Namespace (el_Status l') = f n" for l' n m
    by (rule triple_conseq [OF triple_pass [OF emits_finish_active returns_finish_active_ready [OF assms(5)]
          lasting_environment_created]]) (use that in \<open>auto simp: established_def\<close>)
  have rest: "triple (logged (environment_created P l n)) (State_Monad.bind
      (persist_status P what (l1\<lparr>el_Status := (el_Status l1)\<lparr>st_Namespace := n\<rparr>\<rparr>) res c) (\<lambda>(e, l). case e of
        Some err \<Rightarrow> State_Monad.return (Inl err, l)
      | None \<Rightarrow> State_Monad.bind (provision_resources P local_session wc l n) (\<lambda>(e, l). case e of
          Some err \<Rightarrow> State_Monad.return (Inl err, l)
        | None \<Rightarrow> finish_active P R local_session l wr ph n)))
    (establishes f P l)" for n what c wc
  proof (rule triple_trace [where S = "\<lambda>(x, l'). x = None \<and> st_Namespace (el_Status l') = f n"])
    show "triple (logged (environment_created P l n))
        (persist_status P what (l1\<lparr>el_Status := (el_Status l1)\<lparr>st_Namespace := n\<rparr>\<rparr>) res c)
        (\<lambda>a w. (case a of (x, l') \<Rightarrow> x = None \<and> st_Namespace (el_Status l') = f n) \<and> environment_created P l n (w_trace w))"
      by (rule triple_conseq [OF status_persisted [OF assms(1,2) lasting_environment_created]]) auto
  next
    fix a :: "go_error option \<times> EnvironmentLease"
    assume "case a of (x, l') \<Rightarrow> x = None \<and> st_Namespace (el_Status l') = f n"
    then obtain l' where a: "a = (None, l')" "st_Namespace (el_Status l') = f n" by (cases a) auto
    show "triple (logged (environment_created P l n)) (case a of (e, l) \<Rightarrow> case e of
        Some err \<Rightarrow> State_Monad.return (Inl err, l)
      | None \<Rightarrow> State_Monad.bind (provision_resources P local_session wc l n) (\<lambda>(e, l). case e of
          Some err \<Rightarrow> State_Monad.return (Inl err, l)
        | None \<Rightarrow> finish_active P R local_session l wr ph n)) (establishes f P l)"
      unfolding a(1) prod.case option.case
      by (rule triple_later [OF provision_resources_accepted [OF assms(4)] emits_provision_resources lasting_environment_created])
         (use finish [OF a(2)] in simp_all)
  qed
  show ?thesis
    unfolding provision_environment_def Let_def l1_def [symmetric]
  proof (rule triple_bind [OF created], goal_cases)
    case (1 x)
    have persist: "persist_namespace P l1 n res c = persist_status P ''namespace''
        (l1\<lparr>el_Status := (el_Status l1)\<lparr>st_Namespace := n\<rparr>\<rparr>) res c" if "n \<noteq> []" for n c
      using that l1(2) by (simp add: persist_namespace_def)
    show ?case
    proof (cases "\<exists>n b. x = Inr (n, b) \<and> n \<noteq> []")
      case True
      then obtain n b where x: "x = Inr (n, b)" "n \<noteq> []" by blast
      show ?thesis
        unfolding x(1) sum.case prod.case persist [OF x(2)]
        by (rule triple_conseq [where P = "logged (environment_created P l n)" and Q = "establishes f P l"],
            rule triple_later [OF returns_any _ lasting_environment_created], (intro emits_rules; simp), rule rest) auto
    next
      case False
      then show ?thesis by (auto simp: triple_def environment_created_def)
    qed
  qed
qed

lemma environment_provisioned_on:
  assumes "hub_serves P" "reads_namespace f P" "f [] = []" "cluster_accepts P" "conditions_lib (pf_lib P)"
    and "ValidateNamespaceSpec (sp_Namespace (el_Spec l)) = None" "st_Namespace (el_Status l) = []"
  shows "triple (\<lambda>_. True) (provision_on P R local_session l wr ph res) (establishes f P l)"
proof -
  define l1 where "l1 = SetCondition (pf_lib P) (case st_Cluster (el_Status l) of
      None \<Rightarrow> set_cluster (named_cluster (ses_Name local_session)) l
    | Some c \<Rightarrow> set_cluster (c\<lparr>cs_Name := ses_Name local_session\<rparr>) l)
    ConditionTargetClusterReady ConditionTrue ReasonEnvironmentReady (''Using cluster '' @ ses_Name local_session)"
  have l1: "same_lease l l1" "st_Namespace (el_Status l1) = []"
    using assms(7) by (simp_all add: l1_def same_lease_def set_cluster_def split: option.split)
  have go: "triple (logged (\<lambda>_. True)) (provision_environment P R local_session l2 wr ph res) (establishes f P l)"
    if "same_lease l1 l2" "st_Namespace (el_Status l2) = []" for l2
  proof -
    have l2: "same_lease l l2" using l1(1) that(1) by (simp add: same_lease_def)
    then have spec: "el_Spec l2 = el_Spec l" by (simp add: same_lease_def)
    show ?thesis
      using environment_provisioned [OF assms(1-5), of l2 R wr ph res] assms(6) that(2)
      by (simp add: spec established_cong [OF l2])
  qed
  have persisted: "triple (logged (\<lambda>_. True)) (persist_cluster P l1 ph res n)
      (\<lambda>a w. (case a of (x, l2) \<Rightarrow> x = None \<and> same_lease l1 l2 \<and> st_Namespace (el_Status l2) = []) \<and> True)" for n
  proof (cases "ph \<noteq> LeasePhaseActive \<and> ph \<noteq> LeasePhaseExpiring")
    case True
    then have "persist_cluster P l1 ph res n = persist_status P ''cluster'' l1 res n"
      using l1(2) by (simp add: persist_cluster_def)
    then show ?thesis
      using triple_conseq [OF status_persisted [OF assms(1,2) lasting_True, of "''cluster''" l1 res n]] l1(2) assms(3)
      by auto
  next
    case False
    then have "persist_cluster P l1 ph res n = State_Monad.return (None, l1)" by (auto simp: persist_cluster_def)
    then show ?thesis using l1(2) by (auto intro!: triple_return simp: same_lease_def)
  qed
  show ?thesis
    unfolding provision_on_def Let_def l1_def [symmetric]
    by (rule triple_trace [where F = "\<lambda>_. True", OF persisted]) (auto intro!: go)
qed

section \<open>The whole reconcile\<close>

text \<open>The last effect is a status write of a provisioned lease.\<close>

definition announced :: "(string \<Rightarrow> string) \<Rightarrow> 'w platform \<Rightarrow> EnvironmentLease \<Rightarrow> effect list \<Rightarrow> bool" where
  "announced f P l es \<longleftrightarrow> (\<exists>es' u. es = es' @ [StatusUpdateLease u] \<and> established f P l u es')"

text \<open>It is written if the status has changed, by the namespace or by the phase.\<close>

definition shows_up :: "(string \<Rightarrow> string) \<Rightarrow> EnvironmentLeaseStatus \<Rightarrow> bool" where
  "shows_up f before \<longleftrightarrow> st_Namespace before = [] \<and> (\<forall>n. n \<noteq> [] \<longrightarrow> f n \<noteq> [])
     \<or> st_Phase before \<noteq> LeasePhaseActive \<and> st_Phase before \<noteq> LeasePhaseExpiring"

lemma ready_written:
  assumes "retry_lib P" "hub_serves P" "shows_up f before"
  shows "triple (\<lambda>w. established f P l u (w_trace w)) (patchStatusIfChanged P (EnsureObservedGeneration u) before)
     (\<lambda>_. logged (announced f P l))"
  unfolding triple_def
proof (intro allI impI)
  fix w :: "'a world" assume u: "established f P l u (w_trace w)"
  let ?u = "EnsureObservedGeneration u"
  have "st_Phase (el_Status ?u) = LeasePhaseActive \<or> st_Phase (el_Status ?u) = LeasePhaseExpiring"
    "\<exists>n. n \<noteq> [] \<and> st_Namespace (el_Status ?u) = f n"
    using u by (auto simp: established_def ready_lease_def environment_created_def)
  moreover have "st_Phase before = st_Phase t \<and> st_Namespace before = st_Namespace t" if "StatusEqual before t" for t
    using that by (simp add: StatusEqual_def split: if_splits)
  ultimately have changed: "\<not> StatusEqual before (el_Status ?u)"
    using assms(3) unfolding shows_up_def by metis
  obtain g e where g: "api_GetLease (pf_hub P) (el_Name ?u) (w_env w) = (Inr g, e)"
    using assms(2) unfolding hub_serves_def by blast
  obtain s e' where s: "api_StatusUpdateLease (pf_hub P) (g\<lparr>el_Status := el_Status ?u\<rparr>) e = (Inr s, e')"
    using assms(2) unfolding hub_serves_def by blast
  have "established f P l (g\<lparr>el_Status := el_Status ?u\<rparr>) (w_trace w)"
    using u by (simp add: established_def ready_lease_def ConditionTrue_lease_def)
  then show "case run_state (patchStatusIfChanged P ?u before) w of (_, w) \<Rightarrow> announced f P l (w_trace w)"
    using changed g s
    by (auto simp: patchStatusIfChanged_def Let_def act_def RetryLease_Inr [OF assms(1)] announced_def)
qed

lemma reconcileActive_provisions:
  assumes "hub_serves P" "reads_namespace f P" "f [] = []" "cluster_accepts P" "conditions_lib (pf_lib P)"
    and "\<And>e. \<exists>xs e'. api_ListLeases (pf_hub P) None e = (Inr xs, e')" and "placed_locally l pol"
    and "ValidateNamespaceSpec (sp_Namespace (el_Spec l)) = None" "st_Namespace (el_Status l) = []"
  shows "triple no_local_outage (reconcileActive P R l ph res pol) (establishes f P l)"
proof -
  have gate: "with_gate R (ses_Name local_session) m = m" for m :: "('w, 'b) prog"
    by (simp add: with_gate_def gated_def local_session_def LocalClusterName_def)
  have on: "triple (\<lambda>_. True) (provision_on P R local_session (set_cluster c l) wr ph res) (establishes f P l)" for c wr
  proof -
    have "same_lease l (set_cluster c l)" by (simp add: same_lease_def set_cluster_def)
    then show ?thesis
      using environment_provisioned_on [OF assms(1-5), of "set_cluster c l" R wr ph res] assms(8,9)
      by (simp add: established_cong) (simp add: set_cluster_def)
  qed
  show ?thesis
    unfolding reconcileActive_def Let_def
  proof (rule triple_bind [OF places_locally [OF assms(7,6)]], rule triple_pre, assumption, elim exE, goal_cases)
    case (1 a c)
    show ?case
      unfolding 1 prod.case session_outcome.case gate by (rule triple_conseq [OF on]) simp_all
  qed
qed

text \<open>The status of a lease provisioned just now is written at the end of the reconcile.\<close>

lemma active_written:
  assumes "retry_lib P" "hub_serves P" "shows_up f before"
    and active: "triple no_local_outage (reconcileActive P R l' ph r pol) (establishes f P l)"
  shows "triple no_local_outage (State_Monad.bind (reconcileActive P R l' ph r pol) (\<lambda>(x, l).
      State_Monad.bind (patchStatusIfChanged P (EnsureObservedGeneration l) before)
        (\<lambda>p. State_Monad.return (case p of Inl perr \<Rightarrow> Inl perr | Inr _ \<Rightarrow> x))))
    (\<lambda>_. logged (announced f P l))"
proof (rule triple_bind [OF active], goal_cases)
  case (1 a)
  obtain x u where a: "a = (x, u)" by fastforce
  show ?case
    unfolding a prod.case
    by (rule triple_conseq [OF triple_bind [OF ready_written [OF assms(1-3)] triple_return]]) auto
qed

lemma fresh_lease_reconciled:
  assumes "retry_lib P" and "finalizers_lib (pf_lib P)" and "conditions_lib (pf_lib P)"
    and "hub_serves P" and "reads_namespace f P" and "f [] = []" and "cluster_accepts P"
    and "\<And>e. \<exists>xs e'. api_ListLeases (pf_hub P) None e = (Inr xs, e')"
    and "api_GetLease (pf_hub P) name (w_env w) = (Inr l, e)"
    and "admissible P l pol r" and "placed_locally l pol" and "st_Namespace (el_Status l) = []"
    and "\<And>t n. clock_reads P t \<Longrightarrow> clock_reads P n \<Longrightarrow> n < lease_deadline l r t"
    and "no_local_outage w" and "shows_up f (el_Status l)"
  shows "announced f P l (w_trace (snd (run_state (Reconcile P R name) w)))"
proof -
  have "triple no_local_outage (reconcile_found P R l) (\<lambda>_. logged (announced f P l))"
  proof (rule reaches_live [OF assms(2,10) steady_no_local_outage steady_no_local_outage])
    fix t l1 t2 assume t: "clock_reads P t" "timed l r t l1"
    let ?l = "SyncExpirationStatus l1 (re_IdleTTL r) t2"
    have l: "el_Spec ?l = el_Spec l" "el_Meta ?l = el_Meta l" "st_Namespace (el_Status ?l) = []"
      "sticky_cluster ?l = sticky_cluster l"
      using t(2) assms(12) by (simp_all add: timed_def sticky_cluster_def)
    have spec: "ValidateNamespaceSpec (sp_Namespace (el_Spec ?l)) = None"
      using assms(10) unfolding l by (auto simp: admissible_def ValidateSpec_def split: option.splits)
    have placed: "placed_locally ?l pol" using assms(11) unfolding placed_locally_def needs_placement_def l .
    have cong: "established f P ?l = established f P l" by (rule established_cong) (use l(1,2) in \<open>simp add: same_lease_def\<close>)
    have "re_TTL r \<le> re_MaxTTL r" using Resolve_Inr(3) assms(10) unfolding admissible_def by blast
    then have early: "\<not> IsExpired ?l n" if "clock_reads P n" for n
      using IsExpired_timed [OF t(2)] assms(13) t(1) that by (simp add: not_le)
    note active = reconcileActive_provisions [OF assms(4-7,3,8) placed spec l(3), unfolded cong]
    have "shows_up f (DeepCopyStatus (el_Status l))" using assms(15) by (simp add: DeepCopyStatus_def)
    note written = active_written [OF assms(1,4) this active]
    show "triple no_local_outage (reconcile_live P R ?l (DeepCopyStatus (el_Status l)) (st_Phase (el_Status l))
        (st_ExpiresAt (el_Status l)) r pol) (\<lambda>_. logged (announced f P l))"
      unfolding reconcile_live_def
      by (rule triple_carry [OF returns_any _ steady_no_local_outage], (intro carries_rules)[1],
          rule triple_carry [OF returns_now carries_reads(2) steady_no_local_outage])
         (simp only: early if_False written)
  qed
  then show ?thesis
    using tripleD [OF _ _ prod.collapse [symmetric], of _ _ _ "w\<lparr>w_env := e\<rparr>"] assms(14)
    by (fastforce simp: run_Reconcile [OF assms(9)] no_local_outage_def)
qed

text \<open>
  C5. A fresh lease gets its environment. For a live lease with a valid spec, before its deadline, without a recorded
  namespace and without a placement, on a platform that serves it (writes are accepted, an accepted status write
  is read back, the namespace is free), one reconcile asks the control cluster to create a namespace with the lease's
  marks, and its last effect is a status write that is ready (phase Active or Expiring, the condition Ready) and
  records exactly the name of the namespace that the cluster answered with: the requested one where the spec asks for
  one, the generated one otherwise.
\<close>

theorem fresh_lease_is_provisioned:
  assumes "retry_lib P" and "finalizers_lib (pf_lib P)" and "conditions_lib (pf_lib P)"
    and "hub_serves P" and "reads_back P" and "cluster_accepts P"
    and "\<And>e. \<exists>xs e'. api_ListLeases (pf_hub P) None e = (Inr xs, e')"
    and "api_GetLease (pf_hub P) name (w_env w) = (Inr l, e)"
    and "admissible P l pol r" and "placed_locally l pol" and "st_Namespace (el_Status l) = []"
    and "\<And>t n. clock_reads P t \<Longrightarrow> clock_reads P n \<Longrightarrow> n < lease_deadline l r t"
    and "no_local_outage w"
  shows "\<exists>es u n. w_trace (snd (run_state (Reconcile P R name) w)) = es @ [StatusUpdateLease u]
     \<and> environment_created P l n es \<and> ready_lease P u \<and> st_Namespace (el_Status u) = n"
proof -
  have "shows_up (\<lambda>n. n) (el_Status l)" using assms(11) by (simp add: shows_up_def)
  from fresh_lease_reconciled [OF assms(1-4) reads_back_namespace [OF assms(5)] refl assms(6-13) this]
  show ?thesis unfolding announced_def established_def by blast
qed

text \<open>
  C35. A read that lags loses the environment. On a platform like the one above, except that the read after a status
  write returns the lease from before (without the namespace, from a cache that has not seen the write), the
  reconcile of a fresh lease that is not yet Active creates a namespace all the same, and the last status it writes
  is ready and records no namespace.
\<close>

theorem lagging_cache_forgets_namespace:
  assumes "retry_lib P" and "finalizers_lib (pf_lib P)" and "conditions_lib (pf_lib P)"
    and "hub_serves P" and "reads_namespace (\<lambda>_. []) P" and "cluster_accepts P"
    and "\<And>e. \<exists>xs e'. api_ListLeases (pf_hub P) None e = (Inr xs, e')"
    and "api_GetLease (pf_hub P) name (w_env w) = (Inr l, e)"
    and "admissible P l pol r" and "placed_locally l pol" and "st_Namespace (el_Status l) = []"
    and "\<And>t n. clock_reads P t \<Longrightarrow> clock_reads P n \<Longrightarrow> n < lease_deadline l r t"
    and "no_local_outage w"
    and "st_Phase (el_Status l) \<noteq> LeasePhaseActive" and "st_Phase (el_Status l) \<noteq> LeasePhaseExpiring"
  shows "\<exists>es u n. w_trace (snd (run_state (Reconcile P R name) w)) = es @ [StatusUpdateLease u]
     \<and> environment_created P l n es \<and> ready_lease P u \<and> st_Namespace (el_Status u) = []"
proof -
  have "shows_up (\<lambda>_. []) (el_Status l)" using assms(14,15) by (simp add: shows_up_def)
  from fresh_lease_reconciled [OF assms(1-5) refl assms(6-13) this]
  show ?thesis unfolding announced_def established_def by blast
qed

section \<open>Witness\<close>

text \<open>A control cluster that stores one lease, and a cluster without namespaces.\<close>

definition stored :: "EnvironmentLease \<Rightarrow> EnvironmentLease" where
  "stored l = (if FinalizerName \<in> set (om_Finalizers (el_Meta l)) then l
     else l\<lparr>el_Meta := (el_Meta l)\<lparr>om_Finalizers := [FinalizerName]\<rparr>\<rparr>)"

definition fresh_platform :: "EnvironmentLease platform" where
  "fresh_platform = (platform_with (empty_hub\<lparr>api_GetLease := (\<lambda>n e. (Inr (stored e), e)),
       api_StatusUpdateLease := (\<lambda>u e. (Inr u, u))\<rparr>))\<lparr>
     pf_cluster := empty_cluster\<lparr>api_CreateNamespace := (\<lambda>c ns e.
       (Inr (if ns_Name ns = [] then ns\<lparr>ns_Meta := (ns_Meta ns)\<lparr>om_Name := ''env-1''\<rparr>\<rparr> else ns), e))\<rparr>\<rparr>"

definition fresh_lease :: EnvironmentLease where
  "fresh_lease = demo_lease\<lparr>
     el_Meta := (el_Meta demo_lease)\<lparr>om_Finalizers := [FinalizerName]\<rparr>,
     el_Spec := zero_lease_spec\<lparr>sp_TTL := Some 100,
       sp_Namespace := zero_namespace_spec\<lparr>nss_GenerateName := ''env-''\<rparr>\<rparr>,
     el_Status := zero_lease_status\<rparr>"

definition fresh_resolved :: Resolved where
  "fresh_resolved = \<lparr>re_PolicyName = [], re_TTL = 100, re_MaxTTL = 100, re_IdleTTL = 0, re_Renewable = True,
     re_Quota = None, re_NetworkPolicy = None, re_DefaultDeny = False\<rparr>"

lemma fresh_platform_laws:
  "retry_lib fresh_platform" "finalizers_lib (pf_lib fresh_platform)" "conditions_lib (pf_lib fresh_platform)"
  "hub_serves fresh_platform" "reads_back fresh_platform" "cluster_accepts fresh_platform"
proof -
  show "retry_lib fresh_platform"
    using platform_with_retry by (simp add: retry_lib_def fresh_platform_def)
  show "finalizers_lib (pf_lib fresh_platform)" "conditions_lib (pf_lib fresh_platform)"
    using demo_lib_laws by (simp_all add: fresh_platform_def)
  show "hub_serves fresh_platform" "reads_back fresh_platform"
    by (auto simp: hub_serves_def reads_back_def fresh_platform_def empty_hub_def stored_def)
  show "cluster_accepts fresh_platform"
    by (auto simp: cluster_accepts_def absent_or_def accepting_def fresh_platform_def empty_cluster_def
        IsNotFound_def demo_lib_def)
qed

lemma fresh_lease_admissible: "admissible P fresh_lease None fresh_resolved"
proof -
  have "ValidateSpec fresh_lease = None" by code_simp
  moreover have "Resolve (el_Spec fresh_lease) None = Inr fresh_resolved"
    by (simp add: resolve_defs fresh_resolved_def fresh_lease_def zero_defs Let_def)
  ultimately show ?thesis
    by (simp add: admissible_def policy_served_def fresh_lease_def demo_lease_def zero_defs ref_name_def)
qed

lemmas fresh_defs = fresh_platform_def empty_hub_def stored_def placed_locally_def needs_placement_def
  policyPlacement_def sticky_cluster_def ref_name_def clock_reads_def lease_deadline_def hard_deadline_def
  lease_created_def fresh_resolved_def fresh_lease_def demo_lease_def zero_defs world_of_def no_local_outage_def

text \<open>The recorded name is the one the cluster generated.\<close>

theorem fresh_lease_is_provisioned_witness:
  "\<exists>es u. w_trace (snd (run_state (Reconcile fresh_platform demo_reconciler ''demo'') (world_of fresh_lease)))
       = es @ [StatusUpdateLease u]
     \<and> environment_created fresh_platform fresh_lease (st_Namespace (el_Status u)) es \<and> ready_lease fresh_platform u"
proof -
  have "\<exists>es u n. w_trace (snd (run_state (Reconcile fresh_platform demo_reconciler ''demo'') (world_of fresh_lease)))
         = es @ [StatusUpdateLease u]
       \<and> environment_created fresh_platform fresh_lease n es \<and> ready_lease fresh_platform u \<and> st_Namespace (el_Status u) = n"
    by (rule fresh_lease_is_provisioned [OF fresh_platform_laws, where pol = None and r = fresh_resolved and e = fresh_lease])
       (use fresh_lease_admissible in \<open>auto simp: fresh_defs\<close>)
  then show ?thesis by blast
qed

text \<open>The same platform with a cache that does not follow during the reconcile.\<close>

definition stale_platform :: "EnvironmentLease platform" where
  "stale_platform = fresh_platform\<lparr>pf_hub := (pf_hub fresh_platform)\<lparr>api_StatusUpdateLease := (\<lambda>u e. (Inr u,
     u\<lparr>el_Status := (el_Status u)\<lparr>st_Namespace := []\<rparr>\<rparr>))\<rparr>\<rparr>"

lemma stale_platform_laws:
  "retry_lib stale_platform" "finalizers_lib (pf_lib stale_platform)" "conditions_lib (pf_lib stale_platform)"
  "hub_serves stale_platform" "reads_namespace (\<lambda>_. []) stale_platform" "cluster_accepts stale_platform"
proof -
  show "retry_lib stale_platform" "finalizers_lib (pf_lib stale_platform)" "conditions_lib (pf_lib stale_platform)"
    "cluster_accepts stale_platform"
    using fresh_platform_laws by (simp_all add: stale_platform_def retry_lib_def cluster_accepts_def)
  show "hub_serves stale_platform" "reads_namespace (\<lambda>_. []) stale_platform"
    by (auto simp: hub_serves_def reads_namespace_def stale_platform_def fresh_platform_def empty_hub_def stored_def)
qed

theorem lagging_cache_forgets_namespace_witness:
  "\<exists>es u n. w_trace (snd (run_state (Reconcile stale_platform demo_reconciler ''demo'') (world_of fresh_lease)))
       = es @ [StatusUpdateLease u]
     \<and> environment_created stale_platform fresh_lease n es \<and> ready_lease stale_platform u \<and> st_Namespace (el_Status u) = []"
  by (rule lagging_cache_forgets_namespace [OF stale_platform_laws, where pol = None and r = fresh_resolved and e = fresh_lease])
     (use fresh_lease_admissible in \<open>auto simp: stale_platform_def fresh_defs\<close>)

section \<open>A lagging cache\<close>

text \<open>
  The manager's client reads leases from a cache that follows the API server with a delay. The environment
  below has the stored lease, the cached copy and, for each read to come, whether the cache has caught up by
  then; a write with an old resource version is a conflict, and \<open>RetryOnConflict\<close> tries five times.
\<close>

record lagging =
  lag_stored :: EnvironmentLease
  lag_cached :: EnvironmentLease
  lag_fresh :: "bool list"

definition lag_read :: "lagging \<Rightarrow> (go_error + EnvironmentLease) \<times> lagging" where
  "lag_read e = (case lag_fresh e of
     [] \<Rightarrow> (Inr (lag_stored e), e)
   | b # bs \<Rightarrow> let c = (if b then lag_stored e else lag_cached e)
              in (Inr c, e\<lparr>lag_cached := c, lag_fresh := bs\<rparr>))"

definition lag_status_update :: "EnvironmentLease \<Rightarrow> lagging \<Rightarrow> (go_error + EnvironmentLease) \<times> lagging" where
  "lag_status_update u e =
     (let s = lag_stored e; rv = om_ResourceVersion (el_Meta s)
      in if om_ResourceVersion (el_Meta u) \<noteq> rv then (Inl (ApiError Conflict ''the object has been modified''), e)
         else let s = s\<lparr>el_Status := el_Status u, el_Meta := (el_Meta s)\<lparr>om_ResourceVersion := rv @ ''i''\<rparr>\<rparr>
              in (Inr s, e\<lparr>lag_stored := s\<rparr>))"

fun retry_times :: "nat \<Rightarrow> ('w, go_error + 'a) prog \<Rightarrow> ('w, go_error + 'a) prog" where
  "retry_times 0 fn = fn"
| "retry_times (Suc n) fn = do {
     r \<leftarrow> fn;
     (case r of Inl err \<Rightarrow> if IsConflict err then retry_times n fn else State_Monad.return r
      | Inr _ \<Rightarrow> State_Monad.return r) }"

lemma attempts_retry_times: "attempts fn w (run_state (retry_times n fn) w)"
proof (induction n arbitrary: w)
  case 0
  then show ?case by (simp add: attempts.last_attempt)
next
  case (Suc n)
  obtain r w' where r: "run_state fn w = (r, w')" by fastforce
  show ?case
  proof (cases "\<exists>err. r = Inl err \<and> IsConflict err")
    case True
    then obtain err where "r = Inl err" "IsConflict err" by blast
    then show ?thesis using r Suc.IH [of w'] by (auto intro: attempts.again)
  next
    case False
    then have "run_state (retry_times (Suc n) fn) w = run_state fn w" using r by (cases r) auto
    then show ?thesis by (simp only: attempts.last_attempt)
  qed
qed

definition lagging_platform :: "lagging platform" where
  "lagging_platform = (platform_with (empty_hub\<lparr>api_GetLease := (\<lambda>n. lag_read),
       api_StatusUpdateLease := lag_status_update\<rparr>))\<lparr>
     pf_cluster := empty_cluster\<lparr>api_CreateNamespace := (\<lambda>c ns e.
       (Inr (ns\<lparr>ns_Meta := (ns_Meta ns)\<lparr>om_Name := ''env-1''\<rparr>\<rparr>), e))\<rparr>,
     lib_RetryLease := retry_times 4, lib_RetryTarget := retry_times 4, lib_RetryAction := retry_times 4\<rparr>"

definition lagging_run :: "bool list \<Rightarrow> (go_error + Result) \<times> lagging world" where
  "lagging_run fresh = run_state (Reconcile lagging_platform demo_reconciler ''demo'')
     (world_of \<lparr>lag_stored = fresh_lease, lag_cached = fresh_lease, lag_fresh = fresh\<rparr>)"

text \<open>
  The same with conflicts and retries, on the lease above. On a cluster that accepts every write with the current
  version, with \<open>RetryOnConflict\<close> as documented, consider the reconcile of a fresh lease with a generated name.
  When only the read right after \<open>persist status.namespace\<close> is stale, it creates the namespace, returns no
  error, and leaves a stored lease that is Active and records no namespace.
\<close>

theorem lagging_run_forgets_namespace:
  "retry_lib lagging_platform
   \<and> (case lagging_run [True, True, False] of (r, w) \<Rightarrow> (case r of Inr _ \<Rightarrow> True | Inl _ \<Rightarrow> False)
      \<and> list_ex (\<lambda>x. case x of CreateNamespace HubClient _ \<Rightarrow> True | _ \<Rightarrow> False) (w_trace w)
      \<and> st_Phase (el_Status (lag_stored (w_env w))) = LeasePhaseActive
      \<and> st_Namespace (el_Status (lag_stored (w_env w))) = [])"
proof (intro conjI)
  show "retry_lib lagging_platform"
    by (simp add: retry_lib_def lagging_platform_def attempts_retry_times)
  show "case lagging_run [True, True, False] of (r, w) \<Rightarrow> (case r of Inr _ \<Rightarrow> True | Inl _ \<Rightarrow> False)
      \<and> list_ex (\<lambda>x. case x of CreateNamespace HubClient _ \<Rightarrow> True | _ \<Rightarrow> False) (w_trace w)
      \<and> st_Phase (el_Status (lag_stored (w_env w))) = LeasePhaseActive
      \<and> st_Namespace (el_Status (lag_stored (w_env w))) = []" by code_simp
qed

end
