(* ===== verification/Lease_System.thy ===== *)
theory Lease_System
  imports Lease_Lifecycle "HOL-Library.Sublist"
begin

text \<open>
  The reconciler and the API servers together. The other theories on the reconciler speak of the calls it makes; here
  the calls have the documented effect on a store with the lease and its namespace, a run interleaves reconciles with
  the completion of namespace deletions and the passing of time, and the question is what is left in the store.
  The store of an environment \<open>'w\<close> is what the function \<open>obs\<close> sees of it.
\<close>

section \<open>The store\<close>

record store =
  so_lease :: "EnvironmentLease option"
  so_namespace :: "Namespace option"

text \<open>
  Reads answer with what is stored. A write with the current resource version is accepted; it leaves a new
  version and perhaps a new generation. A status update changes the status only, an update everything else. An
  object that is being deleted is removed when its last finalizer goes, a deleted one without finalizers at once.
  A deleted namespace is terminating, or gone.
\<close>

definition found :: "'a option \<Rightarrow> go_error + 'a \<Rightarrow> bool" where
  "found x r \<longleftrightarrow> (case x of Some v \<Rightarrow> r = Inr v | None \<Rightarrow> (\<exists>err. r = Inl err \<and> IsNotFound err))"

definition reads_only :: "('w \<Rightarrow> store) \<Rightarrow> ('w \<Rightarrow> 'a \<times> 'w) \<Rightarrow> bool" where
  "reads_only obs f \<longleftrightarrow> (\<forall>e. obs (snd (f e)) = obs e)"

definition store_reads :: "'w platform \<Rightarrow> ('w \<Rightarrow> store) \<Rightarrow> string \<Rightarrow> string \<Rightarrow> bool" where
  "store_reads P obs name nsn \<longleftrightarrow>
     reads_only obs (api_Now (pf_hub P)) \<and> (\<forall>n. reads_only obs (api_GetPolicy (pf_hub P) n))
   \<and> reads_only obs (api_GetLease (pf_hub P) name)
   \<and> (\<forall>e. found (so_lease (obs e)) (fst (api_GetLease (pf_hub P) name e)))
   \<and> reads_only obs (api_GetNamespace (pf_cluster P) HubClient nsn)
   \<and> (\<forall>e. found (so_namespace (obs e)) (fst (api_GetNamespace (pf_cluster P) HubClient nsn e)))"

definition revised :: "EnvironmentLease \<Rightarrow> EnvironmentLease \<Rightarrow> bool" where
  "revised l l' \<longleftrightarrow> (\<exists>rv g. l' = l\<lparr>el_Meta := (el_Meta l)\<lparr>om_ResourceVersion := rv, om_Generation := g\<rparr>\<rparr>)"

definition settle :: "EnvironmentLease \<Rightarrow> EnvironmentLease option" where
  "settle l = (if \<not> ptr_is_zero (om_DeletionTimestamp (el_Meta l)) \<and> om_Finalizers (el_Meta l) = [] then None else Some l)"

definition deleted :: "Namespace \<Rightarrow> Namespace option \<Rightarrow> bool" where
  "deleted n m \<longleftrightarrow> (case m of None \<Rightarrow> True
     | Some n' \<Rightarrow> (\<exists>t rv. t \<noteq> zero_time \<and> n' = n\<lparr>ns_Meta := (ns_Meta n)\<lparr>om_DeletionTimestamp := Some t, om_ResourceVersion := rv\<rparr>\<rparr>))"

definition current :: "store \<Rightarrow> EnvironmentLease \<Rightarrow> EnvironmentLease \<Rightarrow> bool" where
  "current s l u \<longleftrightarrow> so_lease s = Some l \<and> el_Name u = el_Name l \<and> om_ResourceVersion (el_Meta u) = om_ResourceVersion (el_Meta l)"

definition store_writes :: "'w platform \<Rightarrow> ('w \<Rightarrow> store) \<Rightarrow> bool" where
  "store_writes P obs \<longleftrightarrow>
     (\<forall>e l u. current (obs e) l u \<longrightarrow> (\<exists>l' e'. api_StatusUpdateLease (pf_hub P) u e = (Inr l', e')
        \<and> revised (l\<lparr>el_Status := el_Status u\<rparr>) l' \<and> obs e' = (obs e)\<lparr>so_lease := Some l'\<rparr>))
   \<and> (\<forall>e l u. current (obs e) l u \<longrightarrow> (\<exists>l' e'. api_UpdateLease (pf_hub P) u e = (Inr l', e')
        \<and> revised (u\<lparr>el_Status := el_Status l\<rparr>) l' \<and> obs e' = (obs e)\<lparr>so_lease := settle l'\<rparr>))
   \<and> (\<forall>e l u. so_lease (obs e) = Some l \<longrightarrow> el_Name u = el_Name l \<longrightarrow> om_Finalizers (el_Meta l) = [] \<longrightarrow>
        (\<exists>e'. api_DeleteLease (pf_hub P) u e = (None, e') \<and> obs e' = (obs e)\<lparr>so_lease := None\<rparr>))
   \<and> (\<forall>e n u. so_namespace (obs e) = Some n \<longrightarrow> ns_Name u = ns_Name n \<longrightarrow>
        (\<exists>m e'. api_DeleteNamespace (pf_cluster P) HubClient u e = (None, e') \<and> deleted n m \<and> obs e' = (obs e)\<lparr>so_namespace := m\<rparr>))"

section \<open>Programs that only read\<close>

definition reading :: "('w \<Rightarrow> store) \<Rightarrow> ('w, 'a) prog \<Rightarrow> bool" where
  "reading obs m \<longleftrightarrow> (\<forall>w. obs (w_env (snd (run_state m w))) = obs (w_env w))"

named_theorems reading_rules \<open>programs that leave the store alone\<close>

lemma reading_return [reading_rules]: "reading obs (State_Monad.return a)"
  by (simp add: reading_def)

lemma reading_bind [reading_rules]: "reading obs m \<Longrightarrow> (\<And>a. reading obs (f a)) \<Longrightarrow> reading obs (State_Monad.bind m f)"
  by (simp add: reading_def case_prod_beta)

lemma reading_emit [reading_rules]: "reading obs (emit x)"
  by (simp add: reading_def)

lemma reading_call: "reads_only obs f \<Longrightarrow> reading obs (call f)"
  by (simp add: reading_def reads_only_def case_prod_beta)

lemma reading_if [reading_rules]: "reading obs m \<Longrightarrow> reading obs n \<Longrightarrow> reading obs (if b then m else n)"
  by simp

lemma reading_event [reading_rules]: "reading obs (event R et rs m)"
  unfolding event_def by (intro reading_rules)

lemma reading_now [reading_rules]: "store_reads P obs name nsn \<Longrightarrow> reading obs (now P)"
  by (simp add: now_def reading_call store_reads_def)

lemma reading_fetchPolicy: "store_reads P obs name nsn \<Longrightarrow> reading obs (fetchPolicy P l)"
  unfolding fetchPolicy_def Let_def by (intro reading_rules reading_call) (simp add: store_reads_def)

lemma reading_expiry_reason: "store_reads P obs name nsn \<Longrightarrow> reading obs (expiry_reason P l)"
  unfolding expiry_reason_def by (intro reading_rules)

lemma reading_announcements [reading_rules]: "reading obs (announce_expiry R x)" "reading obs (announce_delete R l)"
  unfolding announce_expiry_def announce_delete_def
  by (cases x; simp; intro reading_rules) (intro reading_rules)

lemma reading_renewal:
  "reading obs (case (pe, x) of
      (Some prev, Some e) \<Rightarrow>
        if prev < e \<and> ren then State_Monad.bind (emit (Inc ''RenewalsTotal''))
          (\<lambda>_. event R EventTypeNormal ''LeaseRenewed'' (''Lease renewed; new expiration '' @ rfc3339 e))
        else State_Monad.return ()
    | _ \<Rightarrow> State_Monad.return ())"
  by (cases pe; cases x) (simp_all add: reading_rules)

lemma readingD: "reading obs m \<Longrightarrow> run_state m w = (a, w') \<Longrightarrow> obs (w_env w') = obs (w_env w)"
  unfolding reading_def by (metis snd_conv)

lemma run_unit: "\<exists>w'. run_state (m :: ('w, unit) prog) w = ((), w')"
  by (cases "run_state m w") simp

lemma triple_reading: "reading obs m \<Longrightarrow> triple (\<lambda>w. obs (w_env w) = s) m (\<lambda>_ w. obs (w_env w) = s)"
  unfolding triple_def reading_def by (simp add: case_prod_beta)

section \<open>The parts of a cleanup\<close>

lemma stored_read:
  assumes "store_reads P obs name nsn" "so_lease (obs (w_env w)) = Some g"
  obtains e where "api_GetLease (pf_hub P) name (w_env w) = (Inr g, e)" "obs e = obs (w_env w)"
proof (rule that [OF prod_eqI])
  show "fst (api_GetLease (pf_hub P) name (w_env w)) = fst (Inr g, snd (api_GetLease (pf_hub P) name (w_env w)))"
    using assms by (auto simp: store_reads_def found_def split: option.splits)
  show "obs (snd (api_GetLease (pf_hub P) name (w_env w))) = obs (w_env w)"
    using assms(1) by (simp add: store_reads_def reads_only_def)
qed simp

lemma stored_namespace_read:
  assumes "store_reads P obs name nsn"
  obtains r e where "api_GetNamespace (pf_cluster P) HubClient nsn (w_env w) = (r, e)" "obs e = obs (w_env w)"
    "found (so_namespace (obs (w_env w))) r"
proof (rule that [OF prod.collapse [symmetric]])
  show "obs (snd (api_GetNamespace (pf_cluster P) HubClient nsn (w_env w))) = obs (w_env w)"
    using assms by (simp add: store_reads_def reads_only_def)
  show "found (so_namespace (obs (w_env w))) (fst (api_GetNamespace (pf_cluster P) HubClient nsn (w_env w)))"
    using assms by (simp add: store_reads_def)
qed

text \<open>The stored lease after a status write, if there was one.\<close>

definition restated :: "EnvironmentLease \<Rightarrow> EnvironmentLeaseStatus \<Rightarrow> EnvironmentLease \<Rightarrow> bool" where
  "restated g s g' \<longleftrightarrow> g' = g \<or> revised (g\<lparr>el_Status := s\<rparr>) g'"

lemma run_patch_store:
  assumes "retry_lib P" "store_reads P obs name nsn" "store_writes P obs"
    and "so_lease (obs (w_env w)) = Some g" "el_Name g = name" "el_Name l = name"
  obtains l' g' w' where "run_state (patchStatusIfChanged P l before) w = (Inr l', w')" "el_Meta l' = el_Meta l"
    "obs (w_env w') = (obs (w_env w))\<lparr>so_lease := Some g'\<rparr>" "restated g (el_Status l) g'"
proof (cases "StatusEqual before (el_Status l)")
  case True
  then show thesis
    using assms(4) by (intro that [of l w g]) (simp_all add: patchStatusIfChanged_def restated_def)
next
  case False
  obtain e where e: "api_GetLease (pf_hub P) name (w_env w) = (Inr g, e)" "obs e = obs (w_env w)"
    by (rule stored_read [OF assms(2,4)])
  let ?u = "g\<lparr>el_Status := el_Status l\<rparr>"
  have "current (obs e) g ?u" using assms(4) e(2) by (simp add: current_def)
  then obtain g' e' where s: "api_StatusUpdateLease (pf_hub P) ?u e = (Inr g', e')" "revised (g\<lparr>el_Status := el_Status ?u\<rparr>) g'"
    "obs e' = (obs e)\<lparr>so_lease := Some g'\<rparr>" using assms(3) unfolding store_writes_def by blast
  have "run_state (patchStatusIfChanged P l before) w = (Inr (l\<lparr>el_Status := el_Status g'\<rparr>),
      w\<lparr>w_env := e', w_trace := w_trace w @ [StatusUpdateLease ?u]\<rparr>)"
    using False e(1) s(1) assms(5,6) by (simp add: patchStatusIfChanged_def Let_def act_def RetryLease_Inr [OF assms(1)])
  from that [OF this, of g'] show thesis using s e(2) by (simp add: restated_def)
qed

lemma run_remove_finalizer_store:
  assumes "retry_lib P" "finalizers_lib (pf_lib P)" "store_reads P obs name nsn" "store_writes P obs"
    and "so_lease (obs (w_env w)) = Some g" "el_Name g = name" "set (om_Finalizers (el_Meta g)) = {FinalizerName}" "el_Name l = name"
  obtains g' w' where "run_state (removeLeaseFinalizer P l) w = (Inr l, w')"
    "obs (w_env w') = (obs (w_env w))\<lparr>so_lease := settle g'\<rparr>" "om_Finalizers (el_Meta g') = []" "el_Name g' = name"
    "om_DeletionTimestamp (el_Meta g') = om_DeletionTimestamp (el_Meta g)"
proof -
  obtain e where e: "api_GetLease (pf_hub P) name (w_env w) = (Inr g, e)" "obs e = obs (w_env w)"
    by (rule stored_read [OF assms(3,5)])
  let ?u = "g\<lparr>el_Meta := (el_Meta g)\<lparr>om_Finalizers := RemoveFinalizer (pf_lib P) (om_Finalizers (el_Meta g)) FinalizerName\<rparr>\<rparr>"
  have lib: "ContainsFinalizer (pf_lib P) (om_Finalizers (el_Meta g)) FinalizerName" "om_Finalizers (el_Meta ?u) = []"
    using assms(2,7) by (simp_all add: finalizers_lib_def flip: set_empty)
  have "current (obs e) g ?u" using assms(5) e(2) by (simp add: current_def)
  then obtain g' e' where s: "api_UpdateLease (pf_hub P) ?u e = (Inr g', e')" "revised (?u\<lparr>el_Status := el_Status g\<rparr>) g'"
    "obs e' = (obs e)\<lparr>so_lease := settle g'\<rparr>" using assms(4) unfolding store_writes_def by blast
  have "run_state (removeLeaseFinalizer P l) w = (Inr l, w\<lparr>w_env := e', w_trace := w_trace w @ [UpdateLease ?u]\<rparr>)"
    using e(1) s(1) lib(1) assms(8) by (simp add: removeLeaseFinalizer_def Let_def act_def RetryLease_Inr [OF assms(1)])
  from that [OF this, of g'] show thesis using s(2,3) e(2) lib(2) assms(6) by (auto simp: revised_def)
qed

text \<open>What a cleanup leaves of the namespace, and whether it reports the environment gone.\<close>

definition clears :: "Namespace option \<Rightarrow> bool \<Rightarrow> Namespace option \<Rightarrow> bool" where
  "clears N b M \<longleftrightarrow> (case N of None \<Rightarrow> b \<and> M = None
     | Some n \<Rightarrow> \<not> b \<and> (if ptr_is_zero (om_DeletionTimestamp (ns_Meta n)) then deleted n M else M = N))"

definition owned_by :: "EnvironmentLease \<Rightarrow> string \<Rightarrow> Namespace option \<Rightarrow> bool" where
  "owned_by l ctl N \<longleftrightarrow> (\<forall>n. N = Some n \<longrightarrow> ns_owned n l ctl \<and> ns_Name n = st_Namespace (el_Status l))"

lemma run_cleanup_store:
  assumes "store_reads P obs name nsn" "store_writes P obs" "cleanable l" "st_Namespace (el_Status l) = nsn"
    and "owned_by l (rec_ControlClusterID R) (so_namespace (obs (w_env w)))"
  obtains b M w' where "run_state (cleanupEnvironment P R l) w = ((Inr b, l), w')"
    "obs (w_env w') = (obs (w_env w))\<lparr>so_namespace := M\<rparr>" "clears (so_namespace (obs (w_env w))) b M"
proof -
  note run = run_cleanup_local [OF assms(3), unfolded assms(4)]
  obtain r e where r: "api_GetNamespace (pf_cluster P) HubClient nsn (w_env w) = (r, e)" "obs e = obs (w_env w)"
    "found (so_namespace (obs (w_env w))) r" by (rule stored_namespace_read [OF assms(1)])
  show thesis
  proof (cases "so_namespace (obs (w_env w))")
    case None
    then obtain err where "r = Inl err" "IsNotFound err" using r(3) by (auto simp: found_def)
    then show thesis
      using r(1,2) None by (intro that [of True "w\<lparr>w_env := e\<rparr>" None])
        (simp_all add: run run_delete_gone clears_def)
  next
    case (Some n)
    then have n: "r = Inr n" "ns_owned n l (rec_ControlClusterID R)" using r(3) assms(5) by (simp_all add: found_def owned_by_def)
    have own: "VerifyNamespaceOwnership (Some n) l (rec_ControlClusterID R) = None"
      using n(2) by (simp add: VerifyNamespaceOwnership_None_iff)
    show thesis
    proof (cases "ptr_is_zero (om_DeletionTimestamp (ns_Meta n))")
      case True
      obtain M e' where d: "api_DeleteNamespace (pf_cluster P) HubClient n e = (None, e')" "deleted n M"
        "obs e' = (obs e)\<lparr>so_namespace := M\<rparr>" using assms(2) Some r(2) unfolding store_writes_def by metis
      from that [OF trans [OF run run_delete_present [OF r(1) [unfolded n(1)] n(2) True d(1)]], of M] show thesis
        using d(2,3) Some True r(2) by (simp add: clears_def)
    next
      case False
      then show thesis
        using r(1,2) n(1) own Some by (intro that [of False "w\<lparr>w_env := e\<rparr>" "Some n"])
          (simp_all add: run delete_owned_namespace_def local_session_def observeClusterOp_def clears_def)
    qed
  qed
qed

section \<open>The handlers\<close>

lemma restated_meta:
  assumes "restated g s g'"
  shows "el_Name g' = el_Name g" "om_Finalizers (el_Meta g') = om_Finalizers (el_Meta g)"
    "om_DeletionTimestamp (el_Meta g') = om_DeletionTimestamp (el_Meta g)"
  using assms by (auto simp: restated_def revised_def)

text \<open>A stored lease that only this controller's finalizer holds.\<close>

definition held :: "string \<Rightarrow> EnvironmentLease \<Rightarrow> bool" where
  "held name g \<longleftrightarrow> el_Name g = name \<and> set (om_Finalizers (el_Meta g)) = {FinalizerName}"

lemma heldD: "held name g \<Longrightarrow> el_Name g = name" "held name g \<Longrightarrow> set (om_Finalizers (el_Meta g)) = {FinalizerName}"
  by (simp_all add: held_def)

lemma restated_held: "restated g s g' \<Longrightarrow> held name g' \<longleftrightarrow> held name g"
  by (simp add: held_def restated_meta)

text \<open>Both ways a lease ends: the last status, an event, the finalizer.\<close>

lemma run_release_store:
  assumes "retry_lib P" "finalizers_lib (pf_lib P)" "store_reads P obs name nsn" "store_writes P obs"
    and "so_lease (obs (w_env w)) = Some g" "held name g" "el_Name l = name"
    and ev: "\<And>w. \<exists>es. run_state ev w = ((), w\<lparr>w_trace := w_trace w @ es\<rparr>)"
  obtains l1 w1 w2 g' w' where "run_state (patchStatusIfChanged P l before) w = (Inr l1, w1)" "run_state ev w1 = ((), w2)"
    "run_state (removeLeaseFinalizer P l1) w2 = (Inr l1, w')" "el_Name l1 = name" "obs (w_env w') = (obs (w_env w))\<lparr>so_lease := settle g'\<rparr>" "om_Finalizers (el_Meta g') = []"
    "el_Name g' = name" "om_DeletionTimestamp (el_Meta g') = om_DeletionTimestamp (el_Meta g)"
proof -
  obtain l1 g1 w1 where 1: "run_state (patchStatusIfChanged P l before) w = (Inr l1, w1)" "el_Meta l1 = el_Meta l"
    "obs (w_env w1) = (obs (w_env w))\<lparr>so_lease := Some g1\<rparr>" "restated g (el_Status l) g1"
    by (rule run_patch_store [OF assms(1,3-5) heldD(1) [OF assms(6)] assms(7)])
  obtain es where 2: "run_state ev w1 = ((), w1\<lparr>w_trace := w_trace w1 @ es\<rparr>)" using ev by blast
  have g1: "held name g1" using assms(6) 1(4) by (simp add: restated_held)
  obtain g2 w2 where 3: "run_state (removeLeaseFinalizer P l1) (w1\<lparr>w_trace := w_trace w1 @ es\<rparr>) = (Inr l1, w2)"
    "obs (w_env w2) = (obs (w_env (w1\<lparr>w_trace := w_trace w1 @ es\<rparr>)))\<lparr>so_lease := settle g2\<rparr>" "om_Finalizers (el_Meta g2) = []"
    "el_Name g2 = name" "om_DeletionTimestamp (el_Meta g2) = om_DeletionTimestamp (el_Meta g1)"
    by (rule run_remove_finalizer_store [OF assms(1-4), of "w1\<lparr>w_trace := w_trace w1 @ es\<rparr>" g1 l1])
       (use 1(2,3) g1 assms(7) in \<open>simp_all add: held_def\<close>)
  from that [OF 1(1) 2 3(1)] show thesis using 1 3 assms(7) by (simp add: restated_meta)
qed

lemma run_finish_delete_store:
  assumes "retry_lib P" "finalizers_lib (pf_lib P)" "store_reads P obs name nsn" "store_writes P obs"
    and "so_lease (obs (w_env w)) = Some g" "held name g" "el_Name l = name" "\<not> ptr_is_zero (om_DeletionTimestamp (el_Meta g))"
  shows "obs (w_env (snd (run_state (finish_delete P R l before) w))) = (obs (w_env w))\<lparr>so_lease := None\<rparr>"
  by (rule run_release_store [OF assms(1-6) _ run_event [of R EventTypeNormal "''CleanupCompleted''" "''Cleanup completed''"],
        of "MarkCleanupComplete (pf_lib P) l" before])
     (use assms(7,8) in \<open>simp_all add: finish_delete_def settle_def\<close>)

lemma run_finish_expired_store:
  assumes "retry_lib P" "finalizers_lib (pf_lib P)" "store_reads P obs name nsn" "store_writes P obs"
    and "so_lease (obs (w_env w)) = Some g" "held name g" "el_Name l = name" "ptr_is_zero (om_DeletionTimestamp (el_Meta g))"
  shows "obs (w_env (snd (run_state (finish_expired P R l before b) w))) = (obs (w_env w))\<lparr>so_lease := None\<rparr>"
proof -
  have ev: "\<exists>es. run_state (if b then event R EventTypeNormal ''CleanupCompleted'' ''Cleanup completed'' else State_Monad.return ()) w
      = ((), w\<lparr>w_trace := w_trace w @ es\<rparr>)" for w
    using run_event [of R] by (cases b) (auto intro: exI [of _ "[]"])
  obtain l1 w1 w2 g3 w3 where r: "run_state (patchStatusIfChanged P (EnsureObservedGeneration (MarkCleanupComplete (pf_lib P) l)) before) w = (Inr l1, w1)"
    "run_state (if b then event R EventTypeNormal ''CleanupCompleted'' ''Cleanup completed'' else State_Monad.return ()) w1 = ((), w2)"
    "run_state (removeLeaseFinalizer P l1) w2 = (Inr l1, w3)"
    and g: "el_Name l1 = name" "obs (w_env w3) = (obs (w_env w))\<lparr>so_lease := settle g3\<rparr>" "om_Finalizers (el_Meta g3) = []"
    "el_Name g3 = name" "om_DeletionTimestamp (el_Meta g3) = om_DeletionTimestamp (el_Meta g)"
    by (rule run_release_store [OF assms(1-6) _ ev, of "EnsureObservedGeneration (MarkCleanupComplete (pf_lib P) l)" before])
       (use assms(7) in simp_all)
  have "so_lease (obs (w_env w3)) = Some g3" using g(2,5) assms(8) by (simp add: settle_def)
  then obtain e where "api_DeleteLease (pf_hub P) l1 (w_env w3) = (None, e)" "obs e = (obs (w_env w3))\<lparr>so_lease := None\<rparr>"
    using assms(4) g(1,3,4) unfolding store_writes_def by metis
  then show ?thesis using r g(2) by (simp add: finish_expired_def act_def)
qed

text \<open>
  What a reconcile of a lease \<open>l\<close> that is to go makes of the store: nothing is left when the namespace was gone;
  otherwise the deletion of the namespace is on its way and at most the status of the lease was rewritten, keeping
  what \<open>l\<close> records.
\<close>

definition same_record :: "EnvironmentLease \<Rightarrow> EnvironmentLeaseStatus \<Rightarrow> bool" where
  "same_record l s \<longleftrightarrow> st_Namespace s = st_Namespace (el_Status l) \<and> st_Cluster s = st_Cluster (el_Status l)
     \<and> st_CreatedAt s = st_CreatedAt (el_Status l) \<and> st_ExpiresAt s = st_ExpiresAt (el_Status l)
     \<and> st_LastActivityAt s = st_LastActivityAt (el_Status l)"

definition cleaned_store :: "EnvironmentLease \<Rightarrow> EnvironmentLease \<Rightarrow> store \<Rightarrow> store \<Rightarrow> bool" where
  "cleaned_store l g s s' \<longleftrightarrow>
     (if so_namespace s = None then s' = \<lparr>so_lease = None, so_namespace = None\<rparr>
      else \<exists>st g' M. same_record l st \<and> restated g st g' \<and> clears (so_namespace s) False M \<and> s' = \<lparr>so_lease = Some g', so_namespace = M\<rparr>)"

lemma owned_by_cong: "same_environment l l' \<Longrightarrow> owned_by l' ctl N \<longleftrightarrow> owned_by l ctl N"
  by (simp add: owned_by_def ns_owned_def same_environment_def recorded_identity_def)

text \<open>A cleanup that is not finished writes the status once and comes back.\<close>

lemma cleaned_waiting:
  assumes "retry_lib P" "store_reads P obs name nsn" "store_writes P obs"
    and "s = obs (w_env w0)" "so_lease s = Some g" "held name g" "same_record l (el_Status l2)" "el_Name l2 = name"
    and "obs (w_env w) = s\<lparr>so_namespace := M\<rparr>" "clears (so_namespace s) False M"
  shows "cleaned_store l g s (obs (w_env (snd (run_state (State_Monad.bind (patchStatusIfChanged P l2 before)
      (\<lambda>p. State_Monad.return (map_sum id f p))) w))))"
proof -
  obtain l3 g' w' where "run_state (patchStatusIfChanged P l2 before) w = (Inr l3, w')"
    "obs (w_env w') = (obs (w_env w))\<lparr>so_lease := Some g'\<rparr>" "restated g (el_Status l2) g'"
    by (rule run_patch_store [OF assms(1-3) _ heldD(1) [OF assms(6)] assms(8), of w before]) (use assms(5,9) in auto)
  moreover have "so_namespace s \<noteq> None" using assms(10) by (cases "so_namespace s") (simp_all add: clears_def)
  ultimately show ?thesis using assms(7,9,10) unfolding cleaned_store_def by (cases s) auto
qed

lemma reconcileExpired_store:
  assumes "retry_lib P" "finalizers_lib (pf_lib P)" "store_reads P obs name nsn" "store_writes P obs"
    and "so_lease (obs (w_env w)) = Some g" "held name g" "ptr_is_zero (om_DeletionTimestamp (el_Meta g))"
    and "cleanable l" "st_Namespace (el_Status l) = nsn" "el_Name l = name"
    and "owned_by l (rec_ControlClusterID R) (so_namespace (obs (w_env w)))"
  shows "cleaned_store l g (obs (w_env w)) (obs (w_env (snd (run_state (reconcileExpired P R l before ph) w))))"
proof -
  let ?first = "ph \<noteq> LeasePhaseExpired \<and> ph \<noteq> LeasePhaseCleaning \<and> ph \<noteq> LeasePhaseExpiring"
  obtain rs w1 where 1: "run_state (expiry_reason P l) w = (rs, w1)" by fastforce
  obtain w2 where 2: "run_state (if ?first then announce_expiry R rs else State_Monad.return ()) w1 = ((), w2)"
    using run_unit by blast
  have obs: "obs (w_env w2) = obs (w_env w)"
    using readingD [OF reading_expiry_reason [OF assms(3)] 1] readingD [OF _ 2, of obs] by (simp add: reading_rules)
  let ?l = "MarkExpired (pf_lib P) l rs"
  have env: "same_environment l ?l" by (simp add: same_environment_def)
  obtain b M w3 where 3: "run_state (cleanupEnvironment P R ?l) w2 = ((Inr b, ?l), w3)"
    "obs (w_env w3) = (obs (w_env w2))\<lparr>so_namespace := M\<rparr>" "clears (so_namespace (obs (w_env w2))) b M"
    by (rule run_cleanup_store [OF assms(3,4), of ?l R w2])
       (use assms(8,9,11) same_environmentD(1) [OF env] owned_by_cong [OF env] obs in simp_all)
  have run: "run_state (reconcileExpired P R l before ph) w = run_state (if \<not> b then State_Monad.bind (patchStatusIfChanged P
      (EnsureObservedGeneration (MarkCleaning (pf_lib P) ?l ''Waiting for namespace deletion'')) before)
        (\<lambda>p. State_Monad.return (map_sum id (\<lambda>_. requeue_after cleanupRequeueAfter) p))
      else finish_expired P R ?l before ?first) w3"
    using 1 2 3(1) by (simp add: reconcileExpired_def Let_def)
  show ?thesis
  proof (cases b)
    case True
    then have "so_namespace (obs (w_env w)) = None" "M = None" using 3(3) obs by (auto simp: clears_def split: option.splits)
    then show ?thesis
      using run_finish_expired_store [OF assms(1-4) _ assms(6), of w3 ?l R before ?first] assms(5,7,10) 3(2) obs True
      by (simp add: run cleaned_store_def)
  next
    case False
    then show ?thesis
      unfolding run if_P [OF False]
      by (intro cleaned_waiting [OF assms(1,3,4) refl assms(5,6), where M = M])
         (use 3(2,3) obs assms(10) in \<open>simp_all add: same_record_def\<close>)
  qed
qed

lemma reconcileDelete_store:
  assumes "retry_lib P" "finalizers_lib (pf_lib P)" "store_reads P obs name nsn" "store_writes P obs"
    and "so_lease (obs (w_env w)) = Some l" "held name l" "\<not> ptr_is_zero (om_DeletionTimestamp (el_Meta l))"
    and "cleanable l" "st_Namespace (el_Status l) = nsn"
    and "owned_by l (rec_ControlClusterID R) (so_namespace (obs (w_env w)))"
  shows "cleaned_store l l (obs (w_env w)) (obs (w_env (snd (run_state (reconcileDelete P R l) w))))"
proof -
  let ?first = "st_Phase (el_Status l) \<noteq> LeasePhaseCleaning \<and> st_Phase (el_Status l) \<noteq> LeasePhaseExpired"
  let ?l = "MarkCleaning (pf_lib P) (deletion_reason l) ''Deleting managed environment''"
  let ?before = "DeepCopyStatus (el_Status l)"
  have fin: "ContainsFinalizer (pf_lib P) (om_Finalizers (el_Meta l)) FinalizerName"
    using assms(2,6) by (simp add: finalizers_lib_def held_def)
  obtain w2 where 2: "run_state (if ?first then announce_delete R (deletion_reason l) else State_Monad.return ()) w = ((), w2)"
    using run_unit by blast
  have obs: "obs (w_env w2) = obs (w_env w)" using readingD [OF _ 2, of obs] by (simp add: reading_rules)
  have rec: "same_record l (el_Status ?l)" "same_environment l ?l" "el_Name ?l = name"
    using heldD(1) [OF assms(6)] by (simp_all add: same_record_def same_environment_def deletion_reason_def)
  obtain b M w3 where 3: "run_state (cleanupEnvironment P R ?l) w2 = ((Inr b, ?l), w3)"
    "obs (w_env w3) = (obs (w_env w2))\<lparr>so_namespace := M\<rparr>" "clears (so_namespace (obs (w_env w2))) b M"
    by (rule run_cleanup_store [OF assms(3,4), of ?l R w2])
       (use assms(8-10) same_environmentD(1) [OF rec(2)] owned_by_cong [OF rec(2)] obs rec(1) in \<open>simp_all add: same_record_def\<close>)
  have run: "run_state (reconcileDelete P R l) w = run_state (after_cleanup P R ?before (Inr b, ?l)) w3"
    using 2 3(1) fin by (simp add: reconcileDelete_def Let_def after_cleanup_def)
  show ?thesis
  proof (cases b)
    case True
    then have "so_namespace (obs (w_env w)) = None" "M = None" using 3(3) obs by (auto simp: clears_def split: option.splits)
    then show ?thesis
      using run_finish_delete_store [OF assms(1-4) _ assms(6), of w3 ?l R ?before] assms(5,7) rec(3) 3(2) obs True
      by (simp add: run after_cleanup_def cleaned_store_def)
  next
    case False
    have "run_state (after_cleanup P R ?before (Inr b, ?l)) w3 = run_state (State_Monad.bind (patchStatusIfChanged P ?l ?before)
        (\<lambda>p. State_Monad.return (map_sum id (\<lambda>_. requeue_after cleanupRequeueAfter) p))) w3"
      using False by (simp add: after_cleanup_def)
    then show ?thesis
      unfolding run using cleaned_waiting [OF assms(1,3,4) refl assms(5,6) rec(1,3), of w3 M] 3(2,3) obs False by simp
  qed
qed

section \<open>A lease that is to go\<close>

text \<open>
  Condemned: the lease is being deleted, or every reading of the clock is past its deadline; its environment is on the
  control cluster, and the controller's finalizer is the only one.
\<close>

definition overdue :: "'w platform \<Rightarrow> EnvironmentLease \<Rightarrow> bool" where
  "overdue P l \<longleftrightarrow> (\<exists>pol r. admissible P l pol r
     \<and> (\<forall>t n. clock_reads P t \<longrightarrow> clock_reads P n \<longrightarrow> lease_deadline l r t \<le> n))"

definition condemned :: "'w platform \<Rightarrow> string \<Rightarrow> string \<Rightarrow> EnvironmentLease \<Rightarrow> bool" where
  "condemned P name nsn l \<longleftrightarrow> held name l \<and> cleanable l \<and> st_Namespace (el_Status l) = nsn
     \<and> (\<not> ptr_is_zero (om_DeletionTimestamp (el_Meta l)) \<or> overdue P l)"

lemma lease_deadline_recorded:
  assumes "timed l r t l1" "same_record (SyncExpirationStatus l1 (re_IdleTTL r) t2) (el_Status l')"
  shows "lease_deadline l' r t' = lease_deadline l r t"
proof -
  have s: "st_CreatedAt (el_Status l') = Some (lease_created l t)"
    "st_ExpiresAt (el_Status l') = Some (hard_deadline l (re_TTL r) (re_Renewable r) t)"
    "st_LastActivityAt (el_Status l') = Some (case st_LastActivityAt (el_Status l) of Some a \<Rightarrow> a | None \<Rightarrow> lease_created l t)"
    using assms by (auto simp: same_record_def timed_def SyncExpirationStatus_def Let_def split: option.splits)
  have "lease_created l' t' = lease_created l t" by (simp add: lease_created_def s)
  moreover have "hard_deadline l' (re_TTL r) (re_Renewable r) t' = hard_deadline l (re_TTL r) (re_Renewable r) t"
    using calculation hard_deadline_le [of l "re_TTL r" "re_Renewable r" t]
    by (auto simp: hard_deadline_def [of l'] s min_def) (auto simp: hard_deadline_def split: option.splits)
  ultimately show ?thesis by (simp add: lease_deadline_def s(3))
qed

text \<open>Rewriting the status with the record kept does not save a condemned lease.\<close>

lemma revised_environment:
  assumes "revised (g\<lparr>el_Status := s\<rparr>) g'" "same_record l s" "st_Namespace (el_Status l) = st_Namespace (el_Status g)"
    "st_Cluster (el_Status l) = st_Cluster (el_Status g)"
  shows "held name g' \<longleftrightarrow> held name g" "cleanable g' \<longleftrightarrow> cleanable g" "st_Namespace (el_Status g') = st_Namespace (el_Status g)"
    "om_DeletionTimestamp (el_Meta g') = om_DeletionTimestamp (el_Meta g)" "admissible P g' pol r \<longleftrightarrow> admissible P g pol r"
    "owned_by g' ctl N \<longleftrightarrow> owned_by g ctl N"
proof -
  have f: "el_Name g' = el_Name g" "el_UID g' = el_UID g" "om_Finalizers (el_Meta g') = om_Finalizers (el_Meta g)"
    "om_DeletionTimestamp (el_Meta g') = om_DeletionTimestamp (el_Meta g)" "om_Annotations (el_Meta g') = om_Annotations (el_Meta g)"
    "el_Spec g' = el_Spec g" "st_Namespace (el_Status g') = st_Namespace (el_Status g)" "st_Cluster (el_Status g') = st_Cluster (el_Status g)"
    using assms by (auto simp: revised_def same_record_def)
  show "st_Namespace (el_Status g') = st_Namespace (el_Status g)" "om_DeletionTimestamp (el_Meta g') = om_DeletionTimestamp (el_Meta g)"
    by (rule f)+
  show "held name g' \<longleftrightarrow> held name g" by (simp add: held_def f)
  show "cleanable g' \<longleftrightarrow> cleanable g"
    by (simp add: cleanable_def on_control_cluster_def cluster_name_def ForceCleanupAcknowledged_def f)
  have "ValidateSpec g' = ValidateSpec g" unfolding ValidateSpec_def f ..
  then show "admissible P g' pol r \<longleftrightarrow> admissible P g pol r" unfolding admissible_def policy_served_def f by simp
  show "owned_by g' ctl N \<longleftrightarrow> owned_by g ctl N" by (simp add: owned_by_def ns_owned_def recorded_identity_def f)
qed

lemma condemned_restated:
  assumes "condemned P name nsn g" "restated g s g'" "same_record l s"
    and "\<lbrakk>ptr_is_zero (om_DeletionTimestamp (el_Meta g)); revised (g\<lparr>el_Status := s\<rparr>) g'\<rbrakk> \<Longrightarrow> overdue P g'"
    and "st_Namespace (el_Status l) = st_Namespace (el_Status g)" "st_Cluster (el_Status l) = st_Cluster (el_Status g)"
  shows "condemned P name nsn g'" "owned_by g' ctl N \<longleftrightarrow> owned_by g ctl N"
  using assms(1,2,4) revised_environment [OF _ assms(3,5,6)]
  unfolding restated_def condemned_def by auto

text \<open>The store after a reconcile of a condemned lease.\<close>

definition reconciled_store :: "'w platform \<Rightarrow> reconciler \<Rightarrow> string \<Rightarrow> string \<Rightarrow> store \<Rightarrow> store \<Rightarrow> bool" where
  "reconciled_store P R name nsn s s' \<longleftrightarrow>
     (if so_namespace s = None then s' = \<lparr>so_lease = None, so_namespace = None\<rparr>
      else \<exists>g' M. condemned P name nsn g' \<and> owned_by g' (rec_ControlClusterID R) (so_namespace s)
        \<and> clears (so_namespace s) False M \<and> s' = \<lparr>so_lease = Some g', so_namespace = M\<rparr>)"

lemma cleaned_reconciled:
  assumes "cleaned_store l g s s'" "condemned P name nsn g" "owned_by g (rec_ControlClusterID R) (so_namespace s)"
    and "st_Namespace (el_Status l) = st_Namespace (el_Status g)" "st_Cluster (el_Status l) = st_Cluster (el_Status g)"
    and "\<And>st g'. \<lbrakk>ptr_is_zero (om_DeletionTimestamp (el_Meta g)); same_record l st; revised (g\<lparr>el_Status := st\<rparr>) g'\<rbrakk> \<Longrightarrow> overdue P g'"
  shows "reconciled_store P R name nsn s s'"
proof (cases "so_namespace s = None")
  case True
  then show ?thesis using assms(1) by (simp add: cleaned_store_def reconciled_store_def)
next
  case False
  then obtain st g' M where c: "same_record l st" "restated g st g'" "clears (so_namespace s) False M" "s' = \<lparr>so_lease = Some g', so_namespace = M\<rparr>"
    using assms(1) by (auto simp: cleaned_store_def)
  note kept = condemned_restated [OF assms(2) c(2,1) assms(6) [OF _ c(1)] assms(4,5)]
  show ?thesis unfolding reconciled_store_def if_not_P [OF False] using kept assms(3) c(3,4) by blast
qed

lemma overdue_kept:
  assumes "admissible P g pol r" "\<forall>t n. clock_reads P t \<longrightarrow> clock_reads P n \<longrightarrow> lease_deadline g r t \<le> n"
    and "clock_reads P t" "timed g r t l1" "l = SyncExpirationStatus l1 (re_IdleTTL r) t2"
    and "same_record l st" "revised (g\<lparr>el_Status := st\<rparr>) g'"
  shows "overdue P g'"
proof -
  have l: "st_Namespace (el_Status l) = st_Namespace (el_Status g)" "st_Cluster (el_Status l) = st_Cluster (el_Status g)"
    using assms(4,5) by (simp_all add: timed_def)
  have "same_record (SyncExpirationStatus l1 (re_IdleTTL r) t2) (el_Status g')"
    using assms(5-7) by (auto simp: revised_def)
  from lease_deadline_recorded [OF assms(4) this] have "lease_deadline g' r t' = lease_deadline g r t" for t' .
  then show ?thesis
    unfolding overdue_def using assms(1-3) revised_environment(5) [OF assms(7,6) l] by metis
qed

lemma reconcile_overdue:
  assumes laws: "retry_lib P" "finalizers_lib (pf_lib P)" "store_reads P obs name nsn" "store_writes P obs"
    and g: "so_lease s = Some g" "condemned P name nsn g" "ptr_is_zero (om_DeletionTimestamp (el_Meta g))"
      "owned_by g (rec_ControlClusterID R) (so_namespace s)"
  shows "triple (\<lambda>w. obs (w_env w) = s) (reconcile_found P R g) (\<lambda>_ w. reconciled_store P R name nsn s (obs (w_env w)))"
proof -
  obtain pol r where adm: "admissible P g pol r" and late: "\<forall>t n. clock_reads P t \<longrightarrow> clock_reads P n \<longrightarrow> lease_deadline g r t \<le> n"
    using g(2,3) by (auto simp: condemned_def overdue_def)
  have ttl: "re_TTL r \<le> re_MaxTTL r" using Resolve_Inr(3) adm unfolding admissible_def by blast
  show ?thesis
  proof (rule reaches_live_keeping [OF laws(2) adm])
    show "triple (\<lambda>w. obs (w_env w) = s) (fetchPolicy P g) (\<lambda>_ w. obs (w_env w) = s)"
      "triple (\<lambda>w. obs (w_env w) = s) (now P) (\<lambda>_ w. obs (w_env w) = s)"
      using reading_fetchPolicy [OF laws(3)] reading_now [OF laws(3)] by (blast intro: triple_reading)+
  next
    fix t l1 t2 assume t: "clock_reads P t" "timed g r t l1"
    let ?l = "SyncExpirationStatus l1 (re_IdleTTL r) t2" and ?b = "DeepCopyStatus (el_Status g)" and ?ph = "st_Phase (el_Status g)"
    have env: "same_environment g ?l" using t(2) by (simp add: same_environment_def timed_def)
    have l: "cleanable ?l" "st_Namespace (el_Status ?l) = nsn" "el_Name ?l = name" "owned_by ?l (rec_ControlClusterID R) (so_namespace s)"
      using g(2,4) same_environmentD(1) [OF env] owned_by_cong [OF env] env
      by (simp_all add: condemned_def held_def same_environment_def)
    have past: "IsExpired ?l n" if "clock_reads P n" for n using IsExpired_timed [OF t(2) ttl] late t(1) that by simp
    have gone: "reconciled_store P R name nsn s (obs (w_env (snd (run_state (reconcileExpired P R ?l ?b ?ph) w))))"
      if "obs (w_env w) = s" for w
    proof (rule cleaned_reconciled [OF _ g(2,4)])
      show "cleaned_store ?l g s (obs (w_env (snd (run_state (reconcileExpired P R ?l ?b ?ph) w))))"
        using reconcileExpired_store [OF laws, of w g ?l R ?b ?ph] that g l by (simp add: condemned_def)
      show "overdue P g'" if "same_record ?l st" "revised (g\<lparr>el_Status := st\<rparr>) g'" for st g'
        by (rule overdue_kept [OF adm late t refl that])
    qed (use env in \<open>simp_all add: same_environment_def\<close>)
    then have "triple (\<lambda>w. obs (w_env w) = s) (reconcileExpired P R ?l ?b ?ph) (\<lambda>_ w. reconciled_store P R name nsn s (obs (w_env w)))"
      by (simp add: triple_def case_prod_beta)
    then show "triple (\<lambda>w. obs (w_env w) = s) (reconcile_live P R ?l ?b ?ph (st_ExpiresAt (el_Status g)) r pol)
        (\<lambda>_ w. reconciled_store P R name nsn s (obs (w_env w)))"
      unfolding reconcile_live_def
      by (intro triple_through [OF returns_any triple_reading [OF reading_renewal]]
          triple_through [OF returns_now triple_reading [OF reading_now [OF laws(3)]]]) (simp add: past)
  qed
qed

lemma reconcile_condemned:
  assumes laws: "retry_lib P" "finalizers_lib (pf_lib P)" "store_reads P obs name nsn" "store_writes P obs"
    and g: "so_lease (obs (w_env w)) = Some g" "condemned P name nsn g" "owned_by g (rec_ControlClusterID R) (so_namespace (obs (w_env w)))"
  shows "reconciled_store P R name nsn (obs (w_env w)) (obs (w_env (snd (run_state (Reconcile P R name) w))))"
proof -
  obtain e where e: "api_GetLease (pf_hub P) name (w_env w) = (Inr g, e)" "obs e = obs (w_env w)"
    by (rule stored_read [OF laws(3) g(1)])
  note run = run_Reconcile [OF e(1), of R]
  show ?thesis
  proof (cases "ptr_is_zero (om_DeletionTimestamp (el_Meta g))")
    case True
    from tripleD [OF reconcile_overdue [OF laws g(1,2) True g(3)] _ prod.collapse [symmetric], of "w\<lparr>w_env := e\<rparr>"]
    show ?thesis using e(2) by (simp add: run)
  next
    case False
    have "cleaned_store g g (obs (w_env w)) (obs (w_env (snd (run_state (reconcileDelete P R g) (w\<lparr>w_env := e\<rparr>)))))"
      using reconcileDelete_store [OF laws, of "w\<lparr>w_env := e\<rparr>" g R] g False e(2) by (simp add: condemned_def)
    then show ?thesis
      unfolding run using False by (intro cleaned_reconciled [OF _ g(2,3)]) (simp_all add: reconcile_found_def)
  qed
qed

section \<open>Runs of the whole system\<close>

text \<open>
  Three things happen to a condemned lease and its namespace: the controller reconciles, the cluster finishes the
  deletion of a terminating namespace, and time passes. The labels of a run say in which order.
\<close>

datatype happening = Reconciled | NamespaceRemoved | TimePassed

inductive system_step :: "'w platform \<Rightarrow> reconciler \<Rightarrow> ('w \<Rightarrow> store) \<Rightarrow> string \<Rightarrow> happening \<Rightarrow> 'w world \<Rightarrow> 'w world \<Rightarrow> bool"
  for P R obs name
where
  reconciles: "system_step P R obs name Reconciled w (snd (run_state (Reconcile P R name) w))"
| removes: "\<lbrakk>so_namespace (obs (w_env w)) = Some n; \<not> ptr_is_zero (om_DeletionTimestamp (ns_Meta n));
      obs e = (obs (w_env w))\<lparr>so_namespace := None\<rparr>\<rbrakk> \<Longrightarrow> system_step P R obs name NamespaceRemoved w (w\<lparr>w_env := e\<rparr>)"
| passes: "obs e = obs (w_env w) \<Longrightarrow> system_step P R obs name TimePassed w (w\<lparr>w_env := e\<rparr>)"

inductive run_of :: "('h \<Rightarrow> 's \<Rightarrow> 's \<Rightarrow> bool) \<Rightarrow> 'h list \<Rightarrow> 's \<Rightarrow> 's \<Rightarrow> bool" for step
where
  run_nil: "run_of step [] s s"
| run_cons: "step h s s1 \<Longrightarrow> run_of step hs s1 s' \<Longrightarrow> run_of step (h # hs) s s'"

lemma simulation:
  assumes "run_of step hs s s'" "sim k s" and "\<And>h k s s1. step h s s1 \<Longrightarrow> sim k s \<Longrightarrow> \<exists>k1. astep h k k1 \<and> sim k1 s1"
  shows "\<exists>k'. run_of astep hs k k' \<and> sim k' s'"
  using assms(1,2)
proof (induction arbitrary: k)
  case (run_cons h s s1 hs s')
  then show ?case using assms(3) by (meson run_of.run_cons)
qed (blast intro: run_of.run_nil)

text \<open>The abstract machine: where a condemned environment is on its way out.\<close>

datatype stage = Standing | Terminating | Vacated | Gone

inductive stage_step :: "happening \<Rightarrow> stage \<Rightarrow> stage \<Rightarrow> bool" where
  "stage_step Reconciled Standing Terminating"
| "stage_step Reconciled Standing Vacated"
| "stage_step Reconciled Terminating Terminating"
| "stage_step NamespaceRemoved Terminating Vacated"
| "stage_step Reconciled Vacated Gone"
| "stage_step Reconciled Gone Gone"
| "stage_step TimePassed k k"

inductive_simps stage_step_simps [simp]:
  "stage_step Reconciled k k'" "stage_step NamespaceRemoved k k'" "stage_step TimePassed k k'"

definition in_stage :: "'w platform \<Rightarrow> reconciler \<Rightarrow> string \<Rightarrow> string \<Rightarrow> stage \<Rightarrow> store \<Rightarrow> bool" where
  "in_stage P R name nsn k s \<longleftrightarrow> (case so_lease s of
      None \<Rightarrow> k = Gone \<and> so_namespace s = None
    | Some l \<Rightarrow> condemned P name nsn l \<and> owned_by l (rec_ControlClusterID R) (so_namespace s)
        \<and> k = (case so_namespace s of None \<Rightarrow> Vacated
               | Some n \<Rightarrow> if ptr_is_zero (om_DeletionTimestamp (ns_Meta n)) then Standing else Terminating))"

lemma owned_by_deleted: "owned_by l ctl (Some n) \<Longrightarrow> deleted n M \<Longrightarrow> owned_by l ctl M"
  by (auto simp: owned_by_def deleted_def ns_owned_def split: option.splits)

lemma reconciled_stage:
  assumes "reconciled_store P R name nsn s s'" "in_stage P R name nsn k s" "so_lease s \<noteq> None"
  shows "\<exists>k'. stage_step Reconciled k k' \<and> in_stage P R name nsn k' s'"
proof (cases "so_namespace s")
  case None
  then show ?thesis
    using assms by (intro exI [of _ Gone]) (auto simp: reconciled_store_def in_stage_def split: option.splits)
next
  case (Some n)
  then obtain g' M where r: "condemned P name nsn g'" "owned_by g' (rec_ControlClusterID R) (Some n)" "clears (Some n) False M"
    "s' = \<lparr>so_lease = Some g', so_namespace = M\<rparr>" using assms(1) by (auto simp: reconciled_store_def)
  have k: "k = (if ptr_is_zero (om_DeletionTimestamp (ns_Meta n)) then Standing else Terminating)"
    using assms(2,3) Some by (auto simp: in_stage_def)
  show ?thesis
  proof (cases "ptr_is_zero (om_DeletionTimestamp (ns_Meta n))")
    case True
    then have d: "deleted n M" using r(3) by (simp add: clears_def)
    show ?thesis
      using True k r owned_by_deleted [OF r(2) d] d
      by (intro exI [of _ "if M = None then Vacated else Terminating"])
         (auto simp: in_stage_def deleted_def ptr_is_zero_def split: option.splits)
  next
    case False
    then show ?thesis using k r by (intro exI [of _ Terminating]) (simp add: in_stage_def clears_def)
  qed
qed

lemma run_Reconcile_gone:
  assumes "store_reads P obs name nsn" "so_lease (obs (w_env w)) = None"
  shows "obs (w_env (snd (run_state (Reconcile P R name) w))) = obs (w_env w)"
proof -
  obtain r e where r: "api_GetLease (pf_hub P) name (w_env w) = (r, e)" by fastforce
  have "obs (snd (api_GetLease (pf_hub P) name (w_env w))) = obs (w_env w)" "found None (fst (api_GetLease (pf_hub P) name (w_env w)))"
    using assms by (auto simp: store_reads_def reads_only_def simp flip: assms(2))
  then show ?thesis using r by (auto simp: Reconcile_def found_def)
qed

lemma system_step_refines:
  assumes laws: "retry_lib P" "finalizers_lib (pf_lib P)" "store_reads P obs name nsn" "store_writes P obs"
    and "system_step P R obs name h w w'" "in_stage P R name nsn k (obs (w_env w))"
  shows "\<exists>k'. stage_step h k k' \<and> in_stage P R name nsn k' (obs (w_env w'))"
  using assms(5)
proof cases
  case reconciles
  show ?thesis
  proof (cases "so_lease (obs (w_env w))")
    case None
    then show ?thesis
      using run_Reconcile_gone [OF laws(3), of w R] assms(6) reconciles by (intro exI [of _ Gone]) (auto simp: in_stage_def)
  next
    case (Some g)
    then have "reconciled_store P R name nsn (obs (w_env w)) (obs (w_env w'))"
      using reconcile_condemned [OF laws Some, of R] assms(6) reconciles by (simp add: in_stage_def)
    then show ?thesis using reconciled_stage assms(6) Some reconciles(1) by fastforce
  qed
next
  case (removes n e)
  then show ?thesis
    using assms(6) by (intro exI [of _ Vacated]) (auto simp: in_stage_def owned_by_def split: option.splits)
next
  case (passes e)
  then show ?thesis using assms(6) by (intro exI [of _ k]) simp
qed

text \<open>What still has to happen, in this order, until nothing is left.\<close>

fun still_to_come :: "stage \<Rightarrow> happening list" where
  "still_to_come Standing = [Reconciled, NamespaceRemoved, Reconciled]"
| "still_to_come Terminating = [NamespaceRemoved, Reconciled]"
| "still_to_come Vacated = [Reconciled]"
| "still_to_come Gone = []"

lemma stage_step_progress:
  assumes "stage_step h k k'" "subseq (still_to_come k) (h # hs)"
  shows "subseq (still_to_come k') hs"
  using assms by (cases h; cases k) (auto dest: subseq_Cons' elim: list_emb.cases)

lemma stage_run_progress: "run_of stage_step hs k k' \<Longrightarrow> subseq (still_to_come k) hs \<Longrightarrow> k' = Gone"
proof (induction rule: run_of.induct)
  case (run_nil k)
  then show ?case by (cases k) simp_all
next
  case (run_cons h k k1 hs k')
  then show ?case using stage_step_progress by blast
qed

section \<open>Properties\<close>

text \<open>
  C3. The end of an environment, with the API servers in the picture. Once a lease is being deleted, or its deadline has
  passed, every run of reconciles, namespace removals and waiting follows the abstract machine: a standing namespace
  becomes terminating with the first reconcile, the lease stays condemned in the store and keeps its finalizer as long
  as the namespace is there, and only when the namespace is gone does the next reconcile remove the lease.
\<close>

theorem cleanup_refines_stages:
  assumes "retry_lib P" "finalizers_lib (pf_lib P)" "store_reads P obs name nsn" "store_writes P obs"
    and "in_stage P R name nsn k (obs (w_env w))" and "run_of (system_step P R obs name) hs w w'"
  shows "\<exists>k'. run_of stage_step hs k k' \<and> in_stage P R name nsn k' (obs (w_env w'))"
  by (rule simulation [OF assms(6), where sim = "\<lambda>k w. in_stage P R name nsn k (obs (w_env w))", OF assms(5)])
     (rule system_step_refines [OF assms(1-4)])

text \<open>
  C2. Nothing is left behind. A lease that is being deleted or past its deadline and its standing, owned namespace both
  disappear from the store in every run in which a reconcile, the removal of the namespace and another reconcile
  happen in this order, with any other reconciles and any time before, between and after.
\<close>

theorem condemned_environment_disappears:
  assumes "retry_lib P" "finalizers_lib (pf_lib P)" "store_reads P obs name nsn" "store_writes P obs"
    and "so_lease (obs (w_env w)) = Some l" "condemned P name nsn l"
    and "so_namespace (obs (w_env w)) = Some n" "ns_owned n l (rec_ControlClusterID R)" "ns_Name n = nsn"
    and "ptr_is_zero (om_DeletionTimestamp (ns_Meta n))"
    and "run_of (system_step P R obs name) hs w w'" "subseq [Reconciled, NamespaceRemoved, Reconciled] hs"
  shows "so_lease (obs (w_env w')) = None \<and> so_namespace (obs (w_env w')) = None"
proof -
  have "in_stage P R name nsn Standing (obs (w_env w))"
    using assms(5-10) by (auto simp: in_stage_def owned_by_def condemned_def)
  then obtain k' where k': "run_of stage_step hs Standing k'" "in_stage P R name nsn k' (obs (w_env w'))"
    using simulation [OF assms(11), where sim = "\<lambda>k w. in_stage P R name nsn k (obs (w_env w))"] system_step_refines [OF assms(1-4)]
    by blast
  then have "k' = Gone" using stage_run_progress assms(12) by simp
  then show ?thesis using k'(2) by (auto simp: in_stage_def split: option.splits if_splits)
qed

section \<open>Witness\<close>

text \<open>A platform whose environment is the store.\<close>

definition store_hub :: "store hub_api" where
  "store_hub = empty_hub\<lparr>
     api_GetLease := (\<lambda>n s. (case so_lease s of Some l \<Rightarrow> Inr l | None \<Rightarrow> Inl (ApiError NotFound ''gone''), s)),
     api_StatusUpdateLease := (\<lambda>u s. case so_lease s of Some l \<Rightarrow> (Inr (l\<lparr>el_Status := el_Status u\<rparr>), s\<lparr>so_lease := Some (l\<lparr>el_Status := el_Status u\<rparr>)\<rparr>)
       | None \<Rightarrow> (Inl (ApiError NotFound ''gone''), s)),
     api_UpdateLease := (\<lambda>u s. case so_lease s of Some l \<Rightarrow> (Inr (u\<lparr>el_Status := el_Status l\<rparr>), s\<lparr>so_lease := settle (u\<lparr>el_Status := el_Status l\<rparr>)\<rparr>)
       | None \<Rightarrow> (Inl (ApiError NotFound ''gone''), s)),
     api_DeleteLease := (\<lambda>u s. (None, s\<lparr>so_lease := None\<rparr>))\<rparr>"

definition terminated :: "Namespace \<Rightarrow> Namespace" where
  "terminated n = n\<lparr>ns_Meta := (ns_Meta n)\<lparr>om_DeletionTimestamp := Some 50\<rparr>\<rparr>"

definition store_platform :: "store platform" where
  "store_platform = (platform_with store_hub)\<lparr>pf_cluster := empty_cluster\<lparr>
     api_GetNamespace := (\<lambda>c n s. (case so_namespace s of Some n \<Rightarrow> Inr n | None \<Rightarrow> Inl (ApiError NotFound ''gone''), s)),
     api_DeleteNamespace := (\<lambda>c n s. (None, s\<lparr>so_namespace := map_option terminated (so_namespace s)\<rparr>))\<rparr>\<rparr>"

lemma store_platform_simps [simp]:
  "pf_hub store_platform = store_hub" "pf_lib store_platform = demo_lib"
  "api_GetNamespace (pf_cluster store_platform) c m s = (case so_namespace s of Some n \<Rightarrow> Inr n | None \<Rightarrow> Inl (ApiError NotFound ''gone''), s)"
  "api_DeleteNamespace (pf_cluster store_platform) c n s = (None, s\<lparr>so_namespace := map_option terminated (so_namespace s)\<rparr>)"
  by (simp_all add: store_platform_def)

lemma revised_refl [simp]: "revised l l"
  unfolding revised_def by (intro exI [of _ "om_ResourceVersion (el_Meta l)"] exI [of _ "om_Generation (el_Meta l)"]) simp

lemma store_platform_laws:
  "retry_lib store_platform" "finalizers_lib (pf_lib store_platform)" "store_reads store_platform id name nsn" "store_writes store_platform id"
proof -
  show "retry_lib store_platform" using platform_with_retry [of store_hub] by (simp add: store_platform_def retry_lib_def)
  show "finalizers_lib (pf_lib store_platform)" by (simp add: demo_lib_laws)
  show "store_reads store_platform id name nsn"
    by (auto simp: store_reads_def reads_only_def found_def store_hub_def empty_hub_def IsNotFound_def split: option.splits)
  have "terminated n = n\<lparr>ns_Meta := (ns_Meta n)\<lparr>om_DeletionTimestamp := Some 50, om_ResourceVersion := om_ResourceVersion (ns_Meta n)\<rparr>\<rparr>" for n
    by (cases "ns_Meta n") (simp add: terminated_def)
  moreover have "(50 :: time) \<noteq> zero_time" by (simp add: zero_time_def)
  ultimately have "deleted n (Some (terminated n))" for n unfolding deleted_def option.case by blast
  then show "store_writes store_platform id"
    unfolding store_writes_def by (auto simp: current_def store_hub_def empty_hub_def)
qed

definition late_store :: store where
  "late_store = \<lparr>so_lease = Some late_lease, so_namespace = Some (owned_namespace ''env'')\<rparr>"

lemma late_lease_condemned: "condemned store_platform ''demo'' ''env'' late_lease"
proof -
  have "overdue store_platform late_lease"
    unfolding overdue_def using late_lease_admissible
    by (intro exI [of _ None] exI [of _ late_resolved]) (auto simp: clock_reads_def late_deadline store_hub_def empty_hub_def)
  then show ?thesis by (simp add: condemned_def held_def late_lease_cleanable)
qed

lemma late_namespace_owned: "ns_owned (owned_namespace ''env'') late_lease ''ctl''"
  by (simp add: ns_owned_def owned_namespace_def recorded_identity_def agrees_def lk_def zero_meta_def
      LabelManagedBy_def LabelLease_def AnnotationLeaseUID_def AnnotationControlClusterID_def AnnotationTargetIdentity_def)

definition late_world :: "store world" where
  "late_world = snd (run_state (Reconcile store_platform demo_reconciler ''demo'') (world_of late_store))"

lemma late_world_terminating: "so_namespace (w_env late_world) = Some (terminated (owned_namespace ''env''))"
  by code_simp

text \<open>One reconcile, the removal of the namespace, another reconcile.\<close>

abbreviation store_step :: "happening \<Rightarrow> store world \<Rightarrow> store world \<Rightarrow> bool" where
  "store_step \<equiv> system_step store_platform demo_reconciler id ''demo''"

definition vacated_world :: "store world" where
  "vacated_world = late_world\<lparr>w_env := (w_env late_world)\<lparr>so_namespace := None\<rparr>\<rparr>"

definition final_world :: "store world" where
  "final_world = snd (run_state (Reconcile store_platform demo_reconciler ''demo'') vacated_world)"

lemma late_run: "run_of store_step [Reconciled, NamespaceRemoved, Reconciled] (world_of late_store) final_world"
proof (intro run_cons)
  show "store_step Reconciled (world_of late_store) late_world" unfolding late_world_def by (rule reconciles)
  show "store_step NamespaceRemoved late_world vacated_world"
    unfolding vacated_world_def
    by (rule removes [where n = "terminated (owned_namespace ''env'')"]) (use late_world_terminating in \<open>simp_all add: terminated_def ptr_is_zero_def zero_time_def\<close>)
  show "store_step Reconciled vacated_world final_world" unfolding final_world_def by (rule reconciles)
qed (rule run_nil)

lemma late_store_standing: "in_stage store_platform demo_reconciler ''demo'' ''env'' Standing late_store"
  using late_lease_condemned late_namespace_owned
  by (simp add: in_stage_def late_store_def owned_by_def demo_reconciler_def) (simp add: owned_namespace_def zero_meta_def)

theorem cleanup_refines_stages_witness:
  "\<exists>k'. run_of stage_step [Reconciled, NamespaceRemoved, Reconciled] Standing k'
     \<and> in_stage store_platform demo_reconciler ''demo'' ''env'' k' (w_env final_world)"
  using cleanup_refines_stages [OF store_platform_laws, of demo_reconciler "''demo''" "''env''" Standing "world_of late_store"
      "[Reconciled, NamespaceRemoved, Reconciled]" final_world] late_store_standing late_run
  by simp

theorem condemned_environment_disappears_witness:
  "so_lease (w_env (world_of late_store)) = Some late_lease \<and> so_lease (w_env final_world) = None \<and> so_namespace (w_env final_world) = None"
  using condemned_environment_disappears [OF store_platform_laws _ late_lease_condemned, of "world_of late_store" "owned_namespace ''env''"
      demo_reconciler, OF _ _ _ _ _ late_run] late_namespace_owned
  by (simp add: late_store_def demo_reconciler_def) (simp add: owned_namespace_def zero_meta_def)

end
