(* ===== verification/Target_Controller.thy ===== *)
theory Target_Controller
  imports Lease_Controller
begin

text \<open>
  \<open>src/internal/controller/clustertarget_controller.go\<close>: the reconciler of cluster targets. It probes the
  health of a target, pins the identity of the cluster behind it, and keeps the target as long as leases
  name it. The target a handler mutates is passed in and returned; a discarded error of a status write
  (\<open>_ = r.Status().Update\<close>) is a discarded result.
\<close>

section \<open>Constants and conditions\<close>

definition indexClusterRefName :: string where
  "indexClusterRefName = ''.spec.clusterRef.name''"
definition StatusClusterNameIndex :: string where
  "StatusClusterNameIndex = ''.status.cluster.name''"
definition clusterTargetHealthAfter :: duration where
  "clusterTargetHealthAfter = 5 * Minute"
definition clusterTargetBackoff :: duration where
  "clusterTargetBackoff = 30 * Second"

text \<open>A \<open>meta.SetStatusCondition\<close> on the target, with its generation.\<close>

definition set_target_condition ::
  "'a k8slib_scheme \<Rightarrow> CondType \<Rightarrow> bool \<Rightarrow> Reason \<Rightarrow> string \<Rightarrow> ClusterTarget \<Rightarrow> ClusterTarget" where
  "set_target_condition K ct b reason message t =
     t\<lparr>ct_Status := (ct_Status t)\<lparr>tst_Conditions := SetStatusCondition K (tst_Conditions (ct_Status t))
        \<lparr>cd_Type = ct, cd_Status = (if b then ConditionTrue else ConditionFalse),
         cd_ObservedGeneration = om_Generation (ct_Meta t), cd_LastTransitionTime = zero_time,
         cd_Reason = reason, cd_Message = message\<rparr>\<rparr>\<rparr>"

definition setTargetConditions ::
  "'a k8slib_scheme \<Rightarrow> ClusterTarget \<Rightarrow> bool \<Rightarrow> bool \<Rightarrow> bool \<Rightarrow> Reason \<Rightarrow> string \<Rightarrow> ClusterTarget" where
  "setTargetConditions K t ready authenticated reachable reason message =
     set_target_condition K ConditionReady ready reason message
       (set_target_condition K ClusterTargetConditionReachable reachable reason message
         (set_target_condition K ClusterTargetConditionAuthenticated authenticated reason message t))"

definition observe_target :: "ClusterTarget \<Rightarrow> ClusterTarget" where
  "observe_target t = t\<lparr>ct_Status := (ct_Status t)\<lparr>tst_ObservedGeneration := om_Generation (ct_Meta t)\<rparr>\<rparr>"

definition write_target_status :: "'w platform \<Rightarrow> ClusterTarget \<Rightarrow> ('w, go_error + ClusterTarget) prog" where
  "write_target_status P t = act (StatusUpdateTarget t) (api_StatusUpdateTarget (pf_hub P) t)"

text \<open>\<open>if r.Provider != nil { r.Provider.Invalidate(name) }\<close>\<close>

definition invalidate_client :: "string \<Rightarrow> ('w, unit) prog" where
  "invalidate_client name = do {
     po \<leftarrow> read_provider;
     write_provider (map_option (\<lambda>p. Invalidate p name) po) }"

text \<open>
  \<open>kubernetes.NewForConfig\<close> and \<open>Discovery().ServerVersion()\<close> are one call of the platform, which is also what the
  test hook \<open>ProbeVersion\<close> replaces.
\<close>

definition probeVersion :: "'w platform \<Rightarrow> RestConfig \<Rightarrow> ('w, go_error + string) prog" where
  "probeVersion P cfg = call (lib_ServerVersion P cfg)"

section \<open>Deletion\<close>

definition references_target :: "string \<Rightarrow> EnvironmentLease \<Rightarrow> bool" where
  "references_target targetName l =
     (case sp_ClusterRef (el_Spec l) of None \<Rightarrow> False | Some ref \<Rightarrow> lor_Name ref = targetName)"

definition countReferencingLeases :: "'w platform \<Rightarrow> string \<Rightarrow> ('w, go_error + int) prog" where
  "countReferencingLeases P targetName = do {
     r \<leftarrow> call (api_ListLeases (pf_hub P) (Some (indexClusterRefName, targetName)));
     (case r of
        Inr items \<Rightarrow> State_Monad.return (Inr (int (length items)))
      | Inl _ \<Rightarrow> do {
          s \<leftarrow> call (api_ListLeases (pf_hub P) None);
          State_Monad.return (map_sum id (\<lambda>items. int (length (filter (references_target targetName) items))) s) }) }"

text \<open>Lines 129--139: the closure of the retry.\<close>

definition release_target :: "'w platform \<Rightarrow> string \<Rightarrow> ('w, go_error + unit) prog" where
  "release_target P name = do {
     r \<leftarrow> call (api_GetTarget (pf_hub P) name);
     (case r of
        Inl err \<Rightarrow> State_Monad.return (Inl err)
      | Inr current \<Rightarrow>
          if \<not> ContainsFinalizer (pf_lib P) (om_Finalizers (ct_Meta current)) ClusterTargetFinalizer
          then State_Monad.return (Inr ())
          else
            let current = current\<lparr>ct_Meta := (ct_Meta current)\<lparr>om_Finalizers :=
                  RemoveFinalizer (pf_lib P) (om_Finalizers (ct_Meta current)) ClusterTargetFinalizer\<rparr>\<rparr>
            in do {
              u \<leftarrow> act (UpdateTarget current) (api_UpdateTarget (pf_hub P) current);
              State_Monad.return (map_sum id (\<lambda>_. ()) u) }) }"

definition target_reconcileDelete :: "'w platform \<Rightarrow> ClusterTarget \<Rightarrow> ('w, go_error + Result) prog" where
  "target_reconcileDelete P t =
     (if \<not> ContainsFinalizer (pf_lib P) (om_Finalizers (ct_Meta t)) ClusterTargetFinalizer
      then State_Monad.return (Inr no_requeue)
      else do {
        c \<leftarrow> countReferencingLeases P (ct_Name t);
        (case c of
           Inl err \<Rightarrow> State_Monad.return (Inl err)
         | Inr active \<Rightarrow>
             if active > 0 then do {
               _ \<leftarrow> write_target_status P (observe_target (set_target_condition (pf_lib P) ConditionReady False
                      ReasonTargetHasActiveLeases
                      (itoa active @ '' EnvironmentLease(s) still reference this target'') t));
               State_Monad.return (Inr (requeue_after clusterTargetBackoff)) }
             else do {
               invalidate_client (ct_Name t);
               u \<leftarrow> lib_RetryTarget P (release_target P (ct_Name t));
               State_Monad.return (map_sum id (\<lambda>_. no_requeue) u) }) })"

section \<open>Health\<close>

text \<open>Lines 274--279: the loop over the leases the index returned; the counter is an \<open>int32\<close>.\<close>

definition count_live :: "EnvironmentLease list \<Rightarrow> int" where
  "count_live items = fold (\<lambda>l n. if ptr_is_zero (om_DeletionTimestamp (el_Meta l))
       \<and> st_Phase (el_Status l) \<noteq> LeasePhaseExpired then wrap32 (n + 1) else n) items 0"

definition refreshCapacity :: "'w platform \<Rightarrow> ClusterTarget \<Rightarrow> ('w, ClusterTarget) prog" where
  "refreshCapacity P t = do {
     r \<leftarrow> call (api_ListLeases (pf_hub P) (Some (StatusClusterNameIndex, ct_Name t)));
     active \<leftarrow> (case r of
         Inr items \<Rightarrow> State_Monad.return (count_live items)
       | Inl _ \<Rightarrow> do {
           c \<leftarrow> CountActiveLeases P;
           State_Monad.return (case c of
               Inl _ \<Rightarrow> 0
             | Inr counts \<Rightarrow> (case fmlookup counts (ct_Name t) of None \<Rightarrow> 0 | Some n \<Rightarrow> n)) });
     State_Monad.return (t\<lparr>ct_Status := (ct_Status t)\<lparr>tst_Capacity := Some \<lparr>cc_ActiveLeases = active,
       cc_MaxLeases = (case ts_MaxActiveLeases (ct_Spec t) of None \<Rightarrow> None | Some m \<Rightarrow> Some m)\<rparr>\<rparr>\<rparr>) }"

definition refreshClusterTargetMetrics :: "'w platform \<Rightarrow> ('w, unit) prog" where
  "refreshClusterTargetMetrics P = do {
     r \<leftarrow> call (api_ListTargets (pf_hub P));
     (case r of
        Inl _ \<Rightarrow> State_Monad.return ()
      | Inr items \<Rightarrow>
          let ready = filter (\<lambda>t. IsStatusConditionTrue (pf_lib P) (tst_Conditions (ct_Status t)) ConditionReady) items;
              notReady = filter (\<lambda>t. \<not> IsStatusConditionTrue (pf_lib P) (tst_Conditions (ct_Status t)) ConditionReady) items
          in do {
            emit (SetGauge ''ClusterTargets'' ''true'' (int (length ready)));
            emit (SetGauge ''ClusterTargets'' ''false'' (int (length notReady))) }) }"

text \<open>
  A status write whose error is dropped: the target is the stored one if the write succeeded. Then the
  branches that report an unhealthy target.
\<close>

definition try_write_status :: "'w platform \<Rightarrow> ClusterTarget \<Rightarrow> ('w, ClusterTarget) prog" where
  "try_write_status P t = do {
     u \<leftarrow> write_target_status P (observe_target t);
     State_Monad.return (case u of Inl _ \<Rightarrow> observe_target t | Inr stored \<Rightarrow> stored) }"

definition backoff :: "go_error + Result" where
  "backoff = Inr (requeue_after clusterTargetBackoff)"

definition report_down :: "'w platform \<Rightarrow> ClusterTarget \<Rightarrow> ('w, go_error + Result) prog" where
  "report_down P t = do {
     t \<leftarrow> try_write_status P t;
     emit (SetGauge ''ClusterHealth'' (ct_Name t) 0);
     State_Monad.return backoff }"

text \<open>Lines 224--243: the identity behind the credentials has changed.\<close>

definition identity_drift :: "'w platform \<Rightarrow> ClusterTarget \<Rightarrow> string \<Rightarrow> ('w, go_error + Result) prog" where
  "identity_drift P t liveID =
     (let msg = ''remote identity changed (sticky='' @ tst_RemoteIdentity (ct_Status t) @ '' live='' @ liveID
                  @ ''); refusing to follow credential swap'';
          t = setTargetConditions (pf_lib P) t False True True ReasonIdentityDrift msg;
          t = set_target_condition (pf_lib P) ConditionDegraded True ReasonIdentityDrift msg t
      in do {
        t \<leftarrow> try_write_status P t;
        emit (SetGauge ''ClusterHealth'' (ct_Name t) 0);
        invalidate_client (ct_Name t);
        State_Monad.return backoff })"

text \<open>Lines 245--261: a reachable target.\<close>

definition report_healthy :: "'w platform \<Rightarrow> ClusterTarget \<Rightarrow> string \<Rightarrow> ('w, go_error + Result) prog" where
  "report_healthy P t ver =
     (let t = t\<lparr>ct_Status := (ct_Status t)\<lparr>tst_KubernetesVersion := ver\<rparr>\<rparr>;
          t = setTargetConditions (pf_lib P) t True True True ReasonClusterReachable ''Remote API reachable'';
          t = set_target_condition (pf_lib P) ConditionDegraded False ReasonClusterReachable ''Healthy'' t
      in do {
        t \<leftarrow> refreshCapacity P t;
        u \<leftarrow> write_target_status P (observe_target t);
        (case u of
           Inl err \<Rightarrow> State_Monad.return (Inl err)
         | Inr stored \<Rightarrow> do {
             emit (SetGauge ''ClusterHealth'' (ct_Name stored) 1);
             State_Monad.return (Inr (requeue_after clusterTargetHealthAfter)) }) })"

text \<open>Lines 204--243: client, live identity, sticky identity.\<close>

definition check_identity :: "'w platform \<Rightarrow> ClusterTarget \<Rightarrow> string \<Rightarrow> ('w, go_error + Result) prog" where
  "check_identity P t ver = do {
     c \<leftarrow> ClientFor P t;
     (case c of
        Inl err \<Rightarrow> report_down P
          (setTargetConditions (pf_lib P) t False False False ReasonCredentialsInvalid (err_text err))
      | Inr cl \<Rightarrow> do {
          ns \<leftarrow> call (api_GetNamespace (pf_cluster P) cl ''kube-system'');
          (case ProbeRemoteIdentity ns of
             Inl err \<Rightarrow> report_down P
               (setTargetConditions (pf_lib P) t False True False ReasonClusterUnreachable (err_text err))
           | Inr liveID \<Rightarrow>
               if tst_RemoteIdentity (ct_Status t) = []
               then report_healthy P (t\<lparr>ct_Status := (ct_Status t)\<lparr>tst_RemoteIdentity := liveID\<rparr>\<rparr>) ver
               else if tst_RemoteIdentity (ct_Status t) \<noteq> liveID then identity_drift P t liveID
               else report_healthy P t ver) }) }"

text \<open>Lines 164--203: disabled, credentials, server version.\<close>

definition check_health :: "'w platform \<Rightarrow> ClusterTarget \<Rightarrow> ('w, go_error + Result) prog" where
  "check_health P t =
     (if \<not> IsEnabled (ct_Spec t) then do {
        u \<leftarrow> write_target_status P (observe_target
               (setTargetConditions (pf_lib P) t False False False ReasonTargetDisabled ''ClusterTarget is disabled''));
        (case u of
           Inl err \<Rightarrow> State_Monad.return (Inl err)
         | Inr stored \<Rightarrow> do {
             invalidate_client (ct_Name stored);
             State_Monad.return (Inr (requeue_after clusterTargetHealthAfter)) }) }
      else do {
        c \<leftarrow> RESTConfigFor P t;
        (case c of
           Inl err \<Rightarrow> do {
             _ \<leftarrow> try_write_status P
                    (setTargetConditions (pf_lib P) t False False False ReasonCredentialsInvalid (err_text err));
             State_Monad.return backoff }
         | Inr cfg \<Rightarrow> do {
             v \<leftarrow> probeVersion P cfg;
             (case v of
                Inl err \<Rightarrow> do {
                  t \<leftarrow> try_write_status P (set_target_condition (pf_lib P) ConditionDegraded True
                         ReasonClusterUnreachable (err_text err)
                         (setTargetConditions (pf_lib P) t False True False ReasonClusterUnreachable (err_text err)));
                  emit (Inc ''ClusterConnectionFailuresTotal'');
                  emit (SetGauge ''ClusterHealth'' (ct_Name t) 0);
                  State_Monad.return backoff }
              | Inr ver \<Rightarrow> check_identity P t ver) }) })"

text \<open>The deferred refresh of the metrics runs after the checks, whichever way they return.\<close>

definition reconcileHealth :: "'w platform \<Rightarrow> ClusterTarget \<Rightarrow> ('w, go_error + Result) prog" where
  "reconcileHealth P t = do {
     r \<leftarrow> check_health P t;
     refreshClusterTargetMetrics P;
     State_Monad.return r }"

section \<open>Reconcile\<close>

definition target_found :: "'w platform \<Rightarrow> ClusterTarget \<Rightarrow> ('w, go_error + Result) prog" where
  "target_found P t =
     (if \<not> ptr_is_zero (om_DeletionTimestamp (ct_Meta t)) then target_reconcileDelete P t
      else if \<not> ContainsFinalizer (pf_lib P) (om_Finalizers (ct_Meta t)) ClusterTargetFinalizer then do {
        let t = t\<lparr>ct_Meta := (ct_Meta t)\<lparr>om_Finalizers :=
                  AddFinalizer (pf_lib P) (om_Finalizers (ct_Meta t)) ClusterTargetFinalizer\<rparr>\<rparr>;
        u \<leftarrow> act (UpdateTarget t) (api_UpdateTarget (pf_hub P) t);
        State_Monad.return (map_sum id (\<lambda>_. requeue_now) u) }
      else reconcileHealth P t)"

definition Reconcile_target :: "'w platform \<Rightarrow> string \<Rightarrow> ('w, go_error + Result) prog" where
  "Reconcile_target P name = do {
     g \<leftarrow> call (api_GetTarget (pf_hub P) name);
     (case g of
        Inl err \<Rightarrow> State_Monad.return (if IsNotFound err then Inr no_requeue else Inl err)
      | Inr t \<Rightarrow> target_found P t) }"

section \<open>Secrets\<close>

text \<open>
  The map function of the secret watch: every target whose credentials are in the changed secret is
  reconciled, and its cached client dropped.
\<close>

definition uses_secret :: "Secret \<Rightarrow> ClusterTarget \<Rightarrow> bool" where
  "uses_secret s t \<longleftrightarrow> sk_Name (ts_SecretRef (ct_Spec t)) = om_Name (se_Meta s)
     \<and> sk_Namespace (ts_SecretRef (ct_Spec t)) = om_Namespace (se_Meta s)"

fun invalidate_all :: "string list \<Rightarrow> ('w, unit) prog" where
  "invalidate_all [] = State_Monad.return ()"
| "invalidate_all (n # ns) = do { invalidate_client n; invalidate_all ns }"

definition mapSecret :: "'w platform \<Rightarrow> Secret \<Rightarrow> ('w, string list) prog" where
  "mapSecret P s = do {
     r \<leftarrow> call (api_ListTargets (pf_hub P));
     (case r of
        Inl _ \<Rightarrow> State_Monad.return []
      | Inr items \<Rightarrow> do {
          let names = map ct_Name (filter (uses_secret s) items);
          invalidate_all names;
          State_Monad.return names }) }"

end
