(* ===== verification/Target_Safety.thy ===== *)
theory Target_Safety
  imports Target_Controller Lease_Effects
begin

text \<open>
  Safety of the target reconciler, for every platform: a target is reported Ready only after the identity of the
  cluster behind it was read and matches the recorded one, a recorded identity never changes, and a target is
  let go only when a listing shows no lease that names it.
\<close>

section \<open>Conditions of a target\<close>

definition ready_in :: "'a k8slib_scheme \<Rightarrow> ClusterTarget \<Rightarrow> bool" where
  "ready_in K t \<longleftrightarrow> IsStatusConditionTrue K (tst_Conditions (ct_Status t)) ConditionReady"

lemma set_target_condition_frame [simp]:
  "ct_Meta (set_target_condition K c b r m t) = ct_Meta t"
  "ct_Spec (set_target_condition K c b r m t) = ct_Spec t"
  "tst_RemoteIdentity (ct_Status (set_target_condition K c b r m t)) = tst_RemoteIdentity (ct_Status t)"
  by (simp_all add: set_target_condition_def)

lemma observe_target_frame [simp]:
  "ct_Meta (observe_target t) = ct_Meta t" "ct_Spec (observe_target t) = ct_Spec t"
  "tst_RemoteIdentity (ct_Status (observe_target t)) = tst_RemoteIdentity (ct_Status t)"
  "ready_in K (observe_target t) = ready_in K t"
  by (simp_all add: observe_target_def ready_in_def)

lemma setTargetConditions_frame [simp]:
  "ct_Meta (setTargetConditions K t a b c r m) = ct_Meta t"
  "ct_Spec (setTargetConditions K t a b c r m) = ct_Spec t"
  "tst_RemoteIdentity (ct_Status (setTargetConditions K t a b c r m)) = tst_RemoteIdentity (ct_Status t)"
  by (simp_all add: setTargetConditions_def)

lemma ready_set_target_condition:
  assumes "conditions_lib K"
  shows "ready_in K (set_target_condition K ct b r m t) \<longleftrightarrow> (if ct = ConditionReady then b else ready_in K t)"
proof -
  define c where "c = \<lparr>cd_Type = ct, cd_Status = (if b then ConditionTrue else ConditionFalse),
    cd_ObservedGeneration = om_Generation (ct_Meta t), cd_LastTransitionTime = zero_time,
    cd_Reason = r, cd_Message = m\<rparr>"
  let ?cs = "tst_Conditions (ct_Status t)"
  have new: "tst_Conditions (ct_Status (set_target_condition K ct b r m t)) = SetStatusCondition K ?cs c"
    by (simp add: set_target_condition_def c_def)
  obtain c' where c': "find_cond (SetStatusCondition K ?cs c) (cd_Type c) = Some c'" "same_but_time c' c"
    using assms unfolding conditions_lib_def by blast
  have "cd_Status (c'\<lparr>cd_LastTransitionTime := 0\<rparr>) = cd_Status (c\<lparr>cd_LastTransitionTime := 0\<rparr>)"
    using c'(2) unfolding same_but_time_def by (rule arg_cong)
  then have st: "cd_Status c' = (if b then ConditionTrue else ConditionFalse)" by (simp add: c_def)
  have other: "find_cond (SetStatusCondition K ?cs c) ConditionReady = find_cond ?cs ConditionReady"
    if "ct \<noteq> ConditionReady"
    using assms that unfolding conditions_lib_def by (simp add: c_def)
  have ready: "IsStatusConditionTrue K cs ConditionReady
      \<longleftrightarrow> (case find_cond cs ConditionReady of Some c \<Rightarrow> cd_Status c = ConditionTrue | None \<Rightarrow> False)" for cs
    using assms unfolding conditions_lib_def by blast
  show ?thesis
    using c'(1) other st unfolding ready_in_def new ready
    by (cases "ct = ConditionReady") (simp_all add: c_def)
qed

lemma ready_setTargetConditions:
  "conditions_lib K \<Longrightarrow> ready_in K (setTargetConditions K t a b c r m) \<longleftrightarrow> a"
  by (simp add: setTargetConditions_def ready_set_target_condition)

section \<open>What a status write may say\<close>

text \<open>Some cluster answered the read of \<open>kube-system\<close> with the identity recorded in the target.\<close>

definition verified :: "'w platform \<Rightarrow> ClusterTarget \<Rightarrow> bool" where
  "verified P u \<longleftrightarrow> (\<exists>cl e ns e'. api_GetNamespace (pf_cluster P) cl ''kube-system'' e = (Inr ns, e')
     \<and> om_UID (ns_Meta ns) \<noteq> [] \<and> tst_RemoteIdentity (ct_Status u) = om_UID (ns_Meta ns))"

definition sound_status :: "'w platform \<Rightarrow> ClusterTarget \<Rightarrow> ClusterTarget \<Rightarrow> bool" where
  "sound_status P t u \<longleftrightarrow>
     (ready_in (pf_lib P) u \<longrightarrow> IsEnabled (ct_Spec t) \<and> verified P u)
   \<and> (tst_RemoteIdentity (ct_Status t) \<noteq> [] \<longrightarrow>
        tst_RemoteIdentity (ct_Status u) = tst_RemoteIdentity (ct_Status t))"

text \<open>
  \<open>target_may P t F\<close>: status writes are sound for the target \<open>t\<close>, and the target loses its finalizer only if \<open>F\<close>.
\<close>

definition target_may :: "'w platform \<Rightarrow> ClusterTarget \<Rightarrow> bool \<Rightarrow> effect \<Rightarrow> bool" where
  "target_may P t F e \<longleftrightarrow>
     (case e of StatusUpdateTarget u \<Rightarrow> sound_status P t u
      | UpdateTarget u \<Rightarrow> ClusterTargetFinalizer \<in> set (om_Finalizers (ct_Meta u)) \<or> F
      | _ \<Rightarrow> True)"

lemma target_may_simps [simp]:
  "target_may P t F (StatusUpdateTarget u) \<longleftrightarrow> sound_status P t u"
  "target_may P t F (UpdateTarget u) \<longleftrightarrow> ClusterTargetFinalizer \<in> set (om_Finalizers (ct_Meta u)) \<or> F"
  "target_may P t F (Inc m)" "target_may P t F (SetGauge g l n)"
  by (simp_all add: target_may_def)

lemma emits_write_target_status [emits_rules]:
  "Q (StatusUpdateTarget t) \<Longrightarrow> emits Q (write_target_status P t)"
  unfolding write_target_status_def by (intro emits_rules)

lemma emits_invalidate_client [emits_rules]: "emits Q (invalidate_client n)"
  unfolding invalidate_client_def by (intro emits_rules)

lemma emits_try_write_status [emits_rules]:
  "Q (StatusUpdateTarget (observe_target t)) \<Longrightarrow> emits Q (try_write_status P t)"
  unfolding try_write_status_def by (intro emits_rules)

lemma emits_report_down [emits_rules]:
  assumes "Q (StatusUpdateTarget (observe_target t))" "\<And>g l n. Q (SetGauge g l n)"
  shows "emits Q (report_down P t)"
  unfolding report_down_def by (intro emits_rules assms)

lemma emits_refreshMetrics [emits_rules]:
  "(\<And>g l n. Q (SetGauge g l n)) \<Longrightarrow> emits Q (refreshClusterTargetMetrics P)"
  unfolding refreshClusterTargetMetrics_def Let_def by (intro emits_rules)

lemma emits_refreshCapacity [emits_rules]: "emits Q (refreshCapacity P t)"
  unfolding refreshCapacity_def by (intro emits_rules)

lemma returns_refreshCapacity:
  "returns (\<lambda>u. ct_Spec u = ct_Spec t \<and> tst_RemoteIdentity (ct_Status u) = tst_RemoteIdentity (ct_Status t)
     \<and> ready_in K u = ready_in K t) (refreshCapacity P t)"
  unfolding refreshCapacity_def by (intro returns_rules) (simp add: ready_in_def)

section \<open>The handlers\<close>

lemma sound_unready:
  assumes "\<not> ready_in (pf_lib P) u" "tst_RemoteIdentity (ct_Status u) = tst_RemoteIdentity (ct_Status t)"
  shows "sound_status P t u"
  using assms by (simp add: sound_status_def)

lemma emits_report_healthy:
  assumes "IsEnabled (ct_Spec t)" "verified P t'"
    "tst_RemoteIdentity (ct_Status t) \<noteq> [] \<Longrightarrow> tst_RemoteIdentity (ct_Status t') = tst_RemoteIdentity (ct_Status t)"
  shows "emits (target_may P t F) (report_healthy P t' ver)"
proof -
  have "sound_status P t (observe_target u)"
    if "tst_RemoteIdentity (ct_Status u) = tst_RemoteIdentity (ct_Status t')" for u
    using assms that by (simp add: sound_status_def verified_def)
  then show ?thesis
    unfolding report_healthy_def Let_def
    by (intro emits_bind_returns [OF returns_refreshCapacity [where K = "pf_lib P"]] emits_rules)
       (simp_all add: set_target_condition_def [of _ _ _ _ _ "_ :: ClusterTarget"])
qed

lemma emits_identity_drift:
  assumes "conditions_lib (pf_lib P)"
  shows "emits (target_may P t F) (identity_drift P t live)"
  unfolding identity_drift_def Let_def
  by (intro emits_rules)
     (simp_all add: sound_unready ready_set_target_condition [OF assms] ready_setTargetConditions [OF assms])

lemma emits_check_identity:
  assumes "conditions_lib (pf_lib P)" "IsEnabled (ct_Spec t)"
  shows "emits (target_may P t F) (check_identity P t ver)"
proof -
  have healthy: "emits (target_may P t F) (report_healthy P t' ver)"
    if probe: "api_GetNamespace (pf_cluster P) cl ''kube-system'' e = (x, e')" "ProbeRemoteIdentity x = Inr live"
      "tst_RemoteIdentity (ct_Status t') = live"
      "tst_RemoteIdentity (ct_Status t) = [] \<or> tst_RemoteIdentity (ct_Status t) = live" for cl e x e' live t'
  proof (rule emits_report_healthy [OF assms(2)])
    show "verified P t'"
    proof (cases x)
      case (Inr ns)
      then have "x = Inr ns" "om_UID (ns_Meta ns) \<noteq> []" "live = om_UID (ns_Meta ns)"
        using probe(2) by (auto simp: ProbeRemoteIdentity_def split: if_splits)
      then show ?thesis unfolding verified_def using probe(1,3) by blast
    qed (use probe(2) in \<open>simp add: ProbeRemoteIdentity_def\<close>)
    show "tst_RemoteIdentity (ct_Status t) \<noteq> [] \<Longrightarrow> tst_RemoteIdentity (ct_Status t') = tst_RemoteIdentity (ct_Status t)"
      using probe(3,4) by simp
  qed
  have down: "emits (target_may P t F) (report_down P (setTargetConditions (pf_lib P) t False a b r m))" for a b r m
    by (intro emits_rules) (simp_all add: sound_unready ready_setTargetConditions [OF assms(1)])
  have probe: "emits (target_may P t F) (State_Monad.bind (call (api_GetNamespace (pf_cluster P) cl ''kube-system''))
      (\<lambda>ns. case ProbeRemoteIdentity ns of
         Inl err \<Rightarrow> report_down P
           (setTargetConditions (pf_lib P) t False True False ReasonClusterUnreachable (err_text err))
       | Inr liveID \<Rightarrow>
           if tst_RemoteIdentity (ct_Status t) = []
           then report_healthy P (t\<lparr>ct_Status := (ct_Status t)\<lparr>tst_RemoteIdentity := liveID\<rparr>\<rparr>) ver
           else if tst_RemoteIdentity (ct_Status t) \<noteq> liveID then identity_drift P t liveID
           else report_healthy P t ver))" for cl
    by (rule emits_bind_call, intro emits_sum emits_if down emits_identity_drift [OF assms(1)]; erule healthy)
       simp_all
  show ?thesis
    unfolding check_identity_def by (intro emits_rules down probe) simp_all
qed

lemma emits_check_health:
  assumes "conditions_lib (pf_lib P)"
  shows "emits (target_may P t F) (check_health P t)"
  unfolding check_health_def probeVersion_def
  by (intro emits_rules emits_check_identity assms)
     (simp_all add: sound_unready ready_setTargetConditions [OF assms] ready_set_target_condition [OF assms])

lemma emits_reconcileHealth:
  assumes "conditions_lib (pf_lib P)"
  shows "emits (target_may P t F) (reconcileHealth P t)"
  unfolding reconcileHealth_def by (intro emits_rules emits_check_health assms) simp

section \<open>Releasing a target\<close>

text \<open>A listing showed that no lease names the target, through the index or, if that failed, over all leases.\<close>

definition unreferenced :: "'w platform \<Rightarrow> string \<Rightarrow> bool" where
  "unreferenced P name \<longleftrightarrow>
     (\<exists>e e'. api_ListLeases (pf_hub P) (Some (indexClusterRefName, name)) e = (Inr [], e'))
   \<or> (\<exists>err items d d' e e'. api_ListLeases (pf_hub P) (Some (indexClusterRefName, name)) d = (Inl err, d')
        \<and> api_ListLeases (pf_hub P) None e = (Inr items, e') \<and> list_all (\<lambda>l. \<not> references_target name l) items)"

lemma emits_countReferencing [emits_rules]: "emits Q (countReferencingLeases P n)"
  unfolding countReferencingLeases_def by (intro emits_rules)

lemma returns_countReferencing:
  "returns (\<lambda>r. r = Inr 0 \<longrightarrow> unreferenced P n) (countReferencingLeases P n)"
proof -
  have fallback: "returns (\<lambda>r. r = Inr 0 \<longrightarrow> unreferenced P n)
      (State_Monad.bind (call (api_ListLeases (pf_hub P) None)) (\<lambda>s. State_Monad.return
         (map_sum id (\<lambda>items. int (length (filter (references_target n) items))) s)))"
    if "api_ListLeases (pf_hub P) (Some (indexClusterRefName, n)) d = (Inl err, d')" for d err d'
  proof (intro returns_bind_call returns_return impI)
    fix a e e'
    assume "api_ListLeases (pf_hub P) None e = (a, e')"
      and "map_sum id (\<lambda>items. int (length (filter (references_target n) items))) a = Inr 0"
    then show "unreferenced P n"
      using that by (cases a) (auto simp: unreferenced_def list_all_iff filter_empty_conv)
  qed
  show ?thesis
    unfolding countReferencingLeases_def
    by (intro returns_bind_call returns_sum returns_return fallback) (auto simp: unreferenced_def)
qed

lemma countReferencing_nonneg: "returns (\<lambda>r. case r of Inr k \<Rightarrow> 0 \<le> k | Inl _ \<Rightarrow> True) (countReferencingLeases P n)"
  unfolding countReferencingLeases_def by (intro returns_rules) (auto split: sum.split simp: map_sum_def)

lemma emits_release_target:
  "F \<Longrightarrow> emits (target_may P t F) (release_target P n)"
  unfolding release_target_def Let_def by (intro emits_rules) simp

lemma emits_target_delete:
  assumes "retry_lib P" "conditions_lib (pf_lib P)"
  shows "emits (target_may P t (unreferenced P (ct_Name t))) (target_reconcileDelete P t)"
proof -
  have "returns (\<lambda>r. (r = Inr 0 \<longrightarrow> unreferenced P (ct_Name t)) \<and> (case r of Inr k \<Rightarrow> 0 \<le> k | Inl _ \<Rightarrow> True))
      (countReferencingLeases P (ct_Name t))"
    using returns_countReferencing countReferencing_nonneg unfolding returns_def by blast
  note count = emits_bind_returns [OF this emits_countReferencing]
  show ?thesis
    unfolding target_reconcileDelete_def
    by (intro emits_if emits_return count emits_sum emits_bind emits_write_target_status emits_invalidate_client
        emits_RetryTarget [OF assms(1)] emits_release_target)
       (auto simp: sound_unready ready_set_target_condition [OF assms(2)])
qed

lemma Reconcile_target_effects:
  assumes "retry_lib P" "conditions_lib (pf_lib P)" "finalizers_lib (pf_lib P)"
    "api_GetTarget (pf_hub P) name (w_env w) = (Inr t, e)" "run_state (Reconcile_target P name) w = (r, w')"
  obtains es where "w_trace w' = w_trace w @ es"
    "list_all (target_may P t (\<not> ptr_is_zero (om_DeletionTimestamp (ct_Meta t)) \<and> unreferenced P (ct_Name t))) es"
proof -
  let ?del = "\<not> ptr_is_zero (om_DeletionTimestamp (ct_Meta t))"
  let ?Q = "target_may P t (?del \<and> unreferenced P (ct_Name t))"
  have add: "ClusterTargetFinalizer \<in> set (AddFinalizer (pf_lib P) fs ClusterTargetFinalizer)" for fs
    using assms(3) by (simp add: finalizers_lib_def)
  have del: "emits ?Q (target_reconcileDelete P t)" if ?del
    using emits_target_delete [OF assms(1,2), of t] that by simp
  have "emits ?Q (target_found P t)"
    unfolding target_found_def Let_def
    by (intro emits_rules del emits_reconcileHealth [OF assms(2)]) (simp_all add: add)
  moreover have "run_state (target_found P t) (w\<lparr>w_env := e\<rparr>) = (r, w')"
    using assms(4,5) by (simp add: Reconcile_target_def)
  ultimately obtain es where "w_trace w' = w_trace (w\<lparr>w_env := e\<rparr>) @ es" "list_all ?Q es" by (rule emitsD)
  then show thesis by (intro that) simp_all
qed

section \<open>Properties\<close>

text \<open>
  C14. Ready means verified. Whatever the API servers answer, if a reconcile writes a status with a true Ready
  condition for a target, then the target is enabled and some cluster answered the read of \<open>kube-system\<close> with
  exactly the identity recorded in the written status.
\<close>

theorem target_ready_means_verified:
  assumes "retry_lib P" and "conditions_lib (pf_lib P)" and "finalizers_lib (pf_lib P)"
    and "api_GetTarget (pf_hub P) name (w_env w) = (Inr t, e)"
    and "run_state (Reconcile_target P name) w = (r, w')"
  shows "\<exists>es. w_trace w' = w_trace w @ es
     \<and> (\<forall>u. StatusUpdateTarget u \<in> set es \<and> IsStatusConditionTrue (pf_lib P) (tst_Conditions (ct_Status u)) ConditionReady
        \<longrightarrow> IsEnabled (ct_Spec t)
          \<and> (\<exists>cl d ns d'. api_GetNamespace (pf_cluster P) cl ''kube-system'' d = (Inr ns, d')
               \<and> om_UID (ns_Meta ns) \<noteq> [] \<and> tst_RemoteIdentity (ct_Status u) = om_UID (ns_Meta ns)))"
proof -
  obtain es where es: "w_trace w' = w_trace w @ es" "list_all (target_may P t
      (\<not> ptr_is_zero (om_DeletionTimestamp (ct_Meta t)) \<and> unreferenced P (ct_Name t))) es"
    by (rule Reconcile_target_effects [OF assms])
  have "sound_status P t u" if "StatusUpdateTarget u \<in> set es" for u
    using es(2) that by (auto simp: list_all_iff)
  with es(1) show ?thesis unfolding sound_status_def ready_in_def verified_def by blast
qed

text \<open>
  C15. The identity of a target is sticky: once a target records the identity of the cluster behind it, no reconcile
  writes a status with another one, whatever cluster its credentials lead to.
\<close>

theorem target_identity_is_sticky:
  assumes "retry_lib P" and "conditions_lib (pf_lib P)" and "finalizers_lib (pf_lib P)"
    and "api_GetTarget (pf_hub P) name (w_env w) = (Inr t, e)"
    and "run_state (Reconcile_target P name) w = (r, w')"
    and "tst_RemoteIdentity (ct_Status t) \<noteq> []"
  shows "\<exists>es. w_trace w' = w_trace w @ es
     \<and> (\<forall>u. StatusUpdateTarget u \<in> set es \<longrightarrow>
          tst_RemoteIdentity (ct_Status u) = tst_RemoteIdentity (ct_Status t))"
proof -
  obtain es where es: "w_trace w' = w_trace w @ es" "list_all (target_may P t
      (\<not> ptr_is_zero (om_DeletionTimestamp (ct_Meta t)) \<and> unreferenced P (ct_Name t))) es"
    by (rule Reconcile_target_effects [OF assms(1-5)])
  have "sound_status P t u" if "StatusUpdateTarget u \<in> set es" for u
    using es(2) that by (auto simp: list_all_iff)
  with es(1) assms(6) show ?thesis unfolding sound_status_def by blast
qed

text \<open>
  C31. A target in use is kept: if a reconcile writes a target without its finalizer, the target is being deleted and a
  listing returned no lease whose \<open>clusterRef\<close> names it. Leases that were placed on the target by a selector are not
  counted.
\<close>

theorem target_released_only_unreferenced:
  assumes "retry_lib P" and "conditions_lib (pf_lib P)" and "finalizers_lib (pf_lib P)"
    and "api_GetTarget (pf_hub P) name (w_env w) = (Inr t, e)"
    and "run_state (Reconcile_target P name) w = (r, w')"
  shows "\<exists>es. w_trace w' = w_trace w @ es
     \<and> (\<forall>u. UpdateTarget u \<in> set es \<and> ClusterTargetFinalizer \<notin> set (om_Finalizers (ct_Meta u)) \<longrightarrow>
          \<not> ptr_is_zero (om_DeletionTimestamp (ct_Meta t)) \<and> unreferenced P (ct_Name t))"
proof -
  obtain es where es: "w_trace w' = w_trace w @ es" "list_all (target_may P t
      (\<not> ptr_is_zero (om_DeletionTimestamp (ct_Meta t)) \<and> unreferenced P (ct_Name t))) es"
    by (rule Reconcile_target_effects [OF assms])
  then show ?thesis by (intro exI [of _ es]) (auto simp: list_all_iff)
qed

section \<open>Witnesses\<close>

text \<open>A healthy target with a recorded identity, and one that is being deleted.\<close>

definition demo_target :: ClusterTarget where
  "demo_target = zero_target\<lparr>
     ct_Meta := zero_meta\<lparr>om_Name := ''east'', om_Finalizers := [ClusterTargetFinalizer]\<rparr>,
     ct_Spec := (ct_Spec zero_target)\<lparr>ts_SecretRef := \<lparr>sk_Name = ''cred'', sk_Namespace = ''sys'', sk_Key = []\<rparr>\<rparr>,
     ct_Status := (ct_Status zero_target)\<lparr>tst_RemoteIdentity := ''id-1''\<rparr>\<rparr>"

definition target_platform :: "ClusterTarget \<Rightarrow> unit platform" where
  "target_platform t = demo_platform\<lparr>
     pf_hub := demo_hub\<lparr>api_GetTarget := (\<lambda>n w. (Inr t, w)),
       api_GetSecret := (\<lambda>ns n w. (Inr \<lparr>se_Meta = zero_meta, se_Data = fmap_of_list [(''kubeconfig'', ''data'')]\<rparr>, w))\<rparr>,
     pf_cluster := demo_cluster\<lparr>api_GetNamespace := (\<lambda>c n w.
       (Inr \<lparr>ns_Meta = zero_meta\<lparr>om_Name := n, om_UID := ''id-1''\<rparr>\<rparr>, w))\<rparr>\<rparr>"

lemma target_platform_laws:
  "retry_lib (target_platform t)" "conditions_lib (pf_lib (target_platform t))"
  "finalizers_lib (pf_lib (target_platform t))"
  "api_GetTarget (pf_hub (target_platform t)) n w = (Inr t, w)"
  using demo_platform_retry demo_lib_laws by (auto simp: retry_lib_def target_platform_def)

lemmas demo_target_run = prod.collapse [symmetric, of "run_state (Reconcile_target (target_platform t) n) demo_world" for t n]

lemma list_ex_target_writes:
  "list_ex (\<lambda>x. case x of StatusUpdateTarget u \<Rightarrow> Q u | _ \<Rightarrow> False) es \<longleftrightarrow> (\<exists>u. StatusUpdateTarget u \<in> set es \<and> Q u)"
  "list_ex (\<lambda>x. case x of UpdateTarget u \<Rightarrow> Q u | _ \<Rightarrow> False) es \<longleftrightarrow> (\<exists>u. UpdateTarget u \<in> set es \<and> Q u)"
  by (induction es) (auto split: effect.splits)

text \<open>The healthy target is really reported Ready.\<close>

theorem target_ready_means_verified_witness:
  "\<exists>u. StatusUpdateTarget u \<in> set (w_trace (snd (run_state (Reconcile_target (target_platform demo_target) ''east'') demo_world)))
     \<and> IsStatusConditionTrue demo_lib (tst_Conditions (ct_Status u)) ConditionReady
     \<and> IsEnabled (ct_Spec demo_target) \<and> tst_RemoteIdentity (ct_Status u) = ''id-1''"
proof -
  have "list_ex (\<lambda>x. case x of StatusUpdateTarget u \<Rightarrow>
      IsStatusConditionTrue demo_lib (tst_Conditions (ct_Status u)) ConditionReady | _ \<Rightarrow> False)
      (w_trace (snd (run_state (Reconcile_target (target_platform demo_target) ''east'') demo_world)))" by code_simp
  moreover obtain es where "w_trace (snd (run_state (Reconcile_target (target_platform demo_target) ''east'') demo_world)) = es"
    "\<And>u. StatusUpdateTarget u \<in> set es \<Longrightarrow> IsStatusConditionTrue demo_lib (tst_Conditions (ct_Status u)) ConditionReady
       \<Longrightarrow> IsEnabled (ct_Spec demo_target) \<and> tst_RemoteIdentity (ct_Status u) = ''id-1''"
    using target_ready_means_verified [OF target_platform_laws demo_target_run, of demo_target "''east''"]
    by (auto simp: target_platform_def demo_world_def)
  ultimately show ?thesis unfolding list_ex_target_writes by blast
qed

theorem target_identity_is_sticky_witness:
  "\<exists>es. w_trace (snd (run_state (Reconcile_target (target_platform demo_target) ''east'') demo_world)) = es
     \<and> list_all (\<lambda>x. case x of StatusUpdateTarget u \<Rightarrow> tst_RemoteIdentity (ct_Status u) = ''id-1'' | _ \<Rightarrow> True) es"
proof -
  obtain es where "w_trace (snd (run_state (Reconcile_target (target_platform demo_target) ''east'') demo_world)) = es"
    "\<And>u. StatusUpdateTarget u \<in> set es \<Longrightarrow> tst_RemoteIdentity (ct_Status u) = ''id-1''"
    using target_identity_is_sticky [OF target_platform_laws demo_target_run, of demo_target "''east''"]
    by (auto simp: demo_target_def demo_world_def)
  then show ?thesis by (auto simp: list_all_iff split: effect.split)
qed

text \<open>A target in deletion that no lease names is really released.\<close>

definition leaving_target :: ClusterTarget where
  "leaving_target = demo_target\<lparr>ct_Meta := (ct_Meta demo_target)\<lparr>om_DeletionTimestamp := Some 40\<rparr>\<rparr>"

theorem target_released_only_unreferenced_witness:
  "\<exists>u. UpdateTarget u \<in> set (w_trace (snd (run_state (Reconcile_target (target_platform leaving_target) ''east'') demo_world)))
     \<and> ClusterTargetFinalizer \<notin> set (om_Finalizers (ct_Meta u)) \<and> unreferenced (target_platform leaving_target) ''east''"
proof -
  have "ct_Name leaving_target = ''east''" by (simp add: leaving_target_def demo_target_def)
  moreover have "list_ex (\<lambda>x. case x of UpdateTarget u \<Rightarrow> ClusterTargetFinalizer \<notin> set (om_Finalizers (ct_Meta u)) | _ \<Rightarrow> False)
      (w_trace (snd (run_state (Reconcile_target (target_platform leaving_target) ''east'') demo_world)))" by code_simp
  moreover obtain es where "w_trace (snd (run_state (Reconcile_target (target_platform leaving_target) ''east'') demo_world)) = es"
    "\<And>u. UpdateTarget u \<in> set es \<Longrightarrow> ClusterTargetFinalizer \<notin> set (om_Finalizers (ct_Meta u))
       \<Longrightarrow> unreferenced (target_platform leaving_target) (ct_Name leaving_target)"
    using target_released_only_unreferenced [OF target_platform_laws demo_target_run, of leaving_target "''east''"]
    by (auto simp: demo_world_def)
  ultimately show ?thesis unfolding list_ex_target_writes by metis
qed

end
