(* ===== verification/Watches.thy ===== *)
theory Watches
  imports Target_Controller
begin

text \<open>
  The watches of \<open>EnvironmentLeaseReconciler.SetupWithManager\<close> in
  \<open>src/internal/controller/environmentlease_controller.go\<close>: which leases are reconciled when a namespace, a policy
  or a cluster target changes. The field indexes are functions from a lease to its keys; an indexed listing is a
  call of the API server, and \<open>index_reads\<close> says what the informer's index returns.
\<close>

section \<open>Indexes\<close>

definition indexStatusNamespace :: string where
  "indexStatusNamespace = ''.status.namespace''"
definition indexPolicyRefName :: string where
  "indexPolicyRefName = ''.spec.policyRef.name''"

definition index_namespace :: "EnvironmentLease \<Rightarrow> string list" where
  "index_namespace l = (if st_Namespace (el_Status l) = [] then [] else [st_Namespace (el_Status l)])"

definition index_policy :: "EnvironmentLease \<Rightarrow> string list" where
  "index_policy l =
     (case sp_PolicyRef (el_Spec l) of None \<Rightarrow> [] | Some ref \<Rightarrow> if lor_Name ref = [] then [] else [lor_Name ref])"

definition index_cluster_ref :: "EnvironmentLease \<Rightarrow> string list" where
  "index_cluster_ref l =
     (case sp_ClusterRef (el_Spec l) of None \<Rightarrow> [] | Some ref \<Rightarrow> if lor_Name ref = [] then [] else [lor_Name ref])"

definition index_cluster_name :: "EnvironmentLease \<Rightarrow> string list" where
  "index_cluster_name l =
     (case st_Cluster (el_Status l) of None \<Rightarrow> [] | Some c \<Rightarrow> if cs_Name c = [] then [] else [cs_Name c])"

section \<open>Map functions\<close>

definition nsPred :: "strmap \<Rightarrow> bool" where
  "nsPred labels \<longleftrightarrow> lk labels LabelManagedBy = ManagedByValue \<and> lk labels LabelLease \<noteq> []"

definition requests_of :: "go_error + EnvironmentLease list \<Rightarrow> string list" where
  "requests_of r = (case r of Inl _ \<Rightarrow> [] | Inr items \<Rightarrow> map el_Name items)"

definition mapNamespace :: "'w platform \<Rightarrow> Namespace \<Rightarrow> ('w, string list) prog" where
  "mapNamespace P ns =
     (let leaseName = lk (ns_Labels ns) LabelLease
      in if leaseName \<noteq> [] \<and> lk (ns_Labels ns) LabelManagedBy = ManagedByValue
         then State_Monad.return [leaseName]
         else do {
           r \<leftarrow> call (api_ListLeases (pf_hub P) (Some (indexStatusNamespace, ns_Name ns)));
           State_Monad.return (requests_of r) })"

definition mapPolicy :: "'w platform \<Rightarrow> string \<Rightarrow> ('w, string list) prog" where
  "mapPolicy P name = do {
     r \<leftarrow> call (api_ListLeases (pf_hub P) (Some (indexPolicyRefName, name)));
     State_Monad.return (requests_of r) }"

text \<open>The closure \<open>add\<close> with its set \<open>seen\<close>: a name already requested is not requested again.\<close>

definition add_request :: "string \<Rightarrow> string list \<Rightarrow> string list" where
  "add_request n reqs = (if n \<in> set reqs then reqs else reqs @ [n])"

definition add_requests :: "string list \<Rightarrow> string list \<Rightarrow> string list" where
  "add_requests names reqs = fold add_request names reqs"

definition waits_for_placement :: "EnvironmentLease \<Rightarrow> bool" where
  "waits_for_placement l \<longleftrightarrow> st_Phase (el_Status l) = LeasePhasePending
     \<and> \<not> (sp_Placement (el_Spec l) = None \<and> ref_name (sp_ClusterRef (el_Spec l)) = [])"

definition mapClusterTarget :: "'w platform \<Rightarrow> string \<Rightarrow> ('w, string list) prog" where
  "mapClusterTarget P name = do {
     assigned \<leftarrow> call (api_ListLeases (pf_hub P) (Some (StatusClusterNameIndex, name)));
     let reqs = add_requests (requests_of assigned) [];
     refs \<leftarrow> call (api_ListLeases (pf_hub P) (Some (indexClusterRefName, name)));
     let reqs = add_requests (requests_of refs) reqs;
     pending \<leftarrow> call (api_ListLeases (pf_hub P) None);
     State_Monad.return (case pending of
         Inl _ \<Rightarrow> reqs
       | Inr items \<Rightarrow> add_requests (map el_Name (filter waits_for_placement items)) reqs) }"

section \<open>Setting up\<close>

text \<open>
  The reconciler gets a recorder if it has none, then the indexes are registered one after the other, then the controller is built with its
  watches. \<open>register\<close> is the outcome of \<open>IndexField\<close> for a field, \<open>complete\<close> that of the builder.
\<close>

fun register_indexes :: "(string \<Rightarrow> go_error option) \<Rightarrow> (string \<times> string) list \<Rightarrow> go_error option" where
  "register_indexes register [] = None"
| "register_indexes register ((field, what) # fs) =
     (case register field of
        Some err \<Rightarrow> Some (Wrapf (''index '' @ what @ '': '') err)
      | None \<Rightarrow> register_indexes register fs)"

definition lease_indexes :: "(string \<times> string) list" where
  "lease_indexes = [(indexStatusNamespace, ''status.namespace''), (indexPolicyRefName, ''spec.policyRef.name''),
     (indexClusterRefName, ''spec.clusterRef.name''), (StatusClusterNameIndex, ''status.cluster.name'')]"

definition SetupWithManager ::
  "(string \<Rightarrow> go_error option) \<Rightarrow> go_error option \<Rightarrow> reconciler \<Rightarrow> go_error option \<times> reconciler" where
  "SetupWithManager register complete R =
     (let R = (if \<not> rec_Recorder R then R\<lparr>rec_Recorder := True\<rparr> else R)
      in (case register_indexes register lease_indexes of Some err \<Rightarrow> Some err | None \<Rightarrow> complete, R))"

section \<open>What an index returns\<close>

text \<open>
  The documented behaviour of an informer's cache holding the leases \<open>ls\<close>: a listing returns all of them, a
  listing by an index those whose keys contain the value.
\<close>

definition key_of :: "string \<Rightarrow> EnvironmentLease \<Rightarrow> string list" where
  "key_of field =
     (if field = indexStatusNamespace then index_namespace
      else if field = indexPolicyRefName then index_policy
      else if field = indexClusterRefName then index_cluster_ref
      else if field = StatusClusterNameIndex then index_cluster_name
      else (\<lambda>_. []))"

definition index_reads :: "'w platform \<Rightarrow> EnvironmentLease list \<Rightarrow> bool" where
  "index_reads P ls \<longleftrightarrow>
     (\<forall>e. \<exists>e'. api_ListLeases (pf_hub P) None e = (Inr ls, e'))
   \<and> (\<forall>field v e. \<exists>e'. api_ListLeases (pf_hub P) (Some (field, v)) e
        = (Inr (filter (\<lambda>l. v \<in> set (key_of field l)) ls), e'))"

lemmas index_names = indexStatusNamespace_def indexPolicyRefName_def indexClusterRefName_def
  StatusClusterNameIndex_def

lemma set_add_requests [simp]: "set (add_requests names reqs) = set reqs \<union> set names"
  by (induction names arbitrary: reqs) (auto simp: add_requests_def add_request_def)

lemma distinct_add_requests: "distinct reqs \<Longrightarrow> distinct (add_requests names reqs)"
  by (induction names arbitrary: reqs) (auto simp: add_requests_def add_request_def)

lemma index_keys [simp]:
  "name \<noteq> [] \<Longrightarrow> name \<in> set (index_cluster_name l) \<longleftrightarrow> cluster_name l = name"
  "name \<noteq> [] \<Longrightarrow> name \<in> set (index_cluster_ref l) \<longleftrightarrow> ref_name (sp_ClusterRef (el_Spec l)) = name"
  "name \<noteq> [] \<Longrightarrow> name \<in> set (index_policy l) \<longleftrightarrow> ref_name (sp_PolicyRef (el_Spec l)) = name"
  "name \<noteq> [] \<Longrightarrow> name \<in> set (index_namespace l) \<longleftrightarrow> st_Namespace (el_Status l) = name"
  by (auto simp: index_cluster_name_def index_cluster_ref_def index_policy_def index_namespace_def
      cluster_name_def ref_name_def split: option.splits)

lemma key_of_simps [simp]:
  "key_of indexStatusNamespace = index_namespace" "key_of indexPolicyRefName = index_policy"
  "key_of indexClusterRefName = index_cluster_ref" "key_of StatusClusterNameIndex = index_cluster_name"
  by (simp_all add: key_of_def index_names)

lemma run_list_all:
  assumes "index_reads P ls"
  obtains e' where "run_state (call (api_ListLeases (pf_hub P) None)) w = (Inr ls, w\<lparr>w_env := e'\<rparr>)"
proof -
  obtain e' where "api_ListLeases (pf_hub P) None (w_env w) = (Inr ls, e')"
    using assms unfolding index_reads_def by blast
  then show thesis by (intro that [of e']) simp
qed

lemma run_list_index:
  assumes "index_reads P ls"
  obtains e' where "run_state (call (api_ListLeases (pf_hub P) (Some (field, v)))) w
    = (Inr (filter (\<lambda>l. v \<in> set (key_of field l)) ls), w\<lparr>w_env := e'\<rparr>)"
proof -
  obtain e' where "api_ListLeases (pf_hub P) (Some (field, v)) (w_env w)
      = (Inr (filter (\<lambda>l. v \<in> set (key_of field l)) ls), e')"
    using assms unfolding index_reads_def by blast
  then show thesis by (intro that [of e']) simp
qed

section \<open>The watch on namespaces\<close>

text \<open>\<open>Watches(&corev1.Namespace{}, mapNamespace, builder.WithPredicates(nsPred))\<close>: the predicate filters events first.\<close>

definition namespace_watch :: "'w platform \<Rightarrow> Namespace \<Rightarrow> ('w, string list) prog" where
  "namespace_watch P ns = (if nsPred (ns_Labels ns) then mapNamespace P ns else State_Monad.return [])"

section \<open>Properties\<close>

text \<open>
  A change of a cluster target wakes exactly the leases it concerns, each once: those assigned to it, those whose
  \<open>clusterRef\<close> names it, and those that wait in phase Pending for a cluster.
\<close>

theorem target_change_wakes_leases:
  assumes "index_reads P ls" and "name \<noteq> []"
    and "run_state (mapClusterTarget P name) w = (reqs, w')"
  shows "distinct reqs \<and> set reqs = {el_Name l | l. l \<in> set ls
     \<and> (cluster_name l = name \<or> ref_name (sp_ClusterRef (el_Spec l)) = name \<or> waits_for_placement l)}"
proof -
  obtain e1 where 1: "run_state (call (api_ListLeases (pf_hub P) (Some (StatusClusterNameIndex, name)))) w
      = (Inr (filter (\<lambda>l. name \<in> set (key_of StatusClusterNameIndex l)) ls), w\<lparr>w_env := e1\<rparr>)"
    by (rule run_list_index [OF assms(1)])
  obtain e2 where 2: "run_state (call (api_ListLeases (pf_hub P) (Some (indexClusterRefName, name)))) (w\<lparr>w_env := e1\<rparr>)
      = (Inr (filter (\<lambda>l. name \<in> set (key_of indexClusterRefName l)) ls), w\<lparr>w_env := e1\<rparr>\<lparr>w_env := e2\<rparr>)"
    by (rule run_list_index [OF assms(1)])
  obtain e3 where 3: "run_state (call (api_ListLeases (pf_hub P) None)) (w\<lparr>w_env := e1\<rparr>\<lparr>w_env := e2\<rparr>)
      = (Inr ls, w\<lparr>w_env := e1\<rparr>\<lparr>w_env := e2\<rparr>\<lparr>w_env := e3\<rparr>)"
    by (rule run_list_all [OF assms(1)])
  have "reqs = add_requests (map el_Name (filter waits_for_placement ls))
      (add_requests (map el_Name (filter (\<lambda>l. ref_name (sp_ClusterRef (el_Spec l)) = name) ls))
        (add_requests (map el_Name (filter (\<lambda>l. cluster_name l = name) ls)) []))"
    using assms(3) unfolding mapClusterTarget_def Let_def run_state_bind 1 2 3 prod.case
    by (simp add: requests_of_def assms(2))
  then show ?thesis by (auto simp: distinct_add_requests)
qed

theorem target_change_wakes_leases_witness:
  "\<exists>reqs w'. run_state (mapClusterTarget (demo_platform\<lparr>pf_hub := demo_hub\<lparr>api_ListLeases := (\<lambda>f w. (Inr
        (case f of None \<Rightarrow> [demo_lease] | Some (fl, v) \<Rightarrow> filter (\<lambda>l. v \<in> set (key_of fl l)) [demo_lease]), w))\<rparr>\<rparr>)
        ''east'') demo_world = (reqs, w') \<and> distinct reqs \<and> ''demo'' \<notin> set reqs"
proof -
  let ?P = "demo_platform\<lparr>pf_hub := demo_hub\<lparr>api_ListLeases := (\<lambda>f w. (Inr
        (case f of None \<Rightarrow> [demo_lease] | Some (fl, v) \<Rightarrow> filter (\<lambda>l. v \<in> set (key_of fl l)) [demo_lease]), w))\<rparr>\<rparr>"
  have reads: "index_reads ?P [demo_lease]" by (simp add: index_reads_def)
  obtain reqs w' where run: "run_state (mapClusterTarget ?P ''east'') demo_world = (reqs, w')" by fastforce
  have "distinct reqs \<and> set reqs = {}"
    using target_change_wakes_leases [OF reads _ run]
    by (simp add: demo_lease_def zero_defs cluster_name_def waits_for_placement_def)
  with run show ?thesis by (intro exI [of _ reqs] exI [of _ w']) simp
qed

text \<open>
  The namespace watch only ever uses the labels: an event wakes the lease the labels name, and a namespace
  without the two labels wakes nobody, so the lookup by \<open>status.namespace\<close> in \<open>mapNamespace\<close> is never reached; a managed
  namespace that loses its labels is not repaired by this watch.
\<close>

theorem namespace_watch_uses_labels_only:
  "run_state (namespace_watch P ns) w =
     (if lk (ns_Labels ns) LabelManagedBy = ManagedByValue \<and> lk (ns_Labels ns) LabelLease \<noteq> []
      then [lk (ns_Labels ns) LabelLease] else [], w)"
  by (simp add: namespace_watch_def nsPred_def mapNamespace_def Let_def)

end
