(* ===== verification/Source_Names.thy ===== *)
theory Source_Names
  imports Remote
begin

text \<open>
  The text functions of \<open>src/internal/sourcewebhook\<close> and the names it gives to leases
  (\<open>github_identity.go\<close>, \<open>github_signature.go\<close>, \<open>request.go\<close>). Strings are byte lists. What the code takes from
  the Unicode tables (\<open>strings.ToLower\<close> outside ASCII), SHA-1 and HMAC-SHA-256 are parameters.
  The main result is that every pull request gets a valid DNS-1123 label as its lease name.
\<close>

section \<open>Trimming and replacing\<close>

text \<open>The UTF-8 encodings of the characters \<open>unicode.IsSpace\<close> accepts.\<close>

definition bytes :: "nat list \<Rightarrow> string" where
  "bytes ns = map char_of ns"

definition space_runes :: "string list" where
  "space_runes = map bytes ([[32], [9], [10], [11], [12], [13], [0xC2, 0x85], [0xC2, 0xA0], [0xE1, 0x9A, 0x80]]
     @ map (\<lambda>b. [0xE2, 0x80, b]) ([0x80..<0x8B] @ [0xA8, 0xA9, 0xAF])
     @ [[0xE2, 0x81, 0x9F], [0xE3, 0x80, 0x80]])"

function strip_all :: "string list \<Rightarrow> string \<Rightarrow> string" where
  "strip_all rs s =
     (case find (\<lambda>r. r \<noteq> [] \<and> starts_with s r) rs of
        None \<Rightarrow> s
      | Some r \<Rightarrow> strip_all rs (drop (length r) s))"
  by auto

termination strip_all
  by (relation "measure (\<lambda>(rs, s). length s)") (auto simp: find_Some_iff starts_with_iff)

declare strip_all.simps [simp del]

definition TrimSpace :: "string \<Rightarrow> string" where
  "TrimSpace s = rev (strip_all (map rev space_runes) (rev (strip_all space_runes s)))"

text \<open>\<open>strings.Trim(s, "-")\<close>\<close>

definition trim_dash :: "string \<Rightarrow> string" where
  "trim_dash s = rev (dropWhile (\<lambda>c. c = CHR ''-'') (rev (dropWhile (\<lambda>c. c = CHR ''-'') s)))"

definition is_lower :: "char \<Rightarrow> bool" where
  "is_lower c \<longleftrightarrow> 97 \<le> (of_char c :: nat) \<and> (of_char c :: nat) \<le> 122"

text \<open>The class \<open>[a-z0-9-]\<close> of the regular expressions.\<close>

definition dns_char :: "char \<Rightarrow> bool" where
  "dns_char c \<longleftrightarrow> is_lower c \<or> is_digit c \<or> c = CHR ''-''"

text \<open>\<open>nonDNSLabel.ReplaceAllString(s, "-")\<close>: every maximal run of other bytes becomes one dash.\<close>

function replace_runs :: "string \<Rightarrow> string" where
  "replace_runs [] = []"
| "replace_runs (c # cs) =
     (if dns_char c then c # replace_runs cs
      else CHR ''-'' # replace_runs (dropWhile (\<lambda>d. \<not> dns_char d) cs))"
  by pat_completeness auto

termination replace_runs
  by (relation "measure length") (auto simp: le_imp_less_Suc length_dropWhile_le)

text \<open>\<open>strings.ReplaceAll(s, "--", "-")\<close>, and the loop that repeats it.\<close>

fun halve_dashes :: "string \<Rightarrow> string" where
  "halve_dashes [] = []"
| "halve_dashes [c] = [c]"
| "halve_dashes (c # d # cs) =
     (if c = CHR ''-'' \<and> d = CHR ''-'' then CHR ''-'' # halve_dashes cs else c # halve_dashes (d # cs))"

lemma halve_dashes_le: "length (halve_dashes s) \<le> length s"
  by (induction s rule: halve_dashes.induct) auto

lemma halve_dashes_less: "contains s ''--'' \<Longrightarrow> length (halve_dashes s) < length s"
proof (induction s rule: halve_dashes.induct)
  case (3 c d cs)
  show ?case
  proof (cases "c = CHR ''-'' \<and> d = CHR ''-''")
    case True
    then show ?thesis using halve_dashes_le [of cs] by simp
  next
    case False
    then have "contains (d # cs) ''--''" using "3.prems" by auto
    then have "length (halve_dashes (d # cs)) < length (d # cs)" by (rule "3.IH"(2) [OF False])
    with False show ?thesis by auto
  qed
qed auto

function squeeze :: "string \<Rightarrow> string" where
  "squeeze s = (if contains s ''--'' then squeeze (halve_dashes s) else s)"
  by auto

termination squeeze
  by (relation "measure length") (auto dest: halve_dashes_less)

declare squeeze.simps [simp del]

section \<open>Libraries\<close>

text \<open>
  \<open>wl_ToLower\<close> is \<open>strings.ToLower\<close>, whose effect outside ASCII comes from the Unicode tables.
\<close>

record textlib =
  wl_ToLower :: "string \<Rightarrow> string"
  wl_Sha1 :: "string \<Rightarrow> nat list"
  wl_HmacSha256 :: "string \<Rightarrow> string \<Rightarrow> string"

definition ascii :: "string \<Rightarrow> bool" where
  "ascii s \<longleftrightarrow> list_all (\<lambda>c. (of_char c :: nat) < 128) s"

definition ascii_lower :: "char \<Rightarrow> char" where
  "ascii_lower c = (if 65 \<le> (of_char c :: nat) \<and> (of_char c :: nat) \<le> 90 then char_of ((of_char c :: nat) + 32) else c)"

definition lower_lib :: "'a textlib_scheme \<Rightarrow> bool" where
  "lower_lib T \<longleftrightarrow> (\<forall>s. ascii s \<longrightarrow> wl_ToLower T s = map ascii_lower s)"

definition sha1_lib :: "'a textlib_scheme \<Rightarrow> bool" where
  "sha1_lib T \<longleftrightarrow> (\<forall>s. length (wl_Sha1 T s) = 20)"

section \<open>Names\<close>

record GitHubPRRef =
  gr_Owner :: string
  gr_Repo :: string
  gr_Number :: int
  gr_SHA :: string
  gr_Branch :: string
  gr_Sender :: string

definition FullName :: "GitHubPRRef \<Rightarrow> string" where
  "FullName r = gr_Owner r @ ''/'' @ gr_Repo r"

definition dnsLabel :: "'a textlib_scheme \<Rightarrow> string \<Rightarrow> string" where
  "dnsLabel T s =
     (let s = wl_ToLower T (TrimSpace s);
          s = map (\<lambda>c. if c = CHR ''_'' then CHR ''-'' else c) s;
          s = replace_runs s;
          s = trim_dash s
      in squeeze s)"

text \<open>
  The test on bytes; its only caller passes text over \<open>[a-z0-9-]\<close>, on which \<open>unicode.IsLower\<close> and
  \<open>unicode.IsDigit\<close> are these ranges.
\<close>

definition isDNS1123Label :: "string \<Rightarrow> bool" where
  "isDNS1123Label s =
     (if length s = 0 \<or> length s > 63 then False
      else if hd s = CHR ''-'' \<or> last s = CHR ''-'' then False
      else list_all dns_char s)"

definition shortHash :: "'a textlib_scheme \<Rightarrow> string \<Rightarrow> string" where
  "shortHash T s = take 8 (hex_bytes (wl_Sha1 T s))"

definition trimTo63 :: "string \<Rightarrow> string" where
  "trimTo63 s = (if length s \<le> 63 then s else trim_dash (take 63 s))"

definition LeaseName :: "'a textlib_scheme \<Rightarrow> GitHubPRRef \<Rightarrow> string" where
  "LeaseName T ref =
     (let repo = dnsLabel T (gr_Repo ref);
          repo = (if repo = [] then ''repo'' else repo);
          suffix = ''-pr-'' @ itoa (gr_Number ref);
          base = repo @ suffix
      in if length base \<le> 63 \<and> isDNS1123Label base then base
         else
           let hash = shortHash T (FullName ref @ ''#'' @ itoa (gr_Number ref));
               maxRepo = 63 - int (length suffix) - 1 - int (length hash)
           in if maxRepo < 1 then trimTo63 (hash @ suffix)
              else
                let shortRepo = (if int (length repo) > maxRepo then trim_dash (take (nat maxRepo) repo) else repo);
                    shortRepo = (if shortRepo = [] then ''r'' else shortRepo)
                in trimTo63 (shortRepo @ ''-'' @ hash @ suffix))"

section \<open>Request names\<close>

text \<open>The expression \<open>^[a-z0-9]([-a-z0-9]*[a-z0-9])?$\<close>.\<close>

definition leaseNameRE :: "string \<Rightarrow> bool" where
  "leaseNameRE s \<longleftrightarrow> s \<noteq> [] \<and> list_all dns_char s \<and> hd s \<noteq> CHR ''-'' \<and> last s \<noteq> CHR ''-''"

section \<open>Signatures\<close>

definition hex_val :: "char \<Rightarrow> nat option" where
  "hex_val c =
     (let n = (of_char c :: nat)
      in if 48 \<le> n \<and> n \<le> 57 then Some (n - 48)
         else if 97 \<le> n \<and> n \<le> 102 then Some (n - 87)
         else if 65 \<le> n \<and> n \<le> 70 then Some (n - 55)
         else None)"

fun hex_DecodeString :: "string \<Rightarrow> string option" where
  "hex_DecodeString [] = Some []"
| "hex_DecodeString [c] = None"
| "hex_DecodeString (a # b # cs) =
     (case (hex_val a, hex_val b, hex_DecodeString cs) of
        (Some x, Some y, Some rest) \<Rightarrow> Some (char_of (16 * x + y) # rest)
      | _ \<Rightarrow> None)"

definition VerifyGitHubSignature :: "'a textlib_scheme \<Rightarrow> string \<Rightarrow> string \<Rightarrow> string \<Rightarrow> go_error option" where
  "VerifyGitHubSignature T secret body signatureHeader =
     (if secret = [] then Some (Errorf ''github webhook secret is empty'')
      else
        let h = TrimSpace signatureHeader
        in if \<not> starts_with h ''sha256=''
           then Some (Errorf ''missing or invalid X-Hub-Signature-256 header'')
           else
             (case hex_DecodeString (drop 7 h) of
                None \<Rightarrow> Some (Errorf ''invalid signature encoding'')
              | Some got \<Rightarrow>
                  if got \<noteq> wl_HmacSha256 T secret body
                  then Some (Errorf ''invalid github webhook signature'')
                  else None))"

section \<open>Labels\<close>

text \<open>\<open>clean s\<close>: dashes only inside, over \<open>[a-z0-9-]\<close>; possibly empty.\<close>

definition clean :: "string \<Rightarrow> bool" where
  "clean s \<longleftrightarrow> list_all dns_char s \<and> (s = [] \<or> hd s \<noteq> CHR ''-'' \<and> last s \<noteq> CHR ''-'')"

lemma clean_label: "clean s \<Longrightarrow> s \<noteq> [] \<Longrightarrow> length s \<le> 63 \<Longrightarrow> isDNS1123Label s"
  by (auto simp: clean_def isDNS1123Label_def)

lemma replace_runs_dns: "list_all dns_char (replace_runs s)"
  by (induction s rule: replace_runs.induct) (auto simp: dns_char_def)

lemma trim_dash_ends:
  fixes s :: string
  defines "l \<equiv> dropWhile (\<lambda>c. c = CHR ''-'') s"
  assumes "trim_dash s \<noteq> []"
  shows "hd (trim_dash s) = hd l" "l \<noteq> []"
proof -
  define r where "r = dropWhile (\<lambda>c. c = CHR ''-'') (rev l)"
  have td: "trim_dash s = rev r" by (simp add: trim_dash_def r_def l_def)
  obtain pre where pre: "rev l = pre @ r"
    unfolding r_def by (metis takeWhile_dropWhile_id)
  then have "l = rev r @ rev pre" by (metis rev_append rev_rev_ident)
  moreover have "rev r \<noteq> []" using assms(2) td by simp
  ultimately show "hd (trim_dash s) = hd l" "l \<noteq> []" using td by simp_all
qed

lemma clean_trim_dash:
  assumes "list_all dns_char s"
  shows "clean (trim_dash s)"
proof (cases "trim_dash s = []")
  case True
  then show ?thesis by (simp add: clean_def)
next
  case False
  let ?d = "\<lambda>c. c = CHR ''-''"
  let ?r = "dropWhile ?d (rev (dropWhile ?d s))"
  have "set ?r \<subseteq> set (rev (dropWhile ?d s))" "set (dropWhile ?d s) \<subseteq> set s" using set_dropWhileD by fastforce+
  then have "list_all dns_char (trim_dash s)" using assms by (auto simp: trim_dash_def list_all_iff)
  moreover have "hd (trim_dash s) \<noteq> CHR ''-''"
    unfolding trim_dash_ends(1) [OF False] by (rule hd_dropWhile [OF trim_dash_ends(2) [OF False]])
  moreover have "last (trim_dash s) \<noteq> CHR ''-''"
  proof -
    have "?r \<noteq> []" using False by (simp add: trim_dash_def)
    then show ?thesis using hd_dropWhile [of ?d "rev (dropWhile ?d s)"] unfolding trim_dash_def last_rev by simp
  qed
  ultimately show ?thesis by (simp add: clean_def)
qed

lemma halve_dashes_clean:
  "list_all dns_char s \<Longrightarrow> list_all dns_char (halve_dashes s)"
  "halve_dashes s = [] \<longleftrightarrow> s = []"
  "s \<noteq> [] \<Longrightarrow> hd (halve_dashes s) = hd s"
  by (induction s rule: halve_dashes.induct) auto

lemma halve_dashes_last: "s \<noteq> [] \<Longrightarrow> last s \<noteq> CHR ''-'' \<Longrightarrow> last (halve_dashes s) = last s"
proof (induction s rule: halve_dashes.induct)
  case (3 c d cs)
  show ?case
  proof (cases "c = CHR ''-'' \<and> d = CHR ''-''")
    case True
    then have "cs \<noteq> []" using "3.prems" by auto
    then show ?thesis using 3 True by (simp add: halve_dashes_clean(2))
  next
    case False
    then show ?thesis using 3 by (auto simp: halve_dashes_clean(2))
  qed
qed simp_all

lemma clean_squeeze: "clean s \<Longrightarrow> clean (squeeze s)"
proof (induction s rule: squeeze.induct)
  case (1 s)
  have "clean (halve_dashes s)"
    using "1.prems" halve_dashes_clean [of s] halve_dashes_last [of s] by (auto simp: clean_def)
  then show ?case using 1 by (subst squeeze.simps) simp
qed

lemma clean_dnsLabel: "clean (dnsLabel T s)"
  by (simp add: dnsLabel_def Let_def clean_squeeze clean_trim_dash replace_runs_dns)

lemma hex_digit_dns: "n < 16 \<Longrightarrow> dns_char (hex_digit n) \<and> hex_digit n \<noteq> CHR ''-''"
proof -
  assume "n < 16"
  then have "hex_digit n \<in> set ''0123456789abcdef''" unfolding hex_digit_def by (intro nth_mem) simp
  then show ?thesis by (auto simp: dns_char_def is_lower_def is_digit_def)
qed

lemma hex_bytes_dns: "list_all (\<lambda>c. dns_char c \<and> c \<noteq> CHR ''-'') (hex_bytes bs)"
  by (auto simp: hex_bytes_def list_all_iff hex_digit_dns)

lemma length_hex_bytes: "length (hex_bytes bs) = 2 * length bs"
  by (induction bs) (simp_all add: hex_bytes_def)

lemma shortHash_clean:
  assumes "sha1_lib T"
  shows "length (shortHash T s) = 8" "list_all (\<lambda>c. dns_char c \<and> c \<noteq> CHR ''-'') (shortHash T s)"
  using assms hex_bytes_dns [of "wl_Sha1 T s"]
  by (auto simp: shortHash_def sha1_lib_def length_hex_bytes list_all_iff dest: in_set_takeD)

lemma shortHash_head:
  assumes "sha1_lib T"
  shows "shortHash T s \<noteq> []" "list_all dns_char (shortHash T s)" "hd (shortHash T s) \<noteq> CHR ''-''"
proof -
  show ne: "shortHash T s \<noteq> []" using shortHash_clean(1) [OF assms, of s] by (metis list.size(3) zero_neq_numeral)
  then have "hd (shortHash T s) \<in> set (shortHash T s)" by simp
  then show "hd (shortHash T s) \<noteq> CHR ''-''" "list_all dns_char (shortHash T s)"
    using shortHash_clean(2) [OF assms, of s] by (simp_all add: list_all_iff)
qed

lemma itoa_dns: "list_all dns_char (itoa n)" "itoa n \<noteq> []" "last (itoa n) \<noteq> CHR ''-''"
proof -
  have d: "list_all is_digit (dec k)" for k by (rule dec_digits)
  have l: "is_digit (last (dec k))" for k using d [of k] by (simp add: list_all_iff del: dec.simps)
  show "list_all dns_char (itoa n)" using d by (auto simp: itoa_def dns_char_def list_all_iff)
  show "itoa n \<noteq> []" by (simp add: itoa_def)
  have "\<not> is_digit (CHR ''-'')" by (simp add: is_digit_def)
  then have "last (dec k) \<noteq> CHR ''-''" for k using l [of k] by metis
  then show "last (itoa n) \<noteq> CHR ''-''" by (simp add: itoa_def)
qed

lemma clean_append:
  assumes "a \<noteq> []" "list_all dns_char a" "hd a \<noteq> CHR ''-''" "b \<noteq> []" "list_all dns_char b" "last b \<noteq> CHR ''-''"
  shows "clean (a @ b)"
  using assms by (simp add: clean_def)

lemma trimTo63_label:
  assumes "clean s" "s \<noteq> []"
  shows "isDNS1123Label (trimTo63 s)"
proof (cases "length s \<le> 63")
  case True
  then show ?thesis using assms by (simp add: trimTo63_def clean_label)
next
  case False
  let ?t = "take 63 s"
  have c: "clean (trim_dash ?t)"
    by (rule clean_trim_dash) (use assms in \<open>auto simp: clean_def list_all_iff dest: in_set_takeD\<close>)
  have "hd ?t \<noteq> CHR ''-''" "?t \<noteq> []" using assms False by (auto simp: clean_def hd_take)
  then have "dropWhile (\<lambda>c. c = CHR ''-'') ?t = ?t" by (cases ?t) simp_all
  then have td: "trim_dash ?t = rev (dropWhile (\<lambda>c. c = CHR ''-'') (rev ?t))" by (simp add: trim_dash_def)
  have "\<not> (\<forall>x\<in>set ?t. x = CHR ''-'')" using \<open>hd ?t \<noteq> CHR ''-''\<close> \<open>?t \<noteq> []\<close> hd_in_set by blast
  then have "trim_dash ?t \<noteq> []" unfolding td by (simp add: dropWhile_eq_Nil_conv)
  moreover have "length (trim_dash ?t) \<le> 63"
    unfolding td using length_dropWhile_le [of "\<lambda>c. c = CHR ''-''" "rev ?t"] by simp
  ultimately show ?thesis using c False by (simp add: trimTo63_def clean_label)
qed

lemma lease_name_label:
  assumes "sha1_lib T"
  shows "isDNS1123Label (LeaseName T ref)"
proof -
  define repo where "repo = (if dnsLabel T (gr_Repo ref) = [] then ''repo'' else dnsLabel T (gr_Repo ref))"
  define suffix where "suffix = ''-pr-'' @ itoa (gr_Number ref)"
  define hash where "hash = shortHash T (FullName ref @ ''#'' @ itoa (gr_Number ref))"
  define short where "short = (\<lambda>n. if int (length repo) > n then trim_dash (take (nat n) repo) else repo)"
  have name: "LeaseName T ref =
      (if length (repo @ suffix) \<le> 63 \<and> isDNS1123Label (repo @ suffix) then repo @ suffix
       else let maxRepo = 63 - int (length suffix) - 1 - int (length hash)
         in if maxRepo < 1 then trimTo63 (hash @ suffix)
            else trimTo63 ((if short maxRepo = [] then ''r'' else short maxRepo) @ ''-'' @ hash @ suffix))"
    unfolding LeaseName_def Let_def repo_def suffix_def hash_def short_def by simp
  have repo: "clean repo" unfolding repo_def using clean_dnsLabel [of T "gr_Repo ref"]
    by (auto simp: clean_def dns_char_def is_lower_def)
  have s: "suffix \<noteq> []" "list_all dns_char suffix" "last suffix \<noteq> CHR ''-''"
    using itoa_dns by (simp_all add: suffix_def dns_char_def is_lower_def)
  have h: "hash \<noteq> []" "list_all dns_char hash" "hd hash \<noteq> CHR ''-''"
    using shortHash_head [OF assms] by (simp_all add: hash_def)
  have hs: "list_all dns_char (''-'' @ hash @ suffix)" "''-'' @ hash @ suffix \<noteq> []"
    "last (''-'' @ hash @ suffix) \<noteq> CHR ''-''"
    using s h by (simp_all add: dns_char_def)
  have short: "clean (if short n = [] then ''r'' else short n)" for n
  proof -
    have "clean (trim_dash (take (nat n) repo))"
      by (rule clean_trim_dash) (use repo in \<open>auto simp: clean_def list_all_iff dest: in_set_takeD\<close>)
    then show ?thesis using repo by (auto simp: short_def clean_def dns_char_def is_lower_def)
  qed
  have long: "isDNS1123Label (trimTo63 ((if short n = [] then ''r'' else short n) @ ''-'' @ hash @ suffix))" for n
    by (rule trimTo63_label, rule clean_append) (use short [of n] hs in \<open>auto simp: clean_def\<close>)
  have extreme: "isDNS1123Label (trimTo63 (hash @ suffix))"
    using s h by (intro trimTo63_label clean_append) simp_all
  show ?thesis
    unfolding name Let_def using long extreme by presburger
qed

section \<open>Properties\<close>

text \<open>
  C34. Every pull request has a valid lease name: whatever the repository is called and whatever \<open>strings.ToLower\<close> does
  outside ASCII, \<open>LeaseName\<close> returns a DNS-1123 label of at most 63 characters, provided the digest has its length.
\<close>

theorem lease_name_is_dns_label:
  assumes "sha1_lib T"
  shows "isDNS1123Label (LeaseName T ref)"
  by (rule lease_name_label [OF assms])

text \<open>A library with the documented behaviour of SHA-1's length and of \<open>ToLower\<close> on ASCII.\<close>

definition demo_text :: textlib where
  "demo_text = \<lparr>wl_ToLower = map ascii_lower, wl_Sha1 = (\<lambda>s. replicate 20 171),
     wl_HmacSha256 = (\<lambda>secret body. secret @ body)\<rparr>"

theorem lease_name_is_dns_label_witness:
  "isDNS1123Label (LeaseName demo_text
     \<lparr>gr_Owner = ''Acme'', gr_Repo = ''Payments_API'', gr_Number = 1842, gr_SHA = [], gr_Branch = [], gr_Sender = []\<rparr>)"
  by (rule lease_name_is_dns_label) (simp add: sha1_lib_def demo_text_def)

end
