(* ===== verification/Webhook.thy ===== *)
theory Webhook
  imports Source_Names Lease_Controller
begin

text \<open>
  The webhook source, \<open>src/internal/sourcewebhook\<close>: an HTTP server that creates, touches and expires leases on
  behalf of a caller with a shared token, and on behalf of GitHub pull requests. A handler takes the server and
  a request and returns the response together with the server, whose token providers cache. JSON decoding is a
  parameter; the request record carries the bytes of the body and the error the connection may end with.
\<close>

section \<open>Configuration\<close>

definition AnnotationRequestID :: string where "AnnotationRequestID = ''kubelease.io/webhook-request-id''"
definition AnnotationSource :: string where "AnnotationSource = ''kubelease.io/source''"
definition SourceValue :: string where "SourceValue = ''webhook''"
definition SourceGitHub :: string where "SourceGitHub = ''github''"
definition AnnotationGitHubOwner :: string where "AnnotationGitHubOwner = ''kubelease.io/github-owner''"
definition AnnotationGitHubRepo :: string where "AnnotationGitHubRepo = ''kubelease.io/github-repo''"
definition AnnotationGitHubPR :: string where "AnnotationGitHubPR = ''kubelease.io/github-pr''"
definition AnnotationGitHubSHA :: string where "AnnotationGitHubSHA = ''kubelease.io/github-sha''"
definition AnnotationGitHubBranch :: string where "AnnotationGitHubBranch = ''kubelease.io/github-branch''"
definition AnnotationGitHubDelivery :: string where "AnnotationGitHubDelivery = ''kubelease.io/github-delivery''"
definition AnnotationGitHubFullName :: string where "AnnotationGitHubFullName = ''kubelease.io/github-full-name''"
definition LabelGitHubOwner :: string where "LabelGitHubOwner = ''kubelease.io/github-owner''"
definition LabelGitHubRepo :: string where "LabelGitHubRepo = ''kubelease.io/github-repo''"
definition LabelGitHubPR :: string where "LabelGitHubPR = ''kubelease.io/github-pr''"

lemmas webhook_names = AnnotationRequestID_def AnnotationSource_def SourceValue_def SourceGitHub_def
  AnnotationGitHubOwner_def AnnotationGitHubRepo_def AnnotationGitHubPR_def AnnotationGitHubSHA_def
  AnnotationGitHubBranch_def AnnotationGitHubDelivery_def AnnotationGitHubFullName_def
  LabelGitHubOwner_def LabelGitHubRepo_def LabelGitHubPR_def

record Config =
  cf_BindAddress :: string
  cf_TokenSecretNamespace :: string
  cf_TokenSecretName :: string
  cf_TokenSecretKey :: string
  cf_DefaultPolicy :: string
  cf_NamespaceGenerateName :: string
  cf_GitHubEnabled :: bool
  cf_GitHubSecretName :: string
  cf_GitHubSecretKey :: string
  cf_GitHubRepoPolicies :: strmap
  cf_GitHubMaxBodyBytes :: int
  cf_MaxBodyBytes :: int
  cf_ReadTimeout :: duration
  cf_WriteTimeout :: duration
  cf_IdleTimeout :: duration
  cf_RequestTimeout :: duration

definition Defaults :: "Config \<Rightarrow> Config" where
  "Defaults c =
     (let c = (if cf_BindAddress c = [] then c\<lparr>cf_BindAddress := '':8082''\<rparr> else c);
          c = (if cf_TokenSecretKey c = [] then c\<lparr>cf_TokenSecretKey := ''token''\<rparr> else c);
          c = (if cf_NamespaceGenerateName c = [] then c\<lparr>cf_NamespaceGenerateName := ''preview-''\<rparr> else c);
          c = (if cf_GitHubSecretKey c = [] then c\<lparr>cf_GitHubSecretKey := ''github-webhook-secret''\<rparr> else c);
          c = (if cf_GitHubSecretName c = []
               then (if cf_TokenSecretName c \<noteq> [] then c\<lparr>cf_GitHubSecretName := cf_TokenSecretName c\<rparr>
                     else c\<lparr>cf_GitHubSecretName := ''webhook-token''\<rparr>) else c);
          c = (if cf_GitHubMaxBodyBytes c \<le> 0 then c\<lparr>cf_GitHubMaxBodyBytes := 1048576\<rparr> else c);
          c = (if cf_MaxBodyBytes c \<le> 0 then c\<lparr>cf_MaxBodyBytes := 65536\<rparr> else c);
          c = (if cf_ReadTimeout c \<le> 0 then c\<lparr>cf_ReadTimeout := 10 * Second\<rparr> else c);
          c = (if cf_WriteTimeout c \<le> 0 then c\<lparr>cf_WriteTimeout := 10 * Second\<rparr> else c);
          c = (if cf_IdleTimeout c \<le> 0 then c\<lparr>cf_IdleTimeout := 60 * Second\<rparr> else c)
      in if cf_RequestTimeout c \<le> 0 then c\<lparr>cf_RequestTimeout := 10 * Second\<rparr> else c)"

section \<open>Tokens\<close>

text \<open>A token is compared with \<open>subtle.ConstantTimeCompare\<close>, which is equality of the bytes.\<close>

datatype TokenProvider =
    StaticTokenProvider string
  | SecretTokenProvider string string string string \<comment> \<open>namespace, name, key, cache\<close>

record Server =
  sv_Config :: Config
  sv_TokenProvider :: "TokenProvider option"
  sv_GitHubSecretProvider :: "TokenProvider option"

fun Token :: "'w platform \<Rightarrow> TokenProvider \<Rightarrow> ('w, (go_error + string) \<times> TokenProvider) prog" where
  "Token P (StaticTokenProvider v) = State_Monad.return (Inr v, StaticTokenProvider v)"
| "Token P (SecretTokenProvider ns name key cache) =
     (if cache \<noteq> [] then State_Monad.return (Inr cache, SecretTokenProvider ns name key cache)
      else do {
        r \<leftarrow> call (api_GetSecret (pf_hub P) ns name);
        State_Monad.return (case r of
            Inl err \<Rightarrow> (Inl (Wrapf (''get token secret '' @ ns @ ''/'' @ name @ '': '') err),
                        SecretTokenProvider ns name key cache)
          | Inr secret \<Rightarrow>
              if lk (se_Data secret) key = []
              then (Inl (Errorf (''token secret '' @ ns @ ''/'' @ name @ '' missing key '' @ quote key)),
                    SecretTokenProvider ns name key cache)
              else (Inr (lk (se_Data secret) key), SecretTokenProvider ns name key (lk (se_Data secret) key))) })"

fun Invalidate_token :: "TokenProvider \<Rightarrow> TokenProvider" where
  "Invalidate_token (SecretTokenProvider ns name key cache) = SecretTokenProvider ns name key []"
| "Invalidate_token (StaticTokenProvider v) = StaticTokenProvider v"

definition extractBearerToken :: "string \<Rightarrow> string \<Rightarrow> string" where
  "extractBearerToken authorization headerToken =
     (if headerToken \<noteq> [] then TrimSpace headerToken
      else if starts_with authorization ''Bearer '' then TrimSpace (drop 7 authorization)
      else [])"

definition authorize ::
  "'w platform \<Rightarrow> TokenProvider option \<Rightarrow> string \<Rightarrow> string \<Rightarrow> ('w, go_error option \<times> TokenProvider option) prog" where
  "authorize P provider authorization headerToken =
     (case provider of
        None \<Rightarrow> State_Monad.return (Some (Errorf ''token provider not configured''), None)
      | Some tp \<Rightarrow>
          let provided = extractBearerToken authorization headerToken
          in if provided = [] then State_Monad.return (Some (Errorf ''missing authentication token''), Some tp)
             else do {
               (r, tp) \<leftarrow> Token P tp;
               State_Monad.return (case r of
                   Inl err \<Rightarrow> (Some (Wrapf ''authenticate: '' err), Some tp)
                 | Inr expected \<Rightarrow>
                     if provided \<noteq> expected then (Some (Errorf ''invalid authentication token''), Some tp)
                     else (None, Some tp)) })"

section \<open>Requests\<close>

record Request =
  wr_Action :: string
  wr_Name :: string
  wr_Owner :: string
  wr_Team :: string
  wr_RequestID :: string

record githubPullRequestEvent =
  ge_Action :: string
  ge_Number :: int
  ge_PRNumber :: int
  ge_Merged :: bool
  ge_HeadSHA :: string
  ge_HeadRef :: string
  ge_UserLogin :: string
  ge_RepoName :: string
  ge_RepoFullName :: string
  ge_OwnerLogin :: string
  ge_SenderLogin :: string

text \<open>
  \<open>wl_Decode\<close> is \<open>json.Decoder.Decode\<close> with unknown fields disallowed and says whether more data follows;
  \<open>wl_UnmarshalEvent\<close> is \<open>json.Unmarshal\<close> into the event.
\<close>

record weblib = textlib +
  wl_Decode :: "string \<Rightarrow> go_error + (Request \<times> bool)"
  wl_UnmarshalEvent :: "string \<Rightarrow> go_error + githubPullRequestEvent"

text \<open>
  \<open>hr_Header\<close> holds the first value of each header under the name the code looks it up with
  (\<open>Header.Get\<close> ignores case and yields the empty string for a missing header).
\<close>

record HttpRequest =
  hr_Path :: string
  hr_Method :: string
  hr_Header :: strmap
  hr_Body :: string
  hr_BodyError :: "go_error option"

text \<open>\<open>io.ReadAll(io.LimitReader(body, n))\<close>\<close>

definition read_limited :: "HttpRequest \<Rightarrow> int \<Rightarrow> go_error + string" where
  "read_limited r n =
     (if n \<le> int (length (hr_Body r)) then Inr (take (nat n) (hr_Body r))
      else case hr_BodyError r of Some err \<Rightarrow> Inl err | None \<Rightarrow> Inr (hr_Body r))"

definition decodeRequest :: "weblib \<Rightarrow> HttpRequest \<Rightarrow> int \<Rightarrow> go_error + Request" where
  "decodeRequest T r maxBody =
     (if hr_Method r \<noteq> ''POST'' then Inl (Errorf ''method not allowed'')
      else case read_limited r (wrap64 (maxBody + 1)) of
          Inl err \<Rightarrow> Inl (Wrapf ''read body: '' err)
        | Inr raw \<Rightarrow>
            if int (length raw) > maxBody then Inl (Errorf ''request body too large'')
            else if TrimSpace raw = [] then Inl (Errorf ''empty request body'')
            else case wl_Decode T raw of
                Inl err \<Rightarrow> Inl (Wrapf ''malformed JSON: '' err)
              | Inr (req, trailing) \<Rightarrow>
                  if trailing then Inl (Errorf ''malformed JSON: trailing data'') else Inr req)"

definition validate :: "Request \<Rightarrow> go_error option" where
  "validate req =
     (let name = TrimSpace (wr_Name req)
      in if wr_Action req \<noteq> ''create'' \<and> wr_Action req \<noteq> ''expire'' \<and> wr_Action req \<noteq> ''touch''
         then (if wr_Action req = [] then Some (Errorf ''action is required'')
               else Some (Errorf (''unsupported action '' @ quote (wr_Action req))))
         else if name = [] then Some (Errorf ''name is required'')
         else if length name > 63 then Some (Errorf ''name must be at most 63 characters'')
         else if \<not> leaseNameRE name then Some (Errorf ''name must be a valid DNS-1123 label'')
         else None)"

section \<open>Actions of the generic source\<close>

definition result0 :: "int \<Rightarrow> string \<Rightarrow> string \<Rightarrow> ActionResult" where
  "result0 code msg name = \<lparr>ar_StatusCode = code, ar_Duplicate = False, ar_Message = msg, ar_LeaseName = name,
     ar_Namespace = []\<rparr>"

definition duplicate :: "string \<Rightarrow> string \<Rightarrow> string \<Rightarrow> ActionResult" where
  "duplicate msg name ns = \<lparr>ar_StatusCode = 200, ar_Duplicate = True, ar_Message = msg, ar_LeaseName = name,
     ar_Namespace = ns\<rparr>"

definition validateAgainstPolicy ::
  "'w platform \<Rightarrow> Server \<Rightarrow> EnvironmentLease \<Rightarrow> string \<Rightarrow> ('w, go_error option) prog" where
  "validateAgainstPolicy P s l policyName =
     (let policyName = (if policyName = [] then cf_DefaultPolicy (sv_Config s) else policyName)
      in do {
        r \<leftarrow> call (api_GetPolicy (pf_hub P) policyName);
        State_Monad.return (case r of
            Inl err \<Rightarrow> Some (if IsNotFound err then Errorf (''policy '' @ quote policyName @ '' not found'')
                            else Wrapf ''get policy: '' err)
          | Inr pol \<Rightarrow> (case Resolve (el_Spec l) (Some pol) of
                Inl err \<Rightarrow> Some (Wrapf ''policy violation: '' err)
              | Inr _ \<Rightarrow> None)) })"

definition buildLease :: "Server \<Rightarrow> Request \<Rightarrow> EnvironmentLease" where
  "buildLease s req =
     (let name = TrimSpace (wr_Name req); owner = TrimSpace (wr_Owner req); team = TrimSpace (wr_Team req);
          team = (if team = [] \<and> owner \<noteq> [] then owner else team);
          ann = fmap_of_list [(AnnotationSource, SourceValue)];
          ann = (if wr_RequestID req \<noteq> [] then fmupd AnnotationRequestID (wr_RequestID req) ann else ann)
      in zero_lease\<lparr>
           el_Meta := zero_meta\<lparr>om_Name := name, om_Annotations := ann,
             om_Labels := fmap_of_list [(LabelManagedBy, ManagedByValue)]\<rparr>,
           el_Spec := zero_lease_spec\<lparr>
             sp_PolicyRef := Some \<lparr>lor_Name = cf_DefaultPolicy (sv_Config s)\<rparr>,
             sp_Owner := \<lparr>ow_Name = owner, ow_Team = team\<rparr>,
             sp_Namespace := zero_namespace_spec\<lparr>nss_GenerateName := cf_NamespaceGenerateName (sv_Config s),
               nss_Labels := fmap_of_list [(''environment'', ''preview''), (''source'', SourceValue)]\<rparr>\<rparr>\<rparr>)"

text \<open>
  Lines 97--112 (103--113 of \<open>github_actions.go\<close>): validate against the policy and create. The generic source reports
  the name of the stored object, the GitHub source the name it computed; \<open>created\<close> picks it.
\<close>

definition create_validated ::
  "'w platform \<Rightarrow> Server \<Rightarrow> EnvironmentLease \<Rightarrow> string \<Rightarrow> string \<Rightarrow> (EnvironmentLease \<Rightarrow> string)
     \<Rightarrow> ('w, go_error + ActionResult) prog" where
  "create_validated P s l policyName name created = do {
     v \<leftarrow> validateAgainstPolicy P s l policyName;
     (case v of
        Some err \<Rightarrow> State_Monad.return (Inr (result0 422 (err_text err) []))
      | None \<Rightarrow> do {
          c \<leftarrow> act (CreateLease l) (api_CreateLease (pf_hub P) l);
          State_Monad.return (case c of
              Inl err \<Rightarrow> if IsAlreadyExists err then Inr (duplicate ''lease already exists'' name [])
                         else Inl (Wrapf ''create lease: '' err)
            | Inr stored \<Rightarrow> Inr (result0 201 ''lease created'' (created stored))) }) }"

definition createLease :: "'w platform \<Rightarrow> Server \<Rightarrow> Request \<Rightarrow> ('w, go_error + ActionResult) prog" where
  "createLease P s req =
     (if cf_DefaultPolicy (sv_Config s) = []
      then State_Monad.return (Inr (result0 500 ''webhook default policy is not configured'' []))
      else
        let name = TrimSpace (wr_Name req)
        in do {
          g \<leftarrow> call (api_GetLease (pf_hub P) name);
          (case g of
             Inr existing \<Rightarrow> State_Monad.return (Inr (
               if wr_RequestID req \<noteq> []
                \<and> lk (om_Annotations (el_Meta existing)) AnnotationRequestID = wr_RequestID req
               then duplicate ''lease already exists for requestId'' (el_Name existing) (st_Namespace (el_Status existing))
               else if wr_RequestID req = []
               then duplicate ''lease already exists'' (el_Name existing) (st_Namespace (el_Status existing))
               else result0 409 ''lease already exists with a different requestId'' (el_Name existing)))
           | Inl err \<Rightarrow>
               if \<not> IsNotFound err then State_Monad.return (Inl (Wrapf ''get lease: '' err))
               else create_validated P s (buildLease s req) (cf_DefaultPolicy (sv_Config s)) name el_Name) })"

text \<open>Lines 199--205, and 218--229 of \<open>github_actions.go\<close>.\<close>

definition delete_requested ::
  "'w platform \<Rightarrow> EnvironmentLease \<Rightarrow> string \<Rightarrow> string \<Rightarrow> ('w, go_error + ActionResult) prog" where
  "delete_requested P l name msg = do {
     d \<leftarrow> act (DeleteLease l) (api_DeleteLease (pf_hub P) l);
     State_Monad.return (case d of
         Some err \<Rightarrow> if IsNotFound err then Inr (duplicate ''lease already absent'' name [])
                     else Inl (Wrapf ''delete lease: '' err)
       | None \<Rightarrow> Inr (result0 202 msg name)) }"

definition expireLease :: "'w platform \<Rightarrow> Request \<Rightarrow> ('w, go_error + ActionResult) prog" where
  "expireLease P req =
     (let name = TrimSpace (wr_Name req)
      in do {
        g \<leftarrow> call (api_GetLease (pf_hub P) name);
        (case g of
           Inl err \<Rightarrow> State_Monad.return (if IsNotFound err then Inr (duplicate ''lease already absent'' name [])
                        else Inl (Wrapf ''get lease: '' err))
         | Inr l \<Rightarrow>
             if wr_RequestID req \<noteq> [] \<and> lk (om_Annotations (el_Meta l)) AnnotationRequestID = wr_RequestID req
              \<and> \<not> ptr_is_zero (om_DeletionTimestamp (el_Meta l))
             then State_Monad.return (Inr (duplicate ''expire already requested'' name []))
             else if \<not> ptr_is_zero (om_DeletionTimestamp (el_Meta l))
             then State_Monad.return (Inr (duplicate ''expire already requested'' name []))
             else delete_requested P l name ''expire requested'') })"

definition idleTTLFrom :: "EnvironmentLease \<Rightarrow> duration" where
  "idleTTLFrom l =
     (case (case st_Effective (el_Status l) of None \<Rightarrow> None | Some e \<Rightarrow> ef_IdleTTL e) of
        Some d \<Rightarrow> d
      | None \<Rightarrow> (case sp_IdleTTL (el_Spec l) of Some d \<Rightarrow> d | None \<Rightarrow> 0))"

definition touchLease :: "'w platform \<Rightarrow> Request \<Rightarrow> ('w, go_error + ActionResult) prog" where
  "touchLease P req =
     (let name = TrimSpace (wr_Name req)
      in lib_RetryAction P (do {
        g \<leftarrow> call (api_GetLease (pf_hub P) name);
        (case g of
           Inl err \<Rightarrow> State_Monad.return (if IsNotFound err then Inr (result0 404 ''lease not found'' name) else Inl err)
         | Inr l \<Rightarrow> do {
             n \<leftarrow> now P;
             (case RecordActivity l n (idleTTLFrom l) of
                (Some err, _) \<Rightarrow> State_Monad.return (Inr (result0 409 (err_text err) name))
              | (None, l) \<Rightarrow> do {
                  u \<leftarrow> act (StatusUpdateLease l) (api_StatusUpdateLease (pf_hub P) l);
                  State_Monad.return (map_sum id (\<lambda>stored. \<lparr>ar_StatusCode = 200, ar_Duplicate = False,
                    ar_Message = ''activity recorded'', ar_LeaseName = name,
                    ar_Namespace = st_Namespace (el_Status stored)\<rparr>) u) }) }) }))"

definition handleAction :: "'w platform \<Rightarrow> Server \<Rightarrow> Request \<Rightarrow> ('w, go_error + ActionResult) prog" where
  "handleAction P s req =
     (if wr_Action req = ''create'' then createLease P s req
      else if wr_Action req = ''expire'' then expireLease P req
      else if wr_Action req = ''touch'' then touchLease P req
      else State_Monad.return (Inr (result0 400 ''unsupported action'' [])))"

end
