(* ===== verification/Webhook_Handlers.thy ===== *)
theory Webhook_Handlers
  imports Webhook
begin

text \<open>
  The rest of \<open>src/internal/sourcewebhook\<close>: the lease lifecycle of a GitHub pull request
  (\<open>github_payload.go\<close>, \<open>github_identity.go\<close>, \<open>github_actions.go\<close>) and the HTTP handlers (\<open>handler.go\<close>,
  \<open>github_handler.go\<close>, \<open>server.go\<close>). A handler returns its response and the server, whose token
  providers may have filled their cache. The latency histograms and the log lines are left out.
\<close>

section \<open>Pull requests\<close>

definition toRef :: "githubPullRequestEvent \<Rightarrow> go_error + GitHubPRRef" where
  "toRef ev =
     (let owner = TrimSpace (ge_OwnerLogin ev); repo = TrimSpace (ge_RepoName ev)
      in if owner = [] \<or> repo = [] then Inl (Errorf ''repository owner/name are required'')
         else
           let number = ge_Number ev; number = (if number = 0 then ge_PRNumber ev else number)
           in if number \<le> 0 then Inl (Errorf ''pull request number is required'')
              else
                let sender = TrimSpace (ge_UserLogin ev);
                    sender = (if sender = [] then TrimSpace (ge_SenderLogin ev) else sender)
                in Inr \<lparr>gr_Owner = owner, gr_Repo = repo, gr_Number = number, gr_SHA = TrimSpace (ge_HeadSHA ev),
                     gr_Branch = TrimSpace (ge_HeadRef ev), gr_Sender = sender\<rparr>)"

definition parsePullRequestEvent :: "weblib \<Rightarrow> string \<Rightarrow> go_error + (githubPullRequestEvent \<times> GitHubPRRef)" where
  "parsePullRequestEvent T body =
     (case wl_UnmarshalEvent T body of
        Inl err \<Rightarrow> Inl (Wrapf ''malformed JSON: '' err)
      | Inr ev \<Rightarrow> (case toRef ev of Inl err \<Rightarrow> Inl err | Inr ref \<Rightarrow> Inr (ev, ref)))"

definition githubMetadataAnnotations :: "GitHubPRRef \<Rightarrow> string \<Rightarrow> strmap" where
  "githubMetadataAnnotations ref deliveryID =
     (let out = fmap_of_list [(AnnotationSource, SourceGitHub), (AnnotationGitHubOwner, gr_Owner ref),
            (AnnotationGitHubRepo, gr_Repo ref), (AnnotationGitHubPR, itoa (gr_Number ref)),
            (AnnotationGitHubFullName, FullName ref)];
          out = (if gr_SHA ref \<noteq> [] then fmupd AnnotationGitHubSHA (gr_SHA ref) out else out);
          out = (if gr_Branch ref \<noteq> [] then fmupd AnnotationGitHubBranch (gr_Branch ref) out else out)
      in if deliveryID \<noteq> []
         then fmupd AnnotationRequestID (''github:'' @ deliveryID) (fmupd AnnotationGitHubDelivery deliveryID out)
         else out)"

definition githubMetadataLabels :: "weblib \<Rightarrow> GitHubPRRef \<Rightarrow> strmap" where
  "githubMetadataLabels T ref =
     fmap_of_list [(LabelManagedBy, ManagedByValue), (LabelGitHubOwner, dnsLabel T (gr_Owner ref)),
       (LabelGitHubRepo, dnsLabel T (gr_Repo ref)), (LabelGitHubPR, itoa (gr_Number ref))]"

definition PolicyForRepo :: "weblib \<Rightarrow> Server \<Rightarrow> string \<Rightarrow> string" where
  "PolicyForRepo T s fullName =
     (let fullName = wl_ToLower T (TrimSpace fullName)
      in case fmlookup (cf_GitHubRepoPolicies (sv_Config s)) fullName of
           Some p \<Rightarrow> if p \<noteq> [] then p else cf_DefaultPolicy (sv_Config s)
         | None \<Rightarrow> cf_DefaultPolicy (sv_Config s))"

definition secret_like :: "weblib \<Rightarrow> string \<Rightarrow> string \<Rightarrow> bool" where
  "secret_like T k v \<longleftrightarrow>
     (let kl = wl_ToLower T k; vl = wl_ToLower T v
      in contains kl ''token'' \<or> contains kl ''secret'' \<or> contains kl ''password'' \<or> contains vl ''ghp_'')"

text \<open>The loop ranges over a map: which of several offending keys is reported depends on the iteration order.\<close>

definition AssertNoGitHubSecretInSpec :: "'w platform \<Rightarrow> weblib \<Rightarrow> strmap \<Rightarrow> go_error option" where
  "AssertNoGitHubSecretInSpec P T annotations =
     (case find (\<lambda>(k, v). secret_like T k v) (iteration (lib_Rank P 0) annotations) of
        Some (k, v) \<Rightarrow> Some (Errorf (''refusing to store secret-like annotation '' @ quote k @ '' on lease''))
      | None \<Rightarrow> None)"

text \<open>A nil map of annotations has no keys, so its early return is the last case.\<close>

definition githubIdentityConflict :: "EnvironmentLease \<Rightarrow> GitHubPRRef \<Rightarrow> string" where
  "githubIdentityConflict existing ref =
     (let ann = om_Annotations (el_Meta existing);
          full = lk ann AnnotationGitHubFullName;
          owner = lk ann AnnotationGitHubOwner;
          repo = lk ann AnnotationGitHubRepo;
          full = (if full = [] then (if owner \<noteq> [] \<and> repo \<noteq> [] then owner @ ''/'' @ repo else full) else full)
      in if full \<noteq> [] \<and> full \<noteq> FullName ref
         then ''lease name collision: existing source '' @ full @ '' vs '' @ FullName ref
         else [])"

definition buildGitHubLease :: "weblib \<Rightarrow> Server \<Rightarrow> GitHubPRRef \<Rightarrow> string \<Rightarrow> string \<Rightarrow> string \<Rightarrow> EnvironmentLease" where
  "buildGitHubLease T s ref name policyName deliveryID =
     zero_lease\<lparr>
       el_Meta := zero_meta\<lparr>om_Name := name, om_Annotations := githubMetadataAnnotations ref deliveryID,
         om_Labels := githubMetadataLabels T ref\<rparr>,
       el_Spec := zero_lease_spec\<lparr>
         sp_PolicyRef := Some \<lparr>lor_Name = policyName\<rparr>,
         sp_Owner := \<lparr>ow_Name = gr_Sender ref, ow_Team = gr_Owner ref\<rparr>,
         sp_Namespace := zero_namespace_spec\<lparr>nss_GenerateName := cf_NamespaceGenerateName (sv_Config s),
           nss_Labels := fmap_of_list [(''environment'', ''preview''), (''source'', SourceGitHub),
             (LabelGitHubOwner, dnsLabel T (gr_Owner ref)), (LabelGitHubRepo, dnsLabel T (gr_Repo ref)),
             (LabelGitHubPR, itoa (gr_Number ref))]\<rparr>\<rparr>\<rparr>"

text \<open>The patch is a merge patch against the lease that was read; the effect records the patched object.\<close>

definition github_patched :: "weblib \<Rightarrow> EnvironmentLease \<Rightarrow> GitHubPRRef \<Rightarrow> string \<Rightarrow> EnvironmentLease" where
  "github_patched T l ref deliveryID =
     l\<lparr>el_Meta := (el_Meta l)\<lparr>
       om_Annotations := fmadd (om_Annotations (el_Meta l)) (githubMetadataAnnotations ref deliveryID),
       om_Labels := fmadd (om_Labels (el_Meta l)) (githubMetadataLabels T ref)\<rparr>\<rparr>"

definition patchGitHubMetadata ::
  "'w platform \<Rightarrow> weblib \<Rightarrow> EnvironmentLease \<Rightarrow> GitHubPRRef \<Rightarrow> string \<Rightarrow> ('w, go_error option) prog" where
  "patchGitHubMetadata P T l ref deliveryID =
     (let patched = github_patched T l ref deliveryID
      in case AssertNoGitHubSecretInSpec P T (om_Annotations (el_Meta patched)) of
           Some err \<Rightarrow> State_Monad.return (Some err)
         | None \<Rightarrow> do {
             r \<leftarrow> act (PatchLease patched) (api_PatchLease (pf_hub P) patched);
             State_Monad.return (case r of Inl err \<Rightarrow> Some err | Inr _ \<Rightarrow> None) })"

section \<open>The lifecycle of a pull request's lease\<close>

definition ensureGitHubLease ::
  "'w platform \<Rightarrow> weblib \<Rightarrow> Server \<Rightarrow> GitHubPRRef \<Rightarrow> string \<Rightarrow> string \<Rightarrow> ('w, go_error + ActionResult) prog" where
  "ensureGitHubLease P T s ref name deliveryID =
     (let policyName = PolicyForRepo T s (FullName ref)
      in if policyName = []
         then State_Monad.return (Inr (result0 500 ''no EnvironmentLeasePolicy configured for repository'' []))
         else do {
           g \<leftarrow> call (api_GetLease (pf_hub P) name);
           (case g of
              Inr existing \<Rightarrow>
                if deliveryID \<noteq> [] \<and> lk (om_Annotations (el_Meta existing)) AnnotationGitHubDelivery = deliveryID
                then State_Monad.return (Inr (duplicate ''duplicate github delivery'' (el_Name existing)
                       (st_Namespace (el_Status existing))))
                else
                  let conflict = githubIdentityConflict existing ref
                  in if conflict \<noteq> [] then State_Monad.return (Inr (result0 409 conflict name))
                     else if \<not> ptr_is_zero (om_DeletionTimestamp (el_Meta existing))
                     then State_Monad.return (Inr (result0 409 ''lease is expiring; retry after cleanup completes'' name))
                     else do {
                       p \<leftarrow> patchGitHubMetadata P T existing ref deliveryID;
                       State_Monad.return (case p of
                           Some err \<Rightarrow> Inl err
                         | None \<Rightarrow> Inr \<lparr>ar_StatusCode = 200, ar_Duplicate = False, ar_Message = ''lease ensured'',
                             ar_LeaseName = el_Name existing, ar_Namespace = st_Namespace (el_Status existing)\<rparr>) }
            | Inl err \<Rightarrow>
                if \<not> IsNotFound err then State_Monad.return (Inl (Wrapf ''get lease: '' err))
                else
                  let l = buildGitHubLease T s ref name policyName deliveryID
                  in case AssertNoGitHubSecretInSpec P T (om_Annotations (el_Meta l)) of
                       Some err \<Rightarrow> State_Monad.return (Inr (result0 500 (err_text err) []))
                     | None \<Rightarrow> create_validated P s l policyName name (\<lambda>_. name)) })"

text \<open>Lines 199--210: the lease with the reason and the delivery marked on it.\<close>

definition source_closed :: "EnvironmentLease \<Rightarrow> string \<Rightarrow> bool \<Rightarrow> EnvironmentLease" where
  "source_closed l deliveryID merged =
     (let ann = om_Annotations (el_Meta l);
          ann = (if deliveryID \<noteq> []
                 then fmupd AnnotationRequestID (''github:'' @ deliveryID) (fmupd AnnotationGitHubDelivery deliveryID ann)
                 else ann);
          ann = (if merged then fmupd ''kubelease.io/github-merged'' ''true'' ann else ann)
      in l\<lparr>el_Meta := (el_Meta l)\<lparr>om_Annotations := ann\<rparr>,
           el_Status := (el_Status l)\<lparr>st_ExpirationReason := ExpirationReasonSourceClosed\<rparr>\<rparr>)"

definition expireGitHubLease ::
  "'w platform \<Rightarrow> GitHubPRRef \<Rightarrow> string \<Rightarrow> string \<Rightarrow> bool \<Rightarrow> ('w, go_error + ActionResult) prog" where
  "expireGitHubLease P ref name deliveryID merged = do {
     g \<leftarrow> call (api_GetLease (pf_hub P) name);
     (case g of
        Inl err \<Rightarrow> State_Monad.return (if IsNotFound err then Inr (duplicate ''lease already absent'' name [])
                     else Inl (Wrapf ''get lease: '' err))
      | Inr l \<Rightarrow>
          if deliveryID \<noteq> [] \<and> lk (om_Annotations (el_Meta l)) AnnotationGitHubDelivery = deliveryID
           \<and> \<not> ptr_is_zero (om_DeletionTimestamp (el_Meta l))
          then State_Monad.return (Inr (duplicate ''duplicate github delivery'' name []))
          else
            let conflict = githubIdentityConflict l ref
            in if conflict \<noteq> [] then State_Monad.return (Inr (result0 409 conflict name))
               else if \<not> ptr_is_zero (om_DeletionTimestamp (el_Meta l))
               then State_Monad.return (Inr (duplicate ''expire already requested'' name []))
               else
                 let base = source_closed l deliveryID merged
                 in do {
                   u \<leftarrow> act (StatusUpdateLease base) (api_StatusUpdateLease (pf_hub P) base);
                   delete_requested P (case u of Inl err \<Rightarrow> l | Inr stored \<Rightarrow> stored) name
                     (if merged then ''expire requested (merged)'' else ''expire requested'') }) }"

definition handleGitHubPREvent ::
  "'w platform \<Rightarrow> weblib \<Rightarrow> Server \<Rightarrow> githubPullRequestEvent \<Rightarrow> GitHubPRRef \<Rightarrow> string
     \<Rightarrow> ('w, go_error + ActionResult) prog" where
  "handleGitHubPREvent P T s ev ref deliveryID =
     (let name = LeaseName T ref
      in if ge_Action ev = ''opened'' \<or> ge_Action ev = ''reopened'' then ensureGitHubLease P T s ref name deliveryID
         else if ge_Action ev = ''closed'' then expireGitHubLease P ref name deliveryID (ge_Merged ev)
         else State_Monad.return (Inr (result0 200 (''ignored pull_request action '' @ quote (ge_Action ev)) name)))"

section \<open>Responses and metrics\<close>

record responseBody =
  rb_Status :: string
  rb_Message :: string
  rb_LeaseName :: string
  rb_Namespace :: string
  rb_Duplicate :: bool

datatype Response = JSON int responseBody | Plain int string | NoRoute

definition reply :: "string \<Rightarrow> string \<Rightarrow> responseBody" where
  "reply status msg = \<lparr>rb_Status = status, rb_Message = msg, rb_LeaseName = [], rb_Namespace = [], rb_Duplicate = False\<rparr>"

definition ObserveSource :: "string \<Rightarrow> string \<Rightarrow> string \<Rightarrow> ('w, unit) prog" where
  "ObserveSource provider action result = do {
     emit (IncLabels ''kubelease_source_events_total'' [provider, action, result]);
     (if result = ''failure'' then emit (IncLabels ''kubelease_source_errors_total'' [provider, action])
      else State_Monad.return ()) }"

definition mapSourceAction :: "weblib \<Rightarrow> string \<Rightarrow> string" where
  "mapSourceAction T action =
     (let a = wl_ToLower T action
      in if a = ''create'' then ''create'' else if a = ''expire'' then ''expire'' else if a = ''touch'' then ''touch''
         else if a = ''opened'' \<or> a = ''reopened'' then ''create''
         else if a = ''closed'' then ''expire''
         else [])"

text \<open>Lines 151--157 of \<open>github_handler.go\<close> are the same for their provider.\<close>

definition observe_source :: "weblib \<Rightarrow> string \<Rightarrow> string \<Rightarrow> int \<Rightarrow> ('w, unit) prog" where
  "observe_source T provider action statusCode =
     (let mapped = mapSourceAction T action
      in if mapped = [] then State_Monad.return ()
         else ObserveSource provider mapped (if statusCode \<ge> 400 then ''failure'' else ''success''))"

definition observeWebhookSource :: "weblib \<Rightarrow> string \<Rightarrow> int \<Rightarrow> bool \<Rightarrow> ('w, unit) prog" where
  "observeWebhookSource T action statusCode dup = observe_source T ''webhook'' action statusCode"

definition result_label :: "ActionResult \<Rightarrow> string" where
  "result_label out =
     (if ar_StatusCode out \<ge> 200 \<and> ar_StatusCode out < 300
      then (if ar_Duplicate out then ''duplicate'' else ''ok'')
      else if ar_StatusCode out = 401 then ''unauthorized''
      else if ar_StatusCode out = 422 then ''policy_violation''
      else if ar_StatusCode out \<ge> 400 \<and> ar_StatusCode out < 500 then ''invalid''
      else ''error'')"

definition response_of :: "ActionResult \<Rightarrow> Response" where
  "response_of out =
     JSON (ar_StatusCode out) \<lparr>rb_Status = (if ar_StatusCode out \<ge> 400 then ''error'' else ''ok''),
       rb_Message = ar_Message out, rb_LeaseName = ar_LeaseName out, rb_Namespace = ar_Namespace out,
       rb_Duplicate = ar_Duplicate out\<rparr>"

text \<open>The deferred count of the request, at the return.\<close>

definition counted :: "string \<Rightarrow> string \<Rightarrow> Response \<Rightarrow> ('w, Response) prog" where
  "counted action result resp = do {
     emit (IncLabels ''kubelease_webhook_requests_total'' [action, result]); State_Monad.return resp }"

definition refuse :: "string \<Rightarrow> string \<Rightarrow> int \<Rightarrow> string \<Rightarrow> ('w, Response) prog" where
  "refuse action result code msg = counted action result (JSON code (reply ''error'' msg))"

section \<open>The generic handler\<close>

text \<open>Lines 125--195: what follows authorization.\<close>

definition serve_leases :: "'w platform \<Rightarrow> weblib \<Rightarrow> Server \<Rightarrow> HttpRequest \<Rightarrow> ('w, Response) prog" where
  "serve_leases P T s r =
     (case decodeRequest T r (cf_MaxBodyBytes (sv_Config s)) of
        Inl err \<Rightarrow> refuse ''unknown'' ''invalid'' (if hr_Method r \<noteq> ''POST'' then 405 else 400) (err_text err)
      | Inr req \<Rightarrow> (case validate req of
            Some err \<Rightarrow> refuse (wr_Action req) ''invalid'' 400 (err_text err)
          | None \<Rightarrow>
              let req = (if wr_RequestID req = [] then req\<lparr>wr_RequestID := lk (hr_Header r) ''Idempotency-Key''\<rparr> else req)
              in do {
                o1 \<leftarrow> handleAction P s req;
                (case o1 of
                   Inl err \<Rightarrow> refuse (wr_Action req) ''error'' 500 ''internal error''
                 | Inr out \<Rightarrow> do {
                     observeWebhookSource T (wr_Action req) (ar_StatusCode out) (ar_Duplicate out);
                     counted (wr_Action req) (result_label out) (response_of out) }) }))"

definition handleLeases :: "'w platform \<Rightarrow> weblib \<Rightarrow> Server \<Rightarrow> HttpRequest \<Rightarrow> ('w, Response \<times> Server) prog" where
  "handleLeases P T s r = do {
     (auth, tp) \<leftarrow> authorize P (sv_TokenProvider s) (lk (hr_Header r) ''Authorization'') (lk (hr_Header r) ''X-KubeLease-Token'');
     let s = s\<lparr>sv_TokenProvider := tp\<rparr>;
     resp \<leftarrow> (case auth of
        Some err \<Rightarrow> refuse ''unknown'' ''unauthorized'' 401 ''unauthorized''
      | None \<Rightarrow> serve_leases P T s r);
     State_Monad.return (resp, s) }"

section \<open>The GitHub handler\<close>

definition githubWebhookSecret ::
  "'w platform \<Rightarrow> TokenProvider option \<Rightarrow> ('w, (go_error + string) \<times> TokenProvider option) prog" where
  "githubWebhookSecret P provider =
     (case provider of
        Some tp \<Rightarrow> do { (r, tp) \<leftarrow> Token P tp; State_Monad.return (r, Some tp) }
      | None \<Rightarrow> State_Monad.return (Inl (Errorf ''github webhook secret provider not configured''), None))"

text \<open>Lines 81--164: a verified event.\<close>

definition serve_event :: "'w platform \<Rightarrow> weblib \<Rightarrow> Server \<Rightarrow> HttpRequest \<Rightarrow> string \<Rightarrow> ('w, Response) prog" where
  "serve_event P T s r body =
     (let eventType = lk (hr_Header r) ''X-GitHub-Event''; deliveryID = lk (hr_Header r) ''X-GitHub-Delivery'';
          label = ''github:'' @ eventType
      in if eventType = ''ping'' then counted label ''ok'' (JSON 200 (reply ''ok'' ''pong''))
         else if eventType = [] then refuse label ''invalid'' 400 ''missing X-GitHub-Event''
         else if eventType \<noteq> ''pull_request''
         then counted label ''ok'' (JSON 200 (reply ''ok'' (''ignored event '' @ eventType)))
         else (case parsePullRequestEvent T body of
              Inl err \<Rightarrow> refuse label ''invalid'' 400 (err_text err)
            | Inr (ev, ref) \<Rightarrow>
                let label = ''github:pull_request:'' @ ge_Action ev
                in do {
                  o1 \<leftarrow> handleGitHubPREvent P T s ev ref deliveryID;
                  (case o1 of
                     Inl err \<Rightarrow> refuse label ''error'' 500 ''internal error''
                   | Inr out \<Rightarrow> do {
                       observe_source T ''github'' (ge_Action ev) (ar_StatusCode out);
                       counted label (result_label out) (response_of out) }) }))"

definition handleGitHub :: "'w platform \<Rightarrow> weblib \<Rightarrow> Server \<Rightarrow> HttpRequest \<Rightarrow> ('w, Response \<times> Server) prog" where
  "handleGitHub P T s r =
     (if hr_Method r \<noteq> ''POST'' then do {
        resp \<leftarrow> refuse ''github'' ''invalid'' 405 ''method not allowed''; State_Monad.return (resp, s) }
      else if \<not> cf_GitHubEnabled (sv_Config s) then do {
        resp \<leftarrow> refuse ''github'' ''invalid'' 404 ''github webhook is disabled''; State_Monad.return (resp, s) }
      else
        let maxBody = (if cf_GitHubMaxBodyBytes (sv_Config s) > 0 then cf_GitHubMaxBodyBytes (sv_Config s)
                       else cf_MaxBodyBytes (sv_Config s))
        in case read_limited r (wrap64 (maxBody + 1)) of
             Inl err \<Rightarrow> do {
               resp \<leftarrow> refuse ''github'' ''invalid'' 400 ''failed to read body''; State_Monad.return (resp, s) }
           | Inr body \<Rightarrow>
               if int (length body) > maxBody then do {
                 resp \<leftarrow> refuse ''github'' ''invalid'' 413 ''request body too large''; State_Monad.return (resp, s) }
               else do {
                 (secret, tp) \<leftarrow> githubWebhookSecret P (sv_GitHubSecretProvider s);
                 let s = s\<lparr>sv_GitHubSecretProvider := tp\<rparr>;
                 resp \<leftarrow> (case secret of
                    Inl err \<Rightarrow> refuse ''github'' ''error'' 503 ''webhook secret unavailable''
                  | Inr secret \<Rightarrow>
                      (case VerifyGitHubSignature T secret body (lk (hr_Header r) ''X-Hub-Signature-256'') of
                         Some err \<Rightarrow> refuse ''github'' ''unauthorized'' 401 ''invalid signature''
                       | None \<Rightarrow> serve_event P T s r body));
                 State_Monad.return (resp, s) })"

section \<open>Probes, routing and start-up\<close>

definition handleHealthz :: "Server \<Rightarrow> ('w, Response \<times> Server) prog" where
  "handleHealthz s = State_Monad.return (Plain 200 ''ok'', s)"

definition handleReadyz :: "'w platform \<Rightarrow> Server \<Rightarrow> ('w, Response \<times> Server) prog" where
  "handleReadyz P s =
     (case sv_TokenProvider s of
        None \<Rightarrow> State_Monad.return (Plain 503 ''token provider not configured'', s)
      | Some tp \<Rightarrow> do {
          (r, tp) \<leftarrow> Token P tp;
          let s = s\<lparr>sv_TokenProvider := Some tp\<rparr>;
          (case r of
             Inl err \<Rightarrow> State_Monad.return (Plain 503 ''token not ready'', s)
           | Inr _ \<Rightarrow>
               if cf_GitHubEnabled (sv_Config s) then
                 (case sv_GitHubSecretProvider s of
                    None \<Rightarrow> State_Monad.return (Plain 503 ''github secret provider not configured'', s)
                  | Some gp \<Rightarrow> do {
                      (r, gp) \<leftarrow> Token P gp;
                      let s = s\<lparr>sv_GitHubSecretProvider := Some gp\<rparr>;
                      State_Monad.return (case r of
                          Inl err \<Rightarrow> (Plain 503 ''github secret not ready'', s)
                        | Inr _ \<Rightarrow> (Plain 200 ''ok'', s)) })
               else State_Monad.return (Plain 200 ''ok'', s)) })"

text \<open>The routes of the mux; a path without a route is answered by the library.\<close>

definition Handler :: "'w platform \<Rightarrow> weblib \<Rightarrow> Server \<Rightarrow> HttpRequest \<Rightarrow> ('w, Response \<times> Server) prog" where
  "Handler P T s r =
     (if hr_Path r = ''/healthz'' then handleHealthz s
      else if hr_Path r = ''/readyz'' then handleReadyz P s
      else if hr_Path r = ''/v1/leases'' then handleLeases P T s r
      else if hr_Path r = ''/v1/github/hooks'' then handleGitHub P T s r
      else State_Monad.return (NoRoute, s))"

text \<open>The checks \<open>ListenAndServe\<close> makes before it listens; the client of the model is never nil.\<close>

definition serve_config :: "Server \<Rightarrow> go_error + Server" where
  "serve_config s =
     (let s = s\<lparr>sv_Config := Defaults (sv_Config s)\<rparr>
      in case sv_TokenProvider s of
           None \<Rightarrow> Inl (Errorf ''token provider is required'')
         | Some _ \<Rightarrow> if cf_DefaultPolicy (sv_Config s) = [] then Inl (Errorf ''default policy is required'') else Inr s)"

text \<open>A run of the server: requests served one after the other, the providers' caches carried along.\<close>

fun serve_all :: "'w platform \<Rightarrow> weblib \<Rightarrow> Server \<Rightarrow> HttpRequest list \<Rightarrow> ('w, Response list \<times> Server) prog" where
  "serve_all P T s [] = State_Monad.return ([], s)"
| "serve_all P T s (r # rs) = do {
     (resp, s) \<leftarrow> Handler P T s r;
     (resps, s) \<leftarrow> serve_all P T s rs;
     State_Monad.return (resp # resps, s) }"

end
