(* ===== verification/Webhook_Safety.thy ===== *)
theory Webhook_Safety
  imports Webhook_Handlers Lease_Effects
begin

text \<open>
  What the webhook source may do, for every platform and every sequence of requests: without a valid token or a
  valid signature it writes nothing; with one it writes leases only, and the leases it creates carry nothing
  but a configured policy, so that every limit comes from that policy.
\<close>

section \<open>Tokens and signatures\<close>

definition token_from_secret :: "'w platform \<Rightarrow> string \<Rightarrow> string \<Rightarrow> string \<Rightarrow> string \<Rightarrow> bool" where
  "token_from_secret P ns name key t \<longleftrightarrow>
     (\<exists>e sec e'. api_GetSecret (pf_hub P) ns name e = (Inr sec, e') \<and> lk (se_Data sec) key = t \<and> t \<noteq> [])"

text \<open>The tokens a provider can hand out, and the invariant of its cache.\<close>

fun token_of :: "'w platform \<Rightarrow> TokenProvider \<Rightarrow> string \<Rightarrow> bool" where
  "token_of P (StaticTokenProvider v) t \<longleftrightarrow> t = v"
| "token_of P (SecretTokenProvider ns name key cache) t \<longleftrightarrow> token_from_secret P ns name key t"

fun provider_ok :: "'w platform \<Rightarrow> TokenProvider \<Rightarrow> bool" where
  "provider_ok P (StaticTokenProvider v) \<longleftrightarrow> True"
| "provider_ok P (SecretTokenProvider ns name key cache) \<longleftrightarrow> cache = [] \<or> token_from_secret P ns name key cache"

definition token_step :: "'w platform \<Rightarrow> TokenProvider \<Rightarrow> TokenProvider \<Rightarrow> bool" where
  "token_step P tp tp' \<longleftrightarrow> provider_ok P tp' \<and> token_of P tp' = token_of P tp"

lemma token_step_refl [simp]: "provider_ok P tp \<Longrightarrow> token_step P tp tp"
  by (simp add: token_step_def)

lemma returns_Token:
  assumes "provider_ok P tp"
  shows "returns (\<lambda>(r, tp'). token_step P tp tp' \<and> (\<forall>t. r = Inr t \<longrightarrow> token_of P tp t)) (Token P tp)"
proof (cases tp)
  case (StaticTokenProvider v)
  then show ?thesis by (simp add: returns_def token_step_def)
next
  case (SecretTokenProvider ns name key cache)
  then show ?thesis using assms
    by (auto simp: returns_def token_step_def token_from_secret_def fun_eq_iff split: prod.splits sum.splits)
qed

lemma emits_Token [emits_rules]: "emits Q (Token P tp)"
  by (cases tp) (auto intro!: emits_rules)

definition providers_ok :: "'w platform \<Rightarrow> Server \<Rightarrow> bool" where
  "providers_ok P s \<longleftrightarrow> pred_option (provider_ok P) (sv_TokenProvider s)
     \<and> pred_option (provider_ok P) (sv_GitHubSecretProvider s)"

text \<open>Two states of the same server: same configuration, same sources of tokens.\<close>

definition server_step :: "'w platform \<Rightarrow> Server \<Rightarrow> Server \<Rightarrow> bool" where
  "server_step P s s' \<longleftrightarrow> sv_Config s' = sv_Config s
     \<and> rel_option (token_step P) (sv_TokenProvider s) (sv_TokenProvider s')
     \<and> rel_option (token_step P) (sv_GitHubSecretProvider s) (sv_GitHubSecretProvider s')"

lemma server_step_refl [simp]: "providers_ok P s \<Longrightarrow> server_step P s s"
  by (auto simp: server_step_def providers_ok_def option.pred_set intro: option.rel_refl_strong)

lemma server_step_ok: "server_step P s s' \<Longrightarrow> providers_ok P s'"
  by (auto simp: server_step_def providers_ok_def token_step_def option_rel_Some1 option_rel_Some2
      elim!: option.rel_cases)

lemma server_step_trans: "server_step P a b \<Longrightarrow> server_step P b c \<Longrightarrow> server_step P a c"
  by (auto simp: server_step_def token_step_def option_rel_Some1 option_rel_Some2 elim!: option.rel_cases)

lemma emits_authorize [emits_rules]: "emits Q (authorize P tp a h)"
  unfolding authorize_def Let_def by (intro emits_rules)

text \<open>The token of a request is one its provider hands out; the signature is the HMAC of the whole body.\<close>

definition authenticated :: "'w platform \<Rightarrow> Server \<Rightarrow> HttpRequest \<Rightarrow> bool" where
  "authenticated P s r \<longleftrightarrow>
     (case sv_TokenProvider s of None \<Rightarrow> False
      | Some tp \<Rightarrow>
          let t = extractBearerToken (lk (hr_Header r) ''Authorization'') (lk (hr_Header r) ''X-KubeLease-Token'')
          in t \<noteq> [] \<and> token_of P tp t)"

definition signed :: "'w platform \<Rightarrow> weblib \<Rightarrow> Server \<Rightarrow> HttpRequest \<Rightarrow> bool" where
  "signed P T s r \<longleftrightarrow>
     (case sv_GitHubSecretProvider s of None \<Rightarrow> False
      | Some tp \<Rightarrow> \<exists>secret. token_of P tp secret \<and> secret \<noteq> []
          \<and> (let h = TrimSpace (lk (hr_Header r) ''X-Hub-Signature-256'')
             in starts_with h ''sha256='' \<and> hex_DecodeString (drop 7 h) = Some (wl_HmacSha256 T secret (hr_Body r))))"

definition authorised :: "'w platform \<Rightarrow> weblib \<Rightarrow> Server \<Rightarrow> HttpRequest \<Rightarrow> bool" where
  "authorised P T s r \<longleftrightarrow> hr_Method r = ''POST''
     \<and> (hr_Path r = ''/v1/leases'' \<and> authenticated P s r
      \<or> hr_Path r = ''/v1/github/hooks'' \<and> cf_GitHubEnabled (sv_Config s) \<and> signed P T s r)"

lemma token_of_step: "rel_option (token_step P) x y
    \<Longrightarrow> (case y of None \<Rightarrow> False | Some tp \<Rightarrow> F (token_of P tp)) = (case x of None \<Rightarrow> False | Some tp \<Rightarrow> F (token_of P tp))"
  by (auto simp: token_step_def elim!: option.rel_cases)

lemma authorised_step: "server_step P s s' \<Longrightarrow> authorised P T s' r = authorised P T s r"
  using token_of_step [of P "sv_TokenProvider s" "sv_TokenProvider s'"
      "\<lambda>f. let t = extractBearerToken (lk (hr_Header r) ''Authorization'') (lk (hr_Header r) ''X-KubeLease-Token'')
           in t \<noteq> [] \<and> f t"]
    token_of_step [of P "sv_GitHubSecretProvider s" "sv_GitHubSecretProvider s'"
      "\<lambda>f. \<exists>secret. f secret \<and> secret \<noteq> []
          \<and> (let h = TrimSpace (lk (hr_Header r) ''X-Hub-Signature-256'')
             in starts_with h ''sha256='' \<and> hex_DecodeString (drop 7 h) = Some (wl_HmacSha256 T secret (hr_Body r)))"]
  by (simp add: authorised_def authenticated_def signed_def server_step_def)

lemma returns_authorize:
  assumes "pred_option (provider_ok P) tp"
  shows "returns (\<lambda>(err, tp'). rel_option (token_step P) tp tp'
     \<and> (err = None \<longrightarrow> (case tp of None \<Rightarrow> False | Some tp \<Rightarrow>
          let t = extractBearerToken a h in t \<noteq> [] \<and> token_of P tp t))) (authorize P tp a h)"
proof (cases tp)
  case None
  then show ?thesis by (simp add: authorize_def returns_def)
next
  case (Some p)
  then have p: "provider_ok P p" using assms by simp
  show ?thesis unfolding authorize_def Let_def Some option.case
  proof (rule returns_if)
    show "extractBearerToken a h = [] \<Longrightarrow> returns (\<lambda>(err, tp'). rel_option (token_step P) (Some p) tp' \<and>
        (err = None \<longrightarrow> extractBearerToken a h \<noteq> [] \<and> token_of P p (extractBearerToken a h)))
        (State_Monad.return (Some (Errorf ''missing authentication token''), Some p))"
      using p by (simp add: returns_def)
  next
    assume "extractBearerToken a h \<noteq> []"
    then show "returns (\<lambda>(err, tp'). rel_option (token_step P) (Some p) tp' \<and>
        (err = None \<longrightarrow> extractBearerToken a h \<noteq> [] \<and> token_of P p (extractBearerToken a h)))
        (do { (r, tp) \<leftarrow> Token P p; State_Monad.return (case r of
             Inl err \<Rightarrow> (Some (Wrapf ''authenticate: '' err), Some tp)
           | Inr expected \<Rightarrow> if extractBearerToken a h \<noteq> expected
               then (Some (Errorf ''invalid authentication token''), Some tp) else (None, Some tp)) })"
      by (intro returns_bind [OF returns_Token [OF p]]) (auto simp: returns_def split: sum.splits prod.splits)
  qed
qed

section \<open>What an unauthorised request does\<close>

definition is_metric :: "effect \<Rightarrow> bool" where
  "is_metric e \<longleftrightarrow> (case e of IncLabels _ _ \<Rightarrow> True | _ \<Rightarrow> False)"

lemma is_metric_simps [simp]: "is_metric (IncLabels m ls)"
  by (simp add: is_metric_def)

lemma emits_refuse [emits_rules]: "(\<And>m ls. Q (IncLabels m ls)) \<Longrightarrow> emits Q (refuse a res c m')"
  unfolding refuse_def counted_def by (intro emits_rules)

lemma emits_counted [emits_rules]: "(\<And>m ls. Q (IncLabels m ls)) \<Longrightarrow> emits Q (counted a res resp)"
  unfolding counted_def by (intro emits_rules)

lemma serve_leases_not_post:
  assumes "\<And>m ls. Q (IncLabels m ls)" "hr_Method r \<noteq> ''POST''"
  shows "emits Q (serve_leases P T s r)"
  using assms(2) unfolding serve_leases_def decodeRequest_def by (simp add: emits_refuse assms(1))

lemma emits_handleLeases:
  assumes "providers_ok P s" "\<And>m ls. Q (IncLabels m ls)"
    and "\<And>s'. sv_Config s' = sv_Config s \<Longrightarrow> authenticated P s r \<Longrightarrow> hr_Method r = ''POST'' \<Longrightarrow> emits Q (serve_leases P T s' r)"
  shows "emits Q (handleLeases P T s r)"
proof -
  have serve: "emits Q (serve_leases P T (s\<lparr>sv_TokenProvider := tp\<rparr>) r)" if "authenticated P s r" for tp
    using assms(3) [OF _ that] serve_leases_not_post [of Q, OF assms(2)] by (cases "hr_Method r = ''POST''") simp_all
  have ok: "pred_option (provider_ok P) (sv_TokenProvider s)" using assms(1) by (simp add: providers_ok_def)
  show ?thesis
    unfolding handleLeases_def Let_def
    by (rule emits_bind_returns [OF returns_authorize [OF ok] emits_authorize])
       (auto intro!: emits_rules assms(2) serve simp: authenticated_def split: option.splits)
qed

lemma returns_handleLeases:
  assumes "providers_ok P s"
  shows "returns (\<lambda>(resp, s'). server_step P s s') (handleLeases P T s r)"
proof -
  have ok: "pred_option (provider_ok P) (sv_TokenProvider s)" and s: "server_step P s s"
    using assms by (simp_all add: providers_ok_def)
  show ?thesis
    unfolding handleLeases_def Let_def
    by (rule returns_bind [OF returns_authorize [OF ok]])
       (use s in \<open>auto intro!: returns_rules simp: server_step_def\<close>)
qed

text \<open>The body that is verified is the whole body, unless the limit is the largest 64-bit integer.\<close>

definition limits_ok :: "Config \<Rightarrow> bool" where
  "limits_ok c \<longleftrightarrow> cf_GitHubMaxBodyBytes c < 2 ^ 63 - 1 \<and> - (2 ^ 63) \<le> cf_MaxBodyBytes c \<and> cf_MaxBodyBytes c < 2 ^ 63 - 1"

lemma read_limited_whole:
  assumes "read_limited r (wrap64 (m + 1)) = Inr body" "int (length body) \<le> m" "m < 2 ^ 63 - 1"
  shows "body = hr_Body r"
proof -
  have "0 \<le> m" using assms(2) by linarith
  then have "wrap64 (m + 1) = m + 1" using assms(3) by (intro wrap64_id) (simp add: int64_defs)
  then show ?thesis using assms(1,2)
    by (auto simp: read_limited_def min_def split: if_splits option.splits)
qed

lemma VerifyGitHubSignature_None:
  "VerifyGitHubSignature T secret body h = None \<Longrightarrow> secret \<noteq> [] \<and> starts_with (TrimSpace h) ''sha256=''
     \<and> hex_DecodeString (drop 7 (TrimSpace h)) = Some (wl_HmacSha256 T secret body)"
  by (auto simp: VerifyGitHubSignature_def Let_def split: if_splits option.splits)

lemma emits_githubWebhookSecret [emits_rules]: "emits Q (githubWebhookSecret P tp)"
  unfolding githubWebhookSecret_def by (intro emits_rules)

lemma returns_githubWebhookSecret:
  assumes "pred_option (provider_ok P) tp"
  shows "returns (\<lambda>(r, tp'). rel_option (token_step P) tp tp'
     \<and> (\<forall>t. r = Inr t \<longrightarrow> (case tp of None \<Rightarrow> False | Some tp \<Rightarrow> token_of P tp t))) (githubWebhookSecret P tp)"
proof (cases tp)
  case None
  then show ?thesis by (simp add: githubWebhookSecret_def returns_def)
next
  case (Some p)
  then have p: "provider_ok P p" using assms by simp
  show ?thesis unfolding githubWebhookSecret_def Some option.case
    by (rule returns_bind [OF returns_Token [OF p]]) (auto simp: returns_def)
qed

lemma emits_handleGitHub:
  assumes "providers_ok P s" "limits_ok (sv_Config s)" "\<And>m ls. Q (IncLabels m ls)"
    and "\<And>s'. sv_Config s' = sv_Config s \<Longrightarrow> signed P T s r \<Longrightarrow> hr_Method r = ''POST''
          \<Longrightarrow> cf_GitHubEnabled (sv_Config s) \<Longrightarrow> emits Q (serve_event P T s' r (hr_Body r))"
  shows "emits Q (handleGitHub P T s r)"
proof -
  define m where "m = (if cf_GitHubMaxBodyBytes (sv_Config s) > 0 then cf_GitHubMaxBodyBytes (sv_Config s)
    else cf_MaxBodyBytes (sv_Config s))"
  have m: "m < 2 ^ 63 - 1" using assms(2) by (simp add: m_def limits_ok_def)
  have ok: "pred_option (provider_ok P) (sv_GitHubSecretProvider s)" using assms(1) by (simp add: providers_ok_def)
  have serve: "emits Q (serve_event P T (s\<lparr>sv_GitHubSecretProvider := tp\<rparr>) r body)"
    if "body = hr_Body r" "VerifyGitHubSignature T secret body (lk (hr_Header r) ''X-Hub-Signature-256'') = None"
      "case sv_GitHubSecretProvider s of None \<Rightarrow> False | Some tp \<Rightarrow> token_of P tp secret"
      "hr_Method r = ''POST''" "cf_GitHubEnabled (sv_Config s)" for tp secret body
  proof -
    have "signed P T s r"
      using that(3) VerifyGitHubSignature_None [OF that(2)] unfolding that(1)
      by (cases "sv_GitHubSecretProvider s") (auto simp: signed_def Let_def)
    then show ?thesis using assms(4) that(1,4,5) by simp
  qed
  show ?thesis
    unfolding handleGitHub_def Let_def m_def [symmetric]
    by (intro emits_rules assms(3) emits_bind_returns [OF returns_githubWebhookSecret [OF ok]])
       (auto intro!: emits_rules assms(3) serve dest!: read_limited_whole [OF _ _ m] split: sum.splits option.splits)
qed

lemma returns_handleGitHub:
  assumes "providers_ok P s"
  shows "returns (\<lambda>(resp, s'). server_step P s s') (handleGitHub P T s r)"
proof -
  have ok: "pred_option (provider_ok P) (sv_GitHubSecretProvider s)" and s: "server_step P s s"
    using assms by (simp_all add: providers_ok_def)
  show ?thesis
    unfolding handleGitHub_def Let_def
    by (intro returns_rules returns_bind [OF returns_githubWebhookSecret [OF ok]])
       (use s in \<open>auto intro!: returns_rules simp: server_step_def\<close>)
qed

lemma emits_handleReadyz [emits_rules]: "emits Q (handleReadyz P s)"
  unfolding handleReadyz_def Let_def by (intro emits_rules)

lemma returns_handleReadyz:
  assumes "providers_ok P s"
  shows "returns (\<lambda>(resp, s'). server_step P s s') (handleReadyz P s)"
proof (cases "sv_TokenProvider s")
  case None
  then show ?thesis using assms by (simp add: handleReadyz_def returns_def)
next
  case (Some tp)
  then have tp: "provider_ok P tp" and g: "pred_option (provider_ok P) (sv_GitHubSecretProvider s)"
    and s: "server_step P s s"
    using assms by (simp_all add: providers_ok_def)
  have gp: "returns (\<lambda>(resp, s'). server_step P s s') (do {
      (r, gp) \<leftarrow> Token P gp;
      State_Monad.return (case r of
          Inl err \<Rightarrow> (Plain 503 ''github secret not ready'', s\<lparr>sv_TokenProvider := Some tp', sv_GitHubSecretProvider := Some gp\<rparr>)
        | Inr _ \<Rightarrow> (Plain 200 ''ok'', s\<lparr>sv_TokenProvider := Some tp', sv_GitHubSecretProvider := Some gp\<rparr>)) })"
    if "token_step P tp tp'" "sv_GitHubSecretProvider s = Some gp" for gp tp'
    by (rule returns_bind [OF returns_Token])
       (use that g Some s in \<open>auto simp: returns_def server_step_def split: sum.splits\<close>)
  show ?thesis unfolding handleReadyz_def Let_def Some option.case
    apply (rule returns_bind [OF returns_Token [OF tp]])
    apply (clarsimp split del: if_split)
    apply (intro returns_sum returns_if returns_option returns_return gp)
    using s Some by (auto simp: server_step_def)
qed

section \<open>Routing and runs\<close>

lemma emits_Handler:
  assumes "providers_ok P s" "limits_ok (sv_Config s)" "\<And>m ls. Q (IncLabels m ls)"
    and "\<And>s'. sv_Config s' = sv_Config s \<Longrightarrow> authorised P T s r \<Longrightarrow> emits Q (serve_leases P T s' r)"
    and "\<And>s'. sv_Config s' = sv_Config s \<Longrightarrow> authorised P T s r \<Longrightarrow> emits Q (serve_event P T s' r (hr_Body r))"
  shows "emits Q (Handler P T s r)"
  unfolding Handler_def handleHealthz_def
  by (intro emits_rules emits_handleLeases [OF assms(1)] emits_handleGitHub [OF assms(1,2)] assms(3-5))
     (simp_all add: authorised_def)

lemma returns_Handler:
  assumes "providers_ok P s"
  shows "returns (\<lambda>(resp, s'). server_step P s s') (Handler P T s r)"
  unfolding Handler_def handleHealthz_def
  by (intro returns_if returns_handleLeases returns_handleGitHub returns_handleReadyz returns_return) (simp_all add: assms)

text \<open>
  A run of the server keeps its configuration and its sources of tokens, so an effect allowed to every single
  request is all the run has.
\<close>

lemma emits_serve_all:
  assumes "providers_ok P s"
    and "\<And>s' r. server_step P s s' \<Longrightarrow> r \<in> set rs \<Longrightarrow> emits Q (Handler P T s' r)"
  shows "emits Q (serve_all P T s rs)"
  using assms
proof (induction rs arbitrary: s)
  case Nil
  then show ?case by (simp add: emits_return)
next
  case (Cons r rs)
  have tail: "emits Q (serve_all P T s' rs)" if step: "server_step P s s'" for s'
  proof (rule Cons.IH)
    show "providers_ok P s'" using step by (rule server_step_ok)
    fix s'' r' assume "server_step P s' s''" "r' \<in> set rs"
    moreover have "server_step P s s''" using step \<open>server_step P s' s''\<close> by (rule server_step_trans)
    ultimately show "emits Q (Handler P T s'' r')" using Cons.prems(2) by simp
  qed
  show ?case
    unfolding serve_all.simps
    by (rule emits_bind_returns [OF returns_Handler [OF Cons.prems(1)]])
       (use Cons.prems in \<open>auto intro!: emits_rules tail\<close>)
qed

section \<open>What an authorised request may write\<close>

definition lease_read :: "'w platform \<Rightarrow> EnvironmentLease \<Rightarrow> bool" where
  "lease_read P l \<longleftrightarrow> (\<exists>n e e'. api_GetLease (pf_hub P) n e = (Inr l, e'))"

definition configured_policy :: "Config \<Rightarrow> string \<Rightarrow> bool" where
  "configured_policy c p \<longleftrightarrow> p \<noteq> []
     \<and> (p = cf_DefaultPolicy c \<or> (\<exists>repo. fmlookup (cf_GitHubRepoPolicies c) repo = Some p))"

definition accepted_by :: "'w platform \<Rightarrow> string \<Rightarrow> EnvironmentLeaseSpec \<Rightarrow> bool" where
  "accepted_by P p spec \<longleftrightarrow> (\<exists>e pol e' res. api_GetPolicy (pf_hub P) p e = (Inr pol, e') \<and> Resolve spec (Some pol) = Inr res)"

text \<open>
  A lease the webhook may create: its spec is the zero spec but for the policy, the owner, the prefix of the
  namespace and the namespace's labels; the policy is a configured one, and it accepts the spec.
\<close>

definition policy_governed :: "'w platform \<Rightarrow> Config \<Rightarrow> EnvironmentLease \<Rightarrow> bool" where
  "policy_governed P c l \<longleftrightarrow> (\<exists>p own labels. configured_policy c p \<and> accepted_by P p (el_Spec l)
     \<and> el_Spec l = zero_lease_spec\<lparr>sp_PolicyRef := Some \<lparr>lor_Name = p\<rparr>, sp_Owner := own,
         sp_Namespace := zero_namespace_spec\<lparr>nss_GenerateName := cf_NamespaceGenerateName c, nss_Labels := labels\<rparr>\<rparr>)"

definition webhook_may :: "'w platform \<Rightarrow> Config \<Rightarrow> effect \<Rightarrow> bool" where
  "webhook_may P c e \<longleftrightarrow>
     (case e of
        CreateLease l \<Rightarrow> policy_governed P c l \<and> isDNS1123Label (el_Name l)
      | StatusUpdateLease l \<Rightarrow> \<exists>l0. lease_read P l0 \<and> el_Spec l = el_Spec l0
      | PatchLease l \<Rightarrow> \<exists>l0. lease_read P l0 \<and> el_Spec l = el_Spec l0 \<and> el_Status l = el_Status l0
      | DeleteLease l \<Rightarrow> True
      | IncLabels m ls \<Rightarrow> True
      | _ \<Rightarrow> False)"

lemma webhook_may_simps [simp]:
  "webhook_may P c (CreateLease l) \<longleftrightarrow> policy_governed P c l \<and> isDNS1123Label (el_Name l)"
  "webhook_may P c (StatusUpdateLease l) \<longleftrightarrow> (\<exists>l0. lease_read P l0 \<and> el_Spec l = el_Spec l0)"
  "webhook_may P c (PatchLease l) \<longleftrightarrow> (\<exists>l0. lease_read P l0 \<and> el_Spec l = el_Spec l0 \<and> el_Status l = el_Status l0)"
  "webhook_may P c (DeleteLease l)" "webhook_may P c (IncLabels m ls)"
  by (simp_all add: webhook_may_def)

lemma emits_validate [emits_rules]: "emits Q (validateAgainstPolicy P s l p)"
  unfolding validateAgainstPolicy_def Let_def by (intro emits_rules)

lemma returns_validate:
  assumes "p \<noteq> []"
  shows "returns (\<lambda>v. v = None \<longrightarrow> accepted_by P p (el_Spec l)) (validateAgainstPolicy P s l p)"
  unfolding validateAgainstPolicy_def Let_def
  by (rule returns_bind_call) (use assms in \<open>auto simp: returns_def accepted_by_def split: sum.splits\<close>)

lemma emits_create_validated:
  assumes "p \<noteq> []" "accepted_by P p (el_Spec l) \<Longrightarrow> Q (CreateLease l)"
  shows "emits Q (create_validated P s l p name f)"
  unfolding create_validated_def
  by (rule emits_bind_returns [OF returns_validate [OF assms(1)] emits_validate])
     (use assms(2) in \<open>auto intro!: emits_rules split: option.splits\<close>)

lemma emits_delete_requested [emits_rules]: "Q (DeleteLease l) \<Longrightarrow> emits Q (delete_requested P l name msg)"
  unfolding delete_requested_def by (intro emits_rules)

lemma emits_bind_GetLease:
  assumes "\<And>err. emits Q (f (Inl err))" "\<And>l. lease_read P l \<Longrightarrow> emits Q (f (Inr l))"
  shows "emits Q (State_Monad.bind (call (api_GetLease (pf_hub P) n)) f)"
proof (rule emits_bind_call)
  fix a e e' assume "api_GetLease (pf_hub P) n e = (a, e')"
  then have "a = Inr l \<Longrightarrow> lease_read P l" for l unfolding lease_read_def by blast
  then show "emits Q (f a)" using assms by (cases a) simp_all
qed

lemma validate_name: "validate req = None \<Longrightarrow> isDNS1123Label (TrimSpace (wr_Name req))"
  by (auto simp: validate_def Let_def leaseNameRE_def isDNS1123Label_def split: if_splits)

lemma emits_createLease:
  assumes "isDNS1123Label (TrimSpace (wr_Name req))"
  shows "emits (webhook_may P (sv_Config s)) (createLease P s req)"
  unfolding createLease_def Let_def
  by (intro emits_rules emits_bind_GetLease emits_create_validated)
     (auto simp: assms buildLease_def Let_def policy_governed_def configured_policy_def intro!: exI)

lemma RecordActivity_spec: "RecordActivity l n ttl = (err, l') \<Longrightarrow> el_Spec l' = el_Spec l"
  using activity_core_fields(2) [OF RecordActivity_core [of l n ttl]] by simp

lemma emits_touchLease:
  assumes "retry_lib P"
  shows "emits (webhook_may P c) (touchLease P req)"
  unfolding touchLease_def Let_def
  by (intro emits_RetryAction [OF assms] emits_bind_GetLease emits_rules)
     (auto intro!: emits_rules dest: RecordActivity_spec split: option.splits prod.splits)

lemma emits_handleAction:
  assumes "retry_lib P" "isDNS1123Label (TrimSpace (wr_Name req))"
  shows "emits (webhook_may P (sv_Config s)) (handleAction P s req)"
  unfolding handleAction_def expireLease_def Let_def
  by (intro emits_rules emits_createLease emits_touchLease emits_bind_GetLease assms) simp_all

lemma emits_observe_source [emits_rules]: "(\<And>m ls. Q (IncLabels m ls)) \<Longrightarrow> emits Q (observe_source T p a c)"
  unfolding observe_source_def ObserveSource_def Let_def by (intro emits_rules)

lemma emits_serve_leases:
  assumes "retry_lib P"
  shows "emits (webhook_may P (sv_Config s)) (serve_leases P T s r)"
  unfolding serve_leases_def observeWebhookSource_def
  by (intro emits_rules emits_handleAction [OF assms]) (simp_all add: validate_name)

lemma configured_PolicyForRepo: "PolicyForRepo T s n \<noteq> [] \<Longrightarrow> configured_policy (sv_Config s) (PolicyForRepo T s n)"
  by (auto simp: PolicyForRepo_def configured_policy_def Let_def split: option.splits if_splits)

lemma buildGitHubLease_governed:
  assumes "configured_policy (sv_Config s) p" "accepted_by P p (el_Spec (buildGitHubLease T s ref name p d))"
  shows "policy_governed P (sv_Config s) (buildGitHubLease T s ref name p d)"
proof -
  obtain own labels where "el_Spec (buildGitHubLease T s ref name p d) = zero_lease_spec\<lparr>sp_PolicyRef := Some \<lparr>lor_Name = p\<rparr>,
      sp_Owner := own, sp_Namespace := zero_namespace_spec\<lparr>nss_GenerateName := cf_NamespaceGenerateName (sv_Config s),
        nss_Labels := labels\<rparr>\<rparr>"
    unfolding buildGitHubLease_def by simp
  with assms show ?thesis unfolding policy_governed_def by blast
qed

lemma github_patched_frame [simp]:
  "el_Spec (github_patched T l ref d) = el_Spec l" "el_Status (github_patched T l ref d) = el_Status l"
  by (simp_all add: github_patched_def)

lemma emits_patchGitHubMetadata:
  "Q (PatchLease (github_patched T l ref d)) \<Longrightarrow> emits Q (patchGitHubMetadata P T l ref d)"
  unfolding patchGitHubMetadata_def Let_def by (intro emits_rules)

lemma emits_ensureGitHubLease:
  assumes "isDNS1123Label name"
  shows "emits (webhook_may P (sv_Config s)) (ensureGitHubLease P T s ref name d)"
proof -
  have n: "el_Name (buildGitHubLease T s ref name p d) = name" for p by (simp add: buildGitHubLease_def)
  have "webhook_may P (sv_Config s) (PatchLease (github_patched T l ref d))" if "lease_read P l" for l
    using that by auto
  then show ?thesis
    unfolding ensureGitHubLease_def Let_def
    by (intro emits_if emits_return emits_bind_GetLease; intro emits_rules emits_create_validated emits_patchGitHubMetadata)
       (simp_all only: sum.inject sum.distinct webhook_may_simps n assms buildGitHubLease_governed configured_PolicyForRepo not_False_eq_True simp_thms)
qed

lemma emits_expireGitHubLease: "emits (webhook_may P c) (expireGitHubLease P ref name d m)"
  unfolding expireGitHubLease_def Let_def
  by (intro emits_rules emits_bind_GetLease) (auto simp: source_closed_def Let_def)

lemma emits_serve_event:
  assumes "sha1_lib T"
  shows "emits (webhook_may P (sv_Config s)) (serve_event P T s r body)"
  unfolding serve_event_def handleGitHubPREvent_def Let_def
  by (intro emits_rules emits_ensureGitHubLease emits_expireGitHubLease)
     (simp_all add: lease_name_label [OF assms])

lemma emits_unauthorised:
  assumes "providers_ok P s" "limits_ok (sv_Config s)" "list_all (\<lambda>r. \<not> authorised P T s r) rs"
  shows "emits is_metric (serve_all P T s rs)"
proof (rule emits_serve_all [OF assms(1)])
  fix s' r assume step: "server_step P s s'" and "r \<in> set rs"
  then have "\<not> authorised P T s' r" using assms(3) by (simp add: list_all_iff authorised_step)
  moreover have "sv_Config s' = sv_Config s" using step by (simp add: server_step_def)
  ultimately show "emits is_metric (Handler P T s' r)"
    using server_step_ok [OF step] assms(2) by (intro emits_Handler) simp_all
qed

section \<open>Properties\<close>

text \<open>
  C10. Whatever the API server answers and in whatever order requests arrive: as long as no request carries a token
  the configured source hands out (or, on the GitHub route, the HMAC of its whole body under the configured
  secret), the server writes nothing to the cluster; its only effects are its own counters.
\<close>

theorem unauthorised_requests_change_nothing:
  assumes "providers_ok P s" "limits_ok (sv_Config s)" "list_all (\<lambda>r. \<not> authorised P T s r) rs"
    and "run_state (serve_all P T s rs) w = (out, w')"
  shows "\<exists>es. w_trace w' = w_trace w @ es \<and> list_all is_metric es"
  using emitsD [OF emits_unauthorised [OF assms(1-3)] assms(4)] by metis


text \<open>A server and requests the properties are applied to.\<close>

definition demo_web :: weblib where
  "demo_web = \<lparr>wl_ToLower = map ascii_lower, wl_Sha1 = (\<lambda>s. replicate 20 171),
     wl_HmacSha256 = (\<lambda>secret body. secret @ body),
     wl_Decode = (\<lambda>s. Inr (\<lparr>wr_Action = ''create'', wr_Name = ''demo'', wr_Owner = ''ann'', wr_Team = [], wr_RequestID = ''r1''\<rparr>, False)),
     wl_UnmarshalEvent = (\<lambda>s. Inl (Errorf ''eof''))\<rparr>"

definition demo_server :: Server where
  "demo_server = \<lparr>sv_Config = \<lparr>cf_BindAddress = '':8082'', cf_TokenSecretNamespace = ''kubelease'', cf_TokenSecretName = ''hook'',
     cf_TokenSecretKey = ''token'', cf_DefaultPolicy = ''preview'', cf_NamespaceGenerateName = ''preview-'', cf_GitHubEnabled = True,
     cf_GitHubSecretName = ''hook'', cf_GitHubSecretKey = ''github-webhook-secret'', cf_GitHubRepoPolicies = fmempty,
     cf_GitHubMaxBodyBytes = 1048576, cf_MaxBodyBytes = 65536, cf_ReadTimeout = 10 * Second, cf_WriteTimeout = 10 * Second,
     cf_IdleTimeout = 60 * Second, cf_RequestTimeout = 10 * Second\<rparr>,
     sv_TokenProvider = Some (StaticTokenProvider ''s3cret''), sv_GitHubSecretProvider = Some (StaticTokenProvider ''k3y'')\<rparr>"

definition demo_post :: "string \<Rightarrow> strmap \<Rightarrow> HttpRequest" where
  "demo_post path headers = \<lparr>hr_Path = path, hr_Method = ''POST'', hr_Header = headers, hr_Body = ''{}'', hr_BodyError = None\<rparr>"

lemma demo_server_ok: "providers_ok P demo_server" "limits_ok (sv_Config demo_server)"
  by (simp_all add: demo_server_def providers_ok_def limits_ok_def)

theorem unauthorised_requests_change_nothing_witness:
  "\<exists>es. w_trace (snd (run_state (serve_all demo_platform demo_web demo_server
       [demo_post ''/v1/leases'' (fmap_of_list [(''Authorization'', ''Bearer guess'')]),
        demo_post ''/v1/github/hooks'' (fmap_of_list [(''X-Hub-Signature-256'', ''sha256=00'')])]) demo_world))
     = w_trace demo_world @ es \<and> list_all is_metric es"
proof -
  have "TrimSpace ''guess'' = ''guess''" "TrimSpace ''sha256=00'' = ''sha256=00''" by code_simp+
  then have "list_all (\<lambda>r. \<not> authorised demo_platform demo_web demo_server r)
      [demo_post ''/v1/leases'' (fmap_of_list [(''Authorization'', ''Bearer guess'')]),
       demo_post ''/v1/github/hooks'' (fmap_of_list [(''X-Hub-Signature-256'', ''sha256=00'')])]"
    by (simp add: authorised_def authenticated_def signed_def demo_post_def demo_server_def extractBearerToken_def
        lk_def hex_val_def demo_web_def)
  from unauthorised_requests_change_nothing [OF demo_server_ok this prod.collapse [symmetric]] show ?thesis .
qed

text \<open>
  C11. What authorised requests can do is bounded too. In every run of the server, for every platform, it never touches a
  namespace, a target or a quota; it never changes the spec of an existing lease; and a lease it creates has a valid
  name and carries nothing but a configured policy, an owner and the configured namespace prefix, so that every limit
  comes from that policy, which was read and accepts the lease.
\<close>

theorem webhook_writes_governed_leases_only:
  assumes "providers_ok P s" "limits_ok (sv_Config s)" "retry_lib P" "sha1_lib T"
    and "run_state (serve_all P T s rs) w = (out, w')"
  shows "\<exists>es. w_trace w' = w_trace w @ es \<and> list_all (webhook_may P (sv_Config s)) es"
proof -
  have "emits (webhook_may P (sv_Config s)) (serve_all P T s rs)"
  proof (rule emits_serve_all [OF assms(1)])
    fix s' r assume step: "server_step P s s'"
    then have c: "sv_Config s' = sv_Config s" by (simp add: server_step_def)
    show "emits (webhook_may P (sv_Config s)) (Handler P T s' r)"
    proof (rule emits_Handler)
      show "providers_ok P s'" "limits_ok (sv_Config s')" using server_step_ok [OF step] assms(2) c by simp_all
      fix t :: Server assume "sv_Config t = sv_Config s'"
      then have "sv_Config t = sv_Config s" using c by simp
      then show "emits (webhook_may P (sv_Config s)) (serve_leases P T t r)"
        "emits (webhook_may P (sv_Config s)) (serve_event P T t r (hr_Body r))"
        using emits_serve_leases [OF assms(3), of t T r] emits_serve_event [OF assms(4), of P t r "hr_Body r"] by simp_all
    qed simp
  qed
  from emitsD [OF this assms(5)] show ?thesis by metis
qed

section \<open>One lease per pull request\<close>

text \<open>The repository a lease was created for, as its annotations record it.\<close>

definition recorded_repo :: "EnvironmentLease \<Rightarrow> string" where
  "recorded_repo l =
     (let ann = om_Annotations (el_Meta l); full = lk ann AnnotationGitHubFullName
      in if full \<noteq> [] then full
         else if lk ann AnnotationGitHubOwner \<noteq> [] \<and> lk ann AnnotationGitHubRepo \<noteq> []
         then lk ann AnnotationGitHubOwner @ ''/'' @ lk ann AnnotationGitHubRepo else [])"

lemma githubIdentityConflict_iff:
  "githubIdentityConflict l ref \<noteq> [] \<longleftrightarrow> recorded_repo l \<noteq> [] \<and> recorded_repo l \<noteq> FullName ref"
  by (auto simp: githubIdentityConflict_def recorded_repo_def Let_def)

lemma ensure_conflict:
  assumes "api_GetLease (pf_hub P) name (w_env w) = (Inr l, e)" "githubIdentityConflict l ref \<noteq> []"
  shows "\<exists>out w1. run_state (ensureGitHubLease P T s ref name d) w = (Inr out, w1) \<and> w_trace w1 = w_trace w
     \<and> (ar_StatusCode out = 409 \<or> ar_StatusCode out = 500 \<or> ar_StatusCode out = 200 \<and> ar_Duplicate out)"
proof (cases "PolicyForRepo T s (FullName ref) = []")
  case True
  then show ?thesis by (simp add: ensureGitHubLease_def result0_def)
next
  case False
  then show ?thesis using assms
    by (cases "d \<noteq> [] \<and> lk (om_Annotations (el_Meta l)) AnnotationGitHubDelivery = d")
       (simp_all add: ensureGitHubLease_def Let_def result0_def duplicate_def)
qed

lemma expire_conflict:
  assumes "api_GetLease (pf_hub P) name (w_env w) = (Inr l, e)" "githubIdentityConflict l ref \<noteq> []"
  shows "\<exists>out w1. run_state (expireGitHubLease P ref name d m) w = (Inr out, w1) \<and> w_trace w1 = w_trace w
     \<and> (ar_StatusCode out = 409 \<or> ar_StatusCode out = 200 \<and> ar_Duplicate out)"
  using assms
  by (cases "d \<noteq> [] \<and> lk (om_Annotations (el_Meta l)) AnnotationGitHubDelivery = d
         \<and> \<not> ptr_is_zero (om_DeletionTimestamp (el_Meta l))")
     (simp_all add: expireGitHubLease_def Let_def result0_def duplicate_def)

text \<open>
  C32. Pull requests of two repositories can map to the same lease name. An event whose name leads to a lease that
  is recorded for another repository leaves that lease alone: nothing is written, and the answer is a conflict, a
  repeated delivery, an ignored action or a missing policy.
\<close>

theorem other_repository_untouched:
  assumes "api_GetLease (pf_hub P) (LeaseName T ref) (w_env w) = (Inr l, e)"
    and "recorded_repo l \<noteq> []" "recorded_repo l \<noteq> FullName ref"
    and "run_state (handleGitHubPREvent P T s ev ref d) w = (r, w')"
  shows "w_trace w' = w_trace w \<and> (\<exists>out. r = Inr out \<and> ar_StatusCode out \<in> {200, 409, 500}
     \<and> (ar_StatusCode out = 200 \<longrightarrow> ar_Duplicate out \<or> ge_Action ev \<notin> {''opened'', ''reopened'', ''closed''}))"
proof -
  have c: "githubIdentityConflict l ref \<noteq> []" using assms(2,3) by (simp add: githubIdentityConflict_iff)
  note ensure = ensure_conflict [OF assms(1) c, of T s d]
  note expire = expire_conflict [OF assms(1) c, of d "ge_Merged ev"]
  consider (create) "ge_Action ev = ''opened'' \<or> ge_Action ev = ''reopened''" | (close) "ge_Action ev = ''closed''"
    | (other) "ge_Action ev \<notin> {''opened'', ''reopened'', ''closed''}" by blast
  then show ?thesis
  proof cases
    case create
    then have "handleGitHubPREvent P T s ev ref d = ensureGitHubLease P T s ref (LeaseName T ref) d"
      unfolding handleGitHubPREvent_def Let_def by (simp only: if_True)
    then show ?thesis using ensure assms(4) by auto
  next
    case close
    then have "handleGitHubPREvent P T s ev ref d = expireGitHubLease P ref (LeaseName T ref) d (ge_Merged ev)"
      unfolding handleGitHubPREvent_def Let_def by simp
    then show ?thesis using expire assms(4) by auto
  next
    case other
    then show ?thesis using assms(4) unfolding handleGitHubPREvent_def Let_def by (auto simp: result0_def)
  qed
qed

definition demo_ref :: GitHubPRRef where
  "demo_ref = \<lparr>gr_Owner = ''acme'', gr_Repo = ''api'', gr_Number = 7, gr_SHA = [], gr_Branch = [], gr_Sender = []\<rparr>"

definition demo_closed :: githubPullRequestEvent where
  "demo_closed = \<lparr>ge_Action = ''closed'', ge_Number = 7, ge_PRNumber = 7, ge_Merged = True, ge_HeadSHA = [], ge_HeadRef = [],
     ge_UserLogin = [], ge_RepoName = ''api'', ge_RepoFullName = ''acme/api'', ge_OwnerLogin = ''acme'', ge_SenderLogin = []\<rparr>"

definition serving_lease :: "EnvironmentLease \<Rightarrow> unit platform" where
  "serving_lease l = demo_platform\<lparr>pf_hub := demo_hub\<lparr>api_GetLease := (\<lambda>n w. (Inr l, w))\<rparr>\<rparr>"

definition foreign_lease :: EnvironmentLease where
  "foreign_lease = demo_lease\<lparr>el_Meta := (el_Meta demo_lease)\<lparr>
     om_Annotations := fmap_of_list [(AnnotationGitHubFullName, ''other/api'')]\<rparr>\<rparr>"

theorem other_repository_untouched_witness:
  "w_trace (snd (run_state (handleGitHubPREvent (serving_lease foreign_lease) demo_web demo_server demo_closed demo_ref ''d1'')
     demo_world)) = w_trace demo_world"
proof -
  have "recorded_repo foreign_lease = ''other/api''" by (simp add: recorded_repo_def foreign_lease_def lk_def webhook_names)
  then show ?thesis
    using other_repository_untouched [of "serving_lease foreign_lease" demo_web demo_ref demo_world foreign_lease "()",
        OF _ _ _ prod.collapse [symmetric], of demo_server demo_closed "''d1''"]
    by (simp add: serving_lease_def demo_world_def FullName_def demo_ref_def)
qed

text \<open>
  Closing a pull request expires its lease and says why: when the name leads to a live lease of that repository (or
  of none), the handler first writes the reason \<open>SourceClosed\<close> to the lease's status and then, whether or not that
  write succeeded, requests the deletion of the lease; it does nothing else.
\<close>

theorem closing_expires_with_reason:
  assumes "api_GetLease (pf_hub P) (LeaseName T ref) (w_env w) = (Inr l, e)" "ge_Action ev = ''closed''"
    and "recorded_repo l \<in> {[], FullName ref}" "ptr_is_zero (om_DeletionTimestamp (el_Meta l))"
    and "api_StatusUpdateLease (pf_hub P) (source_closed l d (ge_Merged ev)) e = (u, e')"
    and "run_state (handleGitHubPREvent P T s ev ref d) w = (r, w')"
  shows "st_ExpirationReason (el_Status (source_closed l d (ge_Merged ev))) = ExpirationReasonSourceClosed
     \<and> w_trace w' = w_trace w @ [StatusUpdateLease (source_closed l d (ge_Merged ev)),
         DeleteLease (case u of Inl _ \<Rightarrow> l | Inr stored \<Rightarrow> stored)]"
proof -
  have ev: "handleGitHubPREvent P T s ev ref d = expireGitHubLease P ref (LeaseName T ref) d (ge_Merged ev)"
    using assms(2) unfolding handleGitHubPREvent_def Let_def by simp
  have c: "githubIdentityConflict l ref = []" using assms(3) githubIdentityConflict_iff [of l ref] by auto
  have "st_ExpirationReason (el_Status (source_closed l d (ge_Merged ev))) = ExpirationReasonSourceClosed"
    by (simp add: source_closed_def Let_def)
  then show ?thesis
    using assms(6) unfolding ev
    by (auto simp: expireGitHubLease_def delete_requested_def act_def assms(1,4,5) c Let_def split: prod.splits)
qed

theorem closing_expires_with_reason_witness:
  "w_trace (snd (run_state (handleGitHubPREvent (serving_lease demo_lease) demo_web demo_server demo_closed demo_ref ''d1'') demo_world))
     = [StatusUpdateLease (source_closed demo_lease ''d1'' True), DeleteLease (source_closed demo_lease ''d1'' True)]"
proof -
  have "recorded_repo demo_lease = []" "ptr_is_zero (om_DeletionTimestamp (el_Meta demo_lease))"
    by (simp_all add: recorded_repo_def demo_lease_def zero_lease_def zero_meta_def lk_def)
  then show ?thesis
    using closing_expires_with_reason [of "serving_lease demo_lease" demo_web demo_ref demo_world demo_lease "()" demo_closed
        "''d1''" "Inr (source_closed demo_lease ''d1'' True)" "()", OF _ _ _ _ _ prod.collapse [symmetric], of demo_server]
    by (simp add: serving_lease_def demo_closed_def) (simp add: demo_world_def)
qed

section \<open>Idempotent creation\<close>

text \<open>What the code relies on when it looks up a request id: a created lease can be read back with its annotations.\<close>

definition stores_leases :: "'w platform \<Rightarrow> bool" where
  "stores_leases P \<longleftrightarrow> (\<forall>l e stored e'. api_CreateLease (pf_hub P) l e = (Inr stored, e') \<longrightarrow>
     om_Annotations (el_Meta stored) = om_Annotations (el_Meta l)
     \<and> (\<exists>e''. api_GetLease (pf_hub P) (el_Name l) e' = (Inr stored, e'')))"

lemma create_validated_201:
  assumes "run_state (create_validated P s l p name f) w = (Inr out, w')" "ar_StatusCode out = 201"
  shows "\<exists>e stored. api_CreateLease (pf_hub P) l e = (Inr stored, w_env w')"
  using assms
  by (auto simp: create_validated_def act_def result0_def duplicate_def
      split: prod.splits option.splits sum.splits if_splits) blast

lemma createLease_201:
  assumes "run_state (createLease P s req) w = (Inr out, w')" "ar_StatusCode out = 201"
  shows "cf_DefaultPolicy (sv_Config s) \<noteq> []
     \<and> (\<exists>e stored. api_CreateLease (pf_hub P) (buildLease s req) e = (Inr stored, w_env w'))"
  using assms
  by (auto simp: createLease_def Let_def result0_def duplicate_def dest: create_validated_201
      split: prod.splits sum.splits if_splits)

lemma buildLease_name [simp]: "el_Name (buildLease s req) = TrimSpace (wr_Name req)"
  by (simp add: buildLease_def Let_def)

lemma buildLease_requestID [simp]:
  "wr_RequestID req \<noteq> [] \<Longrightarrow> lk (om_Annotations (el_Meta (buildLease s req))) AnnotationRequestID = wr_RequestID req"
  by (simp add: buildLease_def Let_def lk_def)

text \<open>
  C33. A create request can be replayed: once it was answered with 201, the same request with the same request id (or
  without one) is answered with 200 and marked a duplicate, and writes nothing.
\<close>

theorem create_request_idempotent:
  assumes "stores_leases P"
    and "run_state (createLease P s req) w = (Inr out, w')" "ar_StatusCode out = 201"
    and "run_state (createLease P s req) w' = (r, w'')"
  shows "w_trace w'' = w_trace w' \<and> (\<exists>out2. r = Inr out2 \<and> ar_StatusCode out2 = 200 \<and> ar_Duplicate out2)"
proof -
  obtain e stored where p: "cf_DefaultPolicy (sv_Config s) \<noteq> []"
    and c: "api_CreateLease (pf_hub P) (buildLease s req) e = (Inr stored, w_env w')"
    using createLease_201 [OF assms(2,3)] by blast
  obtain e'' where g: "api_GetLease (pf_hub P) (TrimSpace (wr_Name req)) (w_env w') = (Inr stored, e'')"
    and a: "om_Annotations (el_Meta stored) = om_Annotations (el_Meta (buildLease s req))"
    using assms(1) c unfolding stores_leases_def by fastforce
  show ?thesis
    using assms(4) p by (cases "wr_RequestID req = []") (auto simp: createLease_def Let_def g a duplicate_def)
qed

text \<open>A platform that stores one lease: the environment is the stored lease.\<close>

definition store_platform :: "EnvironmentLease option platform" where
  "store_platform = platform_with (empty_hub\<lparr>
     api_GetLease := (\<lambda>n w. (case w of Some l \<Rightarrow> Inr l | None \<Rightarrow> Inl (ApiError NotFound ''gone''), w)),
     api_CreateLease := (\<lambda>l w. (Inr l, Some l)),
     api_GetPolicy := (\<lambda>n w. (Inr demo_policy, w))\<rparr>)"

lemma store_hub_simps [simp]:
  "api_GetLease (pf_hub store_platform) n w = (case w of Some l \<Rightarrow> Inr l | None \<Rightarrow> Inl (ApiError NotFound ''gone''), w)"
  "api_CreateLease (pf_hub store_platform) l w = (Inr l, Some l)"
  "api_GetPolicy (pf_hub store_platform) n w = (Inr demo_policy, w)"
  by (simp_all add: store_platform_def)

definition demo_create :: Request where
  "demo_create = \<lparr>wr_Action = ''create'', wr_Name = ''demo'', wr_Owner = ''ann'', wr_Team = [], wr_RequestID = ''r1''\<rparr>"

lemma demo_create_run:
  "\<exists>out w'. run_state (createLease store_platform demo_server demo_create) (world_of None) = (Inr out, w')
     \<and> ar_StatusCode out = 201 \<and> w_trace w' = [CreateLease (buildLease demo_server demo_create)]"
proof -
  have spec: "el_Spec (buildLease demo_server demo_create) = zero_lease_spec\<lparr>
      sp_PolicyRef := sp_PolicyRef (el_Spec (buildLease demo_server demo_create)),
      sp_Owner := sp_Owner (el_Spec (buildLease demo_server demo_create)),
      sp_Namespace := sp_Namespace (el_Spec (buildLease demo_server demo_create))\<rparr>"
    by (simp add: buildLease_def Let_def)
  obtain r where "Resolve (el_Spec (buildLease demo_server demo_create)) (Some demo_policy) = Inr r"
    by (subst (asm) spec) (simp add: resolve_defs demo_policy_def zero_defs Let_def)
  moreover have "cf_DefaultPolicy (sv_Config demo_server) = ''preview''" by (simp add: demo_server_def)
  ultimately show ?thesis
    by (simp add: createLease_def create_validated_def validateAgainstPolicy_def act_def world_of_def
        result0_def Let_def IsNotFound_def)
qed

theorem create_request_idempotent_witness:
  "\<exists>out w' out2 w''. run_state (createLease store_platform demo_server demo_create) (world_of None) = (Inr out, w')
     \<and> ar_StatusCode out = 201 \<and> run_state (createLease store_platform demo_server demo_create) w' = (Inr out2, w'')
     \<and> ar_StatusCode out2 = 200 \<and> ar_Duplicate out2 \<and> w_trace w'' = w_trace w'"
proof -
  have "stores_leases store_platform" by (simp add: stores_leases_def)
  moreover obtain out w' where "run_state (createLease store_platform demo_server demo_create) (world_of None) = (Inr out, w')"
    "ar_StatusCode out = 201" using demo_create_run by blast
  moreover obtain r w'' where "run_state (createLease store_platform demo_server demo_create) w' = (r, w'')" by fastforce
  ultimately show ?thesis using create_request_idempotent by blast
qed

text \<open>An authorised request to this platform really creates a lease, and the lease is governed by the default policy.\<close>

definition demo_requests :: "HttpRequest list" where
  "demo_requests = [demo_post ''/v1/leases'' (fmap_of_list [(''Authorization'', ''Bearer s3cret'')])]"

lemma list_ex_creates:
  "list_ex (\<lambda>x. case x of CreateLease _ \<Rightarrow> True | _ \<Rightarrow> False) es \<longleftrightarrow> (\<exists>l. CreateLease l \<in> set es)"
  by (induction es) (auto split: effect.splits)

theorem webhook_writes_governed_leases_only_witness:
  "\<exists>es l. w_trace (snd (run_state (serve_all store_platform demo_web demo_server demo_requests) (world_of None))) = es
     \<and> CreateLease l \<in> set es \<and> policy_governed store_platform (sv_Config demo_server) l \<and> isDNS1123Label (el_Name l)"
proof -
  have "list_ex (\<lambda>x. case x of CreateLease _ \<Rightarrow> True | _ \<Rightarrow> False)
      (w_trace (snd (run_state (serve_all store_platform demo_web demo_server demo_requests) (world_of None))))" by code_simp
  then obtain l where l: "CreateLease l \<in> set (w_trace (snd (run_state (serve_all store_platform demo_web demo_server
      demo_requests) (world_of None))))"
    unfolding list_ex_creates by blast
  have "\<exists>es. w_trace (snd (run_state (serve_all store_platform demo_web demo_server demo_requests) (world_of None)))
      = w_trace (world_of None) @ es \<and> list_all (webhook_may store_platform (sv_Config demo_server)) es"
    using webhook_writes_governed_leases_only [of store_platform demo_server demo_web demo_requests "world_of None",
        OF demo_server_ok _ _ prod.collapse [symmetric]]
    by (simp add: store_platform_def platform_with_retry sha1_lib_def demo_web_def)
  then have "webhook_may store_platform (sv_Config demo_server) (CreateLease l)"
    using l by (auto simp: world_of_def list_all_iff)
  then show ?thesis using l unfolding webhook_may_simps by blast
qed

end
