(* ===== verification/Server_Lifecycle.thy ===== *)
theory Server_Lifecycle
  imports Webhook_Safety
begin

text \<open>
  \<open>Server.ListenAndServe\<close> of \<open>src/internal/sourcewebhook/server.go\<close> after its checks: the caller waits in a \<open>select\<close> for the end
  of its context or a message of the goroutine that runs the listener; a buffered channel of capacity one carries the
  message. A state machine over all interleavings shows that the two threads always finish together. Of the library,
  \<open>http.Server.ListenAndServe\<close> returns \<open>ErrServerClosed\<close> once \<open>Shutdown\<close> was called and may fail with another error at any time;
  \<open>Shutdown\<close> returns, at the latest when its context of ten seconds ends.
\<close>

section \<open>The two threads\<close>

datatype caller = Selecting | ShuttingDown | Receiving | Returned "go_error option"
datatype listener = Serving | Sending "go_error option" | Exited

record server_run =
  sr_caller :: caller
  sr_listener :: listener
  sr_errCh :: "go_error option option" \<comment> \<open>the buffer of \<open>errCh\<close>\<close>
  sr_cancelled :: bool \<comment> \<open>\<open>ctx.Done()\<close> is closed\<close>
  sr_shutdown :: bool \<comment> \<open>\<open>srv.Shutdown\<close> was called\<close>

text \<open>The checks come first; without an error both threads run.\<close>

definition ListenAndServe :: "Server \<Rightarrow> bool \<Rightarrow> server_run" where
  "ListenAndServe s cancelled =
     (case serve_config s of
        Inl err \<Rightarrow> \<lparr>sr_caller = Returned (Some err), sr_listener = Exited, sr_errCh = None, sr_cancelled = cancelled, sr_shutdown = False\<rparr>
      | Inr _ \<Rightarrow> \<lparr>sr_caller = Selecting, sr_listener = Serving, sr_errCh = None, sr_cancelled = cancelled, sr_shutdown = False\<rparr>)"

text \<open>What the program does next, and what happens to it.\<close>

inductive program_step :: "server_run \<Rightarrow> server_run \<Rightarrow> bool" where
  closed: "\<lbrakk>sr_listener s = Serving; sr_shutdown s\<rbrakk> \<Longrightarrow> program_step s (s\<lparr>sr_listener := Sending None\<rparr>)"
| send: "\<lbrakk>sr_listener s = Sending x; sr_errCh s = None\<rbrakk> \<Longrightarrow> program_step s (s\<lparr>sr_errCh := Some x, sr_listener := Exited\<rparr>)"
| select_done: "\<lbrakk>sr_caller s = Selecting; sr_cancelled s\<rbrakk> \<Longrightarrow> program_step s (s\<lparr>sr_caller := ShuttingDown, sr_shutdown := True\<rparr>)"
| select_err: "\<lbrakk>sr_caller s = Selecting; sr_errCh s = Some x\<rbrakk> \<Longrightarrow> program_step s (s\<lparr>sr_caller := Returned x, sr_errCh := None\<rparr>)"
| shutdown_returns: "sr_caller s = ShuttingDown \<Longrightarrow> program_step s (s\<lparr>sr_caller := Receiving\<rparr>)"
| receive: "\<lbrakk>sr_caller s = Receiving; sr_errCh s = Some x\<rbrakk> \<Longrightarrow> program_step s (s\<lparr>sr_caller := Returned x, sr_errCh := None\<rparr>)"

inductive outside_step :: "server_run \<Rightarrow> server_run \<Rightarrow> bool" where
  cancel: "outside_step s (s\<lparr>sr_cancelled := True\<rparr>)"
| listener_fails: "sr_listener s = Serving \<Longrightarrow> outside_step s (s\<lparr>sr_listener := Sending (Some err)\<rparr>)"

definition reachable :: "Server \<Rightarrow> server_run \<Rightarrow> bool" where
  "reachable sv s \<longleftrightarrow> (\<exists>c. (\<lambda>a b. program_step a b \<or> outside_step a b)\<^sup>*\<^sup>* (ListenAndServe sv c) s)"

section \<open>Invariant\<close>

text \<open>
  The message is in exactly one place: not yet sent, in the buffer, or returned. The caller is past the \<open>select\<close> for one of its two
  reasons, and \<open>nil\<close> is sent only after a shutdown.
\<close>

definition coherent :: "server_run \<Rightarrow> bool" where
  "coherent s \<longleftrightarrow> (sr_errCh s \<noteq> None \<longleftrightarrow> sr_listener s = Exited \<and> (\<forall>r. sr_caller s \<noteq> Returned r))
     \<and> ((\<exists>r. sr_caller s = Returned r) \<longrightarrow> sr_listener s = Exited)
     \<and> (sr_caller s \<in> {ShuttingDown, Receiving} \<longrightarrow> sr_shutdown s)
     \<and> (sr_shutdown s \<longrightarrow> sr_cancelled s)
     \<and> (sr_listener s = Sending None \<or> sr_errCh s = Some None \<or> sr_caller s = Returned None \<longrightarrow> sr_shutdown s)"

lemma coherent_start: "coherent (ListenAndServe sv c)"
  by (auto simp: ListenAndServe_def coherent_def split: sum.split)

lemma coherent_program: "program_step s s' \<Longrightarrow> coherent s \<Longrightarrow> coherent s'"
  by (induction rule: program_step.induct) (auto simp: coherent_def)

lemma coherent_outside: "outside_step s s' \<Longrightarrow> coherent s \<Longrightarrow> coherent s'"
  by (induction rule: outside_step.induct) (auto simp: coherent_def)

lemma reachable_coherent: "reachable sv s \<Longrightarrow> coherent s"
  unfolding reachable_def
proof (elim exE)
  fix c assume "(\<lambda>a b. program_step a b \<or> outside_step a b)\<^sup>*\<^sup>* (ListenAndServe sv c) s"
  then show "coherent s"
    by (induction rule: rtranclp_induct) (auto intro: coherent_start coherent_program coherent_outside)
qed

section \<open>Termination\<close>

text \<open>The steps each thread still has before it.\<close>

definition work :: "server_run \<Rightarrow> nat" where
  "work s = (case sr_caller s of Selecting \<Rightarrow> 3 | ShuttingDown \<Rightarrow> 2 | Receiving \<Rightarrow> 1 | Returned _ \<Rightarrow> 0)
     + (case sr_listener s of Serving \<Rightarrow> 2 | Sending _ \<Rightarrow> 1 | Exited \<Rightarrow> 0)"

lemma work_decreases: "program_step s s' \<Longrightarrow> work s' < work s"
  by (induction rule: program_step.induct) (auto simp: work_def)

lemma work_bound: "work s \<le> 5"
  by (auto simp: work_def split: caller.split listener.split)

lemma program_run_bounded: "(program_step ^^ n) s s' \<Longrightarrow> n + work s' \<le> work s"
proof (induction n arbitrary: s')
  case (Suc n)
  then obtain s1 where s1: "(program_step ^^ n) s s1" "program_step s1 s'" by auto
  from Suc.IH [OF s1(1)] work_decreases [OF s1(2)] show ?case by simp
qed simp

lemma coherent_run: "(program_step ^^ n) s s' \<Longrightarrow> coherent s \<Longrightarrow> coherent s'"
  by (induction n arbitrary: s') (auto dest: coherent_program)

lemma stopping_run:
  "(program_step ^^ n) s s' \<Longrightarrow> sr_cancelled s \<or> sr_listener s \<noteq> Serving \<Longrightarrow> sr_cancelled s' \<or> sr_listener s' \<noteq> Serving"
proof (induction n arbitrary: s')
  case (Suc n)
  then obtain s1 where s1: "sr_cancelled s1 \<or> sr_listener s1 \<noteq> Serving" "program_step s1 s'" by auto
  from s1(2,1) show ?case by (induction rule: program_step.induct) auto
qed simp

lemma stuck_finished:
  assumes "coherent s" "sr_cancelled s \<or> sr_listener s \<noteq> Serving" "\<And>s'. \<not> program_step s s'"
  shows "sr_listener s = Exited \<and> (\<exists>r. sr_caller s = Returned r)"
proof (cases "sr_caller s")
  case Selecting
  then have "\<not> sr_cancelled s" "sr_errCh s = None" using assms(3) select_done select_err by (blast, force)
  then show ?thesis using assms Selecting send by (cases "sr_listener s") (auto simp: coherent_def)
next
  case ShuttingDown
  then show ?thesis using assms(3) shutdown_returns by blast
next
  case Receiving
  then have "sr_errCh s = None" "sr_shutdown s" using assms(1,3) receive by (force, simp add: coherent_def)
  then show ?thesis using assms Receiving send closed by (cases "sr_listener s") (auto simp: coherent_def)
next
  case (Returned r)
  then show ?thesis using assms(1) by (auto simp: coherent_def)
qed

section \<open>Property\<close>

text \<open>
  C40. The webhook server stops cleanly. In every interleaving, once the context of the server has ended or its listener has
  returned, the two threads make at most five more steps, and when they can make none the caller has returned
  and the goroutine has exited: no deadlock on the channel and no goroutine left behind, whichever branch the \<open>select\<close>
  takes. The result is \<open>nil\<close> only if the server was asked to stop.
\<close>

theorem webhook_server_stops:
  assumes "reachable sv s" and "sr_cancelled s \<or> sr_listener s \<noteq> Serving" and "(program_step ^^ n) s s'"
  shows "n \<le> 5 \<and> ((\<exists>s''. program_step s' s'') \<or> (\<exists>r. sr_caller s' = Returned r \<and> sr_listener s' = Exited))
     \<and> (sr_caller s' = Returned None \<longrightarrow> sr_cancelled s')"
proof -
  have c: "coherent s'" by (rule coherent_run [OF assms(3) reachable_coherent [OF assms(1)]])
  have "n \<le> 5" using program_run_bounded [OF assms(3)] work_bound [of s] by linarith
  moreover have "(\<exists>s''. program_step s' s'') \<or> (\<exists>r. sr_caller s' = Returned r \<and> sr_listener s' = Exited)"
    using stuck_finished [OF c stopping_run [OF assms(3,2)]] by blast
  moreover have "sr_caller s' = Returned None \<longrightarrow> sr_cancelled s'" using c by (simp add: coherent_def)
  ultimately show ?thesis by blast
qed

text \<open>The context ends while the server listens: five steps later the caller has returned \<open>nil\<close>.\<close>

definition running :: server_run where
  "running = \<lparr>sr_caller = Selecting, sr_listener = Serving, sr_errCh = None, sr_cancelled = True, sr_shutdown = False\<rparr>"

definition stopped :: server_run where
  "stopped = \<lparr>sr_caller = Returned None, sr_listener = Exited, sr_errCh = None, sr_cancelled = True, sr_shutdown = True\<rparr>"

lemma running_reachable: "reachable demo_server running"
proof -
  have "isl (serve_config demo_server) = False" by code_simp
  then have "ListenAndServe demo_server True = running"
    by (cases "serve_config demo_server") (simp_all add: ListenAndServe_def running_def)
  then show ?thesis unfolding reachable_def by (metis rtranclp.rtrancl_refl)
qed

lemma running_stops: "(program_step ^^ 5) running stopped"
proof -
  have "program_step running (running\<lparr>sr_caller := ShuttingDown, sr_shutdown := True\<rparr>)" (is "program_step _ ?s1")
    by (rule select_done) (simp_all add: running_def)
  moreover have "program_step ?s1 (?s1\<lparr>sr_listener := Sending None\<rparr>)" (is "program_step _ ?s2")
    by (rule closed) (simp_all add: running_def)
  moreover have "program_step ?s2 (?s2\<lparr>sr_errCh := Some None, sr_listener := Exited\<rparr>)" (is "program_step _ ?s3")
    by (rule send) (simp_all add: running_def)
  moreover have "program_step ?s3 (?s3\<lparr>sr_caller := Receiving\<rparr>)" (is "program_step _ ?s4")
    by (rule shutdown_returns) (simp add: running_def)
  moreover have "program_step ?s4 stopped"
    using receive [of ?s4 None] by (simp add: running_def stopped_def)
  ultimately show ?thesis by (simp add: numeral_eq_Suc) blast
qed

theorem webhook_server_stops_witness:
  "(\<nexists>s. program_step stopped s) \<and> sr_caller stopped = Returned None \<and> sr_listener stopped = Exited \<and> sr_cancelled stopped"
proof -
  have "\<not> program_step stopped s" for s by (auto simp: stopped_def elim: program_step.cases)
  then show ?thesis
    using webhook_server_stops [OF running_reachable _ running_stops] by (simp add: running_def) (simp add: stopped_def)
qed

end
