(* ===== verification/Startup.thy ===== *)
theory Startup
  imports Webhook_Safety Lease_Provisioning Watches
begin

text \<open>
  The two long-running programs from the command line to the first request or reconcile:
  \<open>src/cmd/kubelease-webhook/main.go\<close> and \<open>src/cmd/main.go\<close>. What they read from outside (the flags, the environment,
  a JSON document, certificate files, the API server) is an argument; an \<open>os.Exit(1)\<close> is the message logged
  before it. The properties say that a program that gets past its checks is in the state the other theories
  start from.
\<close>

section \<open>The webhook source\<close>

text \<open>The flags after parsing, with the defaults of \<open>flag.StringVar\<close> and its siblings.\<close>

record webhook_flags =
  wf_bind_address :: string
  wf_token_secret_namespace :: string
  wf_token_secret_name :: string
  wf_token_secret_key :: string
  wf_default_policy :: string
  wf_namespace_generate_name :: string
  wf_max_body_bytes :: int
  wf_github_enabled :: bool
  wf_github_secret_name :: string
  wf_github_secret_key :: string
  wf_github_repo_policies :: string

definition default_webhook_flags :: webhook_flags where
  "default_webhook_flags = \<lparr>wf_bind_address = '':8082'', wf_token_secret_namespace = [],
     wf_token_secret_name = ''webhook-token'', wf_token_secret_key = ''token'', wf_default_policy = [],
     wf_namespace_generate_name = ''preview-'', wf_max_body_bytes = 65536, wf_github_enabled = False,
     wf_github_secret_name = [], wf_github_secret_key = ''github-webhook-secret'', wf_github_repo_policies = []\<rparr>"

definition flag_config :: "webhook_flags \<Rightarrow> Config" where
  "flag_config f = Defaults
     \<lparr>cf_BindAddress = wf_bind_address f, cf_TokenSecretNamespace = wf_token_secret_namespace f,
      cf_TokenSecretName = wf_token_secret_name f, cf_TokenSecretKey = wf_token_secret_key f,
      cf_DefaultPolicy = wf_default_policy f, cf_NamespaceGenerateName = wf_namespace_generate_name f,
      cf_GitHubEnabled = wf_github_enabled f, cf_GitHubSecretName = wf_github_secret_name f,
      cf_GitHubSecretKey = wf_github_secret_key f, cf_GitHubRepoPolicies = fmempty, cf_GitHubMaxBodyBytes = 0,
      cf_MaxBodyBytes = wf_max_body_bytes f, cf_ReadTimeout = 0, cf_WriteTimeout = 0, cf_IdleTimeout = 0,
      cf_RequestTimeout = 0\<rparr>"

text \<open>The loop over the decoded map: its order is the order Go picks, a later key replaces an equal earlier one.\<close>

definition repo_key :: "weblib \<Rightarrow> string \<Rightarrow> string" where
  "repo_key T k = wl_ToLower T (TrimSpace k)"

definition normalise_repos :: "weblib \<Rightarrow> (string \<Rightarrow> nat) \<Rightarrow> strmap \<Rightarrow> strmap" where
  "normalise_repos T rank m = fold (\<lambda>(k, v) out. fmupd (repo_key T k) (TrimSpace v) out) (iteration rank m) fmempty"

definition webhook_config ::
  "weblib \<Rightarrow> (string \<Rightarrow> go_error + strmap) \<Rightarrow> (string \<Rightarrow> nat) \<Rightarrow> string \<Rightarrow> webhook_flags \<Rightarrow> string + Config" where
  "webhook_config T unmarshal rank podNamespace f =
     (let cfg = flag_config f;
          cfg = (if cf_TokenSecretNamespace cfg = [] then cfg\<lparr>cf_TokenSecretNamespace := podNamespace\<rparr> else cfg)
      in if cf_TokenSecretNamespace cfg = [] then Inl ''token-secret-namespace or POD_NAMESPACE is required''
         else if cf_DefaultPolicy cfg = [] then Inl ''default-policy is required''
         else if wf_github_repo_policies f \<noteq> []
         then (case unmarshal (wf_github_repo_policies f) of
                 Inl err \<Rightarrow> Inl ''invalid --github-repo-policies JSON''
               | Inr m \<Rightarrow> Inr (cfg\<lparr>cf_GitHubRepoPolicies := normalise_repos T rank m\<rparr>))
         else Inr cfg)"

definition webhook_server :: "Config \<Rightarrow> Server" where
  "webhook_server cfg =
     \<lparr>sv_Config = cfg,
      sv_TokenProvider = Some (SecretTokenProvider (cf_TokenSecretNamespace cfg) (cf_TokenSecretName cfg)
        (cf_TokenSecretKey cfg) []),
      sv_GitHubSecretProvider =
        (if cf_GitHubEnabled cfg
         then Some (SecretTokenProvider (cf_TokenSecretNamespace cfg) (cf_GitHubSecretName cfg) (cf_GitHubSecretKey cfg) [])
         else None)\<rparr>"

text \<open>\<open>kube\<close> is the outcome of \<open>ctrl.GetConfig\<close> and \<open>client.New\<close>: the message of the first that failed, if any.\<close>

definition webhook_main ::
  "weblib \<Rightarrow> (string \<Rightarrow> go_error + strmap) \<Rightarrow> (string \<Rightarrow> nat) \<Rightarrow> string \<Rightarrow> string option \<Rightarrow> webhook_flags
     \<Rightarrow> string + Server" where
  "webhook_main T unmarshal rank podNamespace kube f =
     (case webhook_config T unmarshal rank podNamespace f of
        Inl msg \<Rightarrow> Inl msg
      | Inr cfg \<Rightarrow>
          (case kube of
             Some msg \<Rightarrow> Inl msg
           | None \<Rightarrow>
               (case serve_config (webhook_server cfg) of
                  Inl err \<Rightarrow> Inl ''webhook server exited''
                | Inr s \<Rightarrow> Inr s)))"

section \<open>The controller manager\<close>

record manager_flags =
  mf_metrics_bind_address :: string
  mf_health_probe_bind_address :: string
  mf_leader_elect :: bool
  mf_metrics_secure :: bool
  mf_webhook_cert_path :: string
  mf_webhook_cert_name :: string
  mf_webhook_cert_key :: string
  mf_metrics_cert_path :: string
  mf_metrics_cert_name :: string
  mf_metrics_cert_key :: string
  mf_enable_http2 :: bool

definition default_manager_flags :: manager_flags where
  "default_manager_flags = \<lparr>mf_metrics_bind_address = ''0'', mf_health_probe_bind_address = '':8081'',
     mf_leader_elect = False, mf_metrics_secure = True, mf_webhook_cert_path = [], mf_webhook_cert_name = ''tls.crt'',
     mf_webhook_cert_key = ''tls.key'', mf_metrics_cert_path = [], mf_metrics_cert_name = ''tls.crt'',
     mf_metrics_cert_key = ''tls.key'', mf_enable_http2 = False\<rparr>"

text \<open>The functions put into \<open>TLSOpts\<close>: one that fixes the protocols, one that serves a watched certificate.\<close>

datatype tls_opt = DisableHTTP2 | ServeCertificate string string

record manager_options =
  mo_MetricsBindAddress :: string
  mo_SecureServing :: bool
  mo_MetricsTLSOpts :: "tls_opt list"
  mo_FilterProvider :: bool \<comment> \<open>authentication and authorization in front of the metrics\<close>
  mo_WebhookTLSOpts :: "tls_opt list"
  mo_HealthProbeBindAddress :: string
  mo_LeaderElection :: bool
  mo_Runnables :: "(string \<times> string) list" \<comment> \<open>the certificate watchers added to the manager\<close>

text \<open>\<open>join\<close> is \<open>filepath.Join\<close>, \<open>watch\<close> is \<open>certwatcher.New\<close> with the paths of the certificate and the key.\<close>

definition cert_watcher ::
  "(string \<Rightarrow> string \<Rightarrow> string) \<Rightarrow> (string \<Rightarrow> string \<Rightarrow> go_error option) \<Rightarrow> string \<Rightarrow> string \<Rightarrow> string
     \<Rightarrow> go_error + (string \<times> string) option" where
  "cert_watcher join watch path name key =
     (if length path > 0
      then (case watch (join path name) (join path key) of
              Some err \<Rightarrow> Inl err
            | None \<Rightarrow> Inr (Some (join path name, join path key)))
      else Inr None)"

definition tls_of :: "tls_opt list \<Rightarrow> (string \<times> string) option \<Rightarrow> tls_opt list" where
  "tls_of base w = (case w of None \<Rightarrow> base | Some (c, k) \<Rightarrow> base @ [ServeCertificate c k])"

text \<open>The watchers that are not nil are added to the manager, the one of the metrics first.\<close>

definition cert_runnables :: "(string \<times> string) option \<Rightarrow> (string \<times> string) option \<Rightarrow> (string \<times> string) list" where
  "cert_runnables metricsCert webhookCert =
     (case metricsCert of None \<Rightarrow> [] | Some w \<Rightarrow> [w]) @ (case webhookCert of None \<Rightarrow> [] | Some w \<Rightarrow> [w])"

definition manager_setup ::
  "(string \<Rightarrow> string \<Rightarrow> string) \<Rightarrow> (string \<Rightarrow> string \<Rightarrow> go_error option) \<Rightarrow> manager_flags \<Rightarrow> string + manager_options" where
  "manager_setup join watch f =
     (let tlsOpts = (if \<not> mf_enable_http2 f then [DisableHTTP2] else [])
      in case cert_watcher join watch (mf_webhook_cert_path f) (mf_webhook_cert_name f) (mf_webhook_cert_key f) of
           Inl err \<Rightarrow> Inl ''Failed to initialize webhook certificate watcher''
         | Inr webhookCert \<Rightarrow>
         case cert_watcher join watch (mf_metrics_cert_path f) (mf_metrics_cert_name f) (mf_metrics_cert_key f) of
           Inl err \<Rightarrow> Inl ''to initialize metrics certificate watcher''
         | Inr metricsCert \<Rightarrow>
             Inr \<lparr>mo_MetricsBindAddress = mf_metrics_bind_address f, mo_SecureServing = mf_metrics_secure f,
                  mo_MetricsTLSOpts = tls_of tlsOpts metricsCert, mo_FilterProvider = mf_metrics_secure f,
                  mo_WebhookTLSOpts = tls_of tlsOpts webhookCert,
                  mo_HealthProbeBindAddress = mf_health_probe_bind_address f, mo_LeaderElection = mf_leader_elect f,
                  mo_Runnables = cert_runnables metricsCert webhookCert\<rparr>)"

text \<open>
  Lines 215--223: the identity of the control cluster. \<open>hub\<close> is the uncached client, \<open>None\<close> when \<open>client.New\<close> failed;
  a failed probe is only logged.
\<close>

definition control_identity :: "'w platform \<Rightarrow> Client option \<Rightarrow> ('w, string) prog" where
  "control_identity P hub =
     (case hub of
        None \<Rightarrow> State_Monad.return []
      | Some c \<Rightarrow> do {
          ns \<leftarrow> call (api_GetNamespace (pf_cluster P) c ''kube-system'');
          State_Monad.return (case ProbeRemoteIdentity ns of Inl err \<Rightarrow> [] | Inr i \<Rightarrow> i) })"

text \<open>
  Lines 210--213 and 225--232: the shared provider, the tracker, the gate and the lease reconciler. The gate is returned beside the
  reconciler, whose record only says whether it has one.
\<close>

definition start_controllers :: "'w platform \<Rightarrow> Client option \<Rightarrow> ('w, reconciler \<times> TargetGate) prog" where
  "start_controllers P hub = do {
     write_provider (Some (NewProvider 0));
     controlID \<leftarrow> control_identity P hub;
     write_outages (Some (NewOutageTracker (15 * Second) (2 * Minute)));
     State_Monad.return (\<lparr>rec_ControlClusterID = controlID, rec_Recorder = False, rec_Gate = True\<rparr>, NewTargetGate 4) }"

text \<open>
  Lines 186--276 in order: the calls of the manager's library that can fail, with the message logged before the program
  exits. The certificate watchers are added only if there are any.
\<close>

datatype manager_call = NewManager | IndexField string | CompleteEnvironmentLease | SetupClusterTarget | AddMetricsCertWatcher
  | AddWebhookCertWatcher | AddHealthzCheck | AddReadyzCheck | StartManager

definition later_calls :: "manager_flags \<Rightarrow> (manager_call \<times> string) list" where
  "later_calls f = [(SetupClusterTarget, ''unable to create controller'')]
     @ (if length (mf_metrics_cert_path f) > 0 then [(AddMetricsCertWatcher, ''unable to add metrics certificate watcher to manager'')] else [])
     @ (if length (mf_webhook_cert_path f) > 0 then [(AddWebhookCertWatcher, ''unable to add webhook certificate watcher to manager'')] else [])
     @ [(AddHealthzCheck, ''unable to set up health check''), (AddReadyzCheck, ''unable to set up ready check''),
        (StartManager, ''problem running manager'')]"

fun first_failure :: "(manager_call \<Rightarrow> go_error option) \<Rightarrow> (manager_call \<times> string) list \<Rightarrow> string option" where
  "first_failure lib [] = None"
| "first_failure lib ((c, msg) # cs) = (case lib c of Some _ \<Rightarrow> Some msg | None \<Rightarrow> first_failure lib cs)"

definition manager_main ::
  "'w platform \<Rightarrow> (string \<Rightarrow> string \<Rightarrow> string) \<Rightarrow> (string \<Rightarrow> string \<Rightarrow> go_error option) \<Rightarrow> (manager_call \<Rightarrow> go_error option)
     \<Rightarrow> Client option \<Rightarrow> manager_flags \<Rightarrow> ('w, string + (manager_options \<times> reconciler \<times> TargetGate)) prog" where
  "manager_main P join watch lib hub f =
     (case manager_setup join watch f of
        Inl msg \<Rightarrow> State_Monad.return (Inl msg)
      | Inr opts \<Rightarrow>
          if lib NewManager \<noteq> None then State_Monad.return (Inl ''unable to start manager'')
          else do {
            (R, g) \<leftarrow> start_controllers P hub;
            State_Monad.return
              (case SetupWithManager (\<lambda>field. lib (IndexField field)) (lib CompleteEnvironmentLease) R of
                 (Some err, R) \<Rightarrow> Inl ''unable to create controller''
               | (None, R) \<Rightarrow>
                   (case first_failure lib (later_calls f) of Some msg \<Rightarrow> Inl msg | None \<Rightarrow> Inr (opts, R, g))) })"

section \<open>Lemmas\<close>

text \<open>\<open>Defaults\<close> step by step: what holds before a step and what it makes of it.\<close>

lemma let_step: "R x \<Longrightarrow> (\<And>y. R y \<Longrightarrow> Q (f y)) \<Longrightarrow> Q (let y = x in f y)"
  by simp

lemma Defaults_keeps:
  assumes "\<And>c v. X (c\<lparr>cf_BindAddress := v\<rparr>) = X c" "\<And>c v. X (c\<lparr>cf_TokenSecretKey := v\<rparr>) = X c"
    "\<And>c v. X (c\<lparr>cf_NamespaceGenerateName := v\<rparr>) = X c" "\<And>c v. X (c\<lparr>cf_GitHubSecretKey := v\<rparr>) = X c"
    "\<And>c v. X (c\<lparr>cf_GitHubSecretName := v\<rparr>) = X c" "\<And>c v. X (c\<lparr>cf_GitHubMaxBodyBytes := v\<rparr>) = X c"
    "\<And>c v. X (c\<lparr>cf_MaxBodyBytes := v\<rparr>) = X c" "\<And>c v. X (c\<lparr>cf_ReadTimeout := v\<rparr>) = X c"
    "\<And>c v. X (c\<lparr>cf_WriteTimeout := v\<rparr>) = X c" "\<And>c v. X (c\<lparr>cf_IdleTimeout := v\<rparr>) = X c"
    "\<And>c v. X (c\<lparr>cf_RequestTimeout := v\<rparr>) = X c"
  shows "X (Defaults c) = X c"
  unfolding Defaults_def
  by ((rule let_step [where R = "\<lambda>d. X d = X c" and Q = "\<lambda>d. X d = X c"], simp add: assms)+) (simp add: assms)

lemma Defaults_fields [simp]:
  "cf_TokenSecretNamespace (Defaults c) = cf_TokenSecretNamespace c" "cf_TokenSecretName (Defaults c) = cf_TokenSecretName c"
  "cf_DefaultPolicy (Defaults c) = cf_DefaultPolicy c" "cf_GitHubEnabled (Defaults c) = cf_GitHubEnabled c"
  "cf_GitHubRepoPolicies (Defaults c) = cf_GitHubRepoPolicies c"
  by (rule Defaults_keeps; simp)+

lemma Defaults_limits [simp]:
  "cf_MaxBodyBytes (Defaults c) = (if cf_MaxBodyBytes c \<le> 0 then 65536 else cf_MaxBodyBytes c)" (is "?max")
  "cf_GitHubMaxBodyBytes (Defaults c) = (if cf_GitHubMaxBodyBytes c \<le> 0 then 1048576 else cf_GitHubMaxBodyBytes c)" (is "?gh")
proof -
  let ?B = "\<lambda>d. cf_MaxBodyBytes d = cf_MaxBodyBytes c \<and> cf_GitHubMaxBodyBytes d = cf_GitHubMaxBodyBytes c"
  let ?G = "\<lambda>d. cf_MaxBodyBytes d = cf_MaxBodyBytes c \<and> cf_GitHubMaxBodyBytes d
    = (if cf_GitHubMaxBodyBytes c \<le> 0 then 1048576 else cf_GitHubMaxBodyBytes c)"
  let ?A = "\<lambda>d. cf_MaxBodyBytes d = (if cf_MaxBodyBytes c \<le> 0 then 65536 else cf_MaxBodyBytes c)
    \<and> cf_GitHubMaxBodyBytes d = (if cf_GitHubMaxBodyBytes c \<le> 0 then 1048576 else cf_GitHubMaxBodyBytes c)"
  have "?A (Defaults c)"
    unfolding Defaults_def
    by (rule let_step [where R = ?B and Q = ?A], simp, rule let_step [where R = ?B and Q = ?A], simp, rule let_step [where R = ?B and Q = ?A], simp,
        rule let_step [where R = ?B and Q = ?A], simp, rule let_step [where R = ?B and Q = ?A], simp, rule let_step [where R = ?G and Q = ?A], simp,
        (rule let_step [where R = ?A and Q = ?A], simp)+, simp)
  then show "?max" "?gh" by simp_all
qed

text \<open>What the flags and the environment make of the configuration, up to the repository policies.\<close>

lemma webhook_main_Inr:
  assumes "webhook_main T unmarshal rank podNamespace kube f = Inr s"
  obtains cfg where "webhook_config T unmarshal rank podNamespace f = Inr cfg" "kube = None"
    "s = (webhook_server cfg)\<lparr>sv_Config := Defaults cfg\<rparr>"
  using assms unfolding webhook_main_def serve_config_def webhook_server_def Let_def
  by (fastforce split: sum.splits option.splits if_splits)

lemma webhook_config_Inr:
  assumes "webhook_config T unmarshal rank podNamespace f = Inr cfg"
  shows "cf_TokenSecretNamespace cfg \<noteq> []" "cf_DefaultPolicy cfg = wf_default_policy f" "cf_DefaultPolicy cfg \<noteq> []"
    "cf_GitHubEnabled cfg = wf_github_enabled f"
    "cf_GitHubMaxBodyBytes cfg = 1048576"
    "cf_MaxBodyBytes cfg = (if wf_max_body_bytes f \<le> 0 then 65536 else wf_max_body_bytes f)"
  using assms
  by (auto simp: webhook_config_def flag_config_def Let_def split: sum.splits if_splits)

lemma fold_fmupd_unique:
  assumes "(k, v) \<in> set xs" "\<And>k' v'. (k', v') \<in> set xs \<Longrightarrow> key k' = key k \<Longrightarrow> v' = v"
  shows "fmlookup (fold (\<lambda>(k, v) m. fmupd (key k) (val v) m) xs m) (key k) = Some (val v)"
  using assms
proof (induction xs arbitrary: m rule: rev_induct)
  case Nil
  then show ?case by simp
next
  case (snoc x xs)
  obtain k1 v1 where x: "x = (k1, v1)" by fastforce
  show ?case
  proof (cases "key k1 = key k")
    case True
    then have "v1 = v" using snoc.prems(2) [of k1 v1] x by simp
    then show ?thesis using True x by simp
  next
    case False
    then have "(k, v) \<in> set xs" using snoc.prems(1) x by auto
    moreover have "v' = v" if "(k', v') \<in> set xs" "key k' = key k" for k' v'
      using snoc.prems(2) [of k' v'] that by simp
    ultimately have "fmlookup (fold (\<lambda>(k, v) m. fmupd (key k) (val v) m) xs m) (key k) = Some (val v)"
      by (rule snoc.IH)
    then show ?thesis using False x by simp
  qed
qed

lemma register_indexes_None: "register_indexes register fs = None \<longleftrightarrow> (\<forall>(field, what) \<in> set fs. register field = None)"
  by (induction register fs rule: register_indexes.induct) (auto split: option.split)

lemma first_failure_None: "first_failure lib cs = None \<longleftrightarrow> (\<forall>(c, msg) \<in> set cs. lib c = None)"
  by (induction lib cs rule: first_failure.induct) (auto split: option.split)

text \<open>
  The manager runs to its end only if nothing failed: every index the watches and the placement list by is registered,
  the probes and the watchers of the served certificates are in place, and the lease reconciler has a recorder and a gate.
\<close>

lemma manager_main_runs:
  assumes "fst (run_state (manager_main P join watch lib hub f) w) = Inr (opts, R, g)"
  shows "manager_setup join watch f = Inr opts" "rec_Recorder R" "rec_Gate R"
    "lib NewManager = None" "lib CompleteEnvironmentLease = None"
    "field \<in> {indexStatusNamespace, indexPolicyRefName, indexClusterRefName, StatusClusterNameIndex} \<Longrightarrow> lib (IndexField field) = None"
    "c \<in> {SetupClusterTarget, AddHealthzCheck, AddReadyzCheck, StartManager} \<Longrightarrow> lib c = None"
    "mf_metrics_cert_path f \<noteq> [] \<Longrightarrow> lib AddMetricsCertWatcher = None"
    "mf_webhook_cert_path f \<noteq> [] \<Longrightarrow> lib AddWebhookCertWatcher = None"
proof -
  obtain o1 where o1: "manager_setup join watch f = Inr o1" "lib NewManager = None"
    using assms by (cases "manager_setup join watch f") (auto simp: manager_main_def split: if_splits)
  obtain R0 g0 w1 where r: "run_state (start_controllers P hub) w = ((R0, g0), w1)" by (metis surj_pair)
  obtain err R1 where s: "SetupWithManager (\<lambda>field. lib (IndexField field)) (lib CompleteEnvironmentLease) R0 = (err, R1)" by fastforce
  have e: "err = None" "first_failure lib (later_calls f) = None" "R1 = R" "o1 = opts"
    using assms o1 r s by (auto simp: manager_main_def split: option.splits)
  have "rec_Gate R0" using r by (auto simp: start_controllers_def control_identity_def split: option.splits prod.splits)
  then show "rec_Recorder R" "rec_Gate R" using s e(3) by (auto simp: SetupWithManager_def split: if_splits)
  have "register_indexes (\<lambda>field. lib (IndexField field)) lease_indexes = None" "lib CompleteEnvironmentLease = None"
    using s e(1) by (auto simp: SetupWithManager_def split: option.splits)
  from this [unfolded register_indexes_None] show "lib CompleteEnvironmentLease = None"
    "field \<in> {indexStatusNamespace, indexPolicyRefName, indexClusterRefName, StatusClusterNameIndex} \<Longrightarrow> lib (IndexField field) = None"
    by (auto simp: lease_indexes_def)
  show "c \<in> {SetupClusterTarget, AddHealthzCheck, AddReadyzCheck, StartManager} \<Longrightarrow> lib c = None"
    "mf_metrics_cert_path f \<noteq> [] \<Longrightarrow> lib AddMetricsCertWatcher = None"
    "mf_webhook_cert_path f \<noteq> [] \<Longrightarrow> lib AddWebhookCertWatcher = None"
    using e(2) [unfolded first_failure_None] by (auto simp: later_calls_def split: if_splits)
qed (use assms in \<open>auto simp: manager_main_def split: sum.splits if_splits prod.splits option.splits\<close>)

lemma set_sorted_list_of_fmap: "(k, v) \<in> set (sorted_list_of_fmap m) \<longleftrightarrow> fmlookup m k = Some v"
  by (auto simp: sorted_list_of_fmap_def image_iff fmlookup_dom_iff)

lemma normalise_repos_lookup:
  assumes "fmlookup m k = Some v"
    and "\<And>k' v'. fmlookup m k' = Some v' \<Longrightarrow> repo_key T k' = repo_key T k \<Longrightarrow> v' = v"
  shows "fmlookup (normalise_repos T rank m) (repo_key T k) = Some (TrimSpace v)"
  unfolding normalise_repos_def
  by (rule fold_fmupd_unique; unfold set_iteration set_sorted_list_of_fmap) (fact assms)+

section \<open>Properties\<close>

text \<open>
  C36. A webhook server that starts is guarded. If the program gets past its checks, the server has a source for the
  shared token in a named namespace, a default policy, positive body limits, and a GitHub secret exactly when
  GitHub is enabled; and from then on any number of requests that carry neither the token nor a valid signature
  change nothing.
\<close>

theorem started_webhook_is_guarded:
  fixes P :: "'w platform"
  assumes "webhook_main T unmarshal rank podNamespace kube f = Inr s"
    and "- (2 ^ 63) \<le> wf_max_body_bytes f" and "wf_max_body_bytes f < 2 ^ 63 - 1"
  shows "(\<exists>ns name key. sv_TokenProvider s = Some (SecretTokenProvider ns name key []) \<and> ns \<noteq> [])
     \<and> cf_DefaultPolicy (sv_Config s) \<noteq> []
     \<and> 0 < cf_MaxBodyBytes (sv_Config s) \<and> 0 < cf_GitHubMaxBodyBytes (sv_Config s)
     \<and> (sv_GitHubSecretProvider s = None \<longleftrightarrow> \<not> wf_github_enabled f)
     \<and> (\<forall>rs. list_all (\<lambda>r. \<not> authorised P T' s r) rs \<longrightarrow> emits is_metric (serve_all P T' s rs))"
proof -
  obtain cfg where c: "webhook_config T unmarshal rank podNamespace f = Inr cfg" "kube = None"
    and s: "s = (webhook_server cfg)\<lparr>sv_Config := Defaults cfg\<rparr>"
    by (rule webhook_main_Inr [OF assms(1)])
  note f = webhook_config_Inr [OF c(1)]
  have ok: "providers_ok P s" by (simp add: s webhook_server_def providers_ok_def)
  have limits: "limits_ok (sv_Config s)" using assms(2,3) by (simp add: s limits_ok_def f)
  have "emits is_metric (serve_all P T' s rs)" if "list_all (\<lambda>r. \<not> authorised P T' s r) rs" for rs
    by (rule emits_unauthorised [OF ok limits that])
  then show ?thesis using f by (simp add: s webhook_server_def)
qed

text \<open>
  A policy configured for a repository is the one its pull requests get, in whatever letter case and with whatever
  spaces around it the repository is written, as long as no two keys of the configured object differ only in
  that.
\<close>

theorem configured_repo_policy_applies:
  assumes "webhook_main T unmarshal rank podNamespace kube f = Inr s"
    and "wf_github_repo_policies f \<noteq> []" and "unmarshal (wf_github_repo_policies f) = Inr m"
    and "fmlookup m k = Some v" and "TrimSpace v \<noteq> []"
    and "\<And>k' v'. fmlookup m k' = Some v' \<Longrightarrow> repo_key T k' = repo_key T k \<Longrightarrow> v' = v"
    and "repo_key T fullName = repo_key T k"
  shows "PolicyForRepo T s fullName = TrimSpace v"
proof -
  obtain cfg where c: "webhook_config T unmarshal rank podNamespace f = Inr cfg"
    and s: "s = (webhook_server cfg)\<lparr>sv_Config := Defaults cfg\<rparr>"
    by (rule webhook_main_Inr [OF assms(1)])
  have "cf_GitHubRepoPolicies cfg = normalise_repos T rank m"
    using c assms(2,3) by (auto simp: webhook_config_def Let_def split: if_splits)
  then show ?thesis
    using normalise_repos_lookup [OF assms(4,6), where rank = rank] assms(5,7)
    by (simp add: PolicyForRepo_def s Let_def repo_key_def)
qed

text \<open>
  The controllers start in a sound state: whatever the API server answers, starting them writes nothing, the outage
  tracker has a well-formed window and no outage on record, the client cache is empty and bounded by 32, a remote
  target has four slots, and the control identity is either the identifier of a \<open>kube-system\<close> namespace that was
  read or empty, in which case ownership checks do not look at it.
\<close>

theorem controllers_start_sound:
  assumes "run_state (start_controllers P hub) w = ((R, g), w')"
  shows "w_trace w' = w_trace w \<and> no_local_outage w' \<and> g = NewTargetGate 4
     \<and> (case (w_outages w', w_provider w') of
          (Some t, Some p) \<Rightarrow> 0 < ot_minBack t \<and> ot_minBack t \<le> ot_maxBack t \<and> ot_until t = fmempty
             \<and> pr_cache p = fmempty \<and> pr_maxCache p = 32
        | _ \<Rightarrow> False)
     \<and> (if rec_ControlClusterID R = []
        then \<forall>ns l. VerifyNamespaceOwnership (Some ns) l (rec_ControlClusterID R) = None \<longleftrightarrow> ns_owned ns l []
        else \<exists>c ns e'. hub = Some c \<and> api_GetNamespace (pf_cluster P) c ''kube-system'' (w_env w) = (Inr ns, e')
             \<and> om_UID (ns_Meta ns) = rec_ControlClusterID R)"
proof -
  have "\<exists>c ns e'. hub = Some c \<and> api_GetNamespace (pf_cluster P) c ''kube-system'' (w_env w) = (Inr ns, e')
      \<and> om_UID (ns_Meta ns) = rec_ControlClusterID R" if "rec_ControlClusterID R \<noteq> []"
    using assms that
    by (auto simp: start_controllers_def control_identity_def ProbeRemoteIdentity_def
        split: option.splits prod.splits sum.splits if_splits)
  moreover have "w_trace w' = w_trace w" "g = NewTargetGate 4"
    "w_outages w' = Some (NewOutageTracker (15 * Second) (2 * Minute))" "w_provider w' = Some (NewProvider 0)"
    using assms by (auto simp: start_controllers_def control_identity_def split: option.splits prod.splits)
  ultimately show ?thesis
    by (simp add: no_local_outage_def NewOutageTracker_def NewProvider_def dur_units VerifyNamespaceOwnership_None_iff)
qed

text \<open>
  The servers of the manager: HTTP/2 is off on both unless the flag asks for it, metrics served over TLS are behind
  authentication, and every certificate that is served is watched.
\<close>

lemma manager_setup_servers:
  assumes "manager_setup join watch f = Inr o1"
  shows "DisableHTTP2 \<in> set (mo_MetricsTLSOpts o1) \<longleftrightarrow> \<not> mf_enable_http2 f"
    "DisableHTTP2 \<in> set (mo_WebhookTLSOpts o1) \<longleftrightarrow> \<not> mf_enable_http2 f"
    "mo_FilterProvider o1 = mo_SecureServing o1"
    "ServeCertificate c k \<in> set (mo_MetricsTLSOpts o1) \<union> set (mo_WebhookTLSOpts o1) \<longleftrightarrow> (c, k) \<in> set (mo_Runnables o1)"
  using assms by (auto simp: manager_setup_def cert_runnables_def tls_of_def Let_def split: sum.splits option.splits if_splits)

section \<open>Witnesses\<close>

definition demo_webhook_flags :: webhook_flags where
  "demo_webhook_flags = default_webhook_flags\<lparr>wf_default_policy := ''standard'', wf_github_repo_policies := ''{..}''\<rparr>"

definition demo_repos :: strmap where
  "demo_repos = fmap_of_list [(''Acme/Shop'', ''strict'')]"

lemma demo_webhook_starts: "\<exists>s. webhook_main demo_web (\<lambda>_. Inr demo_repos) (\<lambda>_. 0) ''kubelease'' None demo_webhook_flags = Inr s"
  by (simp add: webhook_main_def webhook_config_def flag_config_def demo_webhook_flags_def default_webhook_flags_def
      serve_config_def webhook_server_def Let_def)

theorem started_webhook_is_guarded_witness:
  "\<exists>s. webhook_main demo_web (\<lambda>_. Inr demo_repos) (\<lambda>_. 0) ''kubelease'' None demo_webhook_flags = Inr s
     \<and> sv_TokenProvider s \<noteq> None \<and> cf_DefaultPolicy (sv_Config s) \<noteq> [] \<and> sv_GitHubSecretProvider s = None"
proof -
  obtain s where s: "webhook_main demo_web (\<lambda>_. Inr demo_repos) (\<lambda>_. 0) ''kubelease'' None demo_webhook_flags = Inr s"
    using demo_webhook_starts by blast
  from started_webhook_is_guarded [OF s, of demo_platform demo_web] s show ?thesis
    by (auto simp: demo_webhook_flags_def default_webhook_flags_def)
qed

theorem configured_repo_policy_applies_witness:
  "\<exists>s. webhook_main demo_web (\<lambda>_. Inr demo_repos) (\<lambda>_. 0) ''kubelease'' None demo_webhook_flags = Inr s
     \<and> PolicyForRepo demo_web s '' ACME/shop'' = ''strict''"
proof -
  obtain s where s: "webhook_main demo_web (\<lambda>_. Inr demo_repos) (\<lambda>_. 0) ''kubelease'' None demo_webhook_flags = Inr s"
    using demo_webhook_starts by blast
  have trim: "TrimSpace ''strict'' = ''strict''" "repo_key demo_web '' ACME/shop'' = repo_key demo_web ''Acme/Shop''"
    by code_simp+
  have flags: "wf_github_repo_policies demo_webhook_flags \<noteq> []" by (simp add: demo_webhook_flags_def)
  have one: "fmlookup demo_repos ''Acme/Shop'' = Some ''strict''" by (simp add: demo_repos_def)
  have uniq: "v' = ''strict''" if "fmlookup demo_repos k' = Some v'" for k' v'
    using that by (simp add: demo_repos_def split: if_splits)
  have "PolicyForRepo demo_web s '' ACME/shop'' = TrimSpace ''strict''"
    by (rule configured_repo_policy_applies [OF s flags refl one _ uniq trim(2)], unfold trim(1), simp)
  then show ?thesis unfolding trim(1) using s by blast
qed

theorem controllers_start_sound_witness:
  "\<exists>R g w'. run_state (start_controllers demo_platform (Some HubClient)) demo_world = ((R, g), w')
     \<and> w_trace w' = [] \<and> no_local_outage w' \<and> g = NewTargetGate 4"
proof -
  obtain R g w' where run: "run_state (start_controllers demo_platform (Some HubClient)) demo_world = ((R, g), w')"
    by (cases "run_state (start_controllers demo_platform (Some HubClient)) demo_world") fastforce
  from controllers_start_sound [OF this] run show ?thesis by (auto simp: demo_world_env)
qed

end
