(* ===== verification/Cli.thy ===== *)
theory Cli
  imports Lease_Controller
begin

text \<open>
  The commands of \<open>kubectl-kubelease\<close> that change state: \<open>create\<close> (with its wait loop), \<open>extend\<close>, \<open>touch\<close>, \<open>expire\<close> and
  \<open>cluster disable\<close> and \<open>drain\<close>, from \<open>src/internal/cli\<close>. A line a command prints is an effect \<open>Print\<close>. Parsing of
  durations and quantities and \<open>time.Sleep\<close> are parameters. The wait loop of \<open>create\<close> has fuel; the main result about
  it is that it ends when the clock advances, with fuel given by the timeout.
\<close>

section \<open>Libraries and output\<close>

text \<open>
  \<open>cl_ParseQuantity\<close> is \<open>resource.ParseQuantity\<close>, of which \<open>MustParse\<close> panics when there is no result.
\<close>

record 'w clilib =
  cl_ParseDuration :: "string \<Rightarrow> go_error + duration"
  cl_ParseQuantity :: "string \<Rightarrow> Quantity option"
  cl_Sleep :: "duration \<Rightarrow> 'w \<Rightarrow> unit \<times> 'w"

datatype 'a outcome = Returned 'a | Panicked

fun phase_text :: "LeasePhase \<Rightarrow> string" where
  "phase_text NoPhase = []"
| "phase_text LeasePhasePending = ''Pending''"
| "phase_text LeasePhaseProvisioning = ''Provisioning''"
| "phase_text LeasePhaseActive = ''Active''"
| "phase_text LeasePhaseExpiring = ''Expiring''"
| "phase_text LeasePhaseCleaning = ''Cleaning''"
| "phase_text LeasePhaseExpired = ''Expired''"
| "phase_text LeasePhaseFailed = ''Failed''"

text \<open>\<open>Duration.Round(time.Second)\<close> on a duration that is not negative.\<close>

definition round_second :: "duration \<Rightarrow> duration" where
  "round_second d =
     (let r = d mod Second
      in if 2 * r < Second then d - r
         else let d1 = wrap64 (d + Second - r) in if d1 > d then d1 else 2 ^ 63 - 1)"

text \<open>
  The code truncates the floating-point \<open>d.Hours()\<close> and \<open>d.Minutes()\<close>; on whole seconds their integral part is the
  quotient.
\<close>

definition formatDuration :: "duration \<Rightarrow> string" where
  "formatDuration d =
     (if d < 0 then ''expired''
      else
        let d = round_second d
        in if d < Minute then dur_string d
           else
             let h = d div Hour; m = d div Minute mod 60
             in if h > 0 then itoa h @ ''h'' @ itoa m @ ''m'' else itoa m @ ''m'')"

section \<open>Create\<close>

record createOptions =
  co_ttl :: duration
  co_maxTTL :: duration
  co_idleTTL :: duration
  co_policy :: string
  co_owner :: string
  co_team :: string
  co_cpuRequest :: string
  co_memoryRequest :: string
  co_cpuLimit :: string
  co_memoryLimit :: string
  co_renewable :: bool
  co_defaultDeny :: bool
  co_generateName :: string
  co_namespaceName :: string
  co_wait :: bool
  co_timeout :: duration
  co_warnings :: "string list"
  co_clusterRef :: string
  co_selectors :: "string list"

definition default_createOptions :: createOptions where
  "default_createOptions = \<lparr>co_ttl = 8 * Hour, co_maxTTL = 0, co_idleTTL = 0, co_policy = [], co_owner = [], co_team = [],
     co_cpuRequest = [], co_memoryRequest = [], co_cpuLimit = [], co_memoryLimit = [], co_renewable = True,
     co_defaultDeny = False, co_generateName = ''preview-'', co_namespaceName = [], co_wait = True, co_timeout = 2 * Minute,
     co_warnings = [], co_clusterRef = [], co_selectors = []\<rparr>"

fun parse_warnings :: "'w clilib \<Rightarrow> string list \<Rightarrow> go_error + duration list" where
  "parse_warnings C [] = Inr []"
| "parse_warnings C (w # ws) =
     (case cl_ParseDuration C w of
        Inl err \<Rightarrow> Inl (Wrapf (''invalid --warning '' @ quote w @ '': '') err)
      | Inr d \<Rightarrow> (case parse_warnings C ws of Inl err \<Rightarrow> Inl err | Inr ds \<Rightarrow> Inr (d # ds)))"

text \<open>\<open>None\<close> is the panic of \<open>MustParse\<close>.\<close>

fun quota_list :: "'w clilib \<Rightarrow> (string \<times> string) list \<Rightarrow> ResourceList option" where
  "quota_list C [] = Some fmempty"
| "quota_list C ((r, v) # rest) =
     (if v = [] then quota_list C rest
      else case cl_ParseQuantity C v of
             None \<Rightarrow> None
           | Some q \<Rightarrow> map_option (fmupd r q) (quota_list C rest))"

definition build_quota :: "'w clilib \<Rightarrow> createOptions \<Rightarrow> QuotaSpec option option" where
  "build_quota C o1 =
     (if co_cpuRequest o1 \<noteq> [] \<or> co_memoryRequest o1 \<noteq> [] \<or> co_cpuLimit o1 \<noteq> [] \<or> co_memoryLimit o1 \<noteq> []
      then (case (quota_list C [(''cpu'', co_cpuRequest o1), (''memory'', co_memoryRequest o1)],
                  quota_list C [(''cpu'', co_cpuLimit o1), (''memory'', co_memoryLimit o1)]) of
              (Some rq, Some lm) \<Rightarrow> Some (Some \<lparr>qs_Requests = rq, qs_Limits = lm\<rparr>)
            | _ \<Rightarrow> None)
      else Some None)"

text \<open>\<open>strings.Cut(s, "=")\<close> and the loop over the selectors; a later value of a key replaces an earlier one.\<close>

fun parse_selectors :: "strmap \<Rightarrow> string list \<Rightarrow> go_error + strmap" where
  "parse_selectors match [] = Inr match"
| "parse_selectors match (s # ss) =
     (let k = takeWhile (\<lambda>c. c \<noteq> CHR ''='') s
      in if CHR ''='' \<notin> set s \<or> k = []
         then Inl (Errorf (''invalid --selector '' @ quote s @ '' (want key=value)''))
         else parse_selectors (fmupd k (drop (Suc (length k)) s) match) ss)"

definition lease_max_ttl :: "createOptions \<Rightarrow> duration" where
  "lease_max_ttl o1 = (if co_maxTTL o1 = 0 \<and> co_ttl o1 > 0 then co_ttl o1 else co_maxTTL o1)"

text \<open>Lines 124--152: the lease before warnings, quota, network and placement.\<close>

definition base_lease :: "string \<Rightarrow> createOptions \<Rightarrow> EnvironmentLease" where
  "base_lease name o1 =
     zero_lease\<lparr>el_Meta := zero_meta\<lparr>om_Name := name\<rparr>,
       el_Spec := zero_lease_spec\<lparr>
         sp_Renewable := Some (co_renewable o1),
         sp_Owner := \<lparr>ow_Name = co_owner o1, ow_Team = co_team o1\<rparr>,
         sp_Namespace := zero_namespace_spec\<lparr>nss_GenerateName := co_generateName o1, nss_Name := co_namespaceName o1,
           nss_Labels := fmap_of_list [(''environment'', ''preview'')]\<rparr>,
         sp_PolicyRef := (if co_policy o1 \<noteq> [] then Some \<lparr>lor_Name = co_policy o1\<rparr> else None),
         sp_TTL := (if co_ttl o1 > 0 then Some (co_ttl o1) else None),
         sp_MaxTTL := (if lease_max_ttl o1 > 0 then Some (lease_max_ttl o1) else None),
         sp_IdleTTL := (if co_idleTTL o1 > 0 then Some (co_idleTTL o1) else None)\<rparr>\<rparr>"

definition place_lease :: "createOptions \<Rightarrow> EnvironmentLease \<Rightarrow> go_error + EnvironmentLease" where
  "place_lease o1 l =
     (if co_clusterRef o1 \<noteq> [] \<and> co_selectors o1 \<noteq> []
      then Inl (Errorf ''--cluster-ref and --selector are mutually exclusive'')
      else
        let l = (if co_clusterRef o1 \<noteq> []
                 then l\<lparr>el_Spec := (el_Spec l)\<lparr>sp_ClusterRef := Some \<lparr>lor_Name = co_clusterRef o1\<rparr>\<rparr>\<rparr> else l)
        in if co_selectors o1 \<noteq> []
           then (case parse_selectors fmempty (co_selectors o1) of
                   Inl err \<Rightarrow> Inl err
                 | Inr match \<Rightarrow> Inr (l\<lparr>el_Spec := (el_Spec l)\<lparr>sp_Placement := Some \<lparr>pl_Selector =
                       Some \<lparr>ls_MatchLabels = match, ls_MatchExpressions = []\<rparr>\<rparr>\<rparr>\<rparr>))
           else Inr l)"

definition BuildLease :: "'w clilib \<Rightarrow> string \<Rightarrow> createOptions \<Rightarrow> (go_error + EnvironmentLease) outcome" where
  "BuildLease C name o1 =
     (if co_ttl o1 \<le> 0 \<and> co_policy o1 = []
      then Returned (Inl (Errorf ''--ttl must be greater than zero (or set --policy with a default)''))
      else if co_ttl o1 > 0 \<and> lease_max_ttl o1 > 0 \<and> lease_max_ttl o1 < co_ttl o1
      then Returned (Inl (Errorf ''--max-ttl must be >= --ttl''))
      else case parse_warnings C (co_warnings o1) of
          Inl err \<Rightarrow> Returned (Inl err)
        | Inr ws \<Rightarrow>
            (case build_quota C o1 of
               None \<Rightarrow> Panicked
             | Some q \<Rightarrow>
                 let l = base_lease name o1;
                     l = l\<lparr>el_Spec := (el_Spec l)\<lparr>sp_Warnings := ws, sp_Quota := q,
                       sp_NetworkPolicy := (if co_defaultDeny o1 then Some \<lparr>nps_DefaultDeny = True\<rparr> else None)\<rparr>\<rparr>
                 in Returned (place_lease o1 l)))"

definition conditionMessage :: "EnvironmentLease \<Rightarrow> CondType \<Rightarrow> string" where
  "conditionMessage l condType =
     (case find (\<lambda>c. cd_Type c = condType) (st_Conditions (el_Status l)) of
        Some c \<Rightarrow> cd_Message c
      | None \<Rightarrow> ''unknown failure'')"

text \<open>Lines 232--236: the report on an active lease.\<close>

definition report_active :: "'w platform \<Rightarrow> EnvironmentLease \<Rightarrow> ('w, unit) prog" where
  "report_active P l = do {
     emit (Print (''Namespace: '' @ st_Namespace (el_Status l)));
     emit (Print (''Status:    '' @ phase_text (st_Phase (el_Status l))));
     (case st_ExpiresAt (el_Status l) of
        None \<Rightarrow> State_Monad.return ()
      | Some e \<Rightarrow> do {
          n \<leftarrow> now P;
          emit (Print (''Expires:   in '' @ formatDuration (time_sub e n))) }) }"

text \<open>The loop, with fuel: \<open>None\<close> when the fuel is used up.\<close>

fun wait_active ::
  "'w platform \<Rightarrow> 'w clilib \<Rightarrow> string \<Rightarrow> time \<Rightarrow> nat \<Rightarrow> ('w, go_error option option) prog" where
  "wait_active P C name deadline 0 = State_Monad.return None"
| "wait_active P C name deadline (Suc fuel) = do {
     n \<leftarrow> now P;
     (if \<not> n < deadline
      then State_Monad.return (Some (Some (Errorf (''timed out waiting for EnvironmentLease/'' @ name @ '' to become Active''))))
      else do {
        g \<leftarrow> call (api_GetLease (pf_hub P) name);
        (case g of
           Inl err \<Rightarrow> State_Monad.return (Some (Some err))
         | Inr current \<Rightarrow>
             if st_Phase (el_Status current) = LeasePhaseActive \<or> st_Phase (el_Status current) = LeasePhaseExpiring
             then do { report_active P current; State_Monad.return (Some None) }
             else if st_Phase (el_Status current) = LeasePhaseFailed
             then State_Monad.return (Some (Some (Errorf (''lease failed: '' @ conditionMessage current ConditionReady))))
             else do { call (cl_Sleep C Second); wait_active P C name deadline fuel }) }) }"

definition runCreate ::
  "'w platform \<Rightarrow> 'w clilib \<Rightarrow> nat \<Rightarrow> string \<Rightarrow> createOptions \<Rightarrow> ('w, go_error option outcome option) prog" where
  "runCreate P C fuel name o1 =
     (case BuildLease C name o1 of
        Panicked \<Rightarrow> State_Monad.return (Some Panicked)
      | Returned (Inl err) \<Rightarrow> State_Monad.return (Some (Returned (Some err)))
      | Returned (Inr l) \<Rightarrow> do {
          c \<leftarrow> act (CreateLease l) (api_CreateLease (pf_hub P) l);
          (case c of
             Inl err \<Rightarrow> State_Monad.return (Some (Returned (Some (Wrapf ''create EnvironmentLease: '' err))))
           | Inr _ \<Rightarrow> do {
               emit (Print (''EnvironmentLease/'' @ name @ '' created''));
               (if \<not> co_wait o1 then State_Monad.return (Some (Returned None))
                else do {
                  emit (Print ''Waiting for environment...'');
                  n \<leftarrow> now P;
                  r \<leftarrow> wait_active P C name (n + co_timeout o1) fuel;
                  State_Monad.return (map_option Returned r) }) }) })"

section \<open>Extend, touch, expire\<close>

text \<open>The closure that \<open>RetryOnConflict\<close> runs, lines 56--84.\<close>

definition extend_attempt :: "'w platform \<Rightarrow> string \<Rightarrow> duration \<Rightarrow> ('w, go_error + unit) prog" where
  "extend_attempt P name forDuration = do {
     g \<leftarrow> call (api_GetLease (pf_hub P) name);
     (case g of
        Inl err \<Rightarrow> State_Monad.return (Inl err)
      | Inr l \<Rightarrow>
          (case (st_CreatedAt (el_Status l), st_ExpiresAt (el_Status l), st_MaximumExpiresAt (el_Status l)) of
             (Some c, Some e, Some m) \<Rightarrow>
               (case ComputeExtendedTTL c e m forDuration (IsRenewable (el_Spec l)) of
                  Inl err \<Rightarrow> State_Monad.return (Inl err)
                | Inr (newTTL, newExpires) \<Rightarrow>
                    let patched = l\<lparr>el_Spec := (el_Spec l)\<lparr>sp_TTL := Some newTTL\<rparr>\<rparr>
                    in do {
                      p \<leftarrow> act (PatchLease patched) (api_PatchLease (pf_hub P) patched);
                      (case p of
                         Inl err \<Rightarrow> State_Monad.return (Inl err)
                       | Inr _ \<Rightarrow> do {
                           emit (Print (''EnvironmentLease/'' @ name @ '' extended''));
                           n \<leftarrow> now P;
                           emit (Print (''New expiration: '' @ rfc3339 newExpires @ '' (in ''
                             @ formatDuration (time_sub newExpires n) @ '')''));
                           State_Monad.return (Inr ()) }) })
           | _ \<Rightarrow> State_Monad.return (Inl (Errorf (''lease '' @ name @ '' has not been initialized by the controller yet''))))) }"

definition runExtend :: "'w platform \<Rightarrow> string \<Rightarrow> duration \<Rightarrow> ('w, go_error + unit) prog" where
  "runExtend P name forDuration = lib_RetryTarget P (extend_attempt P name forDuration)"

definition idleTTLFromLease :: "EnvironmentLease \<Rightarrow> duration" where
  "idleTTLFromLease l =
     (case (case st_Effective (el_Status l) of None \<Rightarrow> None | Some e \<Rightarrow> ef_IdleTTL e) of
        Some d \<Rightarrow> d
      | None \<Rightarrow> (case sp_IdleTTL (el_Spec l) of Some d \<Rightarrow> d | None \<Rightarrow> 0))"

text \<open>Lines 72--91: what is printed about the stored lease.\<close>

definition print_time :: "string \<Rightarrow> time option \<Rightarrow> string \<Rightarrow> ('w, unit) prog" where
  "print_time label t suffix =
     (case t of None \<Rightarrow> State_Monad.return () | Some t \<Rightarrow> emit (Print (label @ rfc3339 t @ suffix)))"

definition report_touch :: "string \<Rightarrow> time option \<Rightarrow> time option \<Rightarrow> EnvironmentLease \<Rightarrow> ('w, go_error + unit) prog" where
  "report_touch name beforeHard beforeIdle l =
     (let s = el_Status l
      in do {
        emit (Print (''EnvironmentLease/'' @ name @ '' activity recorded''));
        print_time ''Last activity:      '' (st_LastActivityAt s) [];
        print_time ''Idle expires:       '' (st_IdleExpiresAt s)
          (case (beforeIdle, st_IdleExpiresAt s) of (Some b, Some i) \<Rightarrow> if b < i then '' (extended)'' else [] | _ \<Rightarrow> []);
        print_time ''Effective expires:  '' (st_EffectiveExpiresAt s) [];
        (case (beforeHard, st_ExpiresAt s) of
           (Some b, Some e) \<Rightarrow>
             if e \<noteq> b then State_Monad.return (Inl (Errorf ''internal error: touch must not change hard expiresAt''))
             else do { print_time ''Hard expires:       '' (st_ExpiresAt s) '' (unchanged)''; State_Monad.return (Inr ()) }
         | _ \<Rightarrow> do { print_time ''Hard expires:       '' (st_ExpiresAt s) '' (unchanged)''; State_Monad.return (Inr ()) }) })"

text \<open>The closure, lines 55--92.\<close>

definition touch_attempt :: "'w platform \<Rightarrow> string \<Rightarrow> time \<Rightarrow> ('w, go_error + unit) prog" where
  "touch_attempt P name t = do {
     g \<leftarrow> call (api_GetLease (pf_hub P) name);
     (case g of
        Inl err \<Rightarrow> State_Monad.return (Inl err)
      | Inr l \<Rightarrow>
          (case RecordActivity l t (idleTTLFromLease l) of
             (Some err, _) \<Rightarrow> State_Monad.return (Inl err)
           | (None, l') \<Rightarrow> do {
               u \<leftarrow> act (StatusUpdateLease l') (api_StatusUpdateLease (pf_hub P) l');
               (case u of
                  Inl err \<Rightarrow> State_Monad.return (Inl err)
                | Inr stored \<Rightarrow>
                    report_touch name (st_ExpiresAt (el_Status l)) (st_IdleExpiresAt (el_Status l)) stored) })) }"

definition runTouch :: "'w platform \<Rightarrow> string \<Rightarrow> time \<Rightarrow> ('w, go_error + unit) prog" where
  "runTouch P name t = lib_RetryTarget P (touch_attempt P name t)"

definition runExpire :: "'w platform \<Rightarrow> string \<Rightarrow> ('w, go_error option) prog" where
  "runExpire P name = do {
     g \<leftarrow> call (api_GetLease (pf_hub P) name);
     (case g of
        Inl err \<Rightarrow> State_Monad.return (Some err)
      | Inr l \<Rightarrow> do {
          d \<leftarrow> act (DeleteLease l) (api_DeleteLease (pf_hub P) l);
          (case d of
             Some err \<Rightarrow> State_Monad.return (Some (Wrapf ''delete EnvironmentLease: '' err))
           | None \<Rightarrow> do {
               emit (Print (''EnvironmentLease/'' @ name @ '' expiration requested''));
               emit (Print ''Controller will clean up the managed Namespace via the finalizer.'');
               State_Monad.return None }) }) }"

section \<open>Targets\<close>

definition runClusterSetEnabled :: "'w platform \<Rightarrow> string \<Rightarrow> bool \<Rightarrow> ('w, go_error option) prog" where
  "runClusterSetEnabled P name enabled = do {
     g \<leftarrow> call (api_GetTarget (pf_hub P) name);
     (case g of
        Inl err \<Rightarrow> State_Monad.return (Some err)
      | Inr t \<Rightarrow>
          let t = t\<lparr>ct_Spec := (ct_Spec t)\<lparr>ts_Enabled := Some enabled\<rparr>\<rparr>
          in do {
            u \<leftarrow> act (UpdateTarget t) (api_UpdateTarget (pf_hub P) t);
            State_Monad.return (case u of Inl err \<Rightarrow> Some err | Inr _ \<Rightarrow> None) }) }"

definition remains_on :: "string \<Rightarrow> EnvironmentLease \<Rightarrow> bool" where
  "remains_on name l \<longleftrightarrow>
     (case st_Cluster (el_Status l) of None \<Rightarrow> False | Some c \<Rightarrow> cs_Name c = name)
   \<and> st_Phase (el_Status l) \<noteq> LeasePhaseExpired"

fun print_all :: "string list \<Rightarrow> ('w, unit) prog" where
  "print_all [] = State_Monad.return ()"
| "print_all (s # ss) = do { emit (Print s); print_all ss }"

definition drain_line :: "EnvironmentLease \<Rightarrow> string" where
  "drain_line l = ''  - '' @ el_Name l @ ''  phase='' @ phase_text (st_Phase (el_Status l))
     @ ''  namespace='' @ st_Namespace (el_Status l)"

definition drain :: "'w platform \<Rightarrow> string \<Rightarrow> ('w, go_error option) prog" where
  "drain P name = do {
     e \<leftarrow> runClusterSetEnabled P name False;
     (case e of
        Some err \<Rightarrow> State_Monad.return (Some err)
      | None \<Rightarrow> do {
          ls \<leftarrow> call (api_ListLeases (pf_hub P) None);
          (case ls of
             Inl err \<Rightarrow> State_Monad.return (Some err)
           | Inr items \<Rightarrow>
               let active = filter (remains_on name) items
               in do {
                 emit (Print (''ClusterTarget '' @ quote name @ '' disabled for new placement.''));
                 emit (Print ''Active leases (not deleted):'');
                 print_all (map drain_line active);
                 emit (Print (itoa (int (length active)) @ '' active lease(s) remain until normal expiry.''));
                 State_Monad.return None }) }) }"

end
