(* ===== verification/Cli_Safety.thy ===== *)
theory Cli_Safety
  imports Cli Lease_Effects
begin

text \<open>
  Properties of the commands and of their agreement with the controller: a lease built by \<open>create\<close> resolves to the
  values given on the command line, \<open>extend\<close> announces the deadline the controller stamps for a renewable lease, the wait loop ends,
  \<open>touch\<close> never reports its internal error, and draining a target deletes nothing.
\<close>

section \<open>Create\<close>

lemma place_lease_frame:
  assumes "place_lease o1 l = Inr l'"
  shows "sp_TTL (el_Spec l') = sp_TTL (el_Spec l) \<and> sp_MaxTTL (el_Spec l') = sp_MaxTTL (el_Spec l)
    \<and> sp_IdleTTL (el_Spec l') = sp_IdleTTL (el_Spec l) \<and> sp_Renewable (el_Spec l') = sp_Renewable (el_Spec l)
    \<and> sp_NetworkPolicy (el_Spec l') = sp_NetworkPolicy (el_Spec l)
    \<and> (sp_ClusterRef (el_Spec l') = sp_ClusterRef (el_Spec l) \<or> sp_Placement (el_Spec l') = sp_Placement (el_Spec l))"
  using assms unfolding place_lease_def Let_def
  by (cases "co_clusterRef o1 = []"; cases "co_selectors o1 = []"; cases "parse_selectors fmempty (co_selectors o1)") auto

lemma base_lease_fields:
  "sp_TTL (el_Spec (base_lease n o1)) = (if co_ttl o1 > 0 then Some (co_ttl o1) else None)"
  "sp_MaxTTL (el_Spec (base_lease n o1)) = (if lease_max_ttl o1 > 0 then Some (lease_max_ttl o1) else None)"
  "sp_IdleTTL (el_Spec (base_lease n o1)) = (if co_idleTTL o1 > 0 then Some (co_idleTTL o1) else None)"
  "sp_Renewable (el_Spec (base_lease n o1)) = Some (co_renewable o1)"
  "sp_ClusterRef (el_Spec (base_lease n o1)) = None" "sp_Placement (el_Spec (base_lease n o1)) = None"
  by (simp_all add: base_lease_def zero_lease_spec_def)

lemma build_lease_spec:
  assumes "BuildLease C name o1 = Returned (Inr l)"
  shows "sp_TTL (el_Spec l) = (if co_ttl o1 > 0 then Some (co_ttl o1) else None)"
    "sp_MaxTTL (el_Spec l) = (if lease_max_ttl o1 > 0 then Some (lease_max_ttl o1) else None)"
    "sp_IdleTTL (el_Spec l) = (if co_idleTTL o1 > 0 then Some (co_idleTTL o1) else None)"
    "sp_Renewable (el_Spec l) = Some (co_renewable o1)"
    "sp_NetworkPolicy (el_Spec l) = (if co_defaultDeny o1 then Some \<lparr>nps_DefaultDeny = True\<rparr> else None)"
    "sp_ClusterRef (el_Spec l) = None \<or> sp_Placement (el_Spec l) = None"
    "0 < co_ttl o1 \<or> co_policy o1 \<noteq> []"
    "\<not> (0 < co_ttl o1 \<and> 0 < lease_max_ttl o1 \<and> lease_max_ttl o1 < co_ttl o1)"
proof -
  obtain ws q where g: "\<not> (co_ttl o1 \<le> 0 \<and> co_policy o1 = [])"
    "\<not> (0 < co_ttl o1 \<and> 0 < lease_max_ttl o1 \<and> lease_max_ttl o1 < co_ttl o1)"
    and p: "place_lease o1 ((base_lease name o1)\<lparr>el_Spec := (el_Spec (base_lease name o1))\<lparr>sp_Warnings := ws, sp_Quota := q,
      sp_NetworkPolicy := (if co_defaultDeny o1 then Some \<lparr>nps_DefaultDeny = True\<rparr> else None)\<rparr>\<rparr>) = Inr l"
    using assms unfolding BuildLease_def Let_def
    by (auto split: if_split_asm sum.split_asm option.split_asm)
  from g show "0 < co_ttl o1 \<or> co_policy o1 \<noteq> []"
    "\<not> (0 < co_ttl o1 \<and> 0 < lease_max_ttl o1 \<and> lease_max_ttl o1 < co_ttl o1)" by auto
  note f = place_lease_frame [OF p] base_lease_fields [of name o1]
  show "sp_TTL (el_Spec l) = (if co_ttl o1 > 0 then Some (co_ttl o1) else None)"
    "sp_MaxTTL (el_Spec l) = (if lease_max_ttl o1 > 0 then Some (lease_max_ttl o1) else None)"
    "sp_IdleTTL (el_Spec l) = (if co_idleTTL o1 > 0 then Some (co_idleTTL o1) else None)"
    "sp_Renewable (el_Spec l) = Some (co_renewable o1)"
    "sp_NetworkPolicy (el_Spec l) = (if co_defaultDeny o1 then Some \<lparr>nps_DefaultDeny = True\<rparr> else None)"
    "sp_ClusterRef (el_Spec l) = None \<or> sp_Placement (el_Spec l) = None"
    using f by simp_all
qed

text \<open>
  What \<open>create\<close> builds without a policy is what the controller accepts: whenever \<open>BuildLease\<close> returns a lease, the
  controller's \<open>Resolve\<close> succeeds on it, with the TTL, idle TTL and renewability of the command line and a
  maximum that defaults to the TTL, and the placement fields are never in conflict.
\<close>

theorem built_lease_resolves:
  assumes "BuildLease C name o1 = Returned (Inr l)" "co_policy o1 = []"
  shows "ValidateExclusive (el_Spec l) = None
    \<and> (\<exists>r. Resolve (el_Spec l) None = Inr r \<and> re_TTL r = co_ttl o1
         \<and> re_MaxTTL r = (if 0 < co_maxTTL o1 then co_maxTTL o1 else co_ttl o1)
         \<and> re_IdleTTL r = max 0 (co_idleTTL o1) \<and> re_Renewable r = co_renewable o1
         \<and> re_DefaultDeny r = co_defaultDeny o1)"
proof -
  note spec = build_lease_spec [OF assms(1)]
  have ttl: "0 < co_ttl o1" using spec(7) assms(2) by simp
  have "ValidateExclusive (el_Spec l) = None" using spec(6) by (auto simp: ValidateExclusive_def Let_def ref_name_def)
  moreover have "\<exists>r. Resolve (el_Spec l) None = Inr r \<and> re_TTL r = co_ttl o1
      \<and> re_MaxTTL r = (if 0 < co_maxTTL o1 then co_maxTTL o1 else co_ttl o1)
      \<and> re_IdleTTL r = max 0 (co_idleTTL o1) \<and> re_Renewable r = co_renewable o1
      \<and> re_DefaultDeny r = co_defaultDeny o1"
    using spec(1-5,8) ttl
    by (cases "0 < co_maxTTL o1"; cases "0 < co_idleTTL o1") (simp_all add: resolve_defs Let_def lease_max_ttl_def)
  ultimately show ?thesis by simp
qed

definition demo_cli :: "'w clilib" where
  "demo_cli = \<lparr>cl_ParseDuration = (\<lambda>s. Inr Second), cl_ParseQuantity = (\<lambda>s. None), cl_Sleep = (\<lambda>d w. ((), w))\<rparr>"

theorem built_lease_resolves_witness:
  "\<exists>l r. BuildLease (demo_cli :: unit clilib) ''demo'' (default_createOptions\<lparr>co_idleTTL := Hour, co_warnings := [''1s'']\<rparr>)
       = Returned (Inr l) \<and> Resolve (el_Spec l) None = Inr r \<and> re_TTL r = 8 * Hour \<and> re_MaxTTL r = 8 * Hour
     \<and> re_IdleTTL r = Hour"
proof -
  let ?o = "default_createOptions\<lparr>co_idleTTL := Hour, co_warnings := [''1s'']\<rparr>"
  have p: "build_quota (demo_cli :: unit clilib) ?o = Some None" "\<not> (Hour :: int) \<le> 0"
    by (simp_all add: build_quota_def default_createOptions_def Hour_def Minute_def Second_def)
  obtain l where l: "BuildLease (demo_cli :: unit clilib) ''demo'' ?o = Returned (Inr l)"
    unfolding BuildLease_def p(1)
    by (simp add: place_lease_def default_createOptions_def demo_cli_def lease_max_ttl_def p(2) Let_def)
  with built_lease_resolves [OF this] p(2) show ?thesis by (auto simp: default_createOptions_def)
qed

section \<open>The wait loop ends\<close>

text \<open>
  \<open>clk\<close> is the clock the environment contains: reading it tells its value, it never goes back, and \<open>time.Sleep(d)\<close>
  moves it forward by at least \<open>d\<close>.
\<close>

definition clock_advances :: "('w \<Rightarrow> time) \<Rightarrow> 'w platform \<Rightarrow> 'w clilib \<Rightarrow> bool" where
  "clock_advances clk P C \<longleftrightarrow>
     (\<forall>e. fst (api_Now (pf_hub P) e) = clk (snd (api_Now (pf_hub P) e)) \<and> clk e \<le> clk (snd (api_Now (pf_hub P) e)))
   \<and> (\<forall>n e. clk e \<le> clk (snd (api_GetLease (pf_hub P) n e)))
   \<and> (\<forall>d e. clk e + d \<le> clk (snd (cl_Sleep C d e)))"

lemma wait_active_ends:
  assumes clk: "clock_advances clk P C"
  shows "deadline - clk (w_env w) \<le> int n * Second \<Longrightarrow> fst (run_state (wait_active P C name deadline (Suc n)) w) \<noteq> None"
proof (induction n arbitrary: w)
  case 0
  obtain t e1 where now: "api_Now (pf_hub P) (w_env w) = (t, e1)" by fastforce
  then have "t = clk e1" "clk (w_env w) \<le> clk e1" using clk unfolding clock_advances_def by (metis fst_conv snd_conv)+
  then have "\<not> t < deadline" using 0 by simp
  then show ?case by (simp add: now_def now)
next
  case (Suc n)
  obtain t e1 where now: "api_Now (pf_hub P) (w_env w) = (t, e1)" by fastforce
  obtain g e2 where get: "api_GetLease (pf_hub P) name e1 = (g, e2)" by fastforce
  define e3 where "e3 = snd (cl_Sleep C Second e2)"
  then have sleep: "cl_Sleep C Second e2 = ((), e3)" by (simp add: prod_eq_iff)
  have "clk (w_env w) \<le> clk e1" using clk now unfolding clock_advances_def by (metis snd_conv)
  moreover have "clk e1 \<le> clk e2" using clk get unfolding clock_advances_def by (metis snd_conv)
  moreover have "clk e2 + Second \<le> clk e3" using clk sleep unfolding clock_advances_def by (metis snd_conv)
  ultimately have "deadline - clk e3 \<le> int n * Second" using Suc.prems by (simp add: algebra_simps)
  then have rec: "fst (run_state (wait_active P C name deadline (Suc n)) (w\<lparr>w_env := e3\<rparr>)) \<noteq> None"
    by (intro Suc.IH) simp
  show ?case
  proof (cases "t < deadline")
    case False
    then show ?thesis by (simp add: now_def now)
  next
    case True
    then show ?thesis
      using rec unfolding wait_active.simps(2) [of P C name deadline "Suc n"]
      by (cases g) (simp_all add: now_def now get sleep report_active_def split_beta del: wait_active.simps)
  qed
qed

text \<open>
  C18. \<open>create\<close> always returns: when the clock advances as above, one iteration of its wait loop per second of the
  timeout, and one more, is enough for a result, whatever the API server answers and whatever the phase of the lease.
\<close>

theorem create_returns:
  assumes "clock_advances clk P C" "co_timeout o1 \<le> int n * Second"
  shows "\<exists>r. fst (run_state (runCreate P C (Suc n) name o1) w) = Some r"
proof -
  have wait: "\<exists>r. fst (run_state (wait_active P C name (clk (w_env w1) + co_timeout o1) (Suc n)) w1) = Some r" for w1
    using wait_active_ends [OF assms(1), of "clk (w_env w1) + co_timeout o1" w1 n name] assms(2)
    by (auto simp del: wait_active.simps)
  have read: "fst (api_Now (pf_hub P) e) = clk (snd (api_Now (pf_hub P) e))" for e
    using assms(1) unfolding clock_advances_def by blast
  show ?thesis
  proof (cases "BuildLease C name o1")
    case Panicked
    then show ?thesis by (simp add: runCreate_def)
  next
    case (Returned x)
    show ?thesis
    proof (cases x)
      case (Inl err)
      then show ?thesis using Returned by (simp add: runCreate_def)
    next
      case (Inr l)
      obtain c e1 where create: "api_CreateLease (pf_hub P) l (w_env w) = (c, e1)" by fastforce
      obtain t e2 where now: "api_Now (pf_hub P) e1 = (t, e2)" by fastforce
      have t: "t = clk e2" using read [of e1] now by simp
      have "\<exists>r. fst (run_state (wait_active P C name (clk e2 + co_timeout o1) (Suc n)) (w1\<lparr>w_env := e2\<rparr>)) = Some r" for w1 :: "'a world"
        using wait [of "w1\<lparr>w_env := e2\<rparr>"] by simp
      note this [of "w\<lparr>w_trace := tr\<rparr>" for tr, simplified world.simps]
      then show ?thesis
        using Returned Inr t
        by (cases c; cases "co_wait o1") (simp_all add: runCreate_def act_def create now_def now split_beta del: wait_active.simps)
    qed
  qed
qed

definition clock_platform :: "time platform" where
  "clock_platform = platform_with (empty_hub\<lparr>api_Now := (\<lambda>t. (t, t)), api_GetLease := (\<lambda>n t. (Inr demo_lease, t))\<rparr>)"

theorem create_returns_witness:
  "\<exists>r. fst (run_state (runCreate clock_platform (demo_cli\<lparr>cl_Sleep := (\<lambda>d t. ((), t + d))\<rparr>) (Suc 120) ''demo'' default_createOptions)
     (world_of 0)) = Some r"
  by (rule create_returns [where clk = id])
     (simp_all add: clock_advances_def clock_platform_def default_createOptions_def Minute_def Second_def)

section \<open>Extend\<close>

text \<open>
  What the controller makes of the lease that \<open>extend\<close> patched, at its next reconcile: it resolves the patched spec with
  the policy and stamps the lease (lines 145--169 of the reconciler).
\<close>

lemma extension_stamped:
  assumes "ComputeExtendedTTL c cur m d renewable = Inr (ttl, new)"
    and "st_CreatedAt (el_Status l) = Some c" "st_ExpiresAt (el_Status l) = Some cur" "c \<le> cur" "is_int64 (m - c)"
    and "el_Status l' = el_Status l" "sp_TTL (el_Spec l') = Some ttl" "Resolve (el_Spec l') pol = Inr r"
  shows "\<exists>stamped changed. EnsureTimestamps (set_effective (ToEffectiveStatus r) l') (re_TTL r) (re_MaxTTL r) (re_Renewable r) t
       = Inr (stamped, changed, \<not> re_Renewable r)
     \<and> st_ExpiresAt (el_Status stamped) = Some (if re_Renewable r then new else cur)"
proof -
  let ?l = "set_effective (ToEffectiveStatus r) l'"
  have b: "cur < new" "new \<le> m" "ttl = sat64 (new - c)"
    using assms(1) by (auto simp: ComputeExtendedTTL_def Let_def time_sub_def split: if_splits)
  then have "is_int64 (new - c)" using assms(4,5) by (simp add: int64_defs)
  then have ttl: "ttl = new - c" using b(3) by simp
  have r: "re_TTL r = ttl" "0 < re_TTL r" "re_TTL r \<le> re_MaxTTL r"
    using Resolve_Inr(1,3) [OF assms(8)] by (simp_all add: assms(7) chosen_def within_def)
  have "lease_created ?l t = c" "st_ExpiresAt (el_Status ?l) = Some cur"
    using assms(2,3,6) by (simp_all add: lease_created_def set_effective_def)
  then show ?thesis
    using b(1) ttl unfolding EnsureTimestamps_eq [OF r(2,3)] by (simp add: hard_deadline_def r(1) Let_def)
qed

text \<open>
  C17. \<open>extend\<close> and the controller. When the command succeeds, its last effects are a patch of nothing but the TTL of a
  lease it read and two printed lines, the second with the new deadline; the deadline moved later, by at most the
  requested amount and not past the maximum. For every policy under which the patched spec resolves, the next stamp of
  the controller sets the hard deadline to the printed one if the resolved lease is renewable. If the policy makes it
  non-renewable, which the command does not ask, the old deadline stays and the renewal is reported as rejected.
\<close>

theorem extend_announces_the_deadline:
  assumes "retry_lib P" "run_state (runExtend P name d) w = (Inr (), w')"
  shows "\<exists>l c cur m ttl new n earlier patched.
      (\<exists>e e'. api_GetLease (pf_hub P) name e = (Inr l, e'))
    \<and> st_CreatedAt (el_Status l) = Some c \<and> st_ExpiresAt (el_Status l) = Some cur \<and> st_MaximumExpiresAt (el_Status l) = Some m
    \<and> patched = l\<lparr>el_Spec := (el_Spec l)\<lparr>sp_TTL := Some ttl\<rparr>\<rparr>
    \<and> w_trace w' = earlier @ [PatchLease patched,
        Print (''EnvironmentLease/'' @ name @ '' extended''),
        Print (''New expiration: '' @ rfc3339 new @ '' (in '' @ formatDuration (time_sub new n) @ '')'')]
    \<and> cur < new \<and> new \<le> cur + d \<and> new \<le> m \<and> ttl = time_sub new c
    \<and> (\<forall>pol r t. c \<le> cur \<and> is_int64 (m - c) \<and> Resolve (el_Spec patched) pol = Inr r \<longrightarrow>
         (\<exists>l' changed. EnsureTimestamps (set_effective (ToEffectiveStatus r) patched)
              (re_TTL r) (re_MaxTTL r) (re_Renewable r) t = Inr (l', changed, \<not> re_Renewable r)
            \<and> st_ExpiresAt (el_Status l') = Some (if re_Renewable r then new else cur)))"
proof -
  obtain w0 where "run_state (extend_attempt P name d) w0 = (Inr (), w')"
    by (rule RetryTarget_last [OF assms(1) assms(2) [unfolded runExtend_def]])
  then obtain l c cur m ttl new n e1 e2 where get: "api_GetLease (pf_hub P) name e1 = (Inr l, e2)"
    and st: "st_CreatedAt (el_Status l) = Some c" "st_ExpiresAt (el_Status l) = Some cur" "st_MaximumExpiresAt (el_Status l) = Some m"
    and comp: "ComputeExtendedTTL c cur m d (IsRenewable (el_Spec l)) = Inr (ttl, new)"
    and tr: "w_trace w' = w_trace w0 @ [PatchLease (l\<lparr>el_Spec := (el_Spec l)\<lparr>sp_TTL := Some ttl\<rparr>\<rparr>),
        Print (''EnvironmentLease/'' @ name @ '' extended''),
        Print (''New expiration: '' @ rfc3339 new @ '' (in '' @ formatDuration (time_sub new n) @ '')'')]"
    unfolding extend_attempt_def
    by (auto simp: act_def now_def Let_def split: prod.split_asm sum.split_asm option.split_asm)
  have b: "cur < new" "new \<le> cur + d" "new \<le> m" "ttl = time_sub new c"
    using comp by (auto simp: ComputeExtendedTTL_def Let_def split: if_splits)
  let ?p = "l\<lparr>el_Spec := (el_Spec l)\<lparr>sp_TTL := Some ttl\<rparr>\<rparr>"
  have "el_Status ?p = el_Status l" "sp_TTL (el_Spec ?p) = Some ttl" by simp_all
  then show ?thesis using get st tr b extension_stamped [OF comp st(1,2)] by blast
qed

definition lease_platform :: "EnvironmentLease \<Rightarrow> unit platform" where
  "lease_platform l = platform_with (empty_hub\<lparr>api_GetLease := (\<lambda>n w. (Inr l, w))\<rparr>)"

lemma lease_hub_simps [simp]:
  "api_GetLease (pf_hub (lease_platform l)) n w = (Inr l, w)" "api_Now (pf_hub (lease_platform l)) w = (50, w)"
  "api_PatchLease (pf_hub (lease_platform l)) l' w = (Inr l', w)"
  "api_StatusUpdateLease (pf_hub (lease_platform l)) l' w = (Inr l', w)"
  by (simp_all add: lease_platform_def empty_hub_def)

lemma lease_platform_retry [simp]: "retry_lib (lease_platform l)" "lib_RetryTarget (lease_platform l) fn = fn"
  by (simp_all add: lease_platform_def platform_with_retry)

definition locked_policy :: EnvironmentLeasePolicy where
  "locked_policy = \<lparr>po_Meta = zero_meta, po_Spec = zero_policy_spec\<lparr>ps_Renewable := Some \<lparr>bp_Default = Some False, bp_Force = None\<rparr>\<rparr>\<rparr>"

lemma extend_demo_run:
  "fst (run_state (runExtend (lease_platform active_lease) ''demo'' 30) (world_of ())) = Inr ()"
  "length (w_trace (snd (run_state (runExtend (lease_platform active_lease) ''demo'' 30) (world_of ())))) = 3"
proof -
  have "st_CreatedAt (el_Status active_lease) = Some 0" "st_ExpiresAt (el_Status active_lease) = Some 100"
    "st_MaximumExpiresAt (el_Status active_lease) = Some 200" "IsRenewable (el_Spec active_lease)"
    by (simp_all add: active_lease_def demo_lease_def zero_defs stamp_def IsRenewable_def)
  then show "fst (run_state (runExtend (lease_platform active_lease) ''demo'' 30) (world_of ())) = Inr ()"
    "length (w_trace (snd (run_state (runExtend (lease_platform active_lease) ''demo'' 30) (world_of ())))) = 3"
    by (simp_all add: runExtend_def extend_attempt_def ComputeExtendedTTL_def act_def now_def Let_def)
qed

text \<open>
  A lease at 100 of at most 200, extended by 30: without a policy the controller stamps the later deadline, with one
  that makes the lease non-renewable it keeps 100 and reports a rejected renewal.
\<close>

theorem extend_announces_the_deadline_witness:
  "\<exists>patched a b new r r'.
     w_trace (snd (run_state (runExtend (lease_platform active_lease) ''demo'' 30) (world_of ()))) = [PatchLease patched, a, b]
   \<and> 100 < new \<and> new \<le> 130
   \<and> Resolve (el_Spec patched) None = Inr r \<and> Resolve (el_Spec patched) (Some locked_policy) = Inr r'
   \<and> (\<exists>l' ch. EnsureTimestamps (set_effective (ToEffectiveStatus r) patched) (re_TTL r) (re_MaxTTL r) (re_Renewable r) 50
         = Inr (l', ch, False) \<and> st_ExpiresAt (el_Status l') = Some new)
   \<and> (\<exists>l' ch. EnsureTimestamps (set_effective (ToEffectiveStatus r') patched) (re_TTL r') (re_MaxTTL r') (re_Renewable r') 50
         = Inr (l', ch, True) \<and> st_ExpiresAt (el_Status l') = Some 100)"
proof -
  let ?m = "runExtend (lease_platform active_lease) ''demo'' 30"
  obtain w' where run: "run_state ?m (world_of ()) = (Inr (), w')" "length (w_trace w') = 3"
    using extend_demo_run by (metis prod.collapse snd_conv)
  from extend_announces_the_deadline [OF lease_platform_retry(1) run(1)]
  obtain c cur m ttl new earlier patched a b where e: "st_CreatedAt (el_Status active_lease) = Some c"
    "st_ExpiresAt (el_Status active_lease) = Some cur" "st_MaximumExpiresAt (el_Status active_lease) = Some m"
    "patched = active_lease\<lparr>el_Spec := (el_Spec active_lease)\<lparr>sp_TTL := Some ttl\<rparr>\<rparr>"
    "w_trace w' = earlier @ [PatchLease patched, a, b]" "cur < new" "new \<le> cur + 30" "ttl = time_sub new c"
    and stamped: "\<forall>pol r t. c \<le> cur \<and> is_int64 (m - c) \<and> Resolve (el_Spec patched) pol = Inr r \<longrightarrow>
         (\<exists>l' changed. EnsureTimestamps (set_effective (ToEffectiveStatus r) patched)
              (re_TTL r) (re_MaxTTL r) (re_Renewable r) t = Inr (l', changed, \<not> re_Renewable r)
            \<and> st_ExpiresAt (el_Status l') = Some (if re_Renewable r then new else cur))"
    by auto
  have v: "c = 0" "cur = 100" "m = 200"
    using e(1-3) by (simp_all add: active_lease_def demo_lease_def zero_defs stamp_def)
  then have "0 < ttl" using e(6,8) by (simp add: time_sub_def sat64_def int64_defs)
  then obtain r r' where r: "Resolve (el_Spec patched) None = Inr r" "re_Renewable r"
    "Resolve (el_Spec patched) (Some locked_policy) = Inr r'" "\<not> re_Renewable r'"
    by (simp add: e(4) resolve_defs locked_policy_def active_lease_def demo_lease_def zero_defs stamp_def Let_def)
  have "w_trace w' = [PatchLease patched, a, b]" using e(5) run(2) by simp
  moreover have "c \<le> cur \<and> is_int64 (m - c)" by (simp add: v int64_defs)
  note s = stamped [rule_format, OF conjI [OF this [THEN conjunct1] conjI [OF this [THEN conjunct2]]]]
  ultimately show ?thesis
    using run(1) e(6,7) v r s [OF r(1), of 50] s [OF r(3), of 50]
    by (intro exI [of _ patched] exI [of _ a] exI [of _ b] exI [of _ new] exI [of _ r] exI [of _ r']) simp
qed

section \<open>Touch\<close>

definition touch_may :: "'w platform \<Rightarrow> string \<Rightarrow> effect \<Rightarrow> bool" where
  "touch_may P name x \<longleftrightarrow>
     (case x of
        StatusUpdateLease l' \<Rightarrow> \<exists>l e e'. api_GetLease (pf_hub P) name e = (Inr l, e') \<and> activity_core l' = activity_core l
      | Print _ \<Rightarrow> True
      | _ \<Rightarrow> False)"

lemma touch_may_simps [simp]:
  "touch_may P name (StatusUpdateLease l') \<longleftrightarrow> (\<exists>l e e'. api_GetLease (pf_hub P) name e = (Inr l, e') \<and> activity_core l' = activity_core l)"
  "touch_may P name (Print s)"
  by (simp_all add: touch_may_def)

lemma emits_print_time [emits_rules]: "(\<And>s. Q (Print s)) \<Longrightarrow> emits Q (print_time label x suffix)"
  unfolding print_time_def by (intro emits_rules)

lemma emits_report_touch [emits_rules]: "(\<And>s. Q (Print s)) \<Longrightarrow> emits Q (report_touch name h i l)"
  unfolding report_touch_def Let_def by (intro emits_rules)

lemma emits_touch_attempt: "emits (touch_may P name) (touch_attempt P name t)"
  unfolding touch_attempt_def
proof (rule emits_bind_call, rule emits_sum)
  fix a e e' l assume g: "api_GetLease (pf_hub P) name e = (a, e')" "a = Inr l"
  have "activity_core l' = activity_core l" if "RecordActivity l t (idleTTLFromLease l) = (x, l')" for x l'
    using RecordActivity_core [of l t "idleTTLFromLease l"] that by simp
  with g show "emits (touch_may P name) (case RecordActivity l t (idleTTLFromLease l) of
      (Some err, _) \<Rightarrow> State_Monad.return (Inl err)
    | (None, l') \<Rightarrow> do {
        u \<leftarrow> act (StatusUpdateLease l') (api_StatusUpdateLease (pf_hub P) l');
        (case u of Inl err \<Rightarrow> State_Monad.return (Inl err)
         | Inr stored \<Rightarrow> report_touch name (st_ExpiresAt (el_Status l)) (st_IdleExpiresAt (el_Status l)) stored) })"
    by (auto intro!: emits_rules split: prod.splits option.splits) blast
qed (rule emits_return)

lemma report_touch_ok:
  assumes "st_ExpiresAt (el_Status l) = h"
  shows "fst (run_state (report_touch name h i l) w) = Inr ()"
  using assms by (auto simp: report_touch_def Let_def split_beta split: option.split)

text \<open>
  \<open>touch\<close> never moves the hard deadline. Its only writes are status updates that change nothing but the activity, the
  idle and the effective deadline and the reason of a lease it read; and against an API server that stores the status it
  is sent, every error it returns comes from the read, from \<open>RecordActivity\<close> or from the write: the check for a
  changed hard deadline at the end of the command never fires.
\<close>

theorem touch_keeps_hard_deadline:
  assumes "retry_lib P" "run_state (runTouch P name t) w = (r, w')"
    and "\<And>l e stored e'. api_StatusUpdateLease (pf_hub P) l e = (Inr stored, e') \<Longrightarrow> el_Status stored = el_Status l"
  shows "(\<exists>es. w_trace w' = w_trace w @ es \<and> list_all (touch_may P name) es)
     \<and> (case r of Inr _ \<Rightarrow> True
        | Inl err \<Rightarrow> (\<exists>e e'. api_GetLease (pf_hub P) name e = (Inl err, e'))
            \<or> (\<exists>l e e'. api_GetLease (pf_hub P) name e = (Inr l, e') \<and> fst (RecordActivity l t (idleTTLFromLease l)) = Some err)
            \<or> (\<exists>l e e'. api_StatusUpdateLease (pf_hub P) l e = (Inl err, e')))"
proof
  have "emits (touch_may P name) (runTouch P name t)"
    unfolding runTouch_def by (rule emits_RetryTarget [OF assms(1) emits_touch_attempt])
  from emitsD [OF this assms(2)] show "\<exists>es. w_trace w' = w_trace w @ es \<and> list_all (touch_may P name) es" by metis
next
  obtain w0 where w0: "run_state (touch_attempt P name t) w0 = (r, w')"
    by (rule RetryTarget_last [OF assms(1) assms(2) [unfolded runTouch_def]])
  obtain g e1 where g: "api_GetLease (pf_hub P) name (w_env w0) = (g, e1)" by fastforce
  show "case r of Inr _ \<Rightarrow> True
      | Inl err \<Rightarrow> (\<exists>e e'. api_GetLease (pf_hub P) name e = (Inl err, e'))
          \<or> (\<exists>l e e'. api_GetLease (pf_hub P) name e = (Inr l, e') \<and> fst (RecordActivity l t (idleTTLFromLease l)) = Some err)
          \<or> (\<exists>l e e'. api_StatusUpdateLease (pf_hub P) l e = (Inl err, e'))"
  proof (cases g)
    case (Inl err)
    then have "r = Inl err" using w0 g by (simp add: touch_attempt_def)
    then show ?thesis using g Inl by auto
  next
    case (Inr l)
    obtain x l' where ra: "RecordActivity l t (idleTTLFromLease l) = (x, l')" by fastforce
    obtain u e2 where u: "api_StatusUpdateLease (pf_hub P) l' e1 = (u, e2)" by fastforce
    show ?thesis
    proof (cases x)
      case (Some err)
      then have "r = Inl err" using w0 g Inr ra by (simp add: touch_attempt_def)
      moreover have "fst (RecordActivity l t (idleTTLFromLease l)) = Some err" using ra Some by simp
      ultimately show ?thesis using g Inr by (simp only: sum.case) blast
    next
      case None
      show ?thesis
      proof (cases u)
        case (Inl err)
        then have "r = Inl err" using w0 g Inr ra None u by (simp add: touch_attempt_def act_def)
        then show ?thesis using u Inl by auto
      next
        case stored: (Inr s)
        have "activity_core l' = activity_core l" using RecordActivity_core [of l t "idleTTLFromLease l"] ra by simp
        then have "st_ExpiresAt (el_Status s) = st_ExpiresAt (el_Status l)"
          using assms(3) [of l' e1 s e2] u stored activity_core_fields [of l' l] by simp
        note ok = report_touch_ok [OF this, of name "st_IdleExpiresAt (el_Status l)"
            "w0\<lparr>w_trace := w_trace w0 @ [StatusUpdateLease l'], w_env := e2\<rparr>"]
        have "r = Inr ()" using w0 ok by (simp add: touch_attempt_def act_def g Inr ra None u stored)
        then show ?thesis by simp
      qed
    qed
  qed
qed

theorem touch_keeps_hard_deadline_witness:
  "\<exists>es. w_trace (snd (run_state (runTouch (lease_platform active_lease) ''demo'' 20) (world_of ()))) = w_trace (world_of ()) @ es
     \<and> list_all (touch_may (lease_platform active_lease) ''demo'') es"
proof -
  obtain r w' where "run_state (runTouch (lease_platform active_lease) ''demo'' 20) (world_of ()) = (r, w')" by fastforce
  moreover from touch_keeps_hard_deadline [OF lease_platform_retry(1) this]
  have "\<exists>es. w_trace w' = w_trace (world_of ()) @ es \<and> list_all (touch_may (lease_platform active_lease) ''demo'') es" by simp
  ultimately show ?thesis by simp
qed

section \<open>Drain\<close>

lemma run_print_all [simp]: "run_state (print_all ss) w = ((), w\<lparr>w_trace := w_trace w @ map Print ss\<rparr>)"
  by (induction ss arbitrary: w) simp_all

text \<open>
  Draining a target deletes nothing: when the command succeeds it has disabled the target it read and printed, after
  two lines, exactly the leases of the listing that are placed on it and not expired, and their number; it has written
  nothing else.
\<close>

theorem drain_only_disables:
  assumes "run_state (drain P name) w = (None, w')"
  shows "\<exists>t items e e' f f'. api_GetTarget (pf_hub P) name e = (Inr t, e') \<and> api_ListLeases (pf_hub P) None f = (Inr items, f')
    \<and> w_trace w' = w_trace w @ [UpdateTarget (t\<lparr>ct_Spec := (ct_Spec t)\<lparr>ts_Enabled := Some False\<rparr>\<rparr>)]
        @ map Print ([''ClusterTarget '' @ quote name @ '' disabled for new placement.'', ''Active leases (not deleted):'']
            @ map drain_line (filter (remains_on name) items)
            @ [itoa (int (length (filter (remains_on name) items))) @ '' active lease(s) remain until normal expiry.''])"
  using assms unfolding drain_def runClusterSetEnabled_def
  by (auto simp: act_def Let_def split: prod.split_asm sum.split_asm option.split_asm) blast

theorem drain_only_disables_witness:
  "\<exists>t. w_trace (snd (run_state (drain (platform_with empty_hub) ''east'') (world_of ()))) =
     UpdateTarget (t\<lparr>ct_Spec := (ct_Spec t)\<lparr>ts_Enabled := Some False\<rparr>\<rparr>)
     # map Print [''ClusterTarget '' @ quote ''east'' @ '' disabled for new placement.'', ''Active leases (not deleted):'',
          itoa 0 @ '' active lease(s) remain until normal expiry.'']"
proof -
  have "fst (run_state (drain (platform_with empty_hub) ''east'') (world_of ())) = None"
    by (simp add: drain_def runClusterSetEnabled_def act_def Let_def empty_hub_def)
  then obtain w' where "run_state (drain (platform_with empty_hub) ''east'') (world_of ()) = (None, w')" by (metis prod.collapse)
  from drain_only_disables [OF this] this show ?thesis by (auto simp: empty_hub_def)
qed

end
