(* ===== verification/Cli_Show.thy ===== *)
theory Cli_Show
  imports Cli_Safety
begin

text \<open>
  The commands that only show: \<open>list\<close>, \<open>get\<close>, \<open>cluster list\<close> and \<open>cluster get\<close> of \<open>src/internal/cli\<close>, with
  the choice of the output format. A row of a table is its text before \<open>tabwriter\<close> aligns the columns.
  The serializer of apimachinery is a parameter: it yields what it writes to standard output, or an error.
\<close>

section \<open>Formats\<close>

datatype runtime_object =
    LeaseListObject "EnvironmentLease list" | LeaseObject EnvironmentLease
  | TargetListObject "ClusterTarget list" | TargetObject ClusterTarget

datatype output_format = JsonOutput | YamlOutput

type_synonym serializer = "output_format \<Rightarrow> runtime_object \<Rightarrow> go_error + string"

definition isMachineOutput :: "string \<Rightarrow> bool" where
  "isMachineOutput format \<longleftrightarrow> format = ''json'' \<or> format = ''yaml''"

definition encode :: "serializer \<Rightarrow> output_format \<Rightarrow> runtime_object \<Rightarrow> ('w, go_error option) prog" where
  "encode S fmt obj =
     (case S fmt obj of
        Inl err \<Rightarrow> State_Monad.return (Some err)
      | Inr text \<Rightarrow> do { emit (Print text); State_Monad.return None })"

definition printObject :: "serializer \<Rightarrow> runtime_object \<Rightarrow> string \<Rightarrow> ('w, go_error option) prog" where
  "printObject S obj format =
     (if format = ''json'' then encode S JsonOutput obj
      else if format = ''yaml'' then encode S YamlOutput obj
      else State_Monad.return (Some (Errorf (''unsupported output format '' @ quote format))))"

fun join_with :: "string \<Rightarrow> string list \<Rightarrow> string" where
  "join_with sep [] = []"
| "join_with sep [x] = x"
| "join_with sep (x # y # ys) = x @ sep @ join_with sep (y # ys)"

text \<open>\<open>%v\<close> of a map: its entries ordered by key.\<close>

definition map_text :: "strmap \<Rightarrow> string" where
  "map_text m = ''map['' @ join_with '' '' (map (\<lambda>(k, v). k @ '':'' @ v) (sorted_list_of_fmap m)) @ '']''"

section \<open>Leases\<close>

definition tab :: string where "tab = [CHR 0x09]"

definition lease_cluster :: "EnvironmentLease \<Rightarrow> string" where
  "lease_cluster l = (case st_Cluster (el_Status l) of None \<Rightarrow> [] | Some c \<Rightarrow> cs_Name c)"

text \<open>One iteration of the loop of \<open>runList\<close>.\<close>

definition list_cells :: "time \<Rightarrow> EnvironmentLease \<Rightarrow> string list" where
  "list_cells n item =
     (let owner = ow_Name (sp_Owner (el_Spec item));
          owner = (if owner = [] then ow_Team (sp_Owner (el_Spec item)) else owner);
          expires = (case st_ExpiresAt (el_Status item) of None \<Rightarrow> ''-'' | Some t \<Rightarrow> formatDuration (time_sub t n));
          phase = phase_text (st_Phase (el_Status item));
          phase = (if phase = [] then ''Pending'' else phase);
          cluster = (if lease_cluster item \<noteq> [] then lease_cluster item else ''-'')
      in [el_Name item, cluster, st_Namespace (el_Status item), owner, expires, phase])"

definition list_header :: "string list" where
  "list_header = [''NAME'', ''CLUSTER'', ''NAMESPACE'', ''OWNER'', ''EXPIRES IN'', ''STATUS'']"

definition runList :: "'w platform \<Rightarrow> serializer \<Rightarrow> string \<Rightarrow> ('w, go_error option) prog" where
  "runList P S output = do {
     r \<leftarrow> call (api_ListLeases (pf_hub P) None);
     (case r of
        Inl err \<Rightarrow> State_Monad.return (Some (Wrapf ''list EnvironmentLeases: '' err))
      | Inr items \<Rightarrow>
          if isMachineOutput output then printObject S (LeaseListObject items) output
          else if length items = 0 then do {
            print_all [''No active EnvironmentLeases found.'', [], ''Create one with:'',
              ''  kubectl kubelease create demo --ttl 30m''];
            State_Monad.return None }
          else do {
            emit (Print (join_with tab list_header));
            n \<leftarrow> now P;
            print_all (map (\<lambda>item. join_with tab (list_cells n item)) items);
            State_Monad.return None }) }"

text \<open>The lines of \<open>runGet\<close>; a line whose field is absent is not printed.\<close>

definition opt_line :: "string \<Rightarrow> ('a \<Rightarrow> string) \<Rightarrow> 'a option \<Rightarrow> string list" where
  "opt_line label f x = (case x of None \<Rightarrow> [] | Some y \<Rightarrow> [label @ f y])"

definition get_lines :: "time \<Rightarrow> EnvironmentLease \<Rightarrow> string list" where
  "get_lines n l =
     [''Name:               '' @ el_Name l, ''Namespace:          '' @ st_Namespace (el_Status l)]
   @ (if lease_cluster l \<noteq> [] then [''Cluster:            '' @ lease_cluster l] else [])
   @ (if ref_name (sp_ClusterRef (el_Spec l)) \<noteq> []
      then [''ClusterRef:         '' @ ref_name (sp_ClusterRef (el_Spec l))] else [])
   @ opt_line ''Placement:          '' (\<lambda>s. map_text (ls_MatchLabels s))
       (case sp_Placement (el_Spec l) of None \<Rightarrow> None | Some p \<Rightarrow> pl_Selector p)
   @ [''Owner:              '' @ ow_Name (sp_Owner (el_Spec l)), ''Team:               '' @ ow_Team (sp_Owner (el_Spec l)),
      ''Status:             '' @ phase_text (st_Phase (el_Status l))]
   @ opt_line ''Created:            '' (\<lambda>t. formatDuration (time_sub n t) @ '' ago'') (st_CreatedAt (el_Status l))
   @ opt_line ''Hard expires:       in '' (\<lambda>t. formatDuration (time_sub t n)) (st_ExpiresAt (el_Status l))
   @ opt_line ''Idle expires:       in '' (\<lambda>t. formatDuration (time_sub t n)) (st_IdleExpiresAt (el_Status l))
   @ opt_line ''Effective expires:  in '' (\<lambda>t. formatDuration (time_sub t n)) (st_EffectiveExpiresAt (el_Status l))
   @ opt_line ''Last activity:      '' (\<lambda>t. formatDuration (time_sub n t) @ '' ago'') (st_LastActivityAt (el_Status l))
   @ (if st_ExpirationReason (el_Status l) \<noteq> NoExpirationReason
      then [''Expiration reason:  '' @ expiration_reason_text (st_ExpirationReason (el_Status l))] else [])
   @ opt_line ''Maximum expiration: in '' (\<lambda>t. formatDuration (time_sub t n)) (st_MaximumExpiresAt (el_Status l))
   @ [''Renewable:          '' @ (if \<not> IsRenewable (el_Spec l) then ''no'' else ''yes'')]"

definition runGet :: "'w platform \<Rightarrow> serializer \<Rightarrow> string \<Rightarrow> string \<Rightarrow> ('w, go_error option) prog" where
  "runGet P S output name = do {
     r \<leftarrow> call (api_GetLease (pf_hub P) name);
     (case r of
        Inl err \<Rightarrow> State_Monad.return (Some err)
      | Inr l \<Rightarrow>
          if isMachineOutput output then printObject S (LeaseObject l) output
          else do {
            n \<leftarrow> now P;
            print_all (get_lines n l);
            State_Monad.return None }) }"

section \<open>Targets\<close>

definition ready_text :: "'a k8slib_scheme \<Rightarrow> ClusterTarget \<Rightarrow> string" where
  "ready_text K t = (if IsStatusConditionTrue K (tst_Conditions (ct_Status t)) ConditionReady then ''True'' else ''False'')"

definition target_cells :: "'a k8slib_scheme \<Rightarrow> ClusterTarget \<Rightarrow> string list" where
  "target_cells K t =
     (let region = lk (SchedulingLabels t) ''kubelease.io/region'';
          region = (if region = [] then lk (SchedulingLabels t) ''region'' else region);
          active = (case tst_Capacity (ct_Status t) of None \<Rightarrow> 0 | Some c \<Rightarrow> cc_ActiveLeases c)
      in [ct_Name t, ready_text K t, bool_text (IsEnabled (ct_Spec t)), region, itoa active])"

definition target_header :: "string list" where
  "target_header = [''NAME'', ''READY'', ''ENABLED'', ''REGION'', ''ACTIVE LEASES'']"

definition runClusterList :: "'w platform \<Rightarrow> serializer \<Rightarrow> string \<Rightarrow> ('w, go_error option) prog" where
  "runClusterList P S output = do {
     r \<leftarrow> call (api_ListTargets (pf_hub P));
     (case r of
        Inl err \<Rightarrow> State_Monad.return (Some err)
      | Inr items \<Rightarrow>
          if isMachineOutput output then printObject S (TargetListObject items) output
          else if length items = 0 then do {
            print_all [''No ClusterTargets found.'', [],
              ''Register a remote cluster, or omit placement to use the local cluster.'', ''See docs/multicluster.md''];
            State_Monad.return None }
          else do {
            print_all (map (join_with tab) (target_header # map (target_cells (pf_lib P)) items));
            State_Monad.return None }) }"

text \<open>The scheduling labels are printed in the order the map is ranged over.\<close>

definition target_lines :: "'w platform \<Rightarrow> ClusterTarget \<Rightarrow> string list" where
  "target_lines P t =
     [''Name:               '' @ ct_Name t, ''Ready:              '' @ ready_text (pf_lib P) t,
      ''Enabled:            '' @ bool_text (IsEnabled (ct_Spec t)),
      ''Kubernetes version: '' @ tst_KubernetesVersion (ct_Status t)]
   @ (case tst_Capacity (ct_Status t) of
        None \<Rightarrow> []
      | Some c \<Rightarrow> (''Active leases:      '' @ itoa (cc_ActiveLeases c))
          # opt_line ''Max leases:         '' (\<lambda>m. itoa m @ '' (soft)'') (cc_MaxLeases c))
   @ (let labels = SchedulingLabels t
      in if maplen labels > 0
         then ''Scheduling labels:'' # map (\<lambda>(k, v). ''  '' @ k @ ''='' @ v) (iteration (lib_Rank P 0) labels)
         else [])"

definition runClusterGet :: "'w platform \<Rightarrow> serializer \<Rightarrow> string \<Rightarrow> string \<Rightarrow> ('w, go_error option) prog" where
  "runClusterGet P S output name = do {
     r \<leftarrow> call (api_GetTarget (pf_hub P) name);
     (case r of
        Inl err \<Rightarrow> State_Monad.return (Some err)
      | Inr t \<Rightarrow>
          if isMachineOutput output then printObject S (TargetObject t) output
          else do { print_all (target_lines P t); State_Monad.return None }) }"

section \<open>Lemmas\<close>

definition is_print :: "effect \<Rightarrow> bool" where
  "is_print e \<longleftrightarrow> (case e of Print _ \<Rightarrow> True | _ \<Rightarrow> False)"

lemma is_print_Print [simp]: "is_print (Print s)"
  by (simp add: is_print_def)

lemma emits_print_all [emits_rules]: "(\<And>s. Q (Print s)) \<Longrightarrow> emits Q (print_all ss)"
  by (induction ss) (auto intro: emits_rules)

lemma emits_printObject [emits_rules]: "(\<And>s. Q (Print s)) \<Longrightarrow> emits Q (printObject S obj format)"
  unfolding printObject_def encode_def by (intro emits_rules)

text \<open>The callers of \<open>printObject\<close> have checked the format: its last branch is never taken.\<close>

lemma printObject_machine:
  "isMachineOutput format \<Longrightarrow> printObject S obj format = encode S (if format = ''json'' then JsonOutput else YamlOutput) obj"
  by (auto simp: isMachineOutput_def printObject_def)

lemma fmt_scaled_unit: "s \<noteq> [] \<Longrightarrow> last (fmt_scaled p v s) = last s" "s \<noteq> [] \<Longrightarrow> fmt_scaled p v s \<noteq> []"
  by (simp_all add: fmt_scaled_def split: prod.split)

lemma last_dur_string_abs: "dur_string_abs u \<noteq> [] \<and> last (dur_string_abs u) = CHR ''s''"
proof (cases "u < 1000000000")
  case True
  then show ?thesis by (simp add: dur_string_abs_def fmt_scaled_unit micro_unit_def)
next
  case False
  obtain fr secs where "fmt_frac 9 u False [] = (fr, secs)" by fastforce
  with False show ?thesis by (simp add: dur_string_abs_def Let_def del: dec.simps fmt_frac.simps)
qed

lemma last_dur_string: "last (dur_string d) = CHR ''s''"
  using last_dur_string_abs by (simp add: dur_string_def)

lemma formatDuration_expired: "formatDuration d = ''expired'' \<longleftrightarrow> d < 0"
proof
  assume eq: "formatDuration d = ''expired''"
  show "d < 0"
  proof (rule ccontr)
    assume "\<not> d < 0"
    then have "last (formatDuration d) = CHR ''s'' \<or> last (formatDuration d) = CHR ''m''"
      by (simp add: formatDuration_def Let_def last_dur_string)
    with eq show False by simp
  qed
qed (simp add: formatDuration_def)

section \<open>Properties\<close>

text \<open>
  \<open>list\<close> shows every lease and changes nothing: when the API server answers with leases and no machine format
  is asked for, the command prints a header and one row per lease in the order of the answer, and nothing else.
  The column EXPIRES IN reads \<open>expired\<close> exactly when the hard deadline has passed; a lease whose idle deadline has
  passed, which the controller is cleaning up, still shows time left.
\<close>

theorem list_shows_hard_deadlines:
  assumes "api_ListLeases (pf_hub P) None (w_env w) = (Inr items, e)" and "items \<noteq> []" and "\<not> isMachineOutput output"
    and "api_Now (pf_hub P) e = (n, e')"
  shows "run_state (runList P S output) w
       = (None, w\<lparr>w_env := e', w_trace := w_trace w @ map (Print \<circ> join_with tab) (list_header # map (list_cells n) items)\<rparr>)
     \<and> (\<forall>l h. l \<in> set items \<longrightarrow> st_ExpiresAt (el_Status l) = Some h \<longrightarrow>
          (list_cells n l ! 4 = ''expired'' \<longleftrightarrow> h < n))"
proof -
  have run: "run_state (runList P S output) w
       = (None, w\<lparr>w_env := e', w_trace := w_trace w @ map (Print \<circ> join_with tab) (list_header # map (list_cells n) items)\<rparr>)"
    using assms by (simp add: runList_def now_def comp_def)
  have "list_cells n l ! 4 = ''expired'' \<longleftrightarrow> h < n" if "st_ExpiresAt (el_Status l) = Some h" for l h
    using that by (simp add: list_cells_def Let_def formatDuration_expired time_sub_def sat64_def int64_defs min_def)
  with run show ?thesis by blast
qed

lemma show_commands_only_print:
  "emits is_print (runList P S output)" "emits is_print (runGet P S output name)"
  "emits is_print (runClusterList P S output)" "emits is_print (runClusterGet P S output name)"
  unfolding runList_def runGet_def runClusterList_def runClusterGet_def
  by (intro emits_rules is_print_Print)+

text \<open>A lease whose idle deadline has passed, listed as having 100 seconds left.\<close>

definition idle_lease :: EnvironmentLease where
  "idle_lease = demo_lease\<lparr>el_Status := zero_lease_status\<lparr>st_ExpiresAt := Some (50 + 100 * Second),
     st_IdleExpiresAt := Some 40, st_EffectiveExpiresAt := Some 40\<rparr>\<rparr>"

definition idle_platform :: "unit platform" where
  "idle_platform = platform_with (empty_hub\<lparr>api_ListLeases := (\<lambda>f w. (Inr [idle_lease], w))\<rparr>)"

theorem list_shows_hard_deadlines_witness:
  "IsExpired idle_lease 50 \<and> list_cells 50 idle_lease ! 4 \<noteq> ''expired''
   \<and> length (w_trace (snd (run_state (runList idle_platform (\<lambda>_ _. Inr []) []) (world_of ())))) = 2"
proof -
  have "IsExpired idle_lease 50" by (simp add: idle_lease_def IsExpired_def EffectiveDeadline_def)
  moreover have "st_ExpiresAt (el_Status idle_lease) = Some (50 + 100 * Second)" by (simp add: idle_lease_def)
  ultimately show ?thesis
    using list_shows_hard_deadlines [of idle_platform "world_of ()" "[idle_lease]" "()" "[]" 50 "()" "\<lambda>_ _. Inr []"]
    by (simp add: idle_platform_def empty_hub_def isMachineOutput_def dur_units)
qed

end
