(* ===== verification/Cli_Root.thy ===== *)
theory Cli_Root
  imports Cli_Safety Cli_Show
begin

text \<open>
  The plugin as a whole: the global flags and \<open>newClient\<close> of \<open>src/internal/cli/root.go\<close>, the commands below it as cobra
  has parsed them, each with its \<open>RunE\<close>, and the exit code of \<open>src/cmd/kubectl-kubelease/main.go\<close>. What client-go
  makes of kubeconfig files is a parameter; it yields the client, here the platform of the command.
\<close>

section \<open>The client\<close>

record GlobalFlags =
  gf_Kubeconfig :: string
  gf_Context :: string
  gf_Output :: string

text \<open>
  \<open>kc_ClientConfig\<close> is \<open>NewNonInteractiveDeferredLoadingClientConfig(rules, overrides).ClientConfig()\<close> with the explicit
  path of the rules and the context of the overrides, both empty by default; \<open>kc_New\<close> is \<open>client.New\<close>.
\<close>

record ('c, 'w) kubeclient =
  kc_ClientConfig :: "string \<Rightarrow> string \<Rightarrow> go_error + 'c"
  kc_New :: "'c \<Rightarrow> go_error + 'w platform"

definition newClient :: "('c, 'w) kubeclient \<Rightarrow> GlobalFlags \<Rightarrow> go_error + 'w platform" where
  "newClient K gf =
     (let explicitPath = (if gf_Kubeconfig gf \<noteq> [] then gf_Kubeconfig gf else []);
          currentContext = (if gf_Context gf \<noteq> [] then gf_Context gf else [])
      in case kc_ClientConfig K explicitPath currentContext of
           Inl err \<Rightarrow> Inl (Wrapf ''load kubeconfig: '' err)
         | Inr cfg \<Rightarrow> kc_New K cfg)"

section \<open>Commands\<close>

datatype command =
    CreateCommand string createOptions | ListCommand | GetCommand string
  | ClusterListCommand | ClusterGetCommand string | ClusterDisableCommand string | ClusterDrainCommand string
  | ExtendCommand string duration | TouchCommand string | ExpireCommand string

definition finish :: "('w, go_error option) prog \<Rightarrow> ('w, go_error option outcome option) prog" where
  "finish m = do { r \<leftarrow> m; State_Monad.return (Some (Returned r)) }"

text \<open>The \<open>RunE\<close> of each command after \<open>newClient\<close>; \<open>None\<close> is a wait loop without fuel.\<close>

fun run_command ::
  "'w platform \<Rightarrow> 'w clilib \<Rightarrow> serializer \<Rightarrow> nat \<Rightarrow> GlobalFlags \<Rightarrow> command \<Rightarrow> ('w, go_error option outcome option) prog" where
  "run_command P C S fuel gf (CreateCommand name opts) = runCreate P C fuel name opts"
| "run_command P C S fuel gf ListCommand = finish (runList P S (gf_Output gf))"
| "run_command P C S fuel gf (GetCommand name) = finish (runGet P S (gf_Output gf) name)"
| "run_command P C S fuel gf ClusterListCommand = finish (runClusterList P S (gf_Output gf))"
| "run_command P C S fuel gf (ClusterGetCommand name) = finish (runClusterGet P S (gf_Output gf) name)"
| "run_command P C S fuel gf (ClusterDisableCommand name) = finish (runClusterSetEnabled P name False)"
| "run_command P C S fuel gf (ClusterDrainCommand name) = finish (drain P name)"
| "run_command P C S fuel gf (ExtendCommand name forDuration) =
     finish (do { r \<leftarrow> runExtend P name forDuration; State_Monad.return (err_of r) })"
| "run_command P C S fuel gf (TouchCommand name) =
     finish (do { t \<leftarrow> now P; r \<leftarrow> runTouch P name t; State_Monad.return (err_of r) })"
| "run_command P C S fuel gf (ExpireCommand name) = finish (runExpire P name)"

definition execute ::
  "('c, 'w) kubeclient \<Rightarrow> 'w clilib \<Rightarrow> serializer \<Rightarrow> nat \<Rightarrow> GlobalFlags \<Rightarrow> command
     \<Rightarrow> ('w, go_error option outcome option) prog" where
  "execute K C S fuel gf cmd =
     (case newClient K gf of
        Inl err \<Rightarrow> State_Monad.return (Some (Returned (Some err)))
      | Inr P \<Rightarrow> run_command P C S fuel gf cmd)"

text \<open>\<open>main\<close>: 1 after an error; a Go program that panics ends with 2.\<close>

fun exit_code :: "go_error option outcome \<Rightarrow> nat" where
  "exit_code (Returned None) = 0"
| "exit_code (Returned (Some err)) = 1"
| "exit_code Panicked = 2"

section \<open>What a command may write\<close>

definition read_lease :: "'w platform \<Rightarrow> string \<Rightarrow> EnvironmentLease \<Rightarrow> bool" where
  "read_lease P name l \<longleftrightarrow> (\<exists>e e'. api_GetLease (pf_hub P) name e = (Inr l, e'))"

definition read_target :: "'w platform \<Rightarrow> string \<Rightarrow> ClusterTarget \<Rightarrow> bool" where
  "read_target P name t \<longleftrightarrow> (\<exists>e e'. api_GetTarget (pf_hub P) name e = (Inr t, e'))"

definition disabled :: "ClusterTarget \<Rightarrow> ClusterTarget" where
  "disabled t = t\<lparr>ct_Spec := (ct_Spec t)\<lparr>ts_Enabled := Some False\<rparr>\<rparr>"

text \<open>The one write each command is for; commands not listed have none.\<close>

fun command_writes :: "'w platform \<Rightarrow> 'w clilib \<Rightarrow> command \<Rightarrow> effect \<Rightarrow> bool" where
  "command_writes P C (CreateCommand name opts) x \<longleftrightarrow> (\<exists>l. x = CreateLease l \<and> BuildLease C name opts = Returned (Inr l))"
| "command_writes P C (ClusterDisableCommand name) x \<longleftrightarrow> (\<exists>t. x = UpdateTarget (disabled t) \<and> read_target P name t)"
| "command_writes P C (ClusterDrainCommand name) x \<longleftrightarrow> (\<exists>t. x = UpdateTarget (disabled t) \<and> read_target P name t)"
| "command_writes P C (ExtendCommand name d) x \<longleftrightarrow>
     (\<exists>l c e m ttl new. x = PatchLease (l\<lparr>el_Spec := (el_Spec l)\<lparr>sp_TTL := Some ttl\<rparr>\<rparr>) \<and> read_lease P name l
        \<and> st_CreatedAt (el_Status l) = Some c \<and> st_ExpiresAt (el_Status l) = Some e \<and> st_MaximumExpiresAt (el_Status l) = Some m
        \<and> ComputeExtendedTTL c e m d (IsRenewable (el_Spec l)) = Inr (ttl, new))"
| "command_writes P C (TouchCommand name) x \<longleftrightarrow>
     (\<exists>l l'. x = StatusUpdateLease l' \<and> read_lease P name l \<and> activity_core l' = activity_core l)"
| "command_writes P C (ExpireCommand name) x \<longleftrightarrow> (\<exists>l. x = DeleteLease l \<and> read_lease P name l)"
| "command_writes P C _ x \<longleftrightarrow> False"

definition command_may :: "'w platform \<Rightarrow> 'w clilib \<Rightarrow> command \<Rightarrow> effect \<Rightarrow> bool" where
  "command_may P C cmd x \<longleftrightarrow> is_print x \<or> command_writes P C cmd x"

lemma command_may_Print [simp]: "command_may P C cmd (Print s)"
  by (simp add: command_may_def)

lemma emits_finish [emits_rules]: "emits Q m \<Longrightarrow> emits Q (finish m)"
  unfolding finish_def by (intro emits_rules)

lemma emits_report_active [emits_rules]: "(\<And>s. Q (Print s)) \<Longrightarrow> emits Q (report_active P l)"
  unfolding report_active_def by (intro emits_rules)

lemma emits_wait_active [emits_rules]: "(\<And>s. Q (Print s)) \<Longrightarrow> emits Q (wait_active P C name deadline fuel)"
  by (induction fuel) (auto intro!: emits_rules)

lemma emits_create: "emits (command_may P C (CreateCommand name opts)) (runCreate P C fuel name opts)"
proof (cases "BuildLease C name opts")
  case (Returned r)
  then show ?thesis
    unfolding runCreate_def by (cases r) (auto intro!: emits_rules simp: command_may_def)
qed (simp add: runCreate_def emits_return)

lemma emits_set_enabled:
  assumes "\<And>t. read_target P name t \<Longrightarrow> Q (UpdateTarget (disabled t))"
  shows "emits Q (runClusterSetEnabled P name False)"
  unfolding runClusterSetEnabled_def Let_def
  by (rule emits_bind_call, rule emits_sum, intro emits_rules, intro emits_rules)
     (use assms in \<open>auto simp: read_target_def disabled_def\<close>)

lemma emits_drain:
  assumes "\<And>t. read_target P name t \<Longrightarrow> Q (UpdateTarget (disabled t))" "\<And>s. Q (Print s)"
  shows "emits Q (drain P name)"
  unfolding drain_def by (intro emits_rules emits_set_enabled assms)

lemma read_leaseI: "api_GetLease (pf_hub P) name e = (Inr l, e') \<Longrightarrow> read_lease P name l"
  unfolding read_lease_def by blast

lemma extend_writes:
  assumes "read_lease P name l" "st_CreatedAt (el_Status l) = Some c" "st_ExpiresAt (el_Status l) = Some e"
    and "st_MaximumExpiresAt (el_Status l) = Some m" "ComputeExtendedTTL c e m d (IsRenewable (el_Spec l)) = Inr (ttl, new)"
  shows "command_may P C (ExtendCommand name d) (PatchLease (l\<lparr>el_Spec := (el_Spec l)\<lparr>sp_TTL := Some ttl\<rparr>\<rparr>))"
  using assms unfolding command_may_def command_writes.simps by blast

lemma emits_extend: "emits (command_may P C (ExtendCommand name d)) (extend_attempt P name d)"
  unfolding extend_attempt_def Let_def
  by (rule emits_bind_call, rule emits_sum, intro emits_rules, intro emits_rules)
     (auto intro!: extend_writes intro: read_leaseI)

lemma emits_expire: "emits (command_may P C (ExpireCommand name)) (runExpire P name)"
  unfolding runExpire_def
  by (rule emits_bind_call, rule emits_sum) (auto intro!: emits_rules simp: command_may_def read_lease_def)

lemma touch_may_command: "touch_may P name x \<Longrightarrow> command_may P C (TouchCommand name) x"
  by (auto simp: touch_may_def command_may_def read_lease_def is_print_def split: effect.splits)

lemma emits_run_command:
  assumes "retry_lib P"
  shows "emits (command_may P C cmd) (run_command P C S fuel gf cmd)"
proof (cases cmd)
  case (TouchCommand name)
  have "emits (command_may P C cmd) (touch_attempt P name t)" for t
    unfolding TouchCommand by (rule emits_mono [OF emits_touch_attempt touch_may_command])
  then show ?thesis
    unfolding TouchCommand run_command.simps runTouch_def
    by (intro emits_rules emits_RetryTarget [OF assms]) (simp_all add: TouchCommand)
next
  case (ExtendCommand name d)
  then show ?thesis
    unfolding runExtend_def by (auto intro!: emits_rules emits_RetryTarget [OF assms] emits_extend simp: runExtend_def)
next
  case ListCommand
  show ?thesis unfolding ListCommand run_command.simps by (intro emits_rules emits_mono [OF show_commands_only_print(1)]) (simp add: command_may_def)
next
  case (GetCommand name)
  show ?thesis unfolding GetCommand run_command.simps by (intro emits_rules emits_mono [OF show_commands_only_print(2)]) (simp add: command_may_def)
next
  case ClusterListCommand
  show ?thesis unfolding ClusterListCommand run_command.simps by (intro emits_rules emits_mono [OF show_commands_only_print(3)]) (simp add: command_may_def)
next
  case (ClusterGetCommand name)
  show ?thesis unfolding ClusterGetCommand run_command.simps by (intro emits_rules emits_mono [OF show_commands_only_print(4)]) (simp add: command_may_def)
qed (auto intro!: emits_rules emits_create emits_expire emits_set_enabled emits_drain simp: command_may_def)

lemma run_command_panics:
  assumes "run_state (run_command P C S fuel gf cmd) w = (r, w')" "r = Some Panicked"
  shows "\<exists>name opts. cmd = CreateCommand name opts \<and> BuildLease C name opts = Panicked"
proof -
  have fin: "returns (\<lambda>r. r \<noteq> Some Panicked) (finish m)" for m :: "('a, go_error option) prog"
    unfolding finish_def by (intro returns_rules) simp
  have create: "returns (\<lambda>r. r = Some Panicked \<longrightarrow> BuildLease C name opts = Panicked) (runCreate P C fuel name opts)" for name opts
    unfolding runCreate_def
    by (cases "BuildLease C name opts") (auto intro!: returns_rules split: sum.split simp: option.map_disc_iff)
  show ?thesis
  proof (cases cmd)
    case (CreateCommand name opts)
    with assms returnsD [OF create] show ?thesis by simp
  qed (use assms returnsD [OF fin] in \<open>fastforce\<close>)+
qed

section \<open>Properties\<close>

text \<open>
  C37. The plugin writes only what it was asked to. Without a usable kubeconfig a command does nothing and exits with 1.
  With one, it prints, and its only writes are: the lease that \<open>BuildLease\<close> makes of the flags (\<open>create\<close>); the lease of
  the given name with a new TTL that \<open>ComputeExtendedTTL\<close> allowed (\<open>extend\<close>); its status with new activity and nothing
  else but the derived deadlines (\<open>touch\<close>); its deletion (\<open>expire\<close>); the target of the given name, disabled (\<open>disable\<close>,
  \<open>drain\<close>). \<open>list\<close>, \<open>get\<close> and their siblings for targets write nothing, and only a \<open>create\<close> with an unparsable
  quantity can panic.
\<close>

theorem plugin_writes_only_its_object:
  assumes "\<And>cfg P. kc_New K cfg = Inr P \<Longrightarrow> retry_lib P"
    and "run_state (execute K C S fuel gf cmd) w = (r, w')"
  shows "case newClient K gf of
      Inl err \<Rightarrow> w' = w \<and> map_option exit_code r = Some 1
    | Inr P \<Rightarrow> (\<exists>es. w_trace w' = w_trace w @ es \<and> list_all (command_may P C cmd) es)
        \<and> (r = Some Panicked \<longrightarrow> (\<exists>name opts. cmd = CreateCommand name opts \<and> BuildLease C name opts = Panicked))"
proof (cases "newClient K gf")
  case (Inl err)
  then show ?thesis using assms(2) by (auto simp: execute_def)
next
  case (Inr P)
  then have run: "run_state (run_command P C S fuel gf cmd) w = (r, w')" using assms(2) by (simp add: execute_def)
  have "retry_lib P" using Inr assms(1) by (auto simp: newClient_def Let_def split: sum.splits)
  from emitsD [OF emits_run_command [OF this] run]
  have "\<exists>es. w_trace w' = w_trace w @ es \<and> list_all (command_may P C cmd) es" by metis
  moreover have "\<exists>name opts. cmd = CreateCommand name opts \<and> BuildLease C name opts = Panicked" if "r = Some Panicked"
    using run that by (rule run_command_panics)
  ultimately show ?thesis using Inr by simp
qed

text \<open>A kubeconfig that leads to the platform with one active lease, and the command \<open>expire\<close> on it.\<close>

definition demo_kube :: "(unit, unit) kubeclient" where
  "demo_kube = \<lparr>kc_ClientConfig = (\<lambda>p c. Inr ()), kc_New = (\<lambda>cfg. Inr (lease_platform active_lease))\<rparr>"

definition demo_flags :: GlobalFlags where
  "demo_flags = \<lparr>gf_Kubeconfig = [], gf_Context = [], gf_Output = []\<rparr>"

lemma demo_expire:
  "run_state (execute demo_kube demo_cli (\<lambda>f obj. Inr []) 0 demo_flags (ExpireCommand ''demo'')) (world_of ())
     = (Some (Returned None), (world_of ())\<lparr>w_trace := [DeleteLease active_lease,
          Print ''EnvironmentLease/demo expiration requested'',
          Print ''Controller will clean up the managed Namespace via the finalizer.'']\<rparr>)"
  by (simp add: execute_def newClient_def demo_kube_def demo_flags_def finish_def runExpire_def act_def world_of_def lease_platform_def empty_hub_def)

theorem plugin_writes_only_its_object_witness:
  "list_all (command_may (lease_platform active_lease) demo_cli (ExpireCommand ''demo''))
     [DeleteLease active_lease, Print ''EnvironmentLease/demo expiration requested'',
      Print ''Controller will clean up the managed Namespace via the finalizer.'']"
proof -
  have new: "newClient demo_kube demo_flags = Inr (lease_platform active_lease)"
    by (simp add: newClient_def demo_kube_def demo_flags_def)
  have "retry_lib P" if "kc_New demo_kube cfg = Inr P" for cfg P
    using that by (auto simp: demo_kube_def)
  from plugin_writes_only_its_object [OF this demo_expire] new show ?thesis by (simp add: world_of_def)
qed

end
