(* ===== verification/Go_Memory.thy ===== *)
theory Go_Memory
  imports Prelude "HOL-Library.State_Monad" "HOL-Library.Monad_Syntax"
begin

text \<open>
  Go's memory as far as copying objects needs it. The other theories treat API objects as values; in the program they
  are trees of pointers, slices and maps that are changed in place, and a copy is only as good as the memory it does not
  share. Here a memory maps addresses to values, a type says where pointers are, and \<open>deep t c\<close> is the contract of
  a deep copy: an equal tree in fresh memory. The patterns the deep-copy generator emits are combinators, and
  each meets the contract.
\<close>

section \<open>Memory and values\<close>

text \<open>
  A value is basic (a string, a number, a time, all without pointers of their own), nil, a reference, or a sequence:
  the fields of a struct or the elements of an array.
\<close>

datatype val = Flat string | Nil_ref | Ref nat | Parts "val list"

record memory =
  mem_lim :: nat
  mem_cells :: "nat \<Rightarrow> val"

datatype gotype = Basic | Pointer gotype | ArrayOf gotype | StructOf "gotype list"

text \<open>
  A slice is a reference to its elements; a map is a reference to its entries. The capacity of a slice, the order in
  which a map is ranged over and the order in which a copy allocates are not part of the value.
\<close>

abbreviation Slice :: "gotype \<Rightarrow> gotype" where "Slice t \<equiv> Pointer (ArrayOf t)"
abbreviation MapTo :: "gotype \<Rightarrow> gotype" where "MapTo t \<equiv> Slice (StructOf [Basic, t])"

fun well_typed :: "memory \<Rightarrow> gotype \<Rightarrow> val \<Rightarrow> bool" where
  "well_typed m Basic v \<longleftrightarrow> (case v of Flat s \<Rightarrow> True | _ \<Rightarrow> False)"
| "well_typed m (Pointer t) v \<longleftrightarrow>
     (case v of Nil_ref \<Rightarrow> True | Ref a \<Rightarrow> a < mem_lim m \<and> well_typed m t (mem_cells m a) | _ \<Rightarrow> False)"
| "well_typed m (ArrayOf t) v \<longleftrightarrow> (case v of Parts vs \<Rightarrow> list_all (well_typed m t) vs | _ \<Rightarrow> False)"
| "well_typed m (StructOf ts) v \<longleftrightarrow> (case v of Parts vs \<Rightarrow> list_all2 (well_typed m) ts vs | _ \<Rightarrow> False)"

lemma size_zip_fst [termination_simp]: "(t, v) \<in> set (zip ts vs) \<Longrightarrow> size t < Suc (size_list size ts)"
  by (auto dest!: set_zip_leftD intro: le_imp_less_Suc size_list_estimation')

text \<open>What a program sees of a value: the tree behind it, whatever the addresses.\<close>

datatype tree = Leaf string | Absent | Present tree | Node "tree list"

fun view :: "memory \<Rightarrow> gotype \<Rightarrow> val \<Rightarrow> tree" where
  "view m Basic v = (case v of Flat s \<Rightarrow> Leaf s | _ \<Rightarrow> Absent)"
| "view m (Pointer t) v = (case v of Ref a \<Rightarrow> Present (view m t (mem_cells m a)) | _ \<Rightarrow> Absent)"
| "view m (ArrayOf t) v = (case v of Parts vs \<Rightarrow> Node (map (view m t) vs) | _ \<Rightarrow> Absent)"
| "view m (StructOf ts) v = (case v of Parts vs \<Rightarrow> Node (map (\<lambda>(t, v). view m t v) (zip ts vs)) | _ \<Rightarrow> Absent)"

text \<open>The addresses a value of a type reaches.\<close>

fun reach :: "memory \<Rightarrow> gotype \<Rightarrow> val \<Rightarrow> nat set" where
  "reach m Basic v = {}"
| "reach m (Pointer t) v = (case v of Ref a \<Rightarrow> insert a (reach m t (mem_cells m a)) | _ \<Rightarrow> {})"
| "reach m (ArrayOf t) v = (case v of Parts vs \<Rightarrow> \<Union>(set (map (reach m t) vs)) | _ \<Rightarrow> {})"
| "reach m (StructOf ts) v = (case v of Parts vs \<Rightarrow> \<Union>(set (map (\<lambda>(t, v). reach m t v) (zip ts vs))) | _ \<Rightarrow> {})"

fun flat :: "gotype \<Rightarrow> bool" where
  "flat Basic \<longleftrightarrow> True"
| "flat (Pointer t) \<longleftrightarrow> False"
| "flat (ArrayOf t) \<longleftrightarrow> flat t"
| "flat (StructOf ts) \<longleftrightarrow> list_all flat ts"

section \<open>Copying\<close>

type_synonym copier = "val \<Rightarrow> (memory, val) state"

definition load :: "nat \<Rightarrow> (memory, val) state" where
  "load a = State (\<lambda>m. (mem_cells m a, m))"

definition alloc :: "val \<Rightarrow> (memory, val) state" where
  "alloc v = State (\<lambda>m. (Ref (mem_lim m), m\<lparr>mem_lim := Suc (mem_lim m), mem_cells := (mem_cells m)(mem_lim m := v)\<rparr>))"

text \<open>A field that \<open>*out = *in\<close> has copied, and is left alone.\<close>

definition assign :: copier where
  "assign v = State_Monad.return v"

text \<open>\<open>if in != nil { *out = new(T); **out = **in }\<close>; \<open>make\<close> and \<open>copy\<close> of a slice, and the loop over a map, do the same.\<close>

definition new_assign :: copier where
  "new_assign v = (case v of Ref a \<Rightarrow> do { x \<leftarrow> load a; alloc x } | _ \<Rightarrow> State_Monad.return v)"

text \<open>\<open>if in != nil { *out = new(T); (*in).DeepCopyInto(*out) }\<close>.\<close>

definition new_into :: "copier \<Rightarrow> copier" where
  "new_into c v = (case v of Ref a \<Rightarrow> do { x \<leftarrow> load a; y \<leftarrow> c x; alloc y } | _ \<Rightarrow> State_Monad.return v)"

text \<open>The copiers of the fields, one after the other.\<close>

fun copy_parts :: "copier list \<Rightarrow> val list \<Rightarrow> (memory, val list) state" where
  "copy_parts (c # cs) (v # vs) = do { x \<leftarrow> c v; xs \<leftarrow> copy_parts cs vs; State_Monad.return (x # xs) }"
| "copy_parts _ vs = State_Monad.return vs"

definition each_field :: "copier list \<Rightarrow> copier" where
  "each_field cs v = (case v of Parts vs \<Rightarrow> do { xs \<leftarrow> copy_parts cs vs; State_Monad.return (Parts xs) } | _ \<Rightarrow> State_Monad.return v)"

text \<open>\<open>for i := range *in { (*in)[i].DeepCopyInto(&(*out)[i]) }\<close>.\<close>

definition elements :: "copier \<Rightarrow> copier" where
  "elements c v =
     (case v of Parts vs \<Rightarrow> do { xs \<leftarrow> copy_parts (replicate (length vs) c) vs; State_Monad.return (Parts xs) }
      | _ \<Rightarrow> State_Monad.return v)"

definition make_copy :: copier where "make_copy = new_assign"
definition make_each :: "copier \<Rightarrow> copier" where "make_each c = new_into (elements c)"
definition map_copy :: copier where "map_copy = make_copy"
definition map_each :: "copier \<Rightarrow> copier" where "map_each c = make_each (each_field [assign, c])"

section \<open>The contract\<close>

definition extends :: "memory \<Rightarrow> memory \<Rightarrow> bool" where
  "extends m m' \<longleftrightarrow> mem_lim m \<le> mem_lim m' \<and> (\<forall>a < mem_lim m. mem_cells m' a = mem_cells m a)"

definition copied :: "gotype \<Rightarrow> memory \<Rightarrow> val \<Rightarrow> memory \<Rightarrow> val \<Rightarrow> bool" where
  "copied t m v m' v' \<longleftrightarrow> extends m m' \<and> well_typed m' t v' \<and> view m' t v' = view m t v
     \<and> reach m' t v' \<subseteq> {mem_lim m ..< mem_lim m'}"

definition deep :: "gotype \<Rightarrow> copier \<Rightarrow> bool" where
  "deep t c \<longleftrightarrow> (\<forall>m v v' m'. well_typed m t v \<longrightarrow> run_state (c v) m = (v', m') \<longrightarrow> copied t m v m' v')"

lemma deepI: "(\<And>m v v' m'. well_typed m t v \<Longrightarrow> run_state (c v) m = (v', m') \<Longrightarrow> copied t m v m' v') \<Longrightarrow> deep t c"
  unfolding deep_def by blast

lemma deepD: "deep t c \<Longrightarrow> well_typed m t v \<Longrightarrow> run_state (c v) m = (v', m') \<Longrightarrow> copied t m v m' v'"
  unfolding deep_def by blast

lemma extends_refl [simp]: "extends m m"
  by (simp add: extends_def)

lemma extends_trans: "extends m m1 \<Longrightarrow> extends m1 m2 \<Longrightarrow> extends m m2"
  by (auto simp: extends_def)

lemma run_load [simp]: "run_state (load a) m = (mem_cells m a, m)"
  by (simp add: load_def)

lemma run_alloc [simp]:
  "run_state (alloc v) m = (Ref (mem_lim m), m\<lparr>mem_lim := Suc (mem_lim m), mem_cells := (mem_cells m)(mem_lim m := v)\<rparr>)"
  by (simp add: alloc_def)

lemma extends_alloc: "extends m (m\<lparr>mem_lim := Suc (mem_lim m), mem_cells := (mem_cells m)(mem_lim m := v)\<rparr>)"
  by (simp add: extends_def)

text \<open>Two memories that agree on what a value reaches show the same tree behind it.\<close>

lemma agree_on_reach:
  assumes "\<And>a. a \<in> reach m t v \<Longrightarrow> mem_cells m' a = mem_cells m a"
  shows "view m' t v = view m t v \<and> reach m' t v = reach m t v"
  using assms
proof (induction t arbitrary: v)
  case (Pointer t)
  show ?case
  proof (cases v)
    case (Ref a)
    then have "mem_cells m' a = mem_cells m a" using Pointer.prems by simp
    then show ?thesis using Ref Pointer.IH [of "mem_cells m a"] Pointer.prems by auto
  qed simp_all
next
  case (ArrayOf t)
  show ?case
  proof (cases v)
    case (Parts vs)
    have "view m' t x = view m t x \<and> reach m' t x = reach m t x" if "x \<in> set vs" for x
      by (rule ArrayOf.IH, rule ArrayOf.prems) (use Parts that in auto)
    then show ?thesis using Parts by auto
  qed simp_all
next
  case (StructOf ts)
  show ?case
  proof (cases v)
    case (Parts vs)
    have "view m' t x = view m t x \<and> reach m' t x = reach m t x" if "(t, x) \<in> set (zip ts vs)" for t x
      by (rule StructOf.IH, rule set_zip_leftD [OF that], rule StructOf.prems) (use Parts that in auto)
    then show ?thesis using Parts by auto
  qed simp_all
qed simp

lemma well_typed_reach: "well_typed m t v \<Longrightarrow> reach m t v \<subseteq> {..< mem_lim m}"
proof (induction t arbitrary: v)
  case (StructOf ts)
  then show ?case
    by (cases v) (fastforce simp: list_all2_iff dest: set_zip_leftD)+
qed (fastforce simp: list_all_iff split: val.splits)+

lemma well_typed_extends:
  "well_typed m t v \<Longrightarrow> extends m m' \<Longrightarrow> well_typed m' t v"
proof (induction t arbitrary: v)
  case (StructOf ts)
  then show ?case
    by (cases v) (fastforce simp: list_all2_iff dest: set_zip_leftD)+
qed (auto simp: list_all_iff extends_def split: val.splits)

lemma extends_view:
  assumes "well_typed m t v" "extends m m'"
  shows "view m' t v = view m t v" "reach m' t v = reach m t v"
proof -
  have "mem_cells m' a = mem_cells m a" if "a \<in> reach m t v" for a
    using that well_typed_reach [OF assms(1)] assms(2) by (auto simp: extends_def)
  from agree_on_reach [OF this] show "view m' t v = view m t v" "reach m' t v = reach m t v" by simp_all
qed

lemma flat_reach: "flat t \<Longrightarrow> reach m t v = {}"
proof (induction t arbitrary: v)
  case (StructOf ts)
  then show ?case by (cases v) (auto simp: list_all_iff dest: set_zip_leftD)
qed (auto split: val.splits)

text \<open>What was copied stays copied while more is allocated, and looks the same from an earlier memory.\<close>

lemma copied_later:
  assumes "copied t m v m1 v'" "extends m1 m2"
  shows "copied t m v m2 v'"
  using assms extends_view [of m1 t v' m2] well_typed_extends [of m1 t v' m2] extends_trans [of m m1 m2]
  by (auto simp: copied_def extends_def)

lemma copied_earlier:
  assumes "copied t m1 v m2 v'" "extends m m1" "well_typed m t v"
  shows "copied t m v m2 v'"
  using assms extends_view [OF assms(3,2)] extends_trans [of m m1 m2]
  by (auto simp: copied_def extends_def)

section \<open>The combinators meet the contract\<close>

named_theorems deep_rules \<open>copiers that meet the contract of a deep copy\<close>

lemma deep_assign [deep_rules]: "flat t \<Longrightarrow> deep t assign"
  by (rule deepI) (auto simp: assign_def copied_def flat_reach)

lemma copied_alloc:
  assumes "copied t m x m1 y" "a < mem_lim m" "mem_cells m a = x"
  shows "copied (Pointer t) m (Ref a) (m1\<lparr>mem_lim := Suc (mem_lim m1), mem_cells := (mem_cells m1)(mem_lim m1 := y)\<rparr>) (Ref (mem_lim m1))"
proof -
  let ?m = "m1\<lparr>mem_lim := Suc (mem_lim m1), mem_cells := (mem_cells m1)(mem_lim m1 := y)\<rparr>"
  have "copied t m x ?m y" by (rule copied_later [OF assms(1) extends_alloc])
  then show ?thesis using assms by (auto simp: copied_def extends_def)
qed

lemma deep_new_into [deep_rules]:
  assumes "deep t c"
  shows "deep (Pointer t) (new_into c)"
proof (rule deepI)
  fix m v v' m' assume v: "well_typed m (Pointer t) v" "run_state (new_into c v) m = (v', m')"
  show "copied (Pointer t) m v m' v'"
  proof (cases v)
    case (Ref a)
    obtain y m1 where c: "run_state (c (mem_cells m a)) m = (y, m1)" by fastforce
    have "copied t m (mem_cells m a) m1 y" by (rule deepD [OF assms _ c]) (use v(1) Ref in simp)
    from copied_alloc [OF this] show ?thesis using v Ref c by (auto simp: new_into_def)
  qed (use v in \<open>auto simp: new_into_def copied_def\<close>)
qed

lemma new_assign_into: "new_assign = new_into assign"
  by (rule ext) (simp add: new_assign_def new_into_def assign_def split: val.split)

lemma deep_new_assign [deep_rules]: "flat t \<Longrightarrow> deep (Pointer t) new_assign"
  unfolding new_assign_into by (intro deep_rules)

lemma deep_copy_parts:
  assumes "list_all2 deep ts cs" "list_all2 (well_typed m) ts vs" "run_state (copy_parts cs vs) m = (xs, m')"
  shows "extends m m' \<and> length xs = length vs \<and> (\<forall>i < length vs. copied (ts ! i) m (vs ! i) m' (xs ! i))"
  using assms
proof (induction cs vs arbitrary: ts m xs m' rule: copy_parts.induct)
  case (1 c cs v vs)
  then obtain t ts' where ts: "ts = t # ts'" "deep t c" "list_all2 deep ts' cs" "well_typed m t v" "list_all2 (well_typed m) ts' vs"
    by (auto simp: list_all2_Cons2)
  obtain x m1 where x: "run_state (c v) m = (x, m1)" by fastforce
  obtain ys m2 where ys: "run_state (copy_parts cs vs) m1 = (ys, m2)" by fastforce
  have xs: "xs = x # ys" "m' = m2" using "1.prems"(3) x ys by auto
  have v: "copied t m v m1 x" by (rule deepD [OF ts(2,4) x])
  then have ext: "extends m m1" by (simp add: copied_def)
  have "list_all2 (well_typed m1) ts' vs"
    by (rule list_all2_mono [OF ts(5)]) (rule well_typed_extends [OF _ ext])
  from "1.IH" [OF ts(3) this ys] have rest: "extends m1 m2" "length ys = length vs"
    "\<And>i. i < length vs \<Longrightarrow> copied (ts' ! i) m1 (vs ! i) m2 (ys ! i)" by auto
  have "copied (ts' ! i) m (vs ! i) m2 (ys ! i)" if "i < length vs" for i
    by (rule copied_earlier [OF rest(3) [OF that] ext]) (use ts(5) that in \<open>auto simp: list_all2_conv_all_nth\<close>)
  then show ?case
    using copied_later [OF v rest(1)] extends_trans [OF ext rest(1)] rest(2)
    by (auto simp: xs ts(1) nth_Cons split: nat.split)
qed auto

lemma copied_parts_view:
  assumes "length xs = length vs" "length ts = length vs" "\<forall>i < length vs. copied (ts ! i) m (vs ! i) m' (xs ! i)"
  shows "map (\<lambda>(t, v). view m' t v) (zip ts xs) = map (\<lambda>(t, v). view m t v) (zip ts vs)"
    "list_all2 (well_typed m') ts xs" "\<Union>(set (map (\<lambda>(t, v). reach m' t v) (zip ts xs))) \<subseteq> {mem_lim m ..< mem_lim m'}"
  using assms by (auto simp: copied_def list_all2_conv_all_nth in_set_zip intro!: nth_equalityI) fastforce+

lemma deep_each_field [deep_rules]:
  assumes "list_all2 deep ts cs"
  shows "deep (StructOf ts) (each_field cs)"
proof (rule deepI)
  fix m v v' m' assume v: "well_typed m (StructOf ts) v" "run_state (each_field cs v) m = (v', m')"
  then obtain vs where vs: "v = Parts vs" "list_all2 (well_typed m) ts vs" by (auto split: val.splits)
  obtain xs where xs: "run_state (copy_parts cs vs) m = (xs, m')" "v' = Parts xs"
    using v(2) vs(1) by (auto simp: each_field_def split: prod.splits)
  from deep_copy_parts [OF assms vs(2) xs(1)] copied_parts_view [of xs vs ts m m']
  show "copied (StructOf ts) m v m' v'"
    using list_all2_lengthD [OF vs(2)] by (simp add: copied_def vs(1) xs(2))
qed

lemma deep_elements [deep_rules]:
  assumes "deep t c"
  shows "deep (ArrayOf t) (elements c)"
proof (rule deepI)
  fix m v v' m' assume v: "well_typed m (ArrayOf t) v" "run_state (elements c v) m = (v', m')"
  then obtain vs where vs: "v = Parts vs" "list_all (well_typed m t) vs" by (auto split: val.splits)
  let ?ts = "replicate (length vs) t"
  obtain xs where xs: "run_state (copy_parts (replicate (length vs) c) vs) m = (xs, m')" "v' = Parts xs"
    using v(2) vs(1) by (auto simp: elements_def split: prod.splits)
  have "list_all2 deep ?ts (replicate (length vs) c)" using assms by (simp add: list_all2_conv_all_nth)
  moreover have "list_all2 (well_typed m) ?ts vs" using vs(2) by (simp add: list_all2_conv_all_nth list_all_length)
  ultimately have c: "extends m m'" "length xs = length vs" "\<forall>i < length vs. copied t m (vs ! i) m' (xs ! i)"
    using deep_copy_parts [OF _ _ xs(1), of ?ts] by auto
  then show "copied (ArrayOf t) m v m' v'"
    by (auto simp: copied_def vs(1) xs(2) list_all_length in_set_conv_nth intro!: nth_equalityI) fastforce+
qed

lemma deep_slices [deep_rules]:
  "flat t \<Longrightarrow> deep (Slice t) make_copy" "deep t c \<Longrightarrow> deep (Slice t) (make_each c)"
  "deep (MapTo Basic) map_copy" "deep t c \<Longrightarrow> deep (MapTo t) (map_each c)"
  unfolding make_copy_def make_each_def map_copy_def map_each_def by (intro deep_rules; simp add: deep_rules)+

section \<open>What a deep copy is good for\<close>

text \<open>
  After a deep copy the two objects can be changed independently: whatever is done to memory that existed before,
  through the original or any other pointer, and to memory allocated later, the copy shows the tree that was copied;
  whatever is done to memory allocated since, the original shows it too.
\<close>

locale deep_copier =
  fixes t :: gotype and c :: copier
  assumes is_deep: "deep t c"
begin

lemma snapshot_stable:
  assumes "well_typed m t v" "run_state (c v) m = (v', m')" "\<And>a. mem_lim m \<le> a \<Longrightarrow> a < mem_lim m' \<Longrightarrow> mem_cells m2 a = mem_cells m' a"
  shows "view m2 t v' = view m t v"
proof -
  have d: "copied t m v m' v'" by (rule deepD [OF is_deep assms(1,2)])
  have "view m2 t v' = view m' t v'"
    using d by (intro agree_on_reach [THEN conjunct1] assms(3)) (auto simp: copied_def)
  then show ?thesis using d by (simp add: copied_def)
qed

lemma original_stable:
  assumes "well_typed m t v" "run_state (c v) m = (v', m')" "\<And>a. a < mem_lim m \<Longrightarrow> mem_cells m2 a = mem_cells m' a"
  shows "view m2 t v = view m t v"
proof -
  have d: "extends m m'" using deepD [OF is_deep assms(1,2)] by (simp add: copied_def)
  show ?thesis
    using d well_typed_reach [OF assms(1)] by (intro agree_on_reach [THEN conjunct1]) (auto simp: extends_def assms(3))
qed

end

end
