(* ===== verification/Deep_Copy.thy ===== *)
theory Deep_Copy
  imports Go_Memory
begin

text \<open>
  The copy functions of the API types: the generated \<open>src/api/v1alpha1/zz_generated.deepcopy.go\<close>, function by function, and
  the hand-written \<open>DeepCopyStatus\<close> of \<open>src/internal/lease/status.go\<close> that takes the snapshot a reconcile
  compares with. Each type is the list of the types of its fields in the order of its declaration, each \<open>DeepCopyInto\<close> the
  list of what it does to them; a generator that missed a pointer would leave a copy that fails the contract of
  \<open>Go_Memory\<close>. The types of apimachinery and their copy functions are parameters with that contract.
\<close>

section \<open>Library types\<close>

text \<open>
  \<open>metav1.Time\<close> and \<open>metav1.Duration\<close> hold no memory a program can change and are basic; \<open>metav1.Condition\<close> has six basic
  fields. Of the others only the contract of their copy functions is known.
\<close>

record golib =
  gl_ObjectMeta :: gotype
  gl_ListMeta :: gotype
  gl_LabelSelector :: gotype
  gl_Quantity :: gotype
  gl_ObjectMeta_DeepCopyInto :: copier
  gl_ListMeta_DeepCopyInto :: copier
  gl_LabelSelector_DeepCopyInto :: copier
  gl_Quantity_DeepCopy :: copier
  gl_Condition_DeepCopyInto :: copier
  gl_Time_DeepCopy :: copier \<comment> \<open>of a pointer\<close>

definition TypeMeta_type :: gotype where
  "TypeMeta_type = StructOf [Basic, Basic]"

definition Condition_type :: gotype where
  "Condition_type = StructOf [Basic, Basic, Basic, Basic, Basic, Basic]"

definition copies_deeply :: "golib \<Rightarrow> bool" where
  "copies_deeply L \<longleftrightarrow> deep (gl_ObjectMeta L) (gl_ObjectMeta_DeepCopyInto L) \<and> deep (gl_ListMeta L) (gl_ListMeta_DeepCopyInto L)
     \<and> deep (gl_LabelSelector L) (gl_LabelSelector_DeepCopyInto L) \<and> deep (gl_Quantity L) (gl_Quantity_DeepCopy L)
     \<and> deep Condition_type (gl_Condition_DeepCopyInto L) \<and> deep (Pointer Basic) (gl_Time_DeepCopy L)"

text \<open>\<open>if in != nil { *out = (*in).DeepCopy() }\<close>.\<close>

definition call_copy :: "copier \<Rightarrow> copier" where
  "call_copy c v = (case v of Nil_ref \<Rightarrow> State_Monad.return Nil_ref | _ \<Rightarrow> c v)"

text \<open>\<open>if c := in.DeepCopy(); c != nil { return c }; return nil\<close>.\<close>

definition copy_object :: "copier \<Rightarrow> copier" where
  "copy_object c v = do { x \<leftarrow> c v; State_Monad.return (case x of Nil_ref \<Rightarrow> Nil_ref | _ \<Rightarrow> x) }"

section \<open>The generated functions\<close>

definition BoolPolicy_type :: "gotype" where
  "BoolPolicy_type = StructOf [Pointer Basic, Pointer Basic]"

definition BoolPolicy_DeepCopyInto :: "copier" where
  "BoolPolicy_DeepCopyInto = each_field [new_assign, new_assign]"

definition BoolPolicy_DeepCopy :: "copier" where
  "BoolPolicy_DeepCopy = new_into BoolPolicy_DeepCopyInto"

definition CleanupPolicy_type :: "gotype" where
  "CleanupPolicy_type = StructOf [Basic]"

definition CleanupPolicy_DeepCopyInto :: "copier" where
  "CleanupPolicy_DeepCopyInto = assign"

definition CleanupPolicy_DeepCopy :: "copier" where
  "CleanupPolicy_DeepCopy = new_into CleanupPolicy_DeepCopyInto"

definition ClusterCapacityStatus_type :: "gotype" where
  "ClusterCapacityStatus_type = StructOf [Basic, Pointer Basic]"

definition ClusterCapacityStatus_DeepCopyInto :: "copier" where
  "ClusterCapacityStatus_DeepCopyInto = each_field [assign, new_assign]"

definition ClusterCapacityStatus_DeepCopy :: "copier" where
  "ClusterCapacityStatus_DeepCopy = new_into ClusterCapacityStatus_DeepCopyInto"

definition SecretKeySelector_type :: "gotype" where
  "SecretKeySelector_type = StructOf [Basic, Basic, Basic]"

definition SecretKeySelector_DeepCopyInto :: "copier" where
  "SecretKeySelector_DeepCopyInto = assign"

definition SecretKeySelector_DeepCopy :: "copier" where
  "SecretKeySelector_DeepCopy = new_into SecretKeySelector_DeepCopyInto"

definition ClusterCredentials_type :: "gotype" where
  "ClusterCredentials_type = StructOf [SecretKeySelector_type]"

definition ClusterCredentials_DeepCopyInto :: "copier" where
  "ClusterCredentials_DeepCopyInto = assign"

definition ClusterCredentials_DeepCopy :: "copier" where
  "ClusterCredentials_DeepCopy = new_into ClusterCredentials_DeepCopyInto"

definition ClusterStatus_type :: "gotype" where
  "ClusterStatus_type = StructOf [Basic, Basic, Basic]"

definition ClusterStatus_DeepCopyInto :: "copier" where
  "ClusterStatus_DeepCopyInto = assign"

definition ClusterStatus_DeepCopy :: "copier" where
  "ClusterStatus_DeepCopy = new_into ClusterStatus_DeepCopyInto"

definition ClusterTargetSpec_type :: "gotype" where
  "ClusterTargetSpec_type = StructOf [ClusterCredentials_type, MapTo Basic, Pointer Basic, Pointer Basic, Pointer Basic, Pointer Basic]"

definition ClusterTargetSpec_DeepCopyInto :: "copier" where
  "ClusterTargetSpec_DeepCopyInto = each_field [assign, map_copy, new_assign, new_assign, new_assign, new_assign]"

definition ClusterTargetSpec_DeepCopy :: "copier" where
  "ClusterTargetSpec_DeepCopy = new_into ClusterTargetSpec_DeepCopyInto"

definition ClusterTargetStatus_type :: "gotype" where
  "ClusterTargetStatus_type = StructOf [Basic, Basic, Pointer ClusterCapacityStatus_type, Basic, Slice Condition_type]"

definition ClusterTargetStatus_DeepCopyInto :: "golib \<Rightarrow> copier" where
  "ClusterTargetStatus_DeepCopyInto L = each_field [assign, assign, new_into ClusterCapacityStatus_DeepCopyInto, assign, make_each (gl_Condition_DeepCopyInto L)]"

definition ClusterTargetStatus_DeepCopy :: "golib \<Rightarrow> copier" where
  "ClusterTargetStatus_DeepCopy L = new_into (ClusterTargetStatus_DeepCopyInto L)"

definition ClusterTarget_type :: "golib \<Rightarrow> gotype" where
  "ClusterTarget_type L = StructOf [TypeMeta_type, gl_ObjectMeta L, ClusterTargetSpec_type, ClusterTargetStatus_type]"

definition ClusterTarget_DeepCopyInto :: "golib \<Rightarrow> copier" where
  "ClusterTarget_DeepCopyInto L = each_field [assign, gl_ObjectMeta_DeepCopyInto L, ClusterTargetSpec_DeepCopyInto, ClusterTargetStatus_DeepCopyInto L]"

definition ClusterTarget_DeepCopy :: "golib \<Rightarrow> copier" where
  "ClusterTarget_DeepCopy L = new_into (ClusterTarget_DeepCopyInto L)"

definition ClusterTarget_DeepCopyObject :: "golib \<Rightarrow> copier" where
  "ClusterTarget_DeepCopyObject L = copy_object (ClusterTarget_DeepCopy L)"

definition ClusterTargetList_type :: "golib \<Rightarrow> gotype" where
  "ClusterTargetList_type L = StructOf [TypeMeta_type, gl_ListMeta L, Slice (ClusterTarget_type L)]"

definition ClusterTargetList_DeepCopyInto :: "golib \<Rightarrow> copier" where
  "ClusterTargetList_DeepCopyInto L = each_field [assign, gl_ListMeta_DeepCopyInto L, make_each (ClusterTarget_DeepCopyInto L)]"

definition ClusterTargetList_DeepCopy :: "golib \<Rightarrow> copier" where
  "ClusterTargetList_DeepCopy L = new_into (ClusterTargetList_DeepCopyInto L)"

definition ClusterTargetList_DeepCopyObject :: "golib \<Rightarrow> copier" where
  "ClusterTargetList_DeepCopyObject L = copy_object (ClusterTargetList_DeepCopy L)"

definition DurationPolicy_type :: "gotype" where
  "DurationPolicy_type = StructOf [Pointer Basic, Pointer Basic, Pointer Basic]"

definition DurationPolicy_DeepCopyInto :: "copier" where
  "DurationPolicy_DeepCopyInto = each_field [new_assign, new_assign, new_assign]"

definition DurationPolicy_DeepCopy :: "copier" where
  "DurationPolicy_DeepCopy = new_into DurationPolicy_DeepCopyInto"

definition EffectiveLeaseSpec_type :: "gotype" where
  "EffectiveLeaseSpec_type = StructOf [Basic, Basic, Basic, Pointer Basic, Basic, Basic]"

definition EffectiveLeaseSpec_DeepCopyInto :: "copier" where
  "EffectiveLeaseSpec_DeepCopyInto = each_field [assign, assign, assign, new_assign, assign, assign]"

definition EffectiveLeaseSpec_DeepCopy :: "copier" where
  "EffectiveLeaseSpec_DeepCopy = new_into EffectiveLeaseSpec_DeepCopyInto"

definition LocalObjectReference_type :: "gotype" where
  "LocalObjectReference_type = StructOf [Basic]"

definition LocalObjectReference_DeepCopyInto :: "copier" where
  "LocalObjectReference_DeepCopyInto = assign"

definition LocalObjectReference_DeepCopy :: "copier" where
  "LocalObjectReference_DeepCopy = new_into LocalObjectReference_DeepCopyInto"

definition OwnerSpec_type :: "gotype" where
  "OwnerSpec_type = StructOf [Basic, Basic]"

definition OwnerSpec_DeepCopyInto :: "copier" where
  "OwnerSpec_DeepCopyInto = assign"

definition OwnerSpec_DeepCopy :: "copier" where
  "OwnerSpec_DeepCopy = new_into OwnerSpec_DeepCopyInto"

definition NamespaceSpec_type :: "gotype" where
  "NamespaceSpec_type = StructOf [Basic, Basic, MapTo Basic, MapTo Basic]"

definition NamespaceSpec_DeepCopyInto :: "copier" where
  "NamespaceSpec_DeepCopyInto = each_field [assign, assign, map_copy, map_copy]"

definition NamespaceSpec_DeepCopy :: "copier" where
  "NamespaceSpec_DeepCopy = new_into NamespaceSpec_DeepCopyInto"

definition PlacementSpec_type :: "golib \<Rightarrow> gotype" where
  "PlacementSpec_type L = StructOf [Pointer (gl_LabelSelector L)]"

definition PlacementSpec_DeepCopyInto :: "golib \<Rightarrow> copier" where
  "PlacementSpec_DeepCopyInto L = each_field [new_into (gl_LabelSelector_DeepCopyInto L)]"

definition PlacementSpec_DeepCopy :: "golib \<Rightarrow> copier" where
  "PlacementSpec_DeepCopy L = new_into (PlacementSpec_DeepCopyInto L)"

definition QuotaSpec_type :: "golib \<Rightarrow> gotype" where
  "QuotaSpec_type L = StructOf [MapTo (gl_Quantity L), MapTo (gl_Quantity L)]"

definition QuotaSpec_DeepCopyInto :: "golib \<Rightarrow> copier" where
  "QuotaSpec_DeepCopyInto L = each_field [map_each (gl_Quantity_DeepCopy L), map_each (gl_Quantity_DeepCopy L)]"

definition QuotaSpec_DeepCopy :: "golib \<Rightarrow> copier" where
  "QuotaSpec_DeepCopy L = new_into (QuotaSpec_DeepCopyInto L)"

definition LimitsSpec_type :: "golib \<Rightarrow> gotype" where
  "LimitsSpec_type L = StructOf [MapTo (gl_Quantity L), MapTo (gl_Quantity L), MapTo (gl_Quantity L), MapTo (gl_Quantity L)]"

definition LimitsSpec_DeepCopyInto :: "golib \<Rightarrow> copier" where
  "LimitsSpec_DeepCopyInto L = each_field [map_each (gl_Quantity_DeepCopy L), map_each (gl_Quantity_DeepCopy L), map_each (gl_Quantity_DeepCopy L),
    map_each (gl_Quantity_DeepCopy L)]"

definition LimitsSpec_DeepCopy :: "golib \<Rightarrow> copier" where
  "LimitsSpec_DeepCopy L = new_into (LimitsSpec_DeepCopyInto L)"

definition NetworkPolicySpec_type :: "gotype" where
  "NetworkPolicySpec_type = StructOf [Basic]"

definition NetworkPolicySpec_DeepCopyInto :: "copier" where
  "NetworkPolicySpec_DeepCopyInto = assign"

definition NetworkPolicySpec_DeepCopy :: "copier" where
  "NetworkPolicySpec_DeepCopy = new_into NetworkPolicySpec_DeepCopyInto"

definition EnvironmentLeaseSpec_type :: "golib \<Rightarrow> gotype" where
  "EnvironmentLeaseSpec_type L = StructOf [Pointer LocalObjectReference_type, Pointer LocalObjectReference_type, Pointer (PlacementSpec_type L),
    Pointer CleanupPolicy_type, Pointer Basic, Pointer Basic, Pointer Basic, Pointer Basic, Slice Basic,
    OwnerSpec_type, NamespaceSpec_type, Pointer (QuotaSpec_type L), Pointer (LimitsSpec_type L),
    Pointer NetworkPolicySpec_type]"

definition EnvironmentLeaseSpec_DeepCopyInto :: "golib \<Rightarrow> copier" where
  "EnvironmentLeaseSpec_DeepCopyInto L = each_field [new_assign, new_assign, new_into (PlacementSpec_DeepCopyInto L), new_assign, new_assign, new_assign,
    new_assign, new_assign, make_copy, assign, NamespaceSpec_DeepCopyInto, new_into (QuotaSpec_DeepCopyInto L),
    new_into (LimitsSpec_DeepCopyInto L), new_assign]"

definition EnvironmentLeaseSpec_DeepCopy :: "golib \<Rightarrow> copier" where
  "EnvironmentLeaseSpec_DeepCopy L = new_into (EnvironmentLeaseSpec_DeepCopyInto L)"

definition EnvironmentLeaseStatus_type :: "gotype" where
  "EnvironmentLeaseStatus_type = StructOf [Basic, Basic, Pointer ClusterStatus_type, Pointer Basic, Pointer Basic, Pointer Basic, Pointer Basic,
    Pointer Basic, Pointer Basic, Basic, Slice Basic, Pointer EffectiveLeaseSpec_type, Basic,
    Slice Condition_type]"

definition EnvironmentLeaseStatus_DeepCopyInto :: "golib \<Rightarrow> copier" where
  "EnvironmentLeaseStatus_DeepCopyInto L = each_field [assign, assign, new_assign, call_copy (gl_Time_DeepCopy L), call_copy (gl_Time_DeepCopy L),
    call_copy (gl_Time_DeepCopy L), call_copy (gl_Time_DeepCopy L), call_copy (gl_Time_DeepCopy L),
    call_copy (gl_Time_DeepCopy L), assign, make_copy, new_into EffectiveLeaseSpec_DeepCopyInto, assign,
    make_each (gl_Condition_DeepCopyInto L)]"

definition EnvironmentLeaseStatus_DeepCopy :: "golib \<Rightarrow> copier" where
  "EnvironmentLeaseStatus_DeepCopy L = new_into (EnvironmentLeaseStatus_DeepCopyInto L)"

definition EnvironmentLease_type :: "golib \<Rightarrow> gotype" where
  "EnvironmentLease_type L = StructOf [TypeMeta_type, gl_ObjectMeta L, EnvironmentLeaseSpec_type L, EnvironmentLeaseStatus_type]"

definition EnvironmentLease_DeepCopyInto :: "golib \<Rightarrow> copier" where
  "EnvironmentLease_DeepCopyInto L = each_field [assign, gl_ObjectMeta_DeepCopyInto L, EnvironmentLeaseSpec_DeepCopyInto L,
    EnvironmentLeaseStatus_DeepCopyInto L]"

definition EnvironmentLease_DeepCopy :: "golib \<Rightarrow> copier" where
  "EnvironmentLease_DeepCopy L = new_into (EnvironmentLease_DeepCopyInto L)"

definition EnvironmentLease_DeepCopyObject :: "golib \<Rightarrow> copier" where
  "EnvironmentLease_DeepCopyObject L = copy_object (EnvironmentLease_DeepCopy L)"

definition EnvironmentLeaseList_type :: "golib \<Rightarrow> gotype" where
  "EnvironmentLeaseList_type L = StructOf [TypeMeta_type, gl_ListMeta L, Slice (EnvironmentLease_type L)]"

definition EnvironmentLeaseList_DeepCopyInto :: "golib \<Rightarrow> copier" where
  "EnvironmentLeaseList_DeepCopyInto L = each_field [assign, gl_ListMeta_DeepCopyInto L, make_each (EnvironmentLease_DeepCopyInto L)]"

definition EnvironmentLeaseList_DeepCopy :: "golib \<Rightarrow> copier" where
  "EnvironmentLeaseList_DeepCopy L = new_into (EnvironmentLeaseList_DeepCopyInto L)"

definition EnvironmentLeaseList_DeepCopyObject :: "golib \<Rightarrow> copier" where
  "EnvironmentLeaseList_DeepCopyObject L = copy_object (EnvironmentLeaseList_DeepCopy L)"

definition QuotaPolicy_type :: "golib \<Rightarrow> gotype" where
  "QuotaPolicy_type L = StructOf [Pointer (gl_Quantity L), Pointer (gl_Quantity L)]"

definition QuotaPolicy_DeepCopyInto :: "golib \<Rightarrow> copier" where
  "QuotaPolicy_DeepCopyInto L = each_field [new_into (gl_Quantity_DeepCopy L), new_into (gl_Quantity_DeepCopy L)]"

definition QuotaPolicy_DeepCopy :: "golib \<Rightarrow> copier" where
  "QuotaPolicy_DeepCopy L = new_into (QuotaPolicy_DeepCopyInto L)"

definition NetworkPolicyPolicy_type :: "gotype" where
  "NetworkPolicyPolicy_type = StructOf [Basic, Pointer Basic]"

definition NetworkPolicyPolicy_DeepCopyInto :: "copier" where
  "NetworkPolicyPolicy_DeepCopyInto = each_field [assign, new_assign]"

definition NetworkPolicyPolicy_DeepCopy :: "copier" where
  "NetworkPolicyPolicy_DeepCopy = new_into NetworkPolicyPolicy_DeepCopyInto"

definition EnvironmentLeasePolicySpec_type :: "golib \<Rightarrow> gotype" where
  "EnvironmentLeasePolicySpec_type L = StructOf [Pointer DurationPolicy_type, Pointer DurationPolicy_type, Pointer DurationPolicy_type,
    Pointer BoolPolicy_type, Pointer (QuotaPolicy_type L), Pointer NetworkPolicyPolicy_type,
    Pointer (PlacementSpec_type L)]"

definition EnvironmentLeasePolicySpec_DeepCopyInto :: "golib \<Rightarrow> copier" where
  "EnvironmentLeasePolicySpec_DeepCopyInto L = each_field [new_into DurationPolicy_DeepCopyInto, new_into DurationPolicy_DeepCopyInto,
    new_into DurationPolicy_DeepCopyInto, new_into BoolPolicy_DeepCopyInto,
    new_into (QuotaPolicy_DeepCopyInto L), new_into NetworkPolicyPolicy_DeepCopyInto,
    new_into (PlacementSpec_DeepCopyInto L)]"

definition EnvironmentLeasePolicySpec_DeepCopy :: "golib \<Rightarrow> copier" where
  "EnvironmentLeasePolicySpec_DeepCopy L = new_into (EnvironmentLeasePolicySpec_DeepCopyInto L)"

definition EnvironmentLeasePolicyStatus_type :: "gotype" where
  "EnvironmentLeasePolicyStatus_type = StructOf [Basic]"

definition EnvironmentLeasePolicyStatus_DeepCopyInto :: "copier" where
  "EnvironmentLeasePolicyStatus_DeepCopyInto = assign"

definition EnvironmentLeasePolicyStatus_DeepCopy :: "copier" where
  "EnvironmentLeasePolicyStatus_DeepCopy = new_into EnvironmentLeasePolicyStatus_DeepCopyInto"

definition EnvironmentLeasePolicy_type :: "golib \<Rightarrow> gotype" where
  "EnvironmentLeasePolicy_type L = StructOf [TypeMeta_type, gl_ObjectMeta L, EnvironmentLeasePolicySpec_type L, EnvironmentLeasePolicyStatus_type]"

definition EnvironmentLeasePolicy_DeepCopyInto :: "golib \<Rightarrow> copier" where
  "EnvironmentLeasePolicy_DeepCopyInto L = each_field [assign, gl_ObjectMeta_DeepCopyInto L, EnvironmentLeasePolicySpec_DeepCopyInto L, assign]"

definition EnvironmentLeasePolicy_DeepCopy :: "golib \<Rightarrow> copier" where
  "EnvironmentLeasePolicy_DeepCopy L = new_into (EnvironmentLeasePolicy_DeepCopyInto L)"

definition EnvironmentLeasePolicy_DeepCopyObject :: "golib \<Rightarrow> copier" where
  "EnvironmentLeasePolicy_DeepCopyObject L = copy_object (EnvironmentLeasePolicy_DeepCopy L)"

definition EnvironmentLeasePolicyList_type :: "golib \<Rightarrow> gotype" where
  "EnvironmentLeasePolicyList_type L = StructOf [TypeMeta_type, gl_ListMeta L, Slice (EnvironmentLeasePolicy_type L)]"

definition EnvironmentLeasePolicyList_DeepCopyInto :: "golib \<Rightarrow> copier" where
  "EnvironmentLeasePolicyList_DeepCopyInto L = each_field [assign, gl_ListMeta_DeepCopyInto L, make_each (EnvironmentLeasePolicy_DeepCopyInto L)]"

definition EnvironmentLeasePolicyList_DeepCopy :: "golib \<Rightarrow> copier" where
  "EnvironmentLeasePolicyList_DeepCopy L = new_into (EnvironmentLeasePolicyList_DeepCopyInto L)"

definition EnvironmentLeasePolicyList_DeepCopyObject :: "golib \<Rightarrow> copier" where
  "EnvironmentLeasePolicyList_DeepCopyObject L = copy_object (EnvironmentLeasePolicyList_DeepCopy L)"

section \<open>The snapshot of a reconcile\<close>

text \<open>
  \<open>DeepCopyStatus\<close>, field by field in the order of the struct: \<open>append([]string{}, ..)\<close> and \<open>make\<close> with \<open>copy\<close> allocate new
  elements; the conditions are copied as values.
\<close>

definition DeepCopyStatus_memory :: copier where
  "DeepCopyStatus_memory = each_field
    [assign, assign, new_assign, new_assign, new_assign, new_assign, new_assign, new_assign, new_assign, assign, make_copy,
     new_into (each_field [assign, assign, assign, new_assign, assign, assign]), assign, make_copy]"

text \<open>\<open>copyMetaTime\<close> of the command \<open>touch\<close> and \<open>timePtr\<close> of the reconciler: the deadline before a change, kept to compare with.\<close>

definition copyMetaTime :: copier where
  "copyMetaTime = new_assign"

definition timePtr :: copier where
  "timePtr = new_assign"

section \<open>The scheme\<close>

text \<open>
  The kinds the three \<open>init\<close> functions register under \<open>GroupVersion\<close>. A registered object is one the library copies through
  \<open>DeepCopyObject\<close>.
\<close>

definition GroupVersion :: "string \<times> string" where
  "GroupVersion = (''platform.kubelease.io'', ''v1alpha1'')"

definition register_clustertarget :: "golib \<Rightarrow> (string \<times> gotype \<times> copier) list" where
  "register_clustertarget L = [(''ClusterTarget'', Pointer (ClusterTarget_type L), ClusterTarget_DeepCopyObject L),
     (''ClusterTargetList'', Pointer (ClusterTargetList_type L), ClusterTargetList_DeepCopyObject L)]"

definition register_environmentlease :: "golib \<Rightarrow> (string \<times> gotype \<times> copier) list" where
  "register_environmentlease L = [(''EnvironmentLease'', Pointer (EnvironmentLease_type L), EnvironmentLease_DeepCopyObject L),
     (''EnvironmentLeaseList'', Pointer (EnvironmentLeaseList_type L), EnvironmentLeaseList_DeepCopyObject L)]"

definition register_environmentleasepolicy :: "golib \<Rightarrow> (string \<times> gotype \<times> copier) list" where
  "register_environmentleasepolicy L =
     [(''EnvironmentLeasePolicy'', Pointer (EnvironmentLeasePolicy_type L), EnvironmentLeasePolicy_DeepCopyObject L),
      (''EnvironmentLeasePolicyList'', Pointer (EnvironmentLeasePolicyList_type L), EnvironmentLeasePolicyList_DeepCopyObject L)]"

definition SchemeBuilder :: "golib \<Rightarrow> ((string \<times> string) \<times> string \<times> gotype \<times> copier) list" where
  "SchemeBuilder L = map (Pair GroupVersion)
     (register_clustertarget L @ register_environmentlease L @ register_environmentleasepolicy L)"

section \<open>Every copy is deep\<close>

lemma deep_call_copy [deep_rules]: "deep (Pointer t) c \<Longrightarrow> deep (Pointer t) (call_copy c)"
proof (rule deepI)
  fix m v v' m' assume c: "deep (Pointer t) c" and v: "well_typed m (Pointer t) v" "run_state (call_copy c v) m = (v', m')"
  show "copied (Pointer t) m v m' v'"
  proof (cases v)
    case (Ref a)
    then show ?thesis using v by (intro deepD [OF c]) (simp_all add: call_copy_def)
  qed (use v in \<open>auto simp: call_copy_def copied_def\<close>)
qed

lemma deep_copy_object [deep_rules]: "deep t c \<Longrightarrow> deep t (copy_object c)"
proof -
  have same: "(case x of Nil_ref \<Rightarrow> Nil_ref | _ \<Rightarrow> x) = x" for x by (cases x) simp_all
  assume "deep t c"
  then show ?thesis by (intro deepI) (auto simp: copy_object_def same split: prod.splits dest: deepD)
qed

lemma library_deep [deep_rules]:
  assumes "copies_deeply L"
  shows "deep (gl_ObjectMeta L) (gl_ObjectMeta_DeepCopyInto L)" "deep (gl_ListMeta L) (gl_ListMeta_DeepCopyInto L)"
    "deep (gl_LabelSelector L) (gl_LabelSelector_DeepCopyInto L)" "deep (gl_Quantity L) (gl_Quantity_DeepCopy L)"
    "deep Condition_type (gl_Condition_DeepCopyInto L)" "deep (Pointer Basic) (gl_Time_DeepCopy L)"
  using assms by (simp_all add: copies_deeply_def)

lemma flat_types [simp]:
  "flat TypeMeta_type" "flat Condition_type" "flat CleanupPolicy_type" "flat SecretKeySelector_type" "flat ClusterCredentials_type"
    "flat ClusterStatus_type" "flat LocalObjectReference_type" "flat OwnerSpec_type"
    "flat NetworkPolicySpec_type" "flat EnvironmentLeasePolicyStatus_type"
  by (simp_all add: TypeMeta_type_def Condition_type_def CleanupPolicy_type_def SecretKeySelector_type_def ClusterCredentials_type_def ClusterStatus_type_def
    LocalObjectReference_type_def OwnerSpec_type_def NetworkPolicySpec_type_def
    EnvironmentLeasePolicyStatus_type_def)

lemma deep_BoolPolicy [deep_rules]: "deep BoolPolicy_type BoolPolicy_DeepCopyInto"
  unfolding BoolPolicy_type_def BoolPolicy_DeepCopyInto_def by (rule deep_each_field) (simp add: deep_rules)

lemma deep_CleanupPolicy [deep_rules]: "deep CleanupPolicy_type CleanupPolicy_DeepCopyInto"
  unfolding CleanupPolicy_DeepCopyInto_def by (rule deep_assign) simp

lemma deep_ClusterCapacityStatus [deep_rules]: "deep ClusterCapacityStatus_type ClusterCapacityStatus_DeepCopyInto"
  unfolding ClusterCapacityStatus_type_def ClusterCapacityStatus_DeepCopyInto_def by (rule deep_each_field) (simp add: deep_rules)

lemma deep_SecretKeySelector [deep_rules]: "deep SecretKeySelector_type SecretKeySelector_DeepCopyInto"
  unfolding SecretKeySelector_DeepCopyInto_def by (rule deep_assign) simp

lemma deep_ClusterCredentials [deep_rules]: "deep ClusterCredentials_type ClusterCredentials_DeepCopyInto"
  unfolding ClusterCredentials_DeepCopyInto_def by (rule deep_assign) simp

lemma deep_ClusterStatus [deep_rules]: "deep ClusterStatus_type ClusterStatus_DeepCopyInto"
  unfolding ClusterStatus_DeepCopyInto_def by (rule deep_assign) simp

lemma deep_ClusterTargetSpec [deep_rules]: "deep ClusterTargetSpec_type ClusterTargetSpec_DeepCopyInto"
  unfolding ClusterTargetSpec_type_def ClusterTargetSpec_DeepCopyInto_def by (rule deep_each_field) (simp add: deep_rules)

lemma deep_ClusterTargetStatus [deep_rules]: "copies_deeply L \<Longrightarrow> deep ClusterTargetStatus_type (ClusterTargetStatus_DeepCopyInto L)"
  unfolding ClusterTargetStatus_type_def ClusterTargetStatus_DeepCopyInto_def by (rule deep_each_field) (simp add: deep_rules)

lemma deep_ClusterTarget [deep_rules]: "copies_deeply L \<Longrightarrow> deep (ClusterTarget_type L) (ClusterTarget_DeepCopyInto L)"
  unfolding ClusterTarget_type_def ClusterTarget_DeepCopyInto_def by (rule deep_each_field) (simp add: deep_rules)

lemma deep_ClusterTargetList [deep_rules]: "copies_deeply L \<Longrightarrow> deep (ClusterTargetList_type L) (ClusterTargetList_DeepCopyInto L)"
  unfolding ClusterTargetList_type_def ClusterTargetList_DeepCopyInto_def by (rule deep_each_field) (simp add: deep_rules)

lemma deep_DurationPolicy [deep_rules]: "deep DurationPolicy_type DurationPolicy_DeepCopyInto"
  unfolding DurationPolicy_type_def DurationPolicy_DeepCopyInto_def by (rule deep_each_field) (simp add: deep_rules)

lemma deep_EffectiveLeaseSpec [deep_rules]: "deep EffectiveLeaseSpec_type EffectiveLeaseSpec_DeepCopyInto"
  unfolding EffectiveLeaseSpec_type_def EffectiveLeaseSpec_DeepCopyInto_def by (rule deep_each_field) (simp add: deep_rules)

lemma deep_LocalObjectReference [deep_rules]: "deep LocalObjectReference_type LocalObjectReference_DeepCopyInto"
  unfolding LocalObjectReference_DeepCopyInto_def by (rule deep_assign) simp

lemma deep_OwnerSpec [deep_rules]: "deep OwnerSpec_type OwnerSpec_DeepCopyInto"
  unfolding OwnerSpec_DeepCopyInto_def by (rule deep_assign) simp

lemma deep_NamespaceSpec [deep_rules]: "deep NamespaceSpec_type NamespaceSpec_DeepCopyInto"
  unfolding NamespaceSpec_type_def NamespaceSpec_DeepCopyInto_def by (rule deep_each_field) (simp add: deep_rules)

lemma deep_PlacementSpec [deep_rules]: "copies_deeply L \<Longrightarrow> deep (PlacementSpec_type L) (PlacementSpec_DeepCopyInto L)"
  unfolding PlacementSpec_type_def PlacementSpec_DeepCopyInto_def by (rule deep_each_field) (simp add: deep_rules)

lemma deep_QuotaSpec [deep_rules]: "copies_deeply L \<Longrightarrow> deep (QuotaSpec_type L) (QuotaSpec_DeepCopyInto L)"
  unfolding QuotaSpec_type_def QuotaSpec_DeepCopyInto_def by (rule deep_each_field) (simp add: deep_rules)

lemma deep_LimitsSpec [deep_rules]: "copies_deeply L \<Longrightarrow> deep (LimitsSpec_type L) (LimitsSpec_DeepCopyInto L)"
  unfolding LimitsSpec_type_def LimitsSpec_DeepCopyInto_def by (rule deep_each_field) (simp add: deep_rules)

lemma deep_NetworkPolicySpec [deep_rules]: "deep NetworkPolicySpec_type NetworkPolicySpec_DeepCopyInto"
  unfolding NetworkPolicySpec_DeepCopyInto_def by (rule deep_assign) simp

lemma deep_EnvironmentLeaseSpec [deep_rules]: "copies_deeply L \<Longrightarrow> deep (EnvironmentLeaseSpec_type L) (EnvironmentLeaseSpec_DeepCopyInto L)"
  unfolding EnvironmentLeaseSpec_type_def EnvironmentLeaseSpec_DeepCopyInto_def by (rule deep_each_field) (simp add: deep_rules)

lemma deep_EnvironmentLeaseStatus [deep_rules]: "copies_deeply L \<Longrightarrow> deep EnvironmentLeaseStatus_type (EnvironmentLeaseStatus_DeepCopyInto L)"
  unfolding EnvironmentLeaseStatus_type_def EnvironmentLeaseStatus_DeepCopyInto_def by (rule deep_each_field) (simp add: deep_rules)

lemma deep_EnvironmentLease [deep_rules]: "copies_deeply L \<Longrightarrow> deep (EnvironmentLease_type L) (EnvironmentLease_DeepCopyInto L)"
  unfolding EnvironmentLease_type_def EnvironmentLease_DeepCopyInto_def by (rule deep_each_field) (simp add: deep_rules)

lemma deep_EnvironmentLeaseList [deep_rules]: "copies_deeply L \<Longrightarrow> deep (EnvironmentLeaseList_type L) (EnvironmentLeaseList_DeepCopyInto L)"
  unfolding EnvironmentLeaseList_type_def EnvironmentLeaseList_DeepCopyInto_def by (rule deep_each_field) (simp add: deep_rules)

lemma deep_QuotaPolicy [deep_rules]: "copies_deeply L \<Longrightarrow> deep (QuotaPolicy_type L) (QuotaPolicy_DeepCopyInto L)"
  unfolding QuotaPolicy_type_def QuotaPolicy_DeepCopyInto_def by (rule deep_each_field) (simp add: deep_rules)

lemma deep_NetworkPolicyPolicy [deep_rules]: "deep NetworkPolicyPolicy_type NetworkPolicyPolicy_DeepCopyInto"
  unfolding NetworkPolicyPolicy_type_def NetworkPolicyPolicy_DeepCopyInto_def by (rule deep_each_field) (simp add: deep_rules)

lemma deep_EnvironmentLeasePolicySpec [deep_rules]: "copies_deeply L \<Longrightarrow> deep (EnvironmentLeasePolicySpec_type L) (EnvironmentLeasePolicySpec_DeepCopyInto L)"
  unfolding EnvironmentLeasePolicySpec_type_def EnvironmentLeasePolicySpec_DeepCopyInto_def by (rule deep_each_field) (simp add: deep_rules)

lemma deep_EnvironmentLeasePolicyStatus [deep_rules]: "deep EnvironmentLeasePolicyStatus_type EnvironmentLeasePolicyStatus_DeepCopyInto"
  unfolding EnvironmentLeasePolicyStatus_DeepCopyInto_def by (rule deep_assign) simp

lemma deep_EnvironmentLeasePolicy [deep_rules]: "copies_deeply L \<Longrightarrow> deep (EnvironmentLeasePolicy_type L) (EnvironmentLeasePolicy_DeepCopyInto L)"
  unfolding EnvironmentLeasePolicy_type_def EnvironmentLeasePolicy_DeepCopyInto_def by (rule deep_each_field) (simp add: deep_rules)

lemma deep_EnvironmentLeasePolicyList [deep_rules]: "copies_deeply L \<Longrightarrow> deep (EnvironmentLeasePolicyList_type L) (EnvironmentLeasePolicyList_DeepCopyInto L)"
  unfolding EnvironmentLeasePolicyList_type_def EnvironmentLeasePolicyList_DeepCopyInto_def by (rule deep_each_field) (simp add: deep_rules)

lemma deep_DeepCopyStatus [deep_rules]: "deep EnvironmentLeaseStatus_type DeepCopyStatus_memory"
  unfolding EnvironmentLeaseStatus_type_def EffectiveLeaseSpec_type_def DeepCopyStatus_memory_def
  by (rule deep_each_field) (simp add: deep_rules)

text \<open>All functions that return a copy, with the type of what they copy.\<close>

definition copy_functions :: "golib \<Rightarrow> (gotype \<times> copier) list" where
  "copy_functions L =
    [(Pointer BoolPolicy_type, BoolPolicy_DeepCopy), (Pointer CleanupPolicy_type, CleanupPolicy_DeepCopy),
     (Pointer ClusterCapacityStatus_type, ClusterCapacityStatus_DeepCopy),
     (Pointer SecretKeySelector_type, SecretKeySelector_DeepCopy),
     (Pointer ClusterCredentials_type, ClusterCredentials_DeepCopy),
     (Pointer ClusterStatus_type, ClusterStatus_DeepCopy),
     (Pointer ClusterTargetSpec_type, ClusterTargetSpec_DeepCopy),
     (Pointer ClusterTargetStatus_type, ClusterTargetStatus_DeepCopy L),
     (Pointer (ClusterTarget_type L), ClusterTarget_DeepCopy L),
     (Pointer (ClusterTargetList_type L), ClusterTargetList_DeepCopy L),
     (Pointer DurationPolicy_type, DurationPolicy_DeepCopy),
     (Pointer EffectiveLeaseSpec_type, EffectiveLeaseSpec_DeepCopy),
     (Pointer LocalObjectReference_type, LocalObjectReference_DeepCopy),
     (Pointer OwnerSpec_type, OwnerSpec_DeepCopy), (Pointer NamespaceSpec_type, NamespaceSpec_DeepCopy),
     (Pointer (PlacementSpec_type L), PlacementSpec_DeepCopy L),
     (Pointer (QuotaSpec_type L), QuotaSpec_DeepCopy L), (Pointer (LimitsSpec_type L), LimitsSpec_DeepCopy L),
     (Pointer NetworkPolicySpec_type, NetworkPolicySpec_DeepCopy),
     (Pointer (EnvironmentLeaseSpec_type L), EnvironmentLeaseSpec_DeepCopy L),
     (Pointer EnvironmentLeaseStatus_type, EnvironmentLeaseStatus_DeepCopy L),
     (Pointer (EnvironmentLease_type L), EnvironmentLease_DeepCopy L),
     (Pointer (EnvironmentLeaseList_type L), EnvironmentLeaseList_DeepCopy L),
     (Pointer (QuotaPolicy_type L), QuotaPolicy_DeepCopy L),
     (Pointer NetworkPolicyPolicy_type, NetworkPolicyPolicy_DeepCopy),
     (Pointer (EnvironmentLeasePolicySpec_type L), EnvironmentLeasePolicySpec_DeepCopy L),
     (Pointer EnvironmentLeasePolicyStatus_type, EnvironmentLeasePolicyStatus_DeepCopy),
     (Pointer (EnvironmentLeasePolicy_type L), EnvironmentLeasePolicy_DeepCopy L),
     (Pointer (EnvironmentLeasePolicyList_type L), EnvironmentLeasePolicyList_DeepCopy L),
     (Pointer (ClusterTarget_type L), ClusterTarget_DeepCopyObject L),
     (Pointer (ClusterTargetList_type L), ClusterTargetList_DeepCopyObject L),
     (Pointer (EnvironmentLease_type L), EnvironmentLease_DeepCopyObject L),
     (Pointer (EnvironmentLeaseList_type L), EnvironmentLeaseList_DeepCopyObject L),
     (Pointer (EnvironmentLeasePolicy_type L), EnvironmentLeasePolicy_DeepCopyObject L),
     (Pointer (EnvironmentLeasePolicyList_type L), EnvironmentLeasePolicyList_DeepCopyObject L)]"

lemmas DeepCopy_defs = BoolPolicy_DeepCopy_def CleanupPolicy_DeepCopy_def ClusterCapacityStatus_DeepCopy_def
  SecretKeySelector_DeepCopy_def ClusterCredentials_DeepCopy_def ClusterStatus_DeepCopy_def
  ClusterTargetSpec_DeepCopy_def ClusterTargetStatus_DeepCopy_def ClusterTarget_DeepCopy_def
  ClusterTargetList_DeepCopy_def DurationPolicy_DeepCopy_def EffectiveLeaseSpec_DeepCopy_def
  LocalObjectReference_DeepCopy_def OwnerSpec_DeepCopy_def NamespaceSpec_DeepCopy_def
  PlacementSpec_DeepCopy_def QuotaSpec_DeepCopy_def LimitsSpec_DeepCopy_def NetworkPolicySpec_DeepCopy_def
  EnvironmentLeaseSpec_DeepCopy_def EnvironmentLeaseStatus_DeepCopy_def EnvironmentLease_DeepCopy_def
  EnvironmentLeaseList_DeepCopy_def QuotaPolicy_DeepCopy_def NetworkPolicyPolicy_DeepCopy_def
  EnvironmentLeasePolicySpec_DeepCopy_def EnvironmentLeasePolicyStatus_DeepCopy_def
  EnvironmentLeasePolicy_DeepCopy_def EnvironmentLeasePolicyList_DeepCopy_def
  ClusterTarget_DeepCopyObject_def ClusterTargetList_DeepCopyObject_def EnvironmentLease_DeepCopyObject_def
  EnvironmentLeaseList_DeepCopyObject_def EnvironmentLeasePolicy_DeepCopyObject_def
  EnvironmentLeasePolicyList_DeepCopyObject_def

lemma copy_functions_deep:
  assumes "copies_deeply L"
  shows "list_all (\<lambda>(t, c). deep t c) (copy_functions L)"
  using assms by (simp add: copy_functions_def DeepCopy_defs deep_rules)

text \<open>Every kind is registered once, and what the scheme copies with is deep.\<close>

lemma registered_kinds_copy_deeply:
  assumes "copies_deeply L"
  shows "distinct (map (\<lambda>(gv, kind, _). (gv, kind)) (SchemeBuilder L))" "list_all (\<lambda>(_, _, t, c). deep t c) (SchemeBuilder L)"
  using assms by (simp_all add: SchemeBuilder_def register_clustertarget_def register_environmentlease_def
      register_environmentleasepolicy_def DeepCopy_defs deep_rules)

interpretation deadline_copy: deep_copier "Pointer Basic" copyMetaTime
  by unfold_locales (simp add: copyMetaTime_def deep_rules)

interpretation previous_deadline: deep_copier "Pointer Basic" timePtr
  by unfold_locales (simp add: timePtr_def deep_rules)

interpretation status_snapshot: deep_copier EnvironmentLeaseStatus_type DeepCopyStatus_memory
  by unfold_locales (rule deep_DeepCopyStatus)

lemma generated_copier:
  assumes "copies_deeply L" "(t, c) \<in> set (copy_functions L)"
  shows "deep_copier t c"
  using copy_functions_deep [OF assms(1)] assms(2) by (auto simp: list_all_iff deep_copier_def)

section \<open>Properties\<close>

text \<open>
  C38. A reconcile keeps \<open>before := DeepCopyStatus(lease.Status)\<close> and then changes the status in place, through its pointers
  and its slices. Whatever happens to the memory that existed when the snapshot was taken, and to memory allocated
  after it, the snapshot shows the status as it was: the comparison that decides whether to write the status is with
  the status that was read.
\<close>

theorem snapshot_survives_mutation:
  assumes "well_typed m EnvironmentLeaseStatus_type status"
    and "run_state (DeepCopyStatus_memory status) m = (before, m1)"
    and "\<And>a. mem_lim m \<le> a \<Longrightarrow> a < mem_lim m1 \<Longrightarrow> mem_cells m2 a = mem_cells m1 a"
  shows "view m2 EnvironmentLeaseStatus_type before = view m EnvironmentLeaseStatus_type status"
  by (rule status_snapshot.snapshot_stable [OF assms])

text \<open>A status with one condition and an expiry, and a write that empties the slice of conditions in place.\<close>

definition sample_memory :: memory where
  "sample_memory = \<lparr>mem_lim = 2, mem_cells = (\<lambda>a. if a = 0 then Parts [Parts (replicate 6 (Flat ''Ready''))] else Flat ''noon'')\<rparr>"

definition sample_status :: val where
  "sample_status = Parts [Flat ''1'', Flat ''Active'', Nil_ref, Ref 1, Nil_ref, Nil_ref, Nil_ref, Nil_ref, Nil_ref, Flat ''dev'', Nil_ref,
     Nil_ref, Flat '''', Ref 0]"

definition sample_copy :: "val \<times> memory" where
  "sample_copy = run_state (DeepCopyStatus_memory sample_status) sample_memory"

definition overwrite :: "nat \<Rightarrow> val \<Rightarrow> memory \<Rightarrow> memory" where
  "overwrite a v m = m\<lparr>mem_cells := (mem_cells m)(a := v)\<rparr>"

lemmas sample_defs = sample_memory_def sample_status_def EnvironmentLeaseStatus_type_def Condition_type_def ClusterStatus_type_def
  EffectiveLeaseSpec_type_def numeral_eq_Suc

lemma sample_status_typed: "well_typed sample_memory EnvironmentLeaseStatus_type sample_status"
  by (simp add: sample_defs)

lemma sample_status_mutated:
  "view (overwrite 0 (Parts []) (snd sample_copy)) EnvironmentLeaseStatus_type sample_status
     \<noteq> view sample_memory EnvironmentLeaseStatus_type sample_status"
  by (simp add: sample_copy_def DeepCopyStatus_memory_def each_field_def assign_def make_copy_def new_assign_def new_into_def
      overwrite_def sample_defs)

theorem snapshot_survives_mutation_witness:
  "view (overwrite 0 (Parts []) (snd sample_copy)) EnvironmentLeaseStatus_type (fst sample_copy)
     = view sample_memory EnvironmentLeaseStatus_type sample_status
   \<and> view (overwrite 0 (Parts []) (snd sample_copy)) EnvironmentLeaseStatus_type sample_status
     \<noteq> view sample_memory EnvironmentLeaseStatus_type sample_status"
proof
  show "view (overwrite 0 (Parts []) (snd sample_copy)) EnvironmentLeaseStatus_type (fst sample_copy)
     = view sample_memory EnvironmentLeaseStatus_type sample_status"
  proof (rule snapshot_survives_mutation [OF sample_status_typed])
    show "run_state (DeepCopyStatus_memory sample_status) sample_memory = (fst sample_copy, snd sample_copy)"
      by (simp add: sample_copy_def)
    show "mem_cells (overwrite 0 (Parts []) (snd sample_copy)) a = mem_cells (snd sample_copy) a" if "mem_lim sample_memory \<le> a" for a
      using that by (simp add: overwrite_def sample_memory_def)
  qed
qed (rule sample_status_mutated)

text \<open>
  C39. Each of the 35 generated functions that return a copy (\<open>DeepCopy\<close> and \<open>DeepCopyObject\<close>) gives an object with the
  content of its argument that shares no memory with it: writes to memory that was there before the call, or is
  allocated after it, do not show in the copy, and writes to the memory the call allocated do not show in the
  original. This is what lets a controller change an object it got from a shared cache. The copy functions of
  apimachinery are assumed to do so for their types.
\<close>

theorem generated_copies_are_independent:
  assumes "copies_deeply L" and "(t, copy) \<in> set (copy_functions L)"
    and "well_typed m t v" and "run_state (copy v) m = (v', m1)"
  shows "view m1 t v' = view m t v
    \<and> (\<forall>m2. (\<forall>a. mem_lim m \<le> a \<and> a < mem_lim m1 \<longrightarrow> mem_cells m2 a = mem_cells m1 a) \<longrightarrow> view m2 t v' = view m t v)
    \<and> (\<forall>m2. (\<forall>a < mem_lim m. mem_cells m2 a = mem_cells m1 a) \<longrightarrow> view m2 t v = view m t v)"
proof -
  have c: "deep_copier t copy" by (rule generated_copier [OF assms(1,2)])
  from deep_copier.snapshot_stable [OF c assms(3,4)] deep_copier.original_stable [OF c assms(3,4)]
  show ?thesis by blast
qed

definition sample_library :: golib where
  "sample_library = \<lparr>gl_ObjectMeta = MapTo Basic, gl_ListMeta = Basic, gl_LabelSelector = MapTo Basic, gl_Quantity = Pointer Basic,
     gl_ObjectMeta_DeepCopyInto = map_copy, gl_ListMeta_DeepCopyInto = assign, gl_LabelSelector_DeepCopyInto = map_copy,
     gl_Quantity_DeepCopy = new_assign, gl_Condition_DeepCopyInto = assign, gl_Time_DeepCopy = new_assign\<rparr>"

lemma sample_library_deep: "copies_deeply sample_library"
  unfolding copies_deeply_def by (simp add: sample_library_def deep_rules Condition_type_def)

text \<open>A quota whose hard limits are a map of one quantity, which is a pointer in this library.\<close>

definition sample_quota :: memory where
  "sample_quota = \<lparr>mem_lim = 3, mem_cells = (\<lambda>a. if a = 0 then Flat ''4'' else if a = 1 then Parts [Parts [Flat ''cpu'', Ref 0]]
     else Parts [Ref 1, Nil_ref])\<rparr>"

definition sample_quota_copy :: "val \<times> memory" where
  "sample_quota_copy = run_state (QuotaSpec_DeepCopy sample_library (Ref 2)) sample_quota"

abbreviation quota_pointer :: gotype where
  "quota_pointer \<equiv> Pointer (QuotaSpec_type sample_library)"

theorem generated_copies_are_independent_witness:
  "copies_deeply sample_library
   \<and> view (overwrite 0 (Flat ''8'') (snd sample_quota_copy)) quota_pointer (fst sample_quota_copy)
     = Present (Node [Present (Node [Node [Leaf ''cpu'', Present (Leaf ''4'')]]), Absent])"
proof -
  have "(quota_pointer, QuotaSpec_DeepCopy sample_library) \<in> set (copy_functions sample_library)" by (simp add: copy_functions_def)
  moreover have typed: "well_typed sample_quota quota_pointer (Ref 2)"
    by (simp add: QuotaSpec_type_def sample_quota_def sample_library_def)
  ultimately have "\<forall>m2. (\<forall>a. mem_lim sample_quota \<le> a \<and> a < mem_lim (snd sample_quota_copy)
        \<longrightarrow> mem_cells m2 a = mem_cells (snd sample_quota_copy) a)
      \<longrightarrow> view m2 quota_pointer (fst sample_quota_copy) = view sample_quota quota_pointer (Ref 2)"
    using generated_copies_are_independent [OF sample_library_deep, of quota_pointer "QuotaSpec_DeepCopy sample_library" sample_quota
        "Ref 2" "fst sample_quota_copy" "snd sample_quota_copy"]
    by (simp add: sample_quota_copy_def)
  then have "view (overwrite 0 (Flat ''8'') (snd sample_quota_copy)) quota_pointer (fst sample_quota_copy)
      = view sample_quota quota_pointer (Ref 2)"
    by (rule allE [of _ "overwrite 0 (Flat ''8'') (snd sample_quota_copy)"]) (auto simp: overwrite_def sample_quota_def)
  also have "\<dots> = Present (Node [Present (Node [Node [Leaf ''cpu'', Present (Leaf ''4'')]]), Absent])"
    by (simp add: QuotaSpec_type_def sample_quota_def sample_library_def)
  finally show ?thesis by (simp add: sample_library_deep)
qed

end
