(* ===== verification/Support.thy ===== *)
theory Support
  imports Platform "HOL-Library.Multiset"
begin

text \<open>
  Two supporting files: \<open>src/internal/lease/clock.go\<close>, the clocks, and \<open>src/internal/metrics/metrics.go\<close>, the collectors and
  what the observation functions count. The traces of the other theories name a counter by its Go variable
  (\<open>Inc\<close>), by its metric name and label values (\<open>IncLabels\<close>) or through \<open>ObserveClusterOp\<close> (\<open>ClusterOp\<close>); here
  a trace is read as the multiset of increments it makes.
\<close>

section \<open>Clocks\<close>

text \<open>
  The three implementations of \<open>Clock\<close>. \<open>UTC\<close> changes the location of an instant, not the instant. The real
  clock reads the time of day, the field \<open>api_Now\<close> of the platform.
\<close>

datatype Clock = RealClock | FixedClock time | FakeClock time

definition NewFakeClock :: "time \<Rightarrow> Clock" where
  "NewFakeClock t = FakeClock t"

fun Clock_Now :: "time \<Rightarrow> Clock \<Rightarrow> time" where
  "Clock_Now timeNow RealClock = timeNow"
| "Clock_Now timeNow (FixedClock t) = t"
| "Clock_Now timeNow (FakeClock t) = t"

fun FakeClock_Set :: "Clock \<Rightarrow> time \<Rightarrow> Clock" where
  "FakeClock_Set (FakeClock t) t' = FakeClock t'"
| "FakeClock_Set c t' = c"

fun FakeClock_Advance :: "Clock \<Rightarrow> duration \<Rightarrow> Clock" where
  "FakeClock_Advance (FakeClock t) d = FakeClock (t + d)"
| "FakeClock_Advance c d = c"

lemma fake_clock_advances:
  "Clock_Now n (fold (\<lambda>d c. FakeClock_Advance c d) ds (NewFakeClock t)) = t + sum_list ds"
proof -
  have "fold (\<lambda>d c. FakeClock_Advance c d) ds (FakeClock t) = FakeClock (t + sum_list ds)" for t
    by (induction ds arbitrary: t) (simp_all add: algebra_simps)
  then show ?thesis by (simp add: NewFakeClock_def)
qed

section \<open>Collectors\<close>

datatype collector_kind = Counter | CounterVec | GaugeVec | HistogramVec

record collector =
  co_Variable :: string
  co_Kind :: collector_kind
  co_MetricName :: string
  co_Labels :: "string list"

definition collector_of :: "string \<Rightarrow> collector_kind \<Rightarrow> string \<Rightarrow> string list \<Rightarrow> collector" where
  "collector_of v k n ls = \<lparr>co_Variable = v, co_Kind = k, co_MetricName = ''kubelease_'' @ n, co_Labels = ls\<rparr>"

text \<open>The variables of the package, in order.\<close>

definition declared_collectors :: "collector list" where
  "declared_collectors =
     [collector_of ''Leases'' GaugeVec ''leases'' [''phase''],
      collector_of ''LeasesCreatedTotal'' Counter ''leases_created_total'' [],
      collector_of ''LeasesExpiredTotal'' Counter ''leases_expired_total'' [],
      collector_of ''RenewalsTotal'' Counter ''renewals_total'' [],
      collector_of ''CleanupFailuresTotal'' Counter ''cleanup_failures_total'' [],
      collector_of ''ProvisionFailuresTotal'' Counter ''provision_failures_total'' [],
      collector_of ''WarningEventsTotal'' Counter ''warning_events_total'' [],
      collector_of ''SourceEventsTotal'' CounterVec ''source_events_total'' [''provider'', ''action'', ''result''],
      collector_of ''SourceErrorsTotal'' CounterVec ''source_errors_total'' [''provider'', ''action''],
      collector_of ''IdleExpirationsTotal'' Counter ''idle_expirations_total'' [],
      collector_of ''ManualExpirationsTotal'' Counter ''manual_expirations_total'' [],
      collector_of ''PolicyRejectionsTotal'' Counter ''policy_rejections_total'' [],
      collector_of ''ClusterTargets'' GaugeVec ''cluster_targets'' [''ready''],
      collector_of ''RemoteOperationsTotal'' CounterVec ''remote_operations_total'' [''operation'', ''result''],
      collector_of ''ClusterConnectionFailuresTotal'' Counter ''cluster_connection_failures_total'' [],
      collector_of ''ClusterHealth'' GaugeVec ''cluster_health'' [''cluster''],
      collector_of ''ClusterOperationsTotal'' CounterVec ''cluster_operations_total'' [''cluster'', ''operation'', ''result''],
      collector_of ''ClusterOperationDuration'' HistogramVec ''cluster_operation_duration_seconds'' [''cluster'', ''operation''],
      collector_of ''ClusterAuthFailuresTotal'' Counter ''cluster_auth_failures_total'' [],
      collector_of ''PlacementAttemptsTotal'' Counter ''placement_attempts_total'' [],
      collector_of ''PlacementFailuresTotal'' Counter ''placement_failures_total'' []]"

text \<open>The arguments of \<open>MustRegister\<close> in \<open>init\<close>.\<close>

definition registered_variables :: "string list" where
  "registered_variables =
     [''Leases'', ''LeasesCreatedTotal'', ''LeasesExpiredTotal'', ''RenewalsTotal'', ''CleanupFailuresTotal'',
      ''ProvisionFailuresTotal'', ''WarningEventsTotal'', ''SourceEventsTotal'', ''SourceErrorsTotal'',
      ''IdleExpirationsTotal'', ''ManualExpirationsTotal'', ''PolicyRejectionsTotal'', ''ClusterTargets'',
      ''RemoteOperationsTotal'', ''ClusterConnectionFailuresTotal'', ''ClusterHealth'', ''ClusterOperationsTotal'',
      ''ClusterOperationDuration'', ''ClusterAuthFailuresTotal'', ''PlacementAttemptsTotal'', ''PlacementFailuresTotal'']"

section \<open>Observations\<close>

type_synonym increments = "(string \<times> string list) multiset"

definition ObserveRemote :: "string \<Rightarrow> string \<Rightarrow> increments" where
  "ObserveRemote operation result = {#(''kubelease_remote_operations_total'', [operation, result])#}"

text \<open>\<open>seconds\<close> is \<open>None\<close> for the negative values that record no latency.\<close>

definition ObserveClusterOp :: "string \<Rightarrow> string \<Rightarrow> string \<Rightarrow> 'a option \<Rightarrow> increments" where
  "ObserveClusterOp cluster operation result seconds =
     (let cluster = (if cluster = [] then ''local'' else cluster)
      in {#(''kubelease_cluster_operations_total'', [cluster, operation, result])#}
         + (if seconds \<noteq> None then {#(''kubelease_cluster_operation_duration_seconds'', [cluster, operation])#} else {#})
         + ObserveRemote operation result)"

definition result_text :: "bool \<Rightarrow> string" where
  "result_text ok = (if ok then ''success'' else ''failure'')"

definition metric_of :: "string \<Rightarrow> string" where
  "metric_of v = (case find (\<lambda>c. co_Variable c = v) declared_collectors of None \<Rightarrow> [] | Some c \<Rightarrow> co_MetricName c)"

text \<open>The latency of an operation is not part of a trace, so its histogram is left out of the reading.\<close>

fun increments_of :: "effect \<Rightarrow> increments" where
  "increments_of (Inc v) = {#(metric_of v, [])#}"
| "increments_of (IncLabels m ls) = {#(m, ls)#}"
| "increments_of (ClusterOp cluster op ok) = ObserveClusterOp cluster op (result_text ok) (None :: nat option)"
| "increments_of _ = {#}"

definition counters :: "effect list \<Rightarrow> increments" where
  "counters es = \<Sum>\<^sub># (mset (map increments_of es))"

lemma counters_append [simp]: "counters (es @ es') = counters es + counters es'"
  by (simp add: counters_def)

lemma counters_simps [simp]: "counters [] = {#}" "counters (e # es) = increments_of e + counters es"
  by (simp_all add: counters_def)

text \<open>Every collector is registered, once, and no two share a metric name, which \<open>MustRegister\<close> would refuse.\<close>

lemma collectors_registered:
  "map co_Variable declared_collectors = registered_variables \<and> distinct (map co_MetricName declared_collectors)"
  by code_simp

text \<open>
  The counter per operation is the counter per cluster and operation added up over the clusters: in every trace
  whose labelled increments other than through \<open>ObserveClusterOp\<close> belong to other metrics, the series
  \<open>kubelease_remote_operations_total{op,res}\<close> grows by as much as all series
  \<open>kubelease_cluster_operations_total{_,op,res}\<close> together.
\<close>

definition cluster_series :: "string \<Rightarrow> string \<Rightarrow> string \<times> string list \<Rightarrow> bool" where
  "cluster_series op res x \<longleftrightarrow> fst x = ''kubelease_cluster_operations_total'' \<and> tl (snd x) = [op, res]"

definition other_metric :: "effect \<Rightarrow> bool" where
  "other_metric e \<longleftrightarrow> (case e of IncLabels m ls \<Rightarrow>
     m \<notin> {''kubelease_cluster_operations_total'', ''kubelease_remote_operations_total''} | _ \<Rightarrow> True)"

lemma increment_adds_up:
  "other_metric e \<Longrightarrow> size (filter_mset (cluster_series op res) (increments_of e))
     = count (increments_of e) (''kubelease_remote_operations_total'', [op, res])"
  by (cases e) (auto simp: other_metric_def cluster_series_def ObserveClusterOp_def ObserveRemote_def Let_def)

lemma cluster_operations_add_up:
  assumes "list_all other_metric es"
  shows "size (filter_mset (cluster_series op res) (counters es))
    = count (counters es) (''kubelease_remote_operations_total'', [op, res])"
  using assms by (induction es) (simp_all add: increment_adds_up)

end
