(* ===== verification/Spec2Isabelle.thy ===== *)
theory Spec2Isabelle
  imports Gate Lease_Safety Lease_Phases Lease_Provisioning Lease_System Target_Safety Watches Webhook_Safety Server_Lifecycle
    Startup Cli_Root Deep_Copy Support
begin

text \<open>
  \<^bold>\<open>KubeLease: temporary Kubernetes environments, verified.\<close>

  KubeLease gives out namespaces on lease. An \<open>EnvironmentLease\<close> asks for an environment with a lifetime; a controller
  creates the namespace with its quota, limits and network policy, on the control cluster or on a registered
  target cluster, warns before the lease ends, and deletes the namespace when it does. What can go wrong is
  deleting a namespace that is not the lease's, losing one that is, or letting a deadline slip; most
  of this development is about these three.

  \<^bold>\<open>The parts and how they interact.\<close> The lease reconciler (\<open>internal/controller\<close>) reads a lease, merges its spec with
  a policy (\<open>internal/policy\<close>), stamps its deadlines (\<open>internal/lease\<close>), decides on a target cluster
  (\<open>internal/placement\<close>), opens a client for it through a cache, an outage tracker and a concurrency gate
  (\<open>internal/remote\<close>), ensures the desired objects (\<open>internal/resources\<close>), and checks ownership fingerprints
  (\<open>internal/identity\<close>) before it deletes. The target reconciler watches the health and the identity of targets. Two
  sources create, touch and expire leases from outside: an HTTP webhook with a GitHub integration
  (\<open>internal/sourcewebhook\<close>) and the \<open>kubectl\<close> plugin (\<open>internal/cli\<close>).

  \<^bold>\<open>How it is modelled.\<close> The theories, bottom up, with the files under \<open>src/\<close> they translate:

  \<^item> \<open>Prelude\<close>, \<open>Go_Text\<close>: 64-bit durations with Go's wrap-around and saturation, instants, string maps, and the formats the
    code prints (decimal numbers, durations, RFC 3339, quoted strings).
  \<^item> \<open>API_Types\<close>: the three custom resources of \<open>api/v1alpha1\<close> as records and datatypes, the Kubernetes objects the
    code touches, errors as values, and the helper libraries as a record of parameters with their documented laws.
  \<^item> \<open>Conditions\<close>, \<open>Warnings\<close>, \<open>Expiration\<close>, \<open>Status_Compare\<close>: \<open>internal/lease\<close>. Each phase marker interprets the locale
    \<open>status_marker\<close>; the delivery ledger of warnings and the operations on activity are locales too.
  \<^item> \<open>Resources\<close>, \<open>Identity\<close>, \<open>Policy_Resolve\<close>: \<open>internal/resources\<close>, \<open>internal/identity\<close>, \<open>internal/policy\<close>.
  \<^item> \<open>Platform\<close>: the world of an effectful program. API servers, clock, kubeconfig library and \<open>RetryOnConflict\<close> are the
    fields of a record over an arbitrary environment, so a theorem holds for every answer of a server and every
    interference between two calls. A program is a state-monad computation; what it does to the outside is a trace
    of effects. The predicates \<open>emits\<close> and \<open>returns\<close> with their rules are the program logic of all later theories;
    \<open>Triples\<close> adds Hoare triples over traces for what a program is bound to do.
  \<^item> \<open>Remote\<close>, \<open>Gate\<close>, \<open>Placement\<close>: \<open>internal/remote\<close> and \<open>internal/placement\<close>. The outage window and the operations of the
    client cache are locales; the gate is a step relation over all interleavings.
  \<^item> \<open>Ensure\<close>, \<open>Lease_Controller\<close>: \<open>environmentlease_controller.go\<close>, handler by handler. \<open>Lease_Effects\<close> and \<open>Lease_Runs\<close> hold
    the lemmas on what each handler may do and on the runs of a deletion, \<open>Lease_Safety\<close> the properties on what a
    reconcile never does. \<open>Lease_Status\<close> states as locales what carries a predicate on the status through the handlers;
    \<open>Lease_Record\<close> interprets them for what status writes keep, \<open>Lease_Phases\<close> for a step relation on phases.
    \<open>Lease_Lifecycle\<close> and \<open>Lease_Provisioning\<close> show what a reconcile does for an expired and for a fresh lease.
    \<open>Lease_System\<close> closes the system: the API servers get a store with the documented effect of each call, and runs
    interleave reconciles with the removal of terminating namespaces; they refine a machine of four stages.
  \<^item> \<open>Target_Controller\<close>, \<open>Target_Safety\<close>: \<open>clustertarget_controller.go\<close>. \<open>Watches\<close>: the indexes, predicates and map functions
    of \<open>SetupWithManager\<close>.
  \<^item> \<open>Source_Names\<close>, \<open>Webhook\<close>, \<open>Webhook_Handlers\<close>, \<open>Webhook_Safety\<close>: \<open>internal/sourcewebhook\<close>, from bytes and tokens to the
    routes of the server; a run is a list of requests served one after the other. \<open>Server_Lifecycle\<close>: the two threads of
    \<open>ListenAndServe\<close>, from the start of the listener to a graceful shutdown, as a step relation.
  \<^item> \<open>Cli\<close>, \<open>Cli_Safety\<close>: the commands of \<open>internal/cli\<close> that change state; \<open>Cli_Show\<close>: those that only print; \<open>Cli_Root\<close>: the
    client, the dispatch and the exit code of the plugin (\<open>root.go\<close>, \<open>cmd/kubectl-kubelease\<close>).
  \<^item> \<open>Startup\<close>: \<open>cmd/kubelease-webhook/main.go\<close> and \<open>cmd/main.go\<close>, from the flags to the first request or reconcile.
  \<^item> \<open>Go_Memory\<close>, \<open>Deep_Copy\<close>: \<open>zz_generated.deepcopy.go\<close>, the scheme and \<open>DeepCopyStatus\<close>. Everywhere else API objects are values; here they are
    trees of pointers, slices and maps in a memory, and the copy functions are what makes treating them as values sound.
  \<^item> \<open>Support\<close>: \<open>internal/lease/clock.go\<close> and \<open>internal/metrics/metrics.go\<close>; a trace is read as a multiset of increments.

  \<^bold>\<open>What the theorems show.\<close>

  \<^item> Deletion: a reconcile deletes only the recorded, unprotected namespace of a lease that is being deleted or past its
    deadline, and only after the ownership check; the check accepts exactly the namespaces that carry the
    lease's marks; what provisioning creates carries them; the finalizer goes last: only when there is no namespace on
    record, when the environment was given up, or when the cluster the lease resolves to answers that it is gone.
  \<^item> Progress: a reconcile past the deadline asks for the deletion of the owned namespace; once it is gone the lease is let
    go; with a store behind the calls, lease and namespace are gone after every run that lets the controller and the
    cluster act in turn; a fresh lease on a cluster that serves it gets its namespace and a Ready status that records its name. The status a reconcile
    writes never forgets the namespace, the creation instant, the activity or a delivered warning it has read, and its
    phase is a step of an abstract machine: the end of life only for a deleted or overdue lease, Active only before
    the deadline.
  \<^item> Deadlines: stamping keeps the creation instant, never exceeds TTL and maximum and never extends a non-renewable lease;
    the effective deadline is the earliest of the three; activity and \<open>touch\<close> never move the hard deadline; the
    command \<open>extend\<close> announces the deadline the controller stamps for a renewable lease; the next visit is at the next event.
  \<^item> Policies and placement: a resolved lease obeys its policy, TTL, idle TTL and quota within the bounds; a chosen target is eligible and does not depend on the order
    of a listing; the precedence of \<open>Decide\<close>.
  \<^item> Targets: Ready only with a verified identity, which never changes; release only when unreferenced; bounded cache,
    concurrency and outage windows.
  \<^item> Sources: without a valid token or signature the webhook writes nothing; with one it writes leases only, governed by a
    configured policy; pull requests of other repositories are left alone; creation can be replayed; names are DNS labels;
    \<open>create\<close> builds leases the controller accepts and always returns; every command of the plugin writes at most the
    object it names. The webhook server stops without a deadlock or a goroutine left behind. A webhook program that gets past its start-up checks is in a state these results start from.
  \<^item> Copies: every generated deep copy, and the snapshot a reconcile compares with, shares no memory with its original.

  Some theorems state a limit of the code rather than a promise: a rejected lease is parked, a visit due during a reconcile
  is not scheduled, \<open>extend\<close> overlooks a policy that forbids renewal, the cleanup asks \<open>spec.clusterRef\<close> before the
  recorded cluster, a policy's \<open>maxTTL\<close> default may exceed its \<open>ttl.maximum\<close> and a TTL that stands in for the
  maximum is held to no \<open>maxTTL\<close> bound, the namespace watch never uses its fallback, \<open>list\<close> counts down to the hard deadline only, and a
  cache that lags behind the write of \<open>status.namespace\<close> makes the same reconcile erase it.

  \<^bold>\<open>Bounds and fuel.\<close> The only loop with fuel is the wait loop of \<open>create\<close>; one step per second of the timeout and one more are
  enough when the clock advances (proved). All other loops are structural or have a termination proof. Durations are
  kept at 64 bits; instants are unbounded integers of nanoseconds, as Go's cover far more than any lease. That
  \<open>metav1.Time\<close> is cut to seconds when it is stored is left to the API server, whose answers are arbitrary.

  \<^bold>\<open>Not modelled.\<close> Cobra's parsing of the command line, the alignment of table columns, the controller builder and the manager
  with its probes and signals (library objects without logic of the program); latency histograms and log lines;
  the parsing and serving of HTTP itself. Concurrency is modelled where the
  program manages it itself (the gate, the threads of the webhook server) and through the arbitrary environment elsewhere; two requests to the webhook
  are served one after the other, since what they share, the cached tokens, is guarded by a lock.
  JSON, HMAC, SHA-1, SHA-256, label selectors, duration and quantity parsing and Unicode lower case are parameters.
\<close>

end
